(* ===== verification/Intake_Prelude.thy ===== *)
theory Intake_Prelude imports Main begin

text \<open>
  Shared vocabulary of the development.

  \<^item> \<open>bindR\<close> is Rust's question-mark operator on \<open>Result\<close> values, written as the sum
    \<open>'e + 'a\<close> with \<open>Inl\<close> for \<open>Err\<close> and \<open>Inr\<close> for \<open>Ok\<close>.
  \<^item> An \<open>action\<close> is a stateful fallible operation: it takes a state and returns a result
    together with the state it leaves behind, also when it fails. \<open>bindA\<close> is the
    question-mark operator on actions; a failed action stops the sequence but keeps the
    effects it already had.
  \<^item> \<open>preserves P m\<close> says that the action \<open>m\<close> keeps the state predicate \<open>P\<close> whatever
    it returns. Its composition rules are collected in \<open>preserve\<close>.
  \<^item> \<open>yields\<close> collects the characterisations of when a composed computation succeeds.
\<close>

named_theorems preserve
named_theorems yields

section \<open>Pure results\<close>

definition bindR :: "'e + 'a \<Rightarrow> ('a \<Rightarrow> 'e + 'b) \<Rightarrow> 'e + 'b" where
  "bindR r f = (case r of Inl e \<Rightarrow> Inl e | Inr a \<Rightarrow> f a)"

definition ensure :: "bool \<Rightarrow> 'e \<Rightarrow> 'e + unit" where
  "ensure b e = (if b then Inr () else Inl e)"

definition ok_or :: "'a option \<Rightarrow> 'e \<Rightarrow> 'e + 'a" where
  "ok_or r e = (case r of None \<Rightarrow> Inl e | Some a \<Rightarrow> Inr a)"

definition map_err :: "('e \<Rightarrow> 'f) \<Rightarrow> 'e + 'a \<Rightarrow> 'f + 'a" where
  "map_err g r = (case r of Inl e \<Rightarrow> Inl (g e) | Inr a \<Rightarrow> Inr a)"

definition is_ok :: "'e + 'a \<Rightarrow> bool" where
  "is_ok r = (case r of Inl _ \<Rightarrow> False | Inr _ \<Rightarrow> True)"

lemma bindR_simps [simp]:
  "bindR (Inl e) f = Inl e"
  "bindR (Inr a) f = f a"
  by (simp_all add: bindR_def)

lemma ensure_simps [simp]:
  "ensure True e = Inr ()"
  "ensure False e = Inl e"
  by (simp_all add: ensure_def)

lemma ok_or_simps [simp]:
  "ok_or None e = Inl e"
  "ok_or (Some a) e = Inr a"
  by (simp_all add: ok_or_def)

lemma map_err_simps [simp]:
  "map_err g (Inl e) = Inl (g e)"
  "map_err g (Inr a) = Inr a"
  by (simp_all add: map_err_def)

lemma is_ok_simps [simp]:
  "is_ok (Inl e) = False"
  "is_ok (Inr a) = True"
  by (simp_all add: is_ok_def)

lemma bindR_Inr_iff [yields]:
  "bindR r f = Inr b \<longleftrightarrow> (\<exists>a. r = Inr a \<and> f a = Inr b)"
  by (cases r) simp_all

lemma bindRE:
  assumes "bindR r f = Inr b"
  obtains a where "r = Inr a" "f a = Inr b"
  using assms by (auto simp: bindR_Inr_iff)

lemma guardRE:
  assumes "(if c then Inl e else m) = Inr b"
  obtains "\<not> c" "m = Inr b"
  using assms by (cases c) auto

lemma ensure_Inr_iff [yields]: "ensure b e = Inr u \<longleftrightarrow> b"
  by (cases b) simp_all

lemma ensure_Inl_iff [yields]: "ensure b e = Inl x \<longleftrightarrow> \<not> b \<and> x = e"
  by (cases b) auto

lemma ok_or_Inr_iff [yields]: "ok_or r e = Inr a \<longleftrightarrow> r = Some a"
  by (cases r) simp_all

lemma map_err_Inr_iff [yields]: "map_err g r = Inr a \<longleftrightarrow> r = Inr a"
  by (cases r) simp_all

lemma map_err_Inl_iff [yields]: "map_err g r = Inl x \<longleftrightarrow> (\<exists>e. r = Inl e \<and> x = g e)"
  by (cases r) auto

lemma is_ok_iff: "is_ok r \<longleftrightarrow> (\<exists>a. r = Inr a)"
  by (cases r) simp_all

section \<open>Stateful actions\<close>

type_synonym ('s, 'e, 'a) action = "'s \<Rightarrow> ('e + 'a) \<times> 's"

definition okA :: "'a \<Rightarrow> ('s, 'e, 'a) action" where
  "okA a s = (Inr a, s)"

definition failA :: "'e \<Rightarrow> ('s, 'e, 'a) action" where
  "failA e s = (Inl e, s)"

definition liftR :: "'e + 'a \<Rightarrow> ('s, 'e, 'a) action" where
  "liftR r s = (r, s)"

definition bindA ::
  "('s, 'e, 'a) action \<Rightarrow> ('a \<Rightarrow> ('s, 'e, 'b) action) \<Rightarrow> ('s, 'e, 'b) action" where
  "bindA m f s = (case m s of
     (Inl e, s') \<Rightarrow> (Inl e, s')
   | (Inr a, s') \<Rightarrow> f a s')"

definition map_errA :: "('e \<Rightarrow> 'f) \<Rightarrow> ('s, 'e, 'a) action \<Rightarrow> ('s, 'f, 'a) action" where
  "map_errA g m s = (case m s of (r, s') \<Rightarrow> (map_err g r, s'))"

text \<open>\<open>attempt m\<close> hands the result to the caller instead of stopping on an error.\<close>

definition attempt :: "('s, 'e, 'a) action \<Rightarrow> ('s, 'f, 'e + 'a) action" where
  "attempt m s = (case m s of (r, s') \<Rightarrow> (Inr r, s'))"

lemma action_simps [simp]:
  "okA a s = (Inr a, s)"
  "failA e s = (Inl e, s)"
  "liftR r s = (r, s)"
  by (simp_all add: okA_def failA_def liftR_def)

lemma bindA_ok: "m s = (Inr a, s') \<Longrightarrow> bindA m f s = f a s'"
  by (simp add: bindA_def)

lemma bindA_err: "m s = (Inl e, s') \<Longrightarrow> bindA m f s = (Inl e, s')"
  by (simp add: bindA_def)

lemma bindA_lift [simp]:
  "bindA (okA a) f s = f a s"
  "bindA (failA e) f s = (Inl e, s)"
  "bindA (liftR (Inr a)) f s = f a s"
  "bindA (liftR (Inl e)) f s = (Inl e, s)"
  by (simp_all add: bindA_def)

lemma bindA_Inr_iff [yields]:
  "bindA m f s = (Inr b, t) \<longleftrightarrow> (\<exists>a s'. m s = (Inr a, s') \<and> f a s' = (Inr b, t))"
  by (auto simp: bindA_def split: prod.splits sum.splits)

lemma bindA_Inl_iff:
  "bindA m f s = (Inl e, t) \<longleftrightarrow>
     m s = (Inl e, t) \<or> (\<exists>a s'. m s = (Inr a, s') \<and> f a s' = (Inl e, t))"
  by (auto simp: bindA_def split: prod.splits sum.splits)

lemma map_errA_Inr_iff [yields]:
  "map_errA g m s = (Inr a, t) \<longleftrightarrow> m s = (Inr a, t)"
  by (auto simp: map_errA_def yields split: prod.splits)

lemma map_errA_Inl_iff [yields]:
  "map_errA g m s = (Inl x, t) \<longleftrightarrow> (\<exists>e. m s = (Inl e, t) \<and> x = g e)"
  by (auto simp: map_errA_def yields split: prod.splits)

lemma attempt_iff [yields]:
  "attempt m s = (Inr r, t) \<longleftrightarrow> m s = (r, t)"
  by (auto simp: attempt_def split: prod.splits)

lemma attempt_never_fails [simp]: "attempt m s \<noteq> (Inl e, t)"
  by (simp add: attempt_def split: prod.splits)

lemma bindA_assoc: "bindA (bindA m f) g s = bindA m (\<lambda>a. bindA (f a) g) s"
  by (auto simp: bindA_def split: prod.splits sum.splits)

section \<open>Predicates an action keeps\<close>

definition preserves :: "('s \<Rightarrow> bool) \<Rightarrow> ('s, 'e, 'a) action \<Rightarrow> bool" where
  "preserves P m \<longleftrightarrow> (\<forall>s. P s \<longrightarrow> P (snd (m s)))"

lemma preservesI: "(\<And>s. P s \<Longrightarrow> P (snd (m s))) \<Longrightarrow> preserves P m"
  by (simp add: preserves_def)

lemma preservesD: "preserves P m \<Longrightarrow> P s \<Longrightarrow> P (snd (m s))"
  by (simp add: preserves_def)

lemma preserves_result: "preserves P m \<Longrightarrow> P s \<Longrightarrow> m s = (r, t) \<Longrightarrow> P t"
  using preservesD [of P m s] by simp

lemma preserves_okA [preserve, simp]: "preserves P (okA a)"
  by (simp add: preserves_def)

lemma preserves_failA [preserve, simp]: "preserves P (failA e)"
  by (simp add: preserves_def)

lemma preserves_liftR [preserve, simp]: "preserves P (liftR r)"
  by (simp add: preserves_def)

lemma preserves_bindA [preserve]:
  assumes m: "preserves P m" and f: "\<And>a. preserves P (f a)"
  shows "preserves P (bindA m f)"
proof (rule preservesI)
  fix s assume "P s"
  then have *: "P (snd (m s))" by (rule preservesD [OF m])
  show "P (snd (bindA m f s))"
    using * preservesD [OF f] by (auto simp: bindA_def split: prod.splits sum.splits)
qed

lemma preserves_map_errA [preserve]: "preserves P m \<Longrightarrow> preserves P (map_errA g m)"
  by (auto simp: preserves_def map_errA_def split: prod.splits)

lemma preserves_attempt [preserve]: "preserves P m \<Longrightarrow> preserves P (attempt m)"
  by (auto simp: preserves_def attempt_def split: prod.splits)

lemma preserves_if [preserve]:
  "(b \<Longrightarrow> preserves P m) \<Longrightarrow> (\<not> b \<Longrightarrow> preserves P n) \<Longrightarrow> preserves P (if b then m else n)"
  by simp

lemma preserves_case_option [preserve]:
  "preserves P m \<Longrightarrow> (\<And>a. preserves P (f a)) \<Longrightarrow>
   preserves P (case r of None \<Rightarrow> m | Some a \<Rightarrow> f a)"
  by (cases r) simp_all

lemma preserves_case_sum [preserve]:
  "(\<And>e. preserves P (g e)) \<Longrightarrow> (\<And>a. preserves P (f a)) \<Longrightarrow>
   preserves P (case r of Inl e \<Rightarrow> g e | Inr a \<Rightarrow> f a)"
  by (cases r) simp_all

section \<open>Lists\<close>

lemma distinct_map_filter_le_one:
  assumes "distinct (map f xs)"
  shows "length (filter (\<lambda>x. f x = k) xs) \<le> 1"
  using assms
proof (induction xs)
  case Nil
  then show ?case by simp
next
  case (Cons y ys)
  show ?case
  proof (cases "f y = k")
    case True
    with Cons.prems have "k \<notin> f ` set ys" by simp
    then have "f x \<noteq> k" if "x \<in> set ys" for x
      using that by blast
    then have "filter (\<lambda>x. f x = k) ys = []" by (simp add: filter_empty_conv)
    then show ?thesis by simp
  next
    case False
    with Cons show ?thesis by simp
  qed
qed

lemma filter_length_one:
  assumes "distinct (map f xs)" and "x \<in> set xs" and "f x = k"
  shows "filter (\<lambda>x. f x = k) xs = [x]"
  using assms
proof (induction xs)
  case Nil
  then show ?case by simp
next
  case (Cons y ys)
  show ?case
  proof (cases "f y = k")
    case True
    with Cons.prems have "k \<notin> f ` set ys" by simp
    then have ys: "f z \<noteq> k" if "z \<in> set ys" for z
      using that by blast
    with Cons.prems have "x = y" by auto
    moreover from ys have "filter (\<lambda>x. f x = k) ys = []"
      by (simp add: filter_empty_conv)
    ultimately show ?thesis using True by simp
  next
    case False
    with Cons show ?thesis by auto
  qed
qed

lemma find_SomeD: "List.find P xs = Some x \<Longrightarrow> x \<in> set xs \<and> P x"
  by (auto simp: find_Some_iff)

end
