(* ===== verification/Rust_Std.thy ===== *)
theory Rust_Std imports Intake_Prelude "HOL-Library.Word" begin

text \<open>
  The part of the Rust standard library the program uses on text and numbers.

  A \<open>str\<close> is the list of its Unicode scalar values. \<open>str_bytes\<close> is its UTF-8 form, so
  \<open>str_len\<close> is what \<open>str::len\<close> counts and \<open>list_all p (str_bytes s)\<close> is
  \<open>s.bytes().all(p)\<close>; predicates over \<open>chars()\<close> are over the list itself. \<open>lit\<close> turns an
  ASCII literal of the source into a \<open>str\<close>.
\<close>

type_synonym scalar = nat
type_synonym str = "scalar list"
type_synonym u8 = "8 word"
type_synonym u64 = "64 word"

definition lit :: "string \<Rightarrow> str" where
  "lit cs = map of_char cs"

lemma lit_inject [simp]: "lit a = lit b \<longleftrightarrow> a = b"
  by (simp add: lit_def inj_map_eq_map [OF inj_of_char])

lemma lit_append: "lit (a @ b) = lit a @ lit b"
  by (simp add: lit_def)

lemma lit_eq_Nil [simp]: "lit a = [] \<longleftrightarrow> a = []" "[] = lit a \<longleftrightarrow> a = []"
  by (auto simp: lit_def)

section \<open>UTF-8 lengths and bytes\<close>

definition encode_utf8 :: "scalar \<Rightarrow> nat list" where
  "encode_utf8 c =
     (if c < 128 then [c]
      else if c < 2048 then [192 + c div 64, 128 + c mod 64]
      else if c < 65536 then [224 + c div 4096, 128 + c div 64 mod 64, 128 + c mod 64]
      else [240 + c div 262144, 128 + c div 4096 mod 64, 128 + c div 64 mod 64,
            128 + c mod 64])"

definition str_bytes :: "str \<Rightarrow> nat list" where
  "str_bytes s = concat (map encode_utf8 s)"

definition str_len :: "str \<Rightarrow> nat" where
  "str_len s = length (str_bytes s)"

lemma str_bytes_simps [simp]:
  "str_bytes [] = []"
  "str_bytes (c # s) = encode_utf8 c @ str_bytes s"
  "str_bytes (s @ t) = str_bytes s @ str_bytes t"
  by (simp_all add: str_bytes_def)

lemma str_len_simps [simp]:
  "str_len [] = 0"
  "str_len (c # s) = length (encode_utf8 c) + str_len s"
  "str_len (s @ t) = str_len s + str_len t"
  by (simp_all add: str_len_def)

lemma encode_utf8_ascii: "c < 128 \<Longrightarrow> encode_utf8 c = [c]"
  by (simp add: encode_utf8_def)

lemma encode_utf8_nonempty [simp]: "encode_utf8 c \<noteq> []"
  by (simp add: encode_utf8_def)

lemma str_len_ge_length: "length s \<le> str_len s"
  by (induction s) (auto simp: encode_utf8_def)

lemma str_len_zero [simp]: "str_len s = 0 \<longleftrightarrow> s = []"
  by (cases s) auto

text \<open>
  A byte predicate that holds only below 128 holds for all bytes of a text exactly when the
  text is ASCII and every scalar satisfies it: the bytes of a non-ASCII scalar are all
  above 127.
\<close>

lemma list_all_encode_utf8:
  assumes ascii: "\<And>b. p b \<Longrightarrow> b < 128"
  shows "list_all p (encode_utf8 c) \<longleftrightarrow> p c"
proof (cases "c < 128")
  case True
  then show ?thesis by (simp add: encode_utf8_def)
next
  case False
  then have "\<not> p c" using ascii by blast
  moreover have "\<not> list_all p (encode_utf8 c)"
    using False ascii by (auto simp: encode_utf8_def dest!: ascii)
  ultimately show ?thesis by simp
qed

lemma list_all_str_bytes:
  assumes ascii: "\<And>b. p b \<Longrightarrow> b < 128"
  shows "list_all p (str_bytes s) \<longleftrightarrow> list_all p s"
  by (induction s) (simp_all add: list_all_encode_utf8 [OF ascii])

lemma str_bytes_ascii: "list_all (\<lambda>c. c < 128) s \<Longrightarrow> str_bytes s = s"
  by (induction s) (simp_all add: encode_utf8_ascii)

lemma str_len_ascii: "list_all (\<lambda>c. c < 128) s \<Longrightarrow> str_len s = length s"
  by (simp add: str_len_def str_bytes_ascii)

text \<open>
  A class of ASCII bytes, as the byte checks of the program use them: checking the bytes of
  a text is checking its characters, and a text that passes has one byte per character.
\<close>

locale ascii_class =
  fixes p :: "nat \<Rightarrow> bool"
  assumes ascii: "p b \<Longrightarrow> b < 128"
begin

lemma bytes_iff: "list_all p (str_bytes s) \<longleftrightarrow> list_all p s"
  by (rule list_all_str_bytes [OF ascii])

lemma text_ascii: "list_all p s \<Longrightarrow> list_all (\<lambda>c. c < 128) s"
  using ascii by (auto simp: list_all_iff)

lemma len: "list_all p s \<Longrightarrow> str_len s = length s"
  by (rule str_len_ascii [OF text_ascii])

end

section \<open>Character classes\<close>

definition is_ascii_uppercase :: "nat \<Rightarrow> bool" where
  "is_ascii_uppercase b \<longleftrightarrow> 65 \<le> b \<and> b \<le> 90"

definition is_ascii_lowercase :: "nat \<Rightarrow> bool" where
  "is_ascii_lowercase b \<longleftrightarrow> 97 \<le> b \<and> b \<le> 122"

definition is_ascii_digit :: "nat \<Rightarrow> bool" where
  "is_ascii_digit b \<longleftrightarrow> 48 \<le> b \<and> b \<le> 57"

definition is_ascii_alphanumeric :: "nat \<Rightarrow> bool" where
  "is_ascii_alphanumeric b \<longleftrightarrow>
     is_ascii_uppercase b \<or> is_ascii_lowercase b \<or> is_ascii_digit b"

definition is_ascii_hexdigit :: "nat \<Rightarrow> bool" where
  "is_ascii_hexdigit b \<longleftrightarrow> is_ascii_digit b \<or> 65 \<le> b \<and> b \<le> 70 \<or> 97 \<le> b \<and> b \<le> 102"

lemmas ascii_class_defs =
  is_ascii_uppercase_def is_ascii_lowercase_def is_ascii_digit_def
  is_ascii_alphanumeric_def is_ascii_hexdigit_def

text \<open>\<open>char::is_control\<close> is the general category Cc, \<open>char::is_whitespace\<close> the property
  White\_Space, both over all of Unicode.\<close>

definition is_control :: "scalar \<Rightarrow> bool" where
  "is_control c \<longleftrightarrow> c < 32 \<or> 127 \<le> c \<and> c \<le> 159"

definition is_whitespace :: "scalar \<Rightarrow> bool" where
  "is_whitespace c \<longleftrightarrow>
     9 \<le> c \<and> c \<le> 13 \<or> c = 32 \<or> c = 133 \<or> c = 160 \<or> c = 5760 \<or>
     8192 \<le> c \<and> c \<le> 8202 \<or> c = 8232 \<or> c = 8233 \<or> c = 8239 \<or> c = 8287 \<or> c = 12288"

definition is_ascii_whitespace :: "nat \<Rightarrow> bool" where
  "is_ascii_whitespace b \<longleftrightarrow> b = 9 \<or> b = 10 \<or> b = 12 \<or> b = 13 \<or> b = 32"

section \<open>Text operations\<close>

definition trim_start :: "str \<Rightarrow> str" where
  "trim_start s = dropWhile is_whitespace s"

definition trim :: "str \<Rightarrow> str" where
  "trim s = rev (trim_start (rev (trim_start s)))"

fun split_on :: "scalar \<Rightarrow> str \<Rightarrow> str list" where
  "split_on d [] = [[]]"
| "split_on d (c # s) =
     (if c = d then [] # split_on d s
      else (case split_on d s of w # ws \<Rightarrow> (c # w) # ws | [] \<Rightarrow> [[c]]))"

fun split_once :: "scalar \<Rightarrow> str \<Rightarrow> (str \<times> str) option" where
  "split_once d [] = None"
| "split_once d (c # s) =
     (if c = d then Some ([], s)
      else map_option (\<lambda>(a, b). (c # a, b)) (split_once d s))"

definition split_ascii_whitespace :: "str \<Rightarrow> str list" where
  "split_ascii_whitespace s =
     filter (\<lambda>w. w \<noteq> []) (split_on 32 (map (\<lambda>c. if is_ascii_whitespace c then 32 else c) s))"

definition starts_with :: "str \<Rightarrow> str \<Rightarrow> bool" where
  "starts_with s p \<longleftrightarrow> take (length p) s = p"

definition strip_prefix :: "str \<Rightarrow> str \<Rightarrow> str option" where
  "strip_prefix s p = (if starts_with s p then Some (drop (length p) s) else None)"

definition ascii_lower :: "scalar \<Rightarrow> scalar" where
  "ascii_lower c = (if is_ascii_uppercase c then c + 32 else c)"

definition to_ascii_lowercase :: "str \<Rightarrow> str" where
  "to_ascii_lowercase s = map ascii_lower s"

definition eq_ignore_ascii_case :: "str \<Rightarrow> str \<Rightarrow> bool" where
  "eq_ignore_ascii_case a b \<longleftrightarrow> to_ascii_lowercase a = to_ascii_lowercase b"

text \<open>The slice \<open>&s[..n]\<close>: it panics (\<open>None\<close>) when the text has fewer than \<open>n\<close> bytes or a
  character straddles the cut.\<close>

fun byte_prefix :: "nat \<Rightarrow> str \<Rightarrow> str option" where
  "byte_prefix n [] = (if n = 0 then Some [] else None)"
| "byte_prefix n (c # s) =
     (if n = 0 then Some []
      else if length (encode_utf8 c) \<le> n
      then map_option (\<lambda>p. c # p) (byte_prefix (n - length (encode_utf8 c)) s)
      else None)"

lemma byte_prefix_ascii:
  "list_all (\<lambda>c. c < 128) s \<Longrightarrow> n \<le> length s \<Longrightarrow> byte_prefix n s = Some (take n s)"
proof (induction s arbitrary: n)
  case Nil
  then show ?case by simp
next
  case (Cons c s)
  then show ?case by (cases n) (simp_all add: encode_utf8_ascii)
qed

lemma split_on_nonempty [simp]: "split_on d s \<noteq> []"
  by (cases s) (auto split: list.splits)

lemma split_on_parts_no_delim: "w \<in> set (split_on d s) \<Longrightarrow> d \<notin> set w"
proof (induction s arbitrary: w)
  case Nil
  then show ?case by simp
next
  case (Cons c s)
  show ?case
  proof (cases "c = d")
    case True
    with Cons show ?thesis by auto
  next
    case False
    obtain v vs where s: "split_on d s = v # vs"
      using split_on_nonempty by (metis list.exhaust)
    with Cons.prems False have "w = c # v \<or> w \<in> set vs" by simp
    with Cons.IH s False show ?thesis by auto
  qed
qed

lemma split_on_append_delim:
  "d \<notin> set a \<Longrightarrow> split_on d (a @ d # b) = a # split_on d b"
  by (induction a) simp_all

lemma split_on_no_delim: "d \<notin> set a \<Longrightarrow> split_on d a = [a]"
  by (induction a) simp_all

lemma split_once_Some_iff:
  "split_once d s = Some (a, b) \<longleftrightarrow> s = a @ d # b \<and> d \<notin> set a"
proof (induction s arbitrary: a)
  case Nil
  then show ?case by simp
next
  case (Cons c s)
  show ?case
  proof (cases "c = d")
    case True
    then show ?thesis by (cases a) auto
  next
    case False
    with Cons.IH show ?thesis by (cases a) auto
  qed
qed

lemma split_once_None_iff: "split_once d s = None \<longleftrightarrow> d \<notin> set s"
  by (induction s) auto

lemma trim_start_idem [simp]: "trim_start (trim_start s) = trim_start s"
  by (simp add: trim_start_def dropWhile_eq_self_iff hd_dropWhile)

lemma trim_start_id_iff: "trim_start s = s \<longleftrightarrow> s = [] \<or> \<not> is_whitespace (hd s)"
  by (simp add: trim_start_def dropWhile_eq_self_iff)

lemma trim_id_iff:
  "trim s = s \<longleftrightarrow> s = [] \<or> \<not> is_whitespace (hd s) \<and> \<not> is_whitespace (last s)"
proof (cases "trim_start s = s")
  case True
  then show ?thesis
    using trim_start_id_iff [of "rev s"] trim_start_id_iff [of s]
    by (simp add: trim_def hd_rev rev_swap) metis
next
  case False
  have "length (trim s) \<le> length (trim_start s)"
    using length_dropWhile_le [of is_whitespace "rev (trim_start s)"]
    by (simp add: trim_def trim_start_def)
  moreover have "length (trim_start s) < length s"
  proof -
    have "s = takeWhile is_whitespace s @ trim_start s"
      by (simp add: trim_start_def)
    with False have "takeWhile is_whitespace s \<noteq> []" by (metis append_Nil)
    then have "0 < length (takeWhile is_whitespace s)" by simp
    moreover have "length s = length (takeWhile is_whitespace s) + length (trim_start s)"
      by (metis length_append takeWhile_dropWhile_id trim_start_def)
    ultimately show ?thesis by simp
  qed
  ultimately have "trim s \<noteq> s" by auto
  with False show ?thesis by (simp add: trim_start_id_iff)
qed

section \<open>Fixed-width integers\<close>

text \<open>\<open>i64::try_from\<close> on a \<open>u64\<close>, and back.\<close>

definition i64_of_u64 :: "u64 \<Rightarrow> int option" where
  "i64_of_u64 w = (if uint w < 2 ^ 63 then Some (uint w) else None)"

definition u64_of_i64 :: "int \<Rightarrow> u64 option" where
  "u64_of_i64 i = (if 0 \<le> i then Some (word_of_int i) else None)"

lemma u64_i64_roundtrip: "i64_of_u64 w = Some i \<Longrightarrow> u64_of_i64 i = Some w"
  by (auto simp: i64_of_u64_def u64_of_i64_def split: if_splits)

definition i16_try_from :: "int \<Rightarrow> int option" where
  "i16_try_from i = (if - 32768 \<le> i \<and> i \<le> 32767 then Some i else None)"

text \<open>\<open>checked_add\<close> on \<open>u64\<close> (and on the 64-bit \<open>usize\<close> of the deployed targets).\<close>

definition u64_checked_add :: "u64 \<Rightarrow> u64 \<Rightarrow> u64 option" where
  "u64_checked_add a b = (if uint a + uint b < 2 ^ 64 then Some (a + b) else None)"

lemma u64_checked_add_Some:
  "u64_checked_add a b = Some c \<longleftrightarrow> uint a + uint b < 2 ^ 64 \<and> c = a + b"
  by (auto simp: u64_checked_add_def)

lemma uint_add_no_overflow:
  "uint (a :: u64) + uint b < 2 ^ 64 \<Longrightarrow> uint (a + b) = uint a + uint b"
  by (simp add: uint_word_ariths)

end
