(* ===== verification/Hex.thy ===== *)
theory Hex imports Rust_Std begin

unbundle bit_operations_syntax

text \<open>
  \<open>src/hex.rs\<close>: lower-case hexadecimal encoding of digest bytes. The decoder below is not
  in the program; it is the reference that says the encoding loses nothing.
\<close>

definition LOWER_HEX_DIGITS :: str where
  "LOWER_HEX_DIGITS = lit ''0123456789abcdef''"

text \<open>The body of the loop: the two characters pushed for one byte.\<close>

definition push_byte :: "str \<Rightarrow> u8 \<Rightarrow> str" where
  "push_byte encoded byte =
     (encoded @ [LOWER_HEX_DIGITS ! unat (drop_bit 4 byte)])
       @ [LOWER_HEX_DIGITS ! unat (byte AND 15)]"

definition lower_hex :: "u8 list \<Rightarrow> str" where
  "lower_hex bytes = foldl push_byte [] bytes"

text \<open>Both array reads are in bounds, so the indexing in the source never panics.\<close>

lemma LOWER_HEX_DIGITS_length: "length LOWER_HEX_DIGITS = 16"
  by (simp add: LOWER_HEX_DIGITS_def lit_def)

lemma nibble_bounds: "unat (drop_bit 4 (b :: u8)) < 16" "unat ((b :: u8) AND 15) < 16"
proof -
  have "unat b < 256" using unsigned_less [of b] by simp
  then show "unat (drop_bit 4 b) < 16"
    by (simp add: drop_bit_eq_div unat_div)
  have "unat (b AND 15) \<le> unat (15 :: u8)"
    by (rule word_and_le1 [THEN word_le_nat_alt [THEN iffD1]])
  then show "unat (b AND 15) < 16" by simp
qed

definition hex_pair :: "u8 \<Rightarrow> str" where
  "hex_pair b =
     [LOWER_HEX_DIGITS ! unat (drop_bit 4 b), LOWER_HEX_DIGITS ! unat (b AND 15)]"

lemma foldl_push_byte: "foldl push_byte acc bs = acc @ concat (map hex_pair bs)"
  by (induction bs arbitrary: acc) (simp_all add: push_byte_def hex_pair_def)

lemma lower_hex_concat: "lower_hex bs = concat (map hex_pair bs)"
  by (simp add: lower_hex_def foldl_push_byte)

lemma lower_hex_simps [simp]:
  "lower_hex [] = []"
  "lower_hex (b # bs) = hex_pair b @ lower_hex bs"
  "lower_hex (as @ bs) = lower_hex as @ lower_hex bs"
  by (simp_all add: lower_hex_concat)

section \<open>The digit set\<close>

text \<open>The check the rest of the program makes on a digest:
  \<open>byte.is_ascii_hexdigit() && !byte.is_ascii_uppercase()\<close>.\<close>

definition is_lower_hexdigit :: "nat \<Rightarrow> bool" where
  "is_lower_hexdigit b \<longleftrightarrow> is_ascii_hexdigit b \<and> \<not> is_ascii_uppercase b"

interpretation lower_hexdigit: ascii_class is_lower_hexdigit
  by unfold_locales (auto simp: is_lower_hexdigit_def ascii_class_defs)

lemma LOWER_HEX_DIGITS_upt: "LOWER_HEX_DIGITS = map (\<lambda>n. if n < 10 then 48 + n else 87 + n) [0..<16]"
  by (simp add: LOWER_HEX_DIGITS_def lit_def upt_rec)

lemma digit_value: "n < 16 \<Longrightarrow> LOWER_HEX_DIGITS ! n = (if n < 10 then 48 + n else 87 + n)"
  by (simp add: LOWER_HEX_DIGITS_upt)

lemma digit_is_lower_hex: "n < 16 \<Longrightarrow> is_lower_hexdigit (LOWER_HEX_DIGITS ! n)"
  by (auto simp: digit_value is_lower_hexdigit_def ascii_class_defs)

lemma hex_pair_lower: "list_all is_lower_hexdigit (hex_pair b)"
  by (simp add: hex_pair_def digit_is_lower_hex nibble_bounds)

lemma lower_hex_all_lower: "list_all is_lower_hexdigit (lower_hex bs)"
  by (induction bs) (simp_all add: hex_pair_lower)

lemma length_lower_hex: "length (lower_hex bs) = 2 * length bs"
  by (induction bs) (simp_all add: hex_pair_def)

lemma lower_hex_str_len: "str_len (lower_hex bs) = 2 * length bs"
  by (simp add: lower_hexdigit.len [OF lower_hex_all_lower] length_lower_hex)

section \<open>Nothing is lost\<close>

definition digit_of :: "nat \<Rightarrow> nat option" where
  "digit_of c =
     (if 48 \<le> c \<and> c \<le> 57 then Some (c - 48)
      else if 97 \<le> c \<and> c \<le> 102 then Some (c - 87) else None)"

fun decode_hex :: "str \<Rightarrow> u8 list option" where
  "decode_hex [] = Some []"
| "decode_hex [c] = None"
| "decode_hex (h # l # s) =
     (case (digit_of h, digit_of l, decode_hex s) of
        (Some hi, Some lo, Some bs) \<Rightarrow> Some (of_nat (16 * hi + lo) # bs)
      | _ \<Rightarrow> None)"

lemma digit_of_digit: "n < 16 \<Longrightarrow> digit_of (LOWER_HEX_DIGITS ! n) = Some n"
  by (auto simp: digit_value digit_of_def)

lemma nibbles_recombine: "of_nat (16 * unat (drop_bit 4 b) + unat (b AND 15)) = (b :: u8)"
proof -
  have "unat (b AND 15) = unat b mod 16"
  proof -
    have "b AND 15 = take_bit 4 b"
      by (simp add: take_bit_eq_mask mask_eq_exp_minus_1)
    then show ?thesis by (simp add: take_bit_eq_mod unat_mod)
  qed
  moreover have "unat (drop_bit 4 b) = unat b div 16"
    by (simp add: drop_bit_eq_div unat_div)
  ultimately have "16 * unat (drop_bit 4 b) + unat (b AND 15) = unat b" by simp
  then show ?thesis by simp
qed

lemma decode_hex_pair:
  "decode_hex (hex_pair b @ s) = map_option (\<lambda>bs. b # bs) (decode_hex s)"
  using nibbles_recombine [of b]
  by (simp add: hex_pair_def digit_of_digit nibble_bounds split: option.splits)

lemma decode_lower_hex: "decode_hex (lower_hex bs) = Some bs"
  by (induction bs) (simp_all add: decode_hex_pair)

text \<open>
  The contract of an encoding the program compares instead of its argument: a decoder
  inverts it, so equality of encodings is equality of what was encoded.
\<close>

locale lossless =
  fixes enc :: "'a \<Rightarrow> 'b" and dec :: "'b \<Rightarrow> 'a option"
  assumes dec_enc: "dec (enc x) = Some x"
begin

lemma enc_eq_iff: "enc x = enc y \<longleftrightarrow> x = y"
  by (metis dec_enc option.inject)

lemma enc_inj: "inj enc"
  by (simp add: inj_def enc_eq_iff)

end

interpretation hex: lossless lower_hex decode_hex
  by unfold_locales (rule decode_lower_hex)

lemma lower_hex_round_trip:
  "decode_hex (lower_hex bytes) = Some bytes \<and> str_len (lower_hex bytes) = 2 * length bytes \<and>
   list_all is_lower_hexdigit (lower_hex bytes)"
  by (simp add: decode_lower_hex lower_hex_str_len lower_hex_all_lower)

lemmas lower_hex_facts = lower_hex_all_lower length_lower_hex lower_hex_str_len hex.enc_eq_iff

end
