(* ===== verification/Intake_Types.thy ===== *)
theory Intake_Types imports Hex begin

text \<open>
  The data the components exchange. The request payloads and their enumerations come from the
  package \<open>hhm_interfaces\<close>, which is not part of the repository: the records below hold the
  fields \<open>src/persistence.rs\<close> and \<open>src/api.rs\<close> read, the enumerations are the ones the
  program matches exhaustively, and each payload's \<open>validate\<close> method is a field of the
  parameter record \<open>contract\<close>. Identifiers are only compared, copied and printed, so a
  \<open>uuid\<close> is a number; its \<open>Display\<close> form is the parameter \<open>uuid_display\<close>.
\<close>

type_synonym uuid = nat
type_synonym timestamp = nat \<comment> \<open>milliseconds\<close>
type_synonym date = int \<comment> \<open>a calendar date, only copied\<close>
type_synonym validation_error = string

section \<open>Enumerations and their database labels\<close>

datatype stay_preference = ThreeMonths | SixMonths
datatype upload_kind = Resume | PhotoId
datatype project_stage = Idea | Prototype | EarlyRevenue | Growing | NonprofitOrOpenSource
datatype sensitivity_level =
  SensitivityNone | SensitivityLow | SensitivityModerate | SensitivityHigh | PreferNotToSay
datatype roommate_preference = PrivateRoom | OpenToRoommates | PreferRoommates | Flexible
datatype persistence_target = Primary | SupabaseMirror
datatype stored_submission_kind = PreInterest | Upload | Application | Referral

fun stay_preference_label :: "stay_preference \<Rightarrow> str" where
  "stay_preference_label ThreeMonths = lit ''three_months''"
| "stay_preference_label SixMonths = lit ''six_months''"

fun upload_kind_label :: "upload_kind \<Rightarrow> str" where
  "upload_kind_label Resume = lit ''resume''"
| "upload_kind_label PhotoId = lit ''photo_id''"

fun project_stage_label :: "project_stage \<Rightarrow> str" where
  "project_stage_label Idea = lit ''idea''"
| "project_stage_label Prototype = lit ''prototype''"
| "project_stage_label EarlyRevenue = lit ''early_revenue''"
| "project_stage_label Growing = lit ''growing''"
| "project_stage_label NonprofitOrOpenSource = lit ''nonprofit_or_open_source''"

fun sensitivity_level_label :: "sensitivity_level \<Rightarrow> str" where
  "sensitivity_level_label SensitivityNone = lit ''none''"
| "sensitivity_level_label SensitivityLow = lit ''low''"
| "sensitivity_level_label SensitivityModerate = lit ''moderate''"
| "sensitivity_level_label SensitivityHigh = lit ''high''"
| "sensitivity_level_label PreferNotToSay = lit ''prefer_not_to_say''"

fun roommate_preference_label :: "roommate_preference \<Rightarrow> str" where
  "roommate_preference_label PrivateRoom = lit ''private_room''"
| "roommate_preference_label OpenToRoommates = lit ''open_to_roommates''"
| "roommate_preference_label PreferRoommates = lit ''prefer_roommates''"
| "roommate_preference_label Flexible = lit ''flexible''"

fun mirror_status :: "persistence_target \<Rightarrow> str" where
  "mirror_status Primary = lit ''pending''"
| "mirror_status SupabaseMirror = lit ''mirrored''"

fun creates_outbox :: "persistence_target \<Rightarrow> bool" where
  "creates_outbox Primary = True"
| "creates_outbox SupabaseMirror = False"

fun database_value :: "stored_submission_kind \<Rightarrow> str" where
  "database_value PreInterest = lit ''pre_interest''"
| "database_value Upload = lit ''upload''"
| "database_value Application = lit ''application''"
| "database_value Referral = lit ''referral''"

text \<open>
  Reading a label back: the first value of the enumeration with that label. An enumeration
  whose labels can be read back is an instance of \<open>lossless\<close>, so two values never share a
  label in a column.
\<close>

definition parse_label :: "'a list \<Rightarrow> ('a \<Rightarrow> str) \<Rightarrow> str \<Rightarrow> 'a option" where
  "parse_label universe label t = List.find (\<lambda>x. label x = t) universe"

interpretation stay: lossless stay_preference_label
    "parse_label [ThreeMonths, SixMonths] stay_preference_label"
proof unfold_locales
  fix x show "parse_label [ThreeMonths, SixMonths] stay_preference_label
      (stay_preference_label x) = Some x"
    by (cases x) (simp_all add: parse_label_def)
qed

interpretation upload_kinds: lossless upload_kind_label
    "parse_label [Resume, PhotoId] upload_kind_label"
proof unfold_locales
  fix x show "parse_label [Resume, PhotoId] upload_kind_label (upload_kind_label x) = Some x"
    by (cases x) (simp_all add: parse_label_def)
qed

interpretation stages: lossless project_stage_label
    "parse_label [Idea, Prototype, EarlyRevenue, Growing, NonprofitOrOpenSource]
      project_stage_label"
proof unfold_locales
  fix x show "parse_label [Idea, Prototype, EarlyRevenue, Growing, NonprofitOrOpenSource]
      project_stage_label (project_stage_label x) = Some x"
    by (cases x) (simp_all add: parse_label_def)
qed

interpretation sensitivities: lossless sensitivity_level_label
    "parse_label [SensitivityNone, SensitivityLow, SensitivityModerate, SensitivityHigh,
      PreferNotToSay] sensitivity_level_label"
proof unfold_locales
  fix x show "parse_label [SensitivityNone, SensitivityLow, SensitivityModerate,
      SensitivityHigh, PreferNotToSay] sensitivity_level_label (sensitivity_level_label x)
      = Some x"
    by (cases x) (simp_all add: parse_label_def)
qed

interpretation roommates: lossless roommate_preference_label
    "parse_label [PrivateRoom, OpenToRoommates, PreferRoommates, Flexible]
      roommate_preference_label"
proof unfold_locales
  fix x show "parse_label [PrivateRoom, OpenToRoommates, PreferRoommates, Flexible]
      roommate_preference_label (roommate_preference_label x) = Some x"
    by (cases x) (simp_all add: parse_label_def)
qed

interpretation kinds: lossless database_value
    "parse_label [PreInterest, Upload, Application, Referral] database_value"
proof unfold_locales
  fix x show "parse_label [PreInterest, Upload, Application, Referral] database_value
      (database_value x) = Some x"
    by (cases x) (simp_all add: parse_label_def)
qed

section \<open>Request payloads\<close>

record pre_interest_create =
  pi_email :: str
  pi_linkedin_url :: str
  pi_entrepreneurship_idea :: str
  pi_stay_preference :: stay_preference
  pi_privacy_notice_version :: str
  pi_turnstile_token :: "str option"

record upload_intent_create =
  ui_kind :: upload_kind
  ui_sha256 :: str
  ui_content_type :: str
  ui_size_bytes :: u64
  ui_turnstile_token :: "str option"

record upload_complete_create =
  uc_sha256 :: str
  uc_turnstile_token :: "str option"

record application_create =
  ap_email :: str
  ap_linkedin_url :: str
  ap_legal_name :: str
  ap_date_of_birth :: date
  ap_nationality :: str
  ap_phone :: str
  ap_current_city :: str
  ap_github_url :: "str option"
  ap_portfolio_url :: "str option"
  ap_entrepreneurship_idea :: str
  ap_project_stage :: project_stage
  ap_stay_preference :: stay_preference
  ap_preferred_start_month :: date
  ap_community_contribution :: str
  ap_accessibility_or_accommodation_notes :: "str option"
  ap_allergy_notes :: "str option"
  ap_noise_sensitivity :: sensitivity_level
  ap_light_sensitivity :: sensitivity_level
  ap_room_preference_notes :: "str option"
  ap_roommate_preference :: roommate_preference
  ap_preferred_room_occupancy :: int
  ap_roommate_for_lower_cost :: bool
  ap_roommate_for_social_connection :: bool
  ap_accommodation_data_consent :: bool
  ap_resume_upload_id :: uuid
  ap_photo_id_upload_id :: uuid
  ap_age_and_identity_attestation :: bool
  ap_privacy_notice_version :: str
  ap_turnstile_token :: "str option"

record referral_create =
  rf_referee_name :: str
  rf_referee_email :: str
  rf_referee_linkedin_url :: str
  rf_relationship :: str
  rf_rationale :: str
  rf_stay_preference :: "stay_preference option"
  rf_nominee_consent_confirmed :: bool

record contract =
  pre_interest_validate :: "pre_interest_create \<Rightarrow> validation_error + unit"
  upload_intent_validate :: "upload_intent_create \<Rightarrow> validation_error + unit"
  upload_complete_validate :: "upload_complete_create \<Rightarrow> validation_error + unit"
  application_validate :: "application_create \<Rightarrow> validation_error + unit"
  referral_validate :: "referral_create \<Rightarrow> validation_error + unit"
  contract_max_upload_bytes :: u64

section \<open>Results of the persistence commands\<close>

record stored_submission =
  ss_id :: uuid
  ss_accepted_at :: timestamp
  ss_replayed :: bool

record stored_upload =
  su_id :: uuid
  su_object_key :: str
  su_expires_at :: timestamp
  su_replayed :: bool

record pending_upload =
  pu_id :: uuid
  pu_object_key :: str
  pu_expected_sha256 :: str
  pu_content_type :: str
  pu_size_bytes :: u64
  pu_expires_at :: timestamp

text \<open>\<open>DataError\<close>, with one more outcome: \<open>Panicked\<close> is not a variant of the source's enumeration
  but the unwinding of the task, so that the one slice that can panic is a branch of the model.\<close>

datatype data_error =
    Validation validation_error
  | InvalidContext string
  | IdempotencyConflict
  | IntakeObjectUnavailable
  | Unauthenticated
  | Database
  | Decode
  | Invariant
  | Panicked

end
