(* ===== verification/Context.thy ===== *)
theory Context imports Intake_Types begin

text \<open>
  The typed values every persistence command demands: a subject that came out of a verified
  claim, and the context that binds a request's idempotency key to its payload digest
  (\<open>VerifiedSubject\<close> and \<open>SubmissionContext\<close> of \<open>src/persistence.rs\<close>). The constructors are
  private in the source, so a context that exists satisfies \<open>wf_context\<close>.
\<close>

datatype verified_subject = VerifiedSubject (as_str: str)

definition from_verified_claim :: "str \<Rightarrow> data_error + verified_subject" where
  "from_verified_claim value =
     (if value = [] \<or> 255 < str_len value \<or> trim value \<noteq> value \<or> list_ex is_control value
      then Inl (InvalidContext ''subject'')
      else Inr (VerifiedSubject value))"

record submission_context =
  ctx_canonical_id :: uuid
  ctx_subject :: "verified_subject option"
  ctx_idempotency_key :: str
  ctx_payload_sha256 :: str
  ctx_source_host :: str

text \<open>The byte class of idempotency keys, also used for the Shared Auth audience.\<close>

definition token_byte :: "nat \<Rightarrow> bool" where
  "token_byte b \<longleftrightarrow>
     is_ascii_alphanumeric b \<or> b = 45 \<or> b = 95 \<or> b = 58 \<or> b = 46"

definition context_hosts :: "str list" where
  "context_hosts =
     [lit ''hhaus.org'', lit ''www.hhaus.org'', lit ''user.hhaus.org'',
      lit ''medellin.hhaus.org'', lit ''localhost'', lit ''127.0.0.1'']"

definition context_new ::
  "uuid \<Rightarrow> verified_subject option \<Rightarrow> str \<Rightarrow> str \<Rightarrow> str \<Rightarrow> data_error + submission_context" where
  "context_new fresh subject idempotency_key payload_sha256 source_host0 =
     (let source_host = to_ascii_lowercase source_host0 in
      if \<not> (16 \<le> str_len idempotency_key \<and> str_len idempotency_key \<le> 128)
         \<or> \<not> list_all token_byte (str_bytes idempotency_key)
      then Inl (InvalidContext ''idempotency_key'')
      else if str_len payload_sha256 \<noteq> 64
         \<or> \<not> list_all is_lower_hexdigit (str_bytes payload_sha256)
      then Inl (InvalidContext ''payload_sha256'')
      else if \<not> List.member context_hosts source_host
      then Inl (InvalidContext ''source_host'')
      else Inr \<lparr>ctx_canonical_id = fresh, ctx_subject = subject,
                ctx_idempotency_key = idempotency_key, ctx_payload_sha256 = payload_sha256,
                ctx_source_host = source_host\<rparr>)"

definition context_public ::
  "uuid \<Rightarrow> str \<Rightarrow> str \<Rightarrow> str \<Rightarrow> data_error + submission_context" where
  "context_public fresh idempotency_key payload_sha256 source_host =
     context_new fresh None idempotency_key payload_sha256 source_host"

definition context_authenticated ::
  "uuid \<Rightarrow> verified_subject \<Rightarrow> str \<Rightarrow> str \<Rightarrow> str \<Rightarrow> data_error + submission_context" where
  "context_authenticated fresh subject idempotency_key payload_sha256 source_host =
     context_new fresh (Some subject) idempotency_key payload_sha256 source_host"

definition with_canonical_id :: "submission_context \<Rightarrow> uuid \<Rightarrow> submission_context" where
  "with_canonical_id ctx canonical_id = ctx\<lparr>ctx_canonical_id := canonical_id\<rparr>"

definition context_subject :: "submission_context \<Rightarrow> str option" where
  "context_subject ctx = map_option as_str (ctx_subject ctx)"

definition require_subject :: "submission_context \<Rightarrow> data_error + str" where
  "require_subject ctx = ok_or (context_subject ctx) Unauthenticated"

section \<open>Well-formed contexts\<close>

definition wf_context :: "submission_context \<Rightarrow> bool" where
  "wf_context ctx \<longleftrightarrow>
     16 \<le> length (ctx_idempotency_key ctx) \<and> length (ctx_idempotency_key ctx) \<le> 128 \<and>
     list_all token_byte (ctx_idempotency_key ctx) \<and>
     length (ctx_payload_sha256 ctx) = 64 \<and>
     list_all is_lower_hexdigit (ctx_payload_sha256 ctx) \<and>
     List.member context_hosts (ctx_source_host ctx)"

interpretation token: ascii_class token_byte
  by unfold_locales (auto simp: token_byte_def ascii_class_defs)

text \<open>The constructor accepts exactly the well-formed contexts.\<close>

lemma context_new_Inr_iff [yields]:
  "context_new fresh sub key dig host = Inr ctx \<longleftrightarrow>
     wf_context ctx \<and>
     ctx = \<lparr>ctx_canonical_id = fresh, ctx_subject = sub, ctx_idempotency_key = key,
            ctx_payload_sha256 = dig, ctx_source_host = to_ascii_lowercase host\<rparr>"
proof -
  have "context_new fresh sub key dig host = Inr ctx \<longleftrightarrow>
     (list_all token_byte key \<and> 16 \<le> str_len key \<and> str_len key \<le> 128) \<and>
     (list_all is_lower_hexdigit dig \<and> str_len dig = 64) \<and>
     List.member context_hosts (to_ascii_lowercase host) \<and>
     ctx = \<lparr>ctx_canonical_id = fresh, ctx_subject = sub, ctx_idempotency_key = key,
            ctx_payload_sha256 = dig, ctx_source_host = to_ascii_lowercase host\<rparr>"
    by (auto simp: context_new_def Let_def token.bytes_iff lower_hexdigit.bytes_iff)
  also have "\<dots> \<longleftrightarrow> wf_context ctx \<and>
     ctx = \<lparr>ctx_canonical_id = fresh, ctx_subject = sub, ctx_idempotency_key = key,
            ctx_payload_sha256 = dig, ctx_source_host = to_ascii_lowercase host\<rparr>"
    by (auto simp: wf_context_def token.len lower_hexdigit.len)
  finally show ?thesis .
qed

lemma context_new_error:
  "context_new fresh sub key dig host = Inl e \<Longrightarrow>
     e \<in> {InvalidContext ''idempotency_key'', InvalidContext ''payload_sha256'',
           InvalidContext ''source_host''}"
  by (auto simp: context_new_def Let_def split: if_splits)

lemma with_canonical_id_simps [simp]:
  "ctx_canonical_id (with_canonical_id ctx i) = i"
  "ctx_subject (with_canonical_id ctx i) = ctx_subject ctx"
  "ctx_idempotency_key (with_canonical_id ctx i) = ctx_idempotency_key ctx"
  "ctx_payload_sha256 (with_canonical_id ctx i) = ctx_payload_sha256 ctx"
  "ctx_source_host (with_canonical_id ctx i) = ctx_source_host ctx"
  "context_subject (with_canonical_id ctx i) = context_subject ctx"
  by (simp_all add: with_canonical_id_def context_subject_def)

lemma wf_context_with_canonical_id [simp]:
  "wf_context (with_canonical_id ctx i) \<longleftrightarrow> wf_context ctx"
  by (simp add: wf_context_def with_canonical_id_def)

section \<open>Verified subjects\<close>

definition wf_subject :: "verified_subject \<Rightarrow> bool" where
  "wf_subject s \<longleftrightarrow>
     as_str s \<noteq> [] \<and> str_len (as_str s) \<le> 255 \<and>
     \<not> is_whitespace (hd (as_str s)) \<and> \<not> is_whitespace (last (as_str s)) \<and>
     (\<forall>c \<in> set (as_str s). \<not> is_control c)"

lemma from_verified_claim_Inr_iff [yields]:
  "from_verified_claim v = Inr s \<longleftrightarrow> s = VerifiedSubject v \<and> wf_subject s"
  by (auto simp: from_verified_claim_def wf_subject_def trim_id_iff list_ex_iff not_less)

end
