(* ===== verification/Sql.thy ===== *)
theory Sql imports Context begin

text \<open>
  The two PostgreSQL databases as \<open>src/persistence.rs\<close> uses them. The SQL texts of the source
  are translated statement by statement into operations on tables of rows; the schema itself
  (defaults of unnamed columns, constraints) is not in the repository.

  \<^item> A \<open>row\<close> gives every column a value; \<open>schema_defaults\<close> is the row the schema fills in for
    the columns an \<open>INSERT\<close> does not name, at a given transaction timestamp. It is a
    parameter carried by the session.
  \<^item> A \<open>session\<close> is one connection pool during a request. \<open>committed\<close> is what the database
    holds, \<open>working\<close> the uncommitted view of the open transaction.
  \<^item> Each round trip consumes one entry of \<open>answers\<close>, the environment's decision: it is done
    and acknowledged, it is refused (connection loss, constraint violation, serialisation
    failure), or it is carried out but the acknowledgement is lost. The number beside it is
    the time that passes before it. When the list is used up, everything succeeds at once.

  Transactions are taken as isolated: nobody else commits between \<open>BEGIN\<close> and \<open>COMMIT\<close>.
\<close>

datatype table =
    Hhm_pre_interests | Hhm_intake_uploads | Hhm_applications | Hhm_referrals
  | Hhm_submission_outbox

text \<open>The columns the SQL texts name, grouped by the part of the schema they belong to
  (\<open>Up\<close> uploads, \<open>Pr\<close> and \<open>St\<close> applications, \<open>Rf\<close> referrals, \<open>Ob\<close> the outbox; the rest is
  common to several tables).\<close>

datatype upload_column =
    C_kind | C_object_key | C_content_sha256 | C_content_type | C_size_bytes | C_status
  | C_expires_at | C_uploaded_at | C_verified_at

datatype profile_column =
    C_legal_name | C_date_of_birth | C_nationality | C_phone | C_current_city | C_github_url
  | C_portfolio_url | C_project_stage | C_preferred_start_month | C_community_contribution

datatype stay_column =
    C_accessibility_or_accommodation_notes | C_allergy_notes | C_noise_sensitivity
  | C_light_sensitivity | C_room_preference_notes | C_roommate_preference
  | C_preferred_room_occupancy | C_roommate_for_lower_cost | C_roommate_for_social_connection
  | C_accommodation_data_consent | C_resume_upload_id | C_photo_id_upload_id
  | C_age_and_identity_attestation

datatype referral_column =
    C_referrer_subject | C_referee_name | C_referee_email | C_referee_linkedin_url
  | C_relationship | C_rationale | C_nominee_consent_confirmed

datatype outbox_column =
  C_submission_kind | C_submission_id | C_attempts | C_next_attempt_at | C_last_error_code

datatype column =
    C_id | C_idempotency_key | C_payload_sha256 | C_applicant_subject | C_email
  | C_linkedin_url | C_entrepreneurship_idea | C_stay_preference | C_privacy_notice_version
  | C_source_host | C_mirror_status | C_created_at | C_submitted_at | C_accepted_at
  | C_matching_uploads
  | Up upload_column | Pr profile_column | St stay_column | Rf referral_column
  | Ob outbox_column

datatype sql_value =
  SNull | SText str | SInt int | SBool bool | SUuid uuid | STime timestamp | SDate date

type_synonym row = "column \<Rightarrow> sql_value"
type_synonym store = "table \<Rightarrow> row list"

fun table_name :: "stored_submission_kind \<Rightarrow> table" where
  "table_name PreInterest = Hhm_pre_interests"
| "table_name Upload = Hhm_intake_uploads"
| "table_name Application = Hhm_applications"
| "table_name Referral = Hhm_referrals"

section \<open>Values and rows\<close>

text \<open>\<open>=\<close> is never true of \<open>NULL\<close>; \<open>IS NOT DISTINCT FROM\<close> is plain equality.\<close>

definition sql_eq :: "sql_value \<Rightarrow> sql_value \<Rightarrow> bool" where
  "sql_eq a b \<longleftrightarrow> a \<noteq> SNull \<and> a = b"

definition not_distinct :: "sql_value \<Rightarrow> sql_value \<Rightarrow> bool" where
  "not_distinct a b \<longleftrightarrow> a = b"

fun time_after :: "sql_value \<Rightarrow> timestamp \<Rightarrow> bool" where
  "time_after (STime t) now = (now < t)"
| "time_after _ now = False"

definition sql_opt :: "('a \<Rightarrow> sql_value) \<Rightarrow> 'a option \<Rightarrow> sql_value" where
  "sql_opt f v = (case v of None \<Rightarrow> SNull | Some a \<Rightarrow> f a)"

definition sql_in :: "sql_value \<Rightarrow> str list \<Rightarrow> bool" where
  "sql_in v labels \<longleftrightarrow> list_ex (\<lambda>l. v = SText l) labels"

definition coalesce :: "sql_value \<Rightarrow> sql_value \<Rightarrow> sql_value" where
  "coalesce a b = (if a = SNull then b else a)"

definition set_cols :: "(column \<times> sql_value) list \<Rightarrow> row \<Rightarrow> row" where
  "set_cols cvs r = fold (\<lambda>(c, v) r. r(c := v)) cvs r"

lemma set_cols_simps [simp]:
  "set_cols [] r = r"
  "set_cols ((c, v) # cvs) r = set_cols cvs (r(c := v))"
  by (simp_all add: set_cols_def)

lemma set_cols_other: "c \<notin> set (map fst cvs) \<Longrightarrow> set_cols cvs r c = r c"
  by (induction cvs arbitrary: r) auto

lemma set_cols_bound:
  "distinct (map fst cvs) \<Longrightarrow> (c, v) \<in> set cvs \<Longrightarrow> set_cols cvs r c = v"
proof (induction cvs arbitrary: r)
  case Nil
  then show ?case by simp
next
  case (Cons cv cvs)
  obtain c' v' where cv: "cv = (c', v')" by (cases cv)
  show ?case
  proof (cases "cv = (c, v)")
    case True
    with Cons.prems have "c \<notin> set (map fst cvs)" by auto
    with True show ?thesis by (simp add: set_cols_other)
  next
    case False
    with Cons.prems have "(c, v) \<in> set cvs" by simp
    with Cons show ?thesis by (simp add: cv)
  qed
qed

text \<open>Decoding a column, \<open>try_get\<close> of the driver.\<close>

fun read_uuid :: "row \<Rightarrow> column \<Rightarrow> data_error + uuid" where
  "read_uuid r c = (case r c of SUuid u \<Rightarrow> Inr u | _ \<Rightarrow> Inl Decode)"

fun read_string :: "row \<Rightarrow> column \<Rightarrow> data_error + str" where
  "read_string r c = (case r c of SText t \<Rightarrow> Inr t | _ \<Rightarrow> Inl Decode)"

fun read_timestamp :: "row \<Rightarrow> column \<Rightarrow> data_error + timestamp" where
  "read_timestamp r c = (case r c of STime t \<Rightarrow> Inr t | _ \<Rightarrow> Inl Decode)"

fun read_bigint :: "row \<Rightarrow> column \<Rightarrow> data_error + int" where
  "read_bigint r c = (case r c of SInt i \<Rightarrow> Inr i | _ \<Rightarrow> Inl Decode)"

declare read_uuid.simps [simp del] read_string.simps [simp del]
  read_timestamp.simps [simp del] read_bigint.simps [simp del]

lemma read_Inr_iff [yields]:
  "read_uuid r c = Inr u \<longleftrightarrow> r c = SUuid u"
  "read_string r c = Inr t \<longleftrightarrow> r c = SText t"
  "read_timestamp r c = Inr n \<longleftrightarrow> r c = STime n"
  "read_bigint r c = Inr i \<longleftrightarrow> r c = SInt i"
  by (auto simp: read_uuid.simps read_string.simps read_timestamp.simps read_bigint.simps
      split: sql_value.splits)

lemma read_Inl [yields]:
  "read_uuid r c = Inl e \<Longrightarrow> e = Decode"
  "read_string r c = Inl e \<Longrightarrow> e = Decode"
  "read_timestamp r c = Inl e \<Longrightarrow> e = Decode"
  "read_bigint r c = Inl e \<Longrightarrow> e = Decode"
  by (auto simp: read_uuid.simps read_string.simps read_timestamp.simps read_bigint.simps
      split: sql_value.splits)

section \<open>Statements\<close>

text \<open>A statement sees the transaction timestamp, the schema defaults and the tables.\<close>

type_synonym 'a statement = "timestamp \<Rightarrow> (table \<Rightarrow> row) \<Rightarrow> store \<Rightarrow> 'a \<times> store"

text \<open>\<open>INSERT ... ON CONFLICT (idempotency_key) DO NOTHING RETURNING ...\<close>\<close>

definition insert_or_nothing :: "table \<Rightarrow> column list \<Rightarrow> sql_value list \<Rightarrow> row option statement" where
  "insert_or_nothing t cols vals now defaults st =
     (let new = set_cols (zip cols vals) (defaults t) in
      if list_ex (\<lambda>r. sql_eq (r C_idempotency_key) (new C_idempotency_key)) (st t)
      then (None, st)
      else (Some new, st(t := st t @ [new])))"

definition insert_row :: "table \<Rightarrow> column list \<Rightarrow> sql_value list \<Rightarrow> unit statement" where
  "insert_row t cols vals now defaults st =
     ((), st(t := st t @ [set_cols (zip cols vals) (defaults t)]))"

text \<open>\<open>SELECT ... WHERE p\<close>, the first row.\<close>

definition select_one :: "table \<Rightarrow> (timestamp \<Rightarrow> row \<Rightarrow> bool) \<Rightarrow> row option statement" where
  "select_one t p now defaults st = (List.find (p now) (st t), st)"

definition select_count :: "table \<Rightarrow> (timestamp \<Rightarrow> row \<Rightarrow> bool) \<Rightarrow> row option statement" where
  "select_count t p now defaults st =
     (Some ((\<lambda>_. SNull)(C_matching_uploads := SInt (int (length (filter (p now) (st t)))))), st)"

text \<open>A projection that renames one column, \<open>c AS accepted_at\<close>.\<close>

definition as_accepted_at :: "column \<Rightarrow> row \<Rightarrow> row" where
  "as_accepted_at c r = r(C_accepted_at := r c)"

definition projecting :: "(row \<Rightarrow> row) \<Rightarrow> row option statement \<Rightarrow> row option statement" where
  "projecting f q now defaults st =
     (case q now defaults st of (r, st') \<Rightarrow> (map_option f r, st'))"

text \<open>\<open>UPDATE ... SET f WHERE p\<close>, the number of rows affected.\<close>

definition update_where ::
  "table \<Rightarrow> (timestamp \<Rightarrow> row \<Rightarrow> bool) \<Rightarrow> (timestamp \<Rightarrow> row \<Rightarrow> row) \<Rightarrow> nat statement" where
  "update_where t p f now defaults st =
     (length (filter (p now) (st t)),
      st(t := map (\<lambda>r. if p now r then f now r else r) (st t)))"

section \<open>Sessions and round trips\<close>

datatype answer = Done | Refused | Unacknowledged

record session =
  committed :: store
  working :: store
  clock :: timestamp
  tx_time :: timestamp
  answers :: "(answer \<times> nat) list"
  schema_defaults :: "timestamp \<Rightarrow> table \<Rightarrow> row"

type_synonym 'a db = "(session, data_error, 'a) action"

definition trip :: "session \<Rightarrow> answer \<times> session" where
  "trip s = (case answers s of
     [] \<Rightarrow> (Done, s)
   | (a, dt) # rest \<Rightarrow> (a, s\<lparr>answers := rest, clock := clock s + dt\<rparr>))"

definition begin_tx :: "unit db" where
  "begin_tx s = (case trip s of
     (Done, s1) \<Rightarrow> (Inr (), s1\<lparr>working := committed s1, tx_time := clock s1\<rparr>)
   | (_, s1) \<Rightarrow> (Inl Database, s1))"

text \<open>A statement inside a transaction touches the working copy only. When it fails the
  transaction is dropped, which rolls it back: the next \<open>begin_tx\<close> starts afresh.\<close>

definition in_tx :: "'a statement \<Rightarrow> 'a db" where
  "in_tx q s = (case trip s of
     (Done, s1) \<Rightarrow>
       (case q (tx_time s1) (schema_defaults s1 (tx_time s1)) (working s1) of
          (a, st) \<Rightarrow> (Inr a, s1\<lparr>working := st\<rparr>))
   | (_, s1) \<Rightarrow> (Inl Database, s1))"

definition commit_tx :: "unit db" where
  "commit_tx s = (case trip s of
     (Done, s1) \<Rightarrow> (Inr (), s1\<lparr>committed := working s1\<rparr>)
   | (Refused, s1) \<Rightarrow> (Inl Database, s1)
   | (Unacknowledged, s1) \<Rightarrow> (Inl Database, s1\<lparr>committed := working s1\<rparr>))"

text \<open>A statement on the pool itself is a transaction of its own.\<close>

definition autocommit :: "'a statement \<Rightarrow> 'a db" where
  "autocommit q s = (case trip s of (ans, s1) \<Rightarrow>
     (case q (clock s1) (schema_defaults s1 (clock s1)) (committed s1) of (a, st) \<Rightarrow>
       (case ans of
          Done \<Rightarrow> (Inr a, s1\<lparr>committed := st, tx_time := clock s1\<rparr>)
        | Refused \<Rightarrow> (Inl Database, s1)
        | Unacknowledged \<Rightarrow> (Inl Database, s1\<lparr>committed := st, tx_time := clock s1\<rparr>))))"

lemma trip_frame:
  "trip s = (a, t) \<Longrightarrow>
     committed t = committed s \<and> working t = working s \<and> tx_time t = tx_time s \<and>
     schema_defaults t = schema_defaults s \<and> clock s \<le> clock t"
  by (auto simp: trip_def split: list.splits prod.splits)

lemma trip_quiet: "answers s = [] \<Longrightarrow> trip s = (Done, s)"
  by (simp add: trip_def)

section \<open>What a transaction body does to the working copy\<close>

text \<open>
  \<open>simulates spec body\<close>: unless the environment interferes, \<open>body\<close> acts on the working copy
  as the fault-free \<open>spec\<close> does; if it interferes, \<open>body\<close> reports \<open>Database\<close>. Nothing else of
  the session changes but the clock and the answers.
\<close>

type_synonym 'a body = "timestamp \<Rightarrow> (table \<Rightarrow> row) \<Rightarrow> (store, data_error, 'a) action"

definition statement_body :: "'a statement \<Rightarrow> 'a body" where
  "statement_body q now d st = (case q now d st of (a, st') \<Rightarrow> (Inr a, st'))"

definition simulates :: "'a body \<Rightarrow> 'a db \<Rightarrow> bool" where
  "simulates spec body \<longleftrightarrow> (\<forall>s r t. body s = (r, t) \<longrightarrow>
     committed t = committed s \<and> tx_time t = tx_time s \<and>
     schema_defaults t = schema_defaults s \<and> clock s \<le> clock t \<and>
     ((r, working t) = spec (tx_time s) (schema_defaults s (tx_time s)) (working s) \<or>
      r = Inl Database) \<and>
     (answers s = [] \<longrightarrow> answers t = [] \<and> clock t = clock s \<and>
      (r, working t) = spec (tx_time s) (schema_defaults s (tx_time s)) (working s)))"

named_theorems simulation

lemma simulates_in_tx [simulation]: "simulates (statement_body q) (in_tx q)"
  unfolding simulates_def
proof (intro allI impI)
  fix s r t assume run: "in_tx q s = (r, t)"
  obtain a s1 where tr: "trip s = (a, s1)" by (cases "trip s")
  show "committed t = committed s \<and> tx_time t = tx_time s \<and>
     schema_defaults t = schema_defaults s \<and> clock s \<le> clock t \<and>
     ((r, working t) = statement_body q (tx_time s) (schema_defaults s (tx_time s)) (working s) \<or>
      r = Inl Database) \<and>
     (answers s = [] \<longrightarrow> answers t = [] \<and> clock t = clock s \<and>
      (r, working t) = statement_body q (tx_time s) (schema_defaults s (tx_time s)) (working s))"
    using run tr trip_frame [OF tr]
    by (auto simp: in_tx_def statement_body_def trip_quiet split: answer.splits prod.splits)
qed

lemma simulates_liftR [simulation]: "simulates (\<lambda>now d. liftR r) (liftR r)"
  by (simp add: simulates_def)

lemma simulates_okA [simulation]: "simulates (\<lambda>now d. okA a) (okA a)"
  by (simp add: simulates_def)

lemma simulates_failA [simulation]: "simulates (\<lambda>now d. failA e) (failA e)"
  by (simp add: simulates_def)

lemma simulates_bindA [simulation]:
  assumes m: "simulates sm m" and f: "\<And>a. simulates (sf a) (f a)"
  shows "simulates (\<lambda>now d. bindA (sm now d) (\<lambda>a. sf a now d)) (bindA m f)"
  unfolding simulates_def
proof (intro allI impI)
  fix s r t assume run: "bindA m f s = (r, t)"
  obtain r1 s1 where m1: "m s = (r1, s1)" by (cases "m s")
  note M = m [unfolded simulates_def, rule_format, OF m1]
  show "committed t = committed s \<and> tx_time t = tx_time s \<and>
     schema_defaults t = schema_defaults s \<and> clock s \<le> clock t \<and>
     ((r, working t) = bindA (sm (tx_time s) (schema_defaults s (tx_time s)))
        (\<lambda>a. sf a (tx_time s) (schema_defaults s (tx_time s))) (working s) \<or> r = Inl Database) \<and>
     (answers s = [] \<longrightarrow> answers t = [] \<and> clock t = clock s \<and>
      (r, working t) = bindA (sm (tx_time s) (schema_defaults s (tx_time s)))
        (\<lambda>a. sf a (tx_time s) (schema_defaults s (tx_time s))) (working s))"
  proof (cases r1)
    case (Inl e)
    with run m1 have "r = Inl e" "t = s1" by (simp_all add: bindA_def)
    with M Inl show ?thesis by (auto simp: bindA_def split: prod.splits)
  next
    case (Inr a)
    with run m1 have f1: "f a s1 = (r, t)" by (simp add: bindA_def)
    note F = f [unfolded simulates_def, rule_format, OF f1]
    from M F Inr show ?thesis by (auto simp: bindA_def split: prod.splits)
  qed
qed

lemma simulates_if [simulation]:
  "simulates sm m \<Longrightarrow> simulates sn n \<Longrightarrow>
   simulates (\<lambda>now d. if b then sm now d else sn now d) (if b then m else n)"
  by simp

lemma simulates_case_option [simulation]:
  "simulates sm m \<Longrightarrow> (\<And>a. simulates (sf a) (f a)) \<Longrightarrow>
   simulates (\<lambda>now d. case r of None \<Rightarrow> sm now d | Some a \<Rightarrow> sf a now d)
     (case r of None \<Rightarrow> m | Some a \<Rightarrow> f a)"
  by (cases r) simp_all

section \<open>Atomic commands\<close>

text \<open>A body run as a transaction: an error undoes what it did.\<close>

definition atomically :: "(store, data_error, 'a) action \<Rightarrow> (store, data_error, 'a) action" where
  "atomically m st = (case m st of (Inl e, _) \<Rightarrow> (Inl e, st) | (Inr a, st') \<Rightarrow> (Inr a, st'))"

lemma atomically_Inr [yields]: "atomically m st = (Inr a, st') \<longleftrightarrow> m st = (Inr a, st')"
  by (auto simp: atomically_def split: prod.splits sum.splits)

lemma atomically_Inl: "atomically m st = (Inl e, st') \<Longrightarrow> st' = st"
  by (auto simp: atomically_def split: prod.splits sum.splits)

definition transaction :: "'a db \<Rightarrow> 'a db" where
  "transaction body =
     bindA begin_tx (\<lambda>_. bindA body (\<lambda>a. bindA commit_tx (\<lambda>_. okA a)))"

text \<open>
  The contract of every persistence command towards its callers. \<open>spec\<close> is the command on an
  undisturbed database. Whatever the environment does, the command either has the effect and
  the result of \<open>spec\<close> at a time between its start and its end, or reports \<open>Database\<close> with no
  effect or, if only the acknowledgement was lost, with the whole effect; never with a part of
  it.
\<close>

definition refines :: "'a body \<Rightarrow> 'a db \<Rightarrow> bool" where
  "refines spec m \<longleftrightarrow> (\<forall>s r t. m s = (r, t) \<longrightarrow>
     schema_defaults t = schema_defaults s \<and> clock s \<le> clock t \<and>
     (\<exists>now. clock s \<le> now \<and> now \<le> clock t \<and>
        (spec now (schema_defaults s now) (committed s) = (r, committed t) \<or>
         r = Inl Database \<and>
           committed t \<in> {committed s,
             snd (spec now (schema_defaults s now) (committed s))})) \<and>
     (answers s = [] \<longrightarrow> answers t = [] \<and> clock t = clock s \<and>
        spec (clock s) (schema_defaults s (clock s)) (committed s) = (r, committed t)))"

named_theorems refinement

lemma begin_tx_cases:
  assumes "begin_tx s = (r, t)"
  shows "committed t = committed s \<and> schema_defaults t = schema_defaults s \<and>
    clock s \<le> clock t \<and>
    (r = Inl Database \<or> r = Inr () \<and> working t = committed s \<and> tx_time t = clock t) \<and>
    (answers s = [] \<longrightarrow> answers t = [] \<and> clock t = clock s \<and> r = Inr ())"
proof -
  obtain a s1 where tr: "trip s = (a, s1)" by (cases "trip s")
  with assms trip_frame [OF tr] show ?thesis
    by (auto simp: begin_tx_def trip_quiet split: answer.splits)
qed

lemma commit_tx_cases:
  assumes "commit_tx s = (r, t)"
  shows "schema_defaults t = schema_defaults s \<and> clock s \<le> clock t \<and>
    (r = Inr () \<and> committed t = working s \<or>
     r = Inl Database \<and> committed t \<in> {committed s, working s}) \<and>
    (answers s = [] \<longrightarrow> answers t = [] \<and> clock t = clock s \<and> r = Inr ())"
proof -
  obtain a s1 where tr: "trip s = (a, s1)" by (cases "trip s")
  with assms trip_frame [OF tr] show ?thesis
    by (auto simp: commit_tx_def trip_quiet split: answer.splits)
qed

lemma refines_transaction [refinement]:
  assumes body: "simulates sp body"
  shows "refines (\<lambda>now d. atomically (sp now d)) (transaction body)"
  unfolding refines_def
proof (intro allI impI)
  fix s r t assume run: "transaction body s = (r, t)"
  obtain r1 s1 where b: "begin_tx s = (r1, s1)" by (cases "begin_tx s")
  note B = begin_tx_cases [OF b]
  show "schema_defaults t = schema_defaults s \<and> clock s \<le> clock t \<and>
     (\<exists>now. clock s \<le> now \<and> now \<le> clock t \<and>
        (atomically (sp now (schema_defaults s now)) (committed s) = (r, committed t) \<or>
         r = Inl Database \<and> committed t \<in> {committed s,
           snd (atomically (sp now (schema_defaults s now)) (committed s))})) \<and>
     (answers s = [] \<longrightarrow> answers t = [] \<and> clock t = clock s \<and>
        atomically (sp (clock s) (schema_defaults s (clock s))) (committed s) = (r, committed t))"
  proof (cases r1)
    case (Inl e)
    with run b have "r = Inl e" "t = s1" by (simp_all add: transaction_def bindA_def)
    with B Inl show ?thesis by auto
  next
    case (Inr u)
    obtain r2 s2 where m: "body s1 = (r2, s2)" by (cases "body s1")
    note M = body [unfolded simulates_def, rule_format, OF m]
    show ?thesis
    proof (cases r2)
      case (Inl e)
      with run b m \<open>r1 = Inr u\<close> have rt: "r = Inl e" "t = s2"
        by (simp_all add: transaction_def bindA_def)
      show ?thesis
        using B M Inl \<open>r1 = Inr u\<close> unfolding rt
        by (cases "sp (clock s1) (schema_defaults s (clock s1)) (committed s)")
          (auto simp: atomically_def intro!: exI [of _ "clock s1"])
    next
      case (Inr a)
      obtain r3 s3 where c: "commit_tx s2 = (r3, s3)" by (cases "commit_tx s2")
      note C = commit_tx_cases [OF c]
      from run b m c \<open>r1 = Inr u\<close> Inr have rt: "r = (case r3 of Inl e \<Rightarrow> Inl e | Inr _ \<Rightarrow> Inr a)" "t = s3"
        by (auto simp: transaction_def bindA_def split: sum.splits)
      from B M Inr \<open>r1 = Inr u\<close>
      have sp: "sp (clock s1) (schema_defaults s (clock s1)) (committed s) = (Inr a, working s2)"
        by auto
      show ?thesis
        using B M C Inr \<open>r1 = Inr u\<close> sp unfolding rt
        by (auto simp: atomically_def intro!: exI [of _ "clock s1"])
    qed
  qed
qed

lemma refines_autocommit [refinement]: "refines (statement_body q) (autocommit q)"
  unfolding refines_def
proof (intro allI impI)
  fix s r t assume run: "autocommit q s = (r, t)"
  obtain a s1 where tr: "trip s = (a, s1)" by (cases "trip s")
  note T = trip_frame [OF tr]
  obtain v st where q: "q (clock s1) (schema_defaults s (clock s1)) (committed s) = (v, st)"
    by (cases "q (clock s1) (schema_defaults s (clock s1)) (committed s)")
  have t: "t = (case a of Refused \<Rightarrow> s1 | _ \<Rightarrow> s1\<lparr>committed := st, tx_time := clock s1\<rparr>)"
    and r: "r = (case a of Done \<Rightarrow> Inr v | _ \<Rightarrow> Inl Database)"
    using run tr T q by (auto simp: autocommit_def split: answer.splits)
  have quiet: "a = Done \<and> s1 = s" if "answers s = []"
    using tr trip_quiet [OF that] by simp
  let ?b = "\<lambda>now. statement_body q now (schema_defaults s now) (committed s)"
  have b: "?b (clock s1) = (Inr v, st)" using q by (simp add: statement_body_def)
  have frame: "schema_defaults t = schema_defaults s" "clock t = clock s1"
    "answers t = answers s1"
    using T unfolding t by (simp_all split: answer.splits)
  have "?b (clock s1) = (r, committed t) \<or>
      r = Inl Database \<and> committed t \<in> {committed s, snd (?b (clock s1))}"
    using T unfolding b unfolding r t by (cases a) simp_all
  moreover have "?b (clock s) = (r, committed t)" if "answers s = []"
    using quiet [OF that] b unfolding r t by simp
  ultimately show "schema_defaults t = schema_defaults s \<and> clock s \<le> clock t \<and>
     (\<exists>now. clock s \<le> now \<and> now \<le> clock t \<and>
        (?b now = (r, committed t) \<or>
         r = Inl Database \<and> committed t \<in> {committed s, snd (?b now)})) \<and>
     (answers s = [] \<longrightarrow> answers t = [] \<and> clock t = clock s \<and>
        ?b (clock s) = (r, committed t))"
    using T frame quiet by (metis order_refl)
qed

lemma refines_liftR [refinement]: "refines (\<lambda>now d. liftR r) (liftR r)"
  by (auto simp: refines_def)

text \<open>A check before the first round trip, and a check on what it returned.\<close>

lemma refines_bind_lift [refinement]:
  "(\<And>a. refines (sp a) (m a)) \<Longrightarrow>
   refines (\<lambda>now d. bindA (liftR r) (\<lambda>a. sp a now d)) (bindA (liftR r) m)"
  by (cases r) (auto simp: refines_def)

lemma refines_bind_check [refinement]:
  assumes m: "refines sp m"
  shows "refines (\<lambda>now d. bindA (sp now d) (\<lambda>a. liftR (g a))) (bindA m (\<lambda>a. liftR (g a)))"
  unfolding refines_def
proof (intro allI impI)
  fix s r t assume run: "bindA m (\<lambda>a. liftR (g a)) s = (r, t)"
  obtain r1 s1 where m1: "m s = (r1, s1)" by (cases "m s")
  note M = m [unfolded refines_def, rule_format, OF m1]
  from run m1 have t: "t = s1" and r: "r = bindR r1 g"
    by (auto simp: bindA_def bindR_def split: sum.splits)
  have bind: "bindA n (\<lambda>a. liftR (g a)) st = (bindR (fst (n st)) g, snd (n st))"
    for n :: "(store, data_error, 'a) action" and st
    by (simp add: bindA_def bindR_def split: prod.splits sum.splits)
  obtain now where now: "clock s \<le> now" "now \<le> clock s1"
    and sp: "sp now (schema_defaults s now) (committed s) = (r1, committed s1) \<or>
         r1 = Inl Database \<and> committed s1 \<in> {committed s,
           snd (sp now (schema_defaults s now) (committed s))}"
    using M by blast
  have frame: "schema_defaults s1 = schema_defaults s" "clock s \<le> clock s1"
    using M by simp_all
  have quiet: "answers s1 = [] \<and> clock s1 = clock s \<and>
      sp (clock s) (schema_defaults s (clock s)) (committed s) = (r1, committed s1)"
    if "answers s = []"
    using M that by simp
  let ?b = "\<lambda>now. bindA (sp now (schema_defaults s now)) (\<lambda>a. liftR (g a)) (committed s)"
  have "?b now = (r, committed t) \<or>
      r = Inl Database \<and> committed t \<in> {committed s, snd (?b now)}"
    using sp unfolding bind r t by auto
  moreover have "?b (clock s) = (r, committed t)" if "answers s = []"
    using quiet [OF that] unfolding bind r t by simp
  ultimately show "schema_defaults t = schema_defaults s \<and> clock s \<le> clock t \<and>
     (\<exists>now. clock s \<le> now \<and> now \<le> clock t \<and>
        (?b now = (r, committed t) \<or>
         r = Inl Database \<and> committed t \<in> {committed s, snd (?b now)})) \<and>
     (answers s = [] \<longrightarrow> answers t = [] \<and> clock t = clock s \<and>
        ?b (clock s) = (r, committed t))"
    using now frame quiet unfolding t by blast
qed

locale atomic_command =
  fixes m :: "'a db" and spec :: "'a body"
  assumes refines: "refines spec m"
begin

lemma ok_effect:
  assumes "m s = (Inr a, t)"
  obtains now where "clock s \<le> now" "now \<le> clock t"
    "spec now (schema_defaults s now) (committed s) = (Inr a, committed t)"
  using refines [unfolded refines_def, rule_format, OF assms] by auto

lemma error_effect:
  assumes "m s = (Inl e, t)" and "e \<noteq> Database"
  obtains now where "clock s \<le> now" "now \<le> clock t"
    "spec now (schema_defaults s now) (committed s) = (Inl e, committed t)"
  using refines [unfolded refines_def, rule_format, OF assms(1)] assms(2) by auto

lemma all_or_nothing:
  assumes "m s = (r, t)"
  obtains now where "clock s \<le> now" "now \<le> clock t"
    "committed t = committed s \<or>
     committed t = snd (spec now (schema_defaults s now) (committed s))"
  using refines [unfolded refines_def, rule_format, OF assms] by (metis insertE singletonD snd_conv)

lemma undisturbed:
  assumes "answers s = []" and "m s = (r, t)"
  shows "spec (clock s) (schema_defaults s (clock s)) (committed s) = (r, committed t)"
    and "answers t = []" and "clock t = clock s" and "schema_defaults t = schema_defaults s"
  using refines [unfolded refines_def, rule_format, OF assms(2)] assms(1) by auto

lemma frame:
  assumes "m s = (r, t)"
  shows "schema_defaults t = schema_defaults s" and "clock s \<le> clock t"
  using refines [unfolded refines_def, rule_format, OF assms] by auto

text \<open>An invariant of the undisturbed command is an invariant of the command.\<close>

lemma keeps:
  assumes inv: "\<And>now d st. G d \<Longrightarrow> P st \<Longrightarrow> P (snd (spec now d st))"
  shows "preserves (\<lambda>s. P (committed s) \<and> (\<forall>now. G (schema_defaults s now))) m"
proof (rule preservesI)
  fix s :: session assume s: "P (committed s) \<and> (\<forall>now. G (schema_defaults s now))"
  obtain r t where run: "m s = (r, t)" by (cases "m s")
  obtain now where "committed t = committed s \<or>
     committed t = snd (spec now (schema_defaults s now) (committed s))"
    using all_or_nothing [OF run] by blast
  then have "P (committed t)" using s inv by auto
  with run s frame(1) [OF run]
  show "P (committed (snd (m s))) \<and> (\<forall>now. G (schema_defaults (snd (m s)) now))" by simp
qed

end

end
