(* ===== verification/Persistence.thy ===== *)
theory Persistence imports Sql begin

text \<open>
  The named persistence commands of \<open>WriteContext\<close> in \<open>src/persistence.rs\<close>, each with the
  statements, checks and early returns of the source in their order. A command takes the
  session of the database it runs against; the transaction commands name the columns and bind
  the values of the source's \<open>INSERT\<close> texts.
\<close>

section \<open>Shared steps\<close>

definition stored_from_row :: "row \<Rightarrow> bool \<Rightarrow> data_error + stored_submission" where
  "stored_from_row row replayed =
     bindR (read_uuid row C_id) (\<lambda>i.
     bindR (read_timestamp row C_accepted_at) (\<lambda>a.
     Inr \<lparr>ss_id = i, ss_accepted_at = a, ss_replayed = replayed\<rparr>))"

definition require_same_payload :: "row \<Rightarrow> str \<Rightarrow> data_error + unit" where
  "require_same_payload row expected =
     bindR (read_string row C_payload_sha256) (\<lambda>p.
     if p = expected then Inr () else Inl IdempotencyConflict)"

text \<open>\<open>insert_sql\<close> and \<open>replay_sql\<close> are the two statements the caller passes.\<close>

definition insert_or_replay ::
  "submission_context \<Rightarrow> row option statement \<Rightarrow> row option statement \<Rightarrow> stored_submission db" where
  "insert_or_replay ctx insert_sql replay_sql =
     bindA (in_tx insert_sql) (\<lambda>inserted.
     case inserted of
       Some row \<Rightarrow> liftR (stored_from_row row False)
     | None \<Rightarrow>
         bindA (in_tx replay_sql) (\<lambda>found.
         bindA (liftR (ok_or found Invariant)) (\<lambda>replay.
         bindA (liftR (require_same_payload replay (ctx_payload_sha256 ctx))) (\<lambda>_.
         liftR (stored_from_row replay True)))))"

definition outbox_columns :: "column list" where
  "outbox_columns = [Ob C_submission_kind, Ob C_submission_id, C_payload_sha256]"

definition outbox_values ::
  "stored_submission_kind \<Rightarrow> stored_submission \<Rightarrow> submission_context \<Rightarrow> sql_value list" where
  "outbox_values kind stored ctx =
     [SText (database_value kind), SUuid (ss_id stored), SText (ctx_payload_sha256 ctx)]"

definition maybe_insert_outbox ::
  "persistence_target \<Rightarrow> stored_submission_kind \<Rightarrow> stored_submission \<Rightarrow> submission_context
    \<Rightarrow> unit db" where
  "maybe_insert_outbox target kind stored ctx =
     (if \<not> creates_outbox target \<or> ss_replayed stored then okA ()
      else in_tx (insert_row Hhm_submission_outbox outbox_columns (outbox_values kind stored ctx)))"

definition by_key :: "str \<Rightarrow> timestamp \<Rightarrow> row \<Rightarrow> bool" where
  "by_key key now r \<longleftrightarrow> sql_eq (r C_idempotency_key) (SText key)"

definition ping :: "unit db" where
  "ping = autocommit (\<lambda>now defaults st. ((), st))"

section \<open>Pre-interest submissions\<close>

definition pre_interest_columns :: "column list" where
  "pre_interest_columns =
     [C_id, C_idempotency_key, C_payload_sha256, C_applicant_subject, C_email,
      C_linkedin_url, C_entrepreneurship_idea, C_stay_preference,
      C_privacy_notice_version, C_source_host, C_mirror_status]"

definition pre_interest_values ::
  "persistence_target \<Rightarrow> submission_context \<Rightarrow> pre_interest_create \<Rightarrow> sql_value list" where
  "pre_interest_values target ctx input =
     [SUuid (ctx_canonical_id ctx),
      SText (ctx_idempotency_key ctx),
      SText (ctx_payload_sha256 ctx),
      sql_opt SText (context_subject ctx),
      SText (trim (pi_email input)),
      SText (trim (pi_linkedin_url input)),
      SText (trim (pi_entrepreneurship_idea input)),
      SText (stay_preference_label (pi_stay_preference input)),
      SText (pi_privacy_notice_version input),
      SText (ctx_source_host ctx),
      SText (mirror_status target)]"

definition store_pre_interest ::
  "contract \<Rightarrow> persistence_target \<Rightarrow> submission_context \<Rightarrow> pre_interest_create
    \<Rightarrow> stored_submission db" where
  "store_pre_interest k target ctx input =
     bindA (liftR (map_err Validation (pre_interest_validate k input))) (\<lambda>_.
     bindA begin_tx (\<lambda>_.
     bindA (insert_or_replay ctx
        (projecting (as_accepted_at C_created_at)
          (insert_or_nothing Hhm_pre_interests pre_interest_columns
            (pre_interest_values target ctx input)))
        (projecting (as_accepted_at C_created_at)
          (select_one Hhm_pre_interests (by_key (ctx_idempotency_key ctx))))) (\<lambda>stored.
     bindA (maybe_insert_outbox target PreInterest stored ctx) (\<lambda>_.
     bindA commit_tx (\<lambda>_.
     okA stored)))))"

section \<open>Upload intents\<close>

definition UPLOAD_LIFETIME_HOURS :: nat where
  "UPLOAD_LIFETIME_HOURS = 2"

definition hours :: "nat \<Rightarrow> timestamp" where
  "hours n = n * 3600000"

definition upload_columns :: "column list" where
  "upload_columns =
     [C_id, C_idempotency_key, C_payload_sha256, C_applicant_subject, Up C_kind,
      Up C_object_key, Up C_content_sha256, Up C_content_type, Up C_size_bytes, Up C_status,
      Up C_expires_at]"

definition upload_values ::
  "submission_context \<Rightarrow> upload_intent_create \<Rightarrow> str \<Rightarrow> int \<Rightarrow> timestamp \<Rightarrow> sql_value list" where
  "upload_values ctx input object_key size_bytes expires_at =
     [SUuid (ctx_canonical_id ctx),
      SText (ctx_idempotency_key ctx),
      SText (ctx_payload_sha256 ctx),
      sql_opt SText (context_subject ctx),
      SText (upload_kind_label (ui_kind input)),
      SText object_key,
      SText (ui_sha256 input),
      SText (ui_content_type input),
      SInt size_bytes,
      SText (lit ''pending''),
      STime expires_at]"

text \<open>\<open>format!("intake/{}/{}/{}", kind, id, &sha256[..16])\<close>\<close>

definition upload_object_key ::
  "(uuid \<Rightarrow> str) \<Rightarrow> submission_context \<Rightarrow> upload_intent_create \<Rightarrow> str option" where
  "upload_object_key uuid_display ctx input =
     map_option (\<lambda>digest.
        lit ''intake/'' @ upload_kind_label (ui_kind input) @ lit ''/''
          @ uuid_display (ctx_canonical_id ctx) @ lit ''/'' @ digest)
       (byte_prefix 16 (ui_sha256 input))"

text \<open>The tuple both branches of the command read from the row.\<close>

definition upload_from_row :: "row \<Rightarrow> bool \<Rightarrow> data_error + stored_upload" where
  "upload_from_row row replayed =
     bindR (read_uuid row C_id) (\<lambda>i.
     bindR (read_string row (Up C_object_key)) (\<lambda>key.
     bindR (read_timestamp row (Up C_expires_at)) (\<lambda>expires.
     Inr \<lparr>su_id = i, su_object_key = key, su_expires_at = expires, su_replayed = replayed\<rparr>)))"

definition store_upload_intent ::
  "contract \<Rightarrow> (uuid \<Rightarrow> str) \<Rightarrow> timestamp \<Rightarrow> persistence_target \<Rightarrow> submission_context
    \<Rightarrow> upload_intent_create \<Rightarrow> stored_upload db" where
  "store_upload_intent k uuid_display utc_now target ctx input =
     bindA (liftR (map_err Validation (upload_intent_validate k input))) (\<lambda>_.
     bindA begin_tx (\<lambda>_.
     bindA (liftR (ok_or (upload_object_key uuid_display ctx input) Panicked)) (\<lambda>object_key.
     bindA (liftR (ok_or (i64_of_u64 (ui_size_bytes input)) Invariant)) (\<lambda>size_bytes.
     bindA (in_tx (insert_or_nothing Hhm_intake_uploads upload_columns
        (upload_values ctx input object_key size_bytes
          (utc_now + hours UPLOAD_LIFETIME_HOURS)))) (\<lambda>inserted.
     bindA (case inserted of
         Some row \<Rightarrow> liftR (upload_from_row row False)
       | None \<Rightarrow>
           bindA (in_tx (select_one Hhm_intake_uploads (by_key (ctx_idempotency_key ctx)))) (\<lambda>found.
           bindA (liftR (ok_or found Invariant)) (\<lambda>row.
           bindA (liftR (require_same_payload row (ctx_payload_sha256 ctx))) (\<lambda>_.
           liftR (upload_from_row row True))))) (\<lambda>upload.
     bindA (maybe_insert_outbox target Upload
        \<lparr>ss_id = su_id upload, ss_accepted_at = su_expires_at upload,
         ss_replayed = su_replayed upload\<rparr> ctx) (\<lambda>_.
     bindA commit_tx (\<lambda>_.
     okA upload))))))))"

definition open_statuses :: "str list" where
  "open_statuses = [lit ''pending'', lit ''uploaded'', lit ''verified'']"

definition owned_open_upload :: "uuid \<Rightarrow> verified_subject option \<Rightarrow> timestamp \<Rightarrow> row \<Rightarrow> bool" where
  "owned_open_upload upload_id subject now r \<longleftrightarrow>
     sql_eq (r C_id) (SUuid upload_id) \<and>
     not_distinct (r C_applicant_subject) (sql_opt SText (map_option as_str subject)) \<and>
     time_after (r (Up C_expires_at)) now \<and>
     sql_in (r (Up C_status)) open_statuses"

definition pending_from_row :: "row option \<Rightarrow> data_error + pending_upload" where
  "pending_from_row found =
     bindR (ok_or found IntakeObjectUnavailable) (\<lambda>row.
     bindR (read_bigint row (Up C_size_bytes)) (\<lambda>size_bytes.
     bindR (read_uuid row C_id) (\<lambda>i.
     bindR (read_string row (Up C_object_key)) (\<lambda>key.
     bindR (read_string row (Up C_content_sha256)) (\<lambda>sha.
     bindR (read_string row (Up C_content_type)) (\<lambda>ctype.
     bindR (ok_or (u64_of_i64 size_bytes) Decode) (\<lambda>size.
     bindR (read_timestamp row (Up C_expires_at)) (\<lambda>expires.
     Inr \<lparr>pu_id = i, pu_object_key = key, pu_expected_sha256 = sha, pu_content_type = ctype,
          pu_size_bytes = size, pu_expires_at = expires\<rparr>))))))))"

definition pending_upload :: "uuid \<Rightarrow> verified_subject option \<Rightarrow> pending_upload db" where
  "pending_upload upload_id subject =
     bindA (autocommit (select_one Hhm_intake_uploads (owned_open_upload upload_id subject)))
       (\<lambda>found. liftR (pending_from_row found))"

definition valid_digest :: "str \<Rightarrow> bool" where
  "valid_digest s \<longleftrightarrow> str_len s = 64 \<and> list_all is_lower_hexdigit (str_bytes s)"

definition mark_verified :: "timestamp \<Rightarrow> row \<Rightarrow> row" where
  "mark_verified now r =
     r(Up C_status := SText (lit ''verified''),
       Up C_uploaded_at := coalesce (r (Up C_uploaded_at)) (STime now),
       Up C_verified_at := coalesce (r (Up C_verified_at)) (STime now))"

definition verify_upload :: "uuid \<Rightarrow> verified_subject option \<Rightarrow> str \<Rightarrow> unit db" where
  "verify_upload upload_id subject observed_sha256 =
     bindA (liftR (ensure (valid_digest observed_sha256) (InvalidContext ''observed_sha256''))) (\<lambda>_.
     bindA (autocommit (update_where Hhm_intake_uploads
        (\<lambda>now r. owned_open_upload upload_id subject now r \<and>
           sql_eq (r (Up C_content_sha256)) (SText observed_sha256))
        mark_verified)) (\<lambda>rows_affected.
     liftR (ensure (rows_affected = 1) IntakeObjectUnavailable)))"

section \<open>Applications\<close>

definition verified_upload_for ::
  "submission_context \<Rightarrow> application_create \<Rightarrow> timestamp \<Rightarrow> row \<Rightarrow> bool" where
  "verified_upload_for ctx input now r \<longleftrightarrow>
     not_distinct (r C_applicant_subject) (sql_opt SText (context_subject ctx)) \<and>
     sql_eq (r (Up C_status)) (SText (lit ''verified'')) \<and>
     time_after (r (Up C_expires_at)) now \<and>
     (sql_eq (r C_id) (SUuid (ap_resume_upload_id input)) \<and>
        sql_eq (r (Up C_kind)) (SText (lit ''resume'')) \<or>
      sql_eq (r C_id) (SUuid (ap_photo_id_upload_id input)) \<and>
        sql_eq (r (Up C_kind)) (SText (lit ''photo_id'')))"

definition require_verified_uploads :: "submission_context \<Rightarrow> application_create \<Rightarrow> unit db" where
  "require_verified_uploads ctx input =
     bindA (in_tx (select_count Hhm_intake_uploads (verified_upload_for ctx input))) (\<lambda>found.
     bindA (liftR (ok_or found Invariant)) (\<lambda>row.
     bindA (liftR (read_bigint row C_matching_uploads)) (\<lambda>matching.
     liftR (ensure (matching = 2) IntakeObjectUnavailable))))"

definition application_columns :: "column list" where
  "application_columns =
     [C_id, C_idempotency_key, C_payload_sha256, C_applicant_subject, C_email,
      C_linkedin_url, Pr C_legal_name, Pr C_date_of_birth, Pr C_nationality, Pr C_phone,
      Pr C_current_city, Pr C_github_url, Pr C_portfolio_url, C_entrepreneurship_idea,
      Pr C_project_stage, C_stay_preference, Pr C_preferred_start_month,
      Pr C_community_contribution, St C_accessibility_or_accommodation_notes,
      St C_allergy_notes, St C_noise_sensitivity, St C_light_sensitivity,
      St C_room_preference_notes, St C_roommate_preference, St C_preferred_room_occupancy,
      St C_roommate_for_lower_cost, St C_roommate_for_social_connection,
      St C_accommodation_data_consent, St C_resume_upload_id, St C_photo_id_upload_id,
      St C_age_and_identity_attestation, C_privacy_notice_version, C_mirror_status]"

definition application_values ::
  "persistence_target \<Rightarrow> submission_context \<Rightarrow> application_create \<Rightarrow> int \<Rightarrow> sql_value list" where
  "application_values target ctx input preferred_room_occupancy =
     [SUuid (ctx_canonical_id ctx),
      SText (ctx_idempotency_key ctx),
      SText (ctx_payload_sha256 ctx),
      sql_opt SText (context_subject ctx),
      SText (trim (ap_email input)),
      SText (trim (ap_linkedin_url input)),
      SText (trim (ap_legal_name input)),
      SDate (ap_date_of_birth input),
      SText (trim (ap_nationality input)),
      SText (trim (ap_phone input)),
      SText (trim (ap_current_city input)),
      sql_opt SText (ap_github_url input),
      sql_opt SText (ap_portfolio_url input),
      SText (trim (ap_entrepreneurship_idea input)),
      SText (project_stage_label (ap_project_stage input)),
      SText (stay_preference_label (ap_stay_preference input)),
      SDate (ap_preferred_start_month input),
      SText (trim (ap_community_contribution input)),
      sql_opt SText (ap_accessibility_or_accommodation_notes input),
      sql_opt SText (ap_allergy_notes input),
      SText (sensitivity_level_label (ap_noise_sensitivity input)),
      SText (sensitivity_level_label (ap_light_sensitivity input)),
      sql_opt SText (ap_room_preference_notes input),
      SText (roommate_preference_label (ap_roommate_preference input)),
      SInt preferred_room_occupancy,
      SBool (ap_roommate_for_lower_cost input),
      SBool (ap_roommate_for_social_connection input),
      SBool (ap_accommodation_data_consent input),
      SUuid (ap_resume_upload_id input),
      SUuid (ap_photo_id_upload_id input),
      SBool (ap_age_and_identity_attestation input),
      SText (ap_privacy_notice_version input),
      SText (mirror_status target)]"

definition store_application ::
  "contract \<Rightarrow> persistence_target \<Rightarrow> submission_context \<Rightarrow> application_create
    \<Rightarrow> stored_submission db" where
  "store_application k target ctx input =
     bindA (liftR (map_err Validation (application_validate k input))) (\<lambda>_.
     bindA (liftR (ok_or (i16_try_from (ap_preferred_room_occupancy input)) Invariant)) (\<lambda>occupancy.
     bindA begin_tx (\<lambda>_.
     bindA (require_verified_uploads ctx input) (\<lambda>_.
     bindA (insert_or_replay ctx
        (projecting (as_accepted_at C_submitted_at)
          (insert_or_nothing Hhm_applications application_columns
            (application_values target ctx input occupancy)))
        (projecting (as_accepted_at C_submitted_at)
          (select_one Hhm_applications (by_key (ctx_idempotency_key ctx))))) (\<lambda>stored.
     bindA (maybe_insert_outbox target Application stored ctx) (\<lambda>_.
     bindA commit_tx (\<lambda>_.
     okA stored)))))))"

section \<open>Referrals\<close>

definition referral_columns :: "column list" where
  "referral_columns =
     [C_id, C_idempotency_key, C_payload_sha256, Rf C_referrer_subject, Rf C_referee_name,
      Rf C_referee_email, Rf C_referee_linkedin_url, Rf C_relationship, Rf C_rationale,
      C_stay_preference, Rf C_nominee_consent_confirmed, C_mirror_status]"

definition referral_values ::
  "persistence_target \<Rightarrow> submission_context \<Rightarrow> referral_create \<Rightarrow> str \<Rightarrow> sql_value list" where
  "referral_values target ctx input subject =
     [SUuid (ctx_canonical_id ctx),
      SText (ctx_idempotency_key ctx),
      SText (ctx_payload_sha256 ctx),
      SText subject,
      SText (trim (rf_referee_name input)),
      SText (trim (rf_referee_email input)),
      SText (trim (rf_referee_linkedin_url input)),
      SText (trim (rf_relationship input)),
      SText (trim (rf_rationale input)),
      sql_opt (\<lambda>p. SText (stay_preference_label p)) (rf_stay_preference input),
      SBool (rf_nominee_consent_confirmed input),
      SText (mirror_status target)]"

definition store_referral ::
  "contract \<Rightarrow> persistence_target \<Rightarrow> submission_context \<Rightarrow> referral_create
    \<Rightarrow> stored_submission db" where
  "store_referral k target ctx input =
     bindA (liftR (map_err Validation (referral_validate k input))) (\<lambda>_.
     bindA (liftR (require_subject ctx)) (\<lambda>subject.
     bindA begin_tx (\<lambda>_.
     bindA (insert_or_replay ctx
        (projecting (as_accepted_at C_created_at)
          (insert_or_nothing Hhm_referrals referral_columns
            (referral_values target ctx input subject)))
        (projecting (as_accepted_at C_created_at)
          (select_one Hhm_referrals (by_key (ctx_idempotency_key ctx))))) (\<lambda>stored.
     bindA (maybe_insert_outbox target Referral stored ctx) (\<lambda>_.
     bindA commit_tx (\<lambda>_.
     okA stored))))))"

section \<open>The outbox\<close>

definition submission_row :: "uuid \<Rightarrow> timestamp \<Rightarrow> row \<Rightarrow> bool" where
  "submission_row i now r \<longleftrightarrow> sql_eq (r C_id) (SUuid i)"

definition outbox_entry :: "stored_submission_kind \<Rightarrow> uuid \<Rightarrow> timestamp \<Rightarrow> row \<Rightarrow> bool" where
  "outbox_entry kind i now r \<longleftrightarrow>
     sql_eq (r (Ob C_submission_kind)) (SText (database_value kind)) \<and>
     sql_eq (r (Ob C_submission_id)) (SUuid i)"

definition mark_mirrored :: "stored_submission_kind \<Rightarrow> uuid \<Rightarrow> str \<Rightarrow> unit db" where
  "mark_mirrored kind i payload_sha256 =
     bindA begin_tx (\<lambda>_.
     bindA (if kind \<noteq> Upload
       then bindA (in_tx (update_where (table_name kind)
              (\<lambda>now r. submission_row i now r \<and> sql_eq (r C_payload_sha256) (SText payload_sha256))
              (\<lambda>now r. r(C_mirror_status := SText (lit ''mirrored''))))) (\<lambda>rows_affected.
            liftR (ensure (rows_affected = 1) Invariant))
       else okA ()) (\<lambda>_.
     bindA (in_tx (update_where Hhm_submission_outbox
        (\<lambda>now r. outbox_entry kind i now r \<and> sql_eq (r C_payload_sha256) (SText payload_sha256))
        (\<lambda>now r. r(C_mirror_status := SText (lit ''mirrored''), Ob C_last_error_code := SNull))))
       (\<lambda>rows_affected.
     bindA (liftR (ensure (rows_affected = 1) Invariant)) (\<lambda>_.
     bindA commit_tx (\<lambda>_.
     okA ())))))"

definition error_code_byte :: "nat \<Rightarrow> bool" where
  "error_code_byte b \<longleftrightarrow> is_ascii_lowercase b \<or> is_ascii_digit b \<or> b = 95"

definition valid_error_code :: "str \<Rightarrow> bool" where
  "valid_error_code code \<longleftrightarrow>
     code \<noteq> [] \<and> str_len code \<le> 64 \<and> list_all error_code_byte (str_bytes code)"

text \<open>\<open>LEAST(3600, (1 << LEAST(attempts, 11)))\<close> seconds; \<open>attempts\<close> is never negative.\<close>

definition retry_delay :: "int \<Rightarrow> nat" where
  "retry_delay attempts = min 3600 (2 ^ nat (min attempts 11))"

fun attempts_below :: "sql_value \<Rightarrow> int \<Rightarrow> bool" where
  "attempts_below (SInt a) n = (a < n)"
| "attempts_below _ n = False"

definition record_attempt :: "str \<Rightarrow> timestamp \<Rightarrow> row \<Rightarrow> row" where
  "record_attempt error_code now r =
     (case r (Ob C_attempts) of
        SInt a \<Rightarrow>
          r(Ob C_attempts := SInt (a + 1),
            C_mirror_status := SText (if 99 \<le> a then lit ''terminal_failure''
              else lit ''retryable_failure''),
            Ob C_next_attempt_at := STime (now + 1000 * retry_delay a),
            Ob C_last_error_code := SText error_code)
      | _ \<Rightarrow> r)"

definition record_mirror_failure :: "stored_submission_kind \<Rightarrow> uuid \<Rightarrow> str \<Rightarrow> unit db" where
  "record_mirror_failure kind i error_code =
     bindA (liftR (ensure (valid_error_code error_code) (InvalidContext ''mirror_error_code''))) (\<lambda>_.
     bindA begin_tx (\<lambda>_.
     bindA (if kind \<noteq> Upload
       then bindA (in_tx (update_where (table_name kind) (submission_row i)
              (\<lambda>now r. r(C_mirror_status := SText (lit ''retryable_failure''))))) (\<lambda>rows_affected.
            liftR (ensure (rows_affected = 1) Invariant))
       else okA ()) (\<lambda>_.
     bindA (in_tx (update_where Hhm_submission_outbox
        (\<lambda>now r. outbox_entry kind i now r \<and> attempts_below (r (Ob C_attempts)) 100)
        (record_attempt error_code))) (\<lambda>rows_affected.
     bindA (liftR (ensure (rows_affected = 1) Invariant)) (\<lambda>_.
     bindA commit_tx (\<lambda>_.
     okA ()))))))"

end
