(* ===== verification/Commands.thy ===== *)
theory Commands imports Persistence begin

text \<open>
  What the persistence commands promise. \<open>command_spec\<close> says in one step, on an undisturbed
  database, what storing a submission does: look the idempotency key up, replay or refuse if
  it is there, otherwise append the row and, on the primary, its outbox entry. The lemmas
  \<open>*_refines\<close> show that each command of \<open>Persistence\<close>, run statement by statement against an
  environment that may refuse or lose any round trip, implements its specification
  (\<open>refines\<close>). The locale \<open>intake_command\<close> states the contract the four storing commands
  share; the request handlers rely on nothing else.
\<close>

section \<open>The specification of a storing command\<close>

definition enqueue ::
  "persistence_target \<Rightarrow> stored_submission_kind \<Rightarrow> stored_submission \<Rightarrow> submission_context
    \<Rightarrow> (table \<Rightarrow> row) \<Rightarrow> store \<Rightarrow> store" where
  "enqueue target kind stored ctx d st =
     (if creates_outbox target \<and> \<not> ss_replayed stored
      then st(Hhm_submission_outbox := st Hhm_submission_outbox @
             [set_cols (zip outbox_columns (outbox_values kind stored ctx))
                (d Hhm_submission_outbox)])
      else st)"

definition submit_spec ::
  "stored_submission_kind \<Rightarrow> (row \<Rightarrow> bool \<Rightarrow> data_error + 'r) \<Rightarrow> ('r \<Rightarrow> stored_submission)
    \<Rightarrow> persistence_target \<Rightarrow> submission_context \<Rightarrow> (column \<times> sql_value) list \<Rightarrow> 'r body" where
  "submit_spec kind rd view target ctx cvs now d st =
     (case List.find (by_key (ctx_idempotency_key ctx) now) (st (table_name kind)) of
        Some r \<Rightarrow> (bindR (require_same_payload r (ctx_payload_sha256 ctx)) (\<lambda>_. rd r True), st)
      | None \<Rightarrow>
          (let new = set_cols cvs (d (table_name kind)) in
           case rd new False of
             Inl e \<Rightarrow> (Inl e, st)
           | Inr stored \<Rightarrow>
               (Inr stored, enqueue target kind (view stored) ctx d
                  (st(table_name kind := st (table_name kind) @ [new])))))"

text \<open>\<open>plan\<close> is everything that can stop the command before it touches the table: validation,
  the subject, the referenced uploads. It yields the columns to bind.\<close>

definition command_spec ::
  "stored_submission_kind \<Rightarrow> (row \<Rightarrow> bool \<Rightarrow> data_error + 'r) \<Rightarrow> ('r \<Rightarrow> stored_submission)
    \<Rightarrow> (timestamp \<Rightarrow> store \<Rightarrow> data_error + (column \<times> sql_value) list)
    \<Rightarrow> persistence_target \<Rightarrow> submission_context \<Rightarrow> 'r body" where
  "command_spec kind rd view plan target ctx now d st =
     (case plan now st of
        Inl e \<Rightarrow> (Inl e, st)
      | Inr cvs \<Rightarrow> submit_spec kind rd view target ctx cvs now d st)"

text \<open>What a plan must bind: the identity of the submission, under distinct columns.\<close>

definition binds_identity :: "submission_context \<Rightarrow> (column \<times> sql_value) list \<Rightarrow> bool" where
  "binds_identity ctx cvs \<longleftrightarrow>
     distinct (map fst cvs) \<and>
     (C_id, SUuid (ctx_canonical_id ctx)) \<in> set cvs \<and>
     (C_idempotency_key, SText (ctx_idempotency_key ctx)) \<in> set cvs \<and>
     (C_payload_sha256, SText (ctx_payload_sha256 ctx)) \<in> set cvs"

lemma binds_identity_cols:
  assumes "binds_identity ctx cvs"
  shows "set_cols cvs r C_id = SUuid (ctx_canonical_id ctx)"
    and "set_cols cvs r C_idempotency_key = SText (ctx_idempotency_key ctx)"
    and "set_cols cvs r C_payload_sha256 = SText (ctx_payload_sha256 ctx)"
  using assms by (auto simp: binds_identity_def intro: set_cols_bound)

text \<open>The columns a replay reads beside the identity.\<close>

fun readable :: "stored_submission_kind \<Rightarrow> row \<Rightarrow> bool" where
  "readable PreInterest r = (\<exists>t. r C_created_at = STime t)"
| "readable Referral r = (\<exists>t. r C_created_at = STime t)"
| "readable Application r = (\<exists>t. r C_submitted_at = STime t)"
| "readable Upload r = ((\<exists>k. r (Up C_object_key) = SText k) \<and> (\<exists>t. r (Up C_expires_at) = STime t))"

text \<open>Reading a stored row back: the flag is the one given, the identifier is the row's, and it
  can only fail on a row that is not \<open>readable\<close>.\<close>

definition reads_identity ::
  "stored_submission_kind \<Rightarrow> (row \<Rightarrow> bool \<Rightarrow> data_error + 'r) \<Rightarrow> ('r \<Rightarrow> stored_submission) \<Rightarrow> bool" where
  "reads_identity kind rd view \<longleftrightarrow>
     (\<forall>r b x. rd r b = Inr x \<longrightarrow>
        ss_replayed (view x) = b \<and> r C_id = SUuid (ss_id (view x)) \<and> readable kind r) \<and>
     (\<forall>r b e. rd r b = Inl e \<longrightarrow> e = Decode \<and> \<not> (readable kind r \<and> (\<exists>i. r C_id = SUuid i)))"

lemma reads_identityD:
  "reads_identity kind rd view \<Longrightarrow> rd r b = Inr x \<Longrightarrow>
     ss_replayed (view x) = b \<and> r C_id = SUuid (ss_id (view x)) \<and> readable kind r"
  "reads_identity kind rd view \<Longrightarrow> rd r b = Inl e \<Longrightarrow>
     e = Decode \<and> \<not> (readable kind r \<and> (\<exists>i. r C_id = SUuid i))"
  by (auto simp: reads_identity_def)

section \<open>Insert or replay\<close>

lemma bindA_statement_body [simp]:
  "bindA (statement_body q now d) f st = (case q now d st of (a, st') \<Rightarrow> f a st')"
  by (simp add: bindA_def statement_body_def split: prod.splits)

definition insert_or_replay_body ::
  "submission_context \<Rightarrow> row option statement \<Rightarrow> row option statement \<Rightarrow> stored_submission body" where
  "insert_or_replay_body ctx insert_sql replay_sql now d =
     bindA (statement_body insert_sql now d) (\<lambda>inserted.
     case inserted of
       Some row \<Rightarrow> liftR (stored_from_row row False)
     | None \<Rightarrow>
         bindA (statement_body replay_sql now d) (\<lambda>found.
         bindA (liftR (ok_or found Invariant)) (\<lambda>replay.
         bindA (liftR (require_same_payload replay (ctx_payload_sha256 ctx))) (\<lambda>_.
         liftR (stored_from_row replay True)))))"

lemma simulates_insert_or_replay [simulation]:
  "simulates (insert_or_replay_body ctx ins rep) (insert_or_replay ctx ins rep)"
  unfolding insert_or_replay_body_def insert_or_replay_def
  by (intro simulation)

definition outbox_body ::
  "persistence_target \<Rightarrow> stored_submission_kind \<Rightarrow> stored_submission \<Rightarrow> submission_context
    \<Rightarrow> unit body" where
  "outbox_body target kind stored ctx now d =
     (if \<not> creates_outbox target \<or> ss_replayed stored then okA ()
      else statement_body (insert_row Hhm_submission_outbox outbox_columns
             (outbox_values kind stored ctx)) now d)"

lemma simulates_maybe_insert_outbox [simulation]:
  "simulates (outbox_body target kind stored ctx) (maybe_insert_outbox target kind stored ctx)"
  unfolding outbox_body_def maybe_insert_outbox_def
  by (intro simulation)

lemma outbox_body_eq:
  "outbox_body target kind stored ctx now d st = (Inr (), enqueue target kind stored ctx d st)"
  by (auto simp: outbox_body_def enqueue_def statement_body_def insert_row_def)

definition submission_reader :: "column \<Rightarrow> row \<Rightarrow> bool \<Rightarrow> data_error + stored_submission" where
  "submission_reader c r b = stored_from_row (as_accepted_at c r) b"

lemma as_accepted_at_simps [simp]:
  "as_accepted_at c r C_accepted_at = r c"
  "x \<noteq> C_accepted_at \<Longrightarrow> as_accepted_at c r x = r x"
  by (simp_all add: as_accepted_at_def)

lemma read_Inl_iff:
  "read_uuid r c = Inl e \<longleftrightarrow> e = Decode \<and> (\<nexists>u. r c = SUuid u)"
  "read_string r c = Inl e \<longleftrightarrow> e = Decode \<and> (\<nexists>t. r c = SText t)"
  "read_timestamp r c = Inl e \<longleftrightarrow> e = Decode \<and> (\<nexists>n. r c = STime n)"
  by (auto simp: read_uuid.simps read_string.simps read_timestamp.simps split: sql_value.splits)

lemma reads_submission:
  "reads_identity PreInterest (submission_reader C_created_at) (\<lambda>x. x)"
  "reads_identity Referral (submission_reader C_created_at) (\<lambda>x. x)"
  "reads_identity Application (submission_reader C_submitted_at) (\<lambda>x. x)"
  by (auto simp: reads_identity_def submission_reader_def stored_from_row_def bindR_def
      read_Inr_iff read_Inl_iff split: sum.splits)

definition upload_view :: "stored_upload \<Rightarrow> stored_submission" where
  "upload_view u =
     \<lparr>ss_id = su_id u, ss_accepted_at = su_expires_at u, ss_replayed = su_replayed u\<rparr>"

lemma reads_upload: "reads_identity Upload upload_from_row upload_view"
  by (auto simp: reads_identity_def upload_from_row_def upload_view_def bindR_def
      read_Inr_iff read_Inl_iff split: sum.splits)

lemma require_same_payload_as [simp]:
  "require_same_payload (as_accepted_at c r) p = require_same_payload r p"
  by (simp add: require_same_payload_def read_string.simps)

lemma list_ex_find: "list_ex P xs \<longleftrightarrow> List.find P xs \<noteq> None"
  by (auto simp: find_None_iff list_ex_iff)

text \<open>The transaction body of the three submission commands is the specification.\<close>

lemma submission_body_spec:
  assumes cvs: "binds_identity ctx (zip cols vals)"
  shows "atomically (bindA
      (insert_or_replay_body ctx
        (projecting (as_accepted_at c) (insert_or_nothing (table_name kind) cols vals))
        (projecting (as_accepted_at c)
          (select_one (table_name kind) (by_key (ctx_idempotency_key ctx)))) now d)
      (\<lambda>stored. bindA (outbox_body target kind stored ctx now d) (\<lambda>_. okA stored))) st
    = submit_spec kind (submission_reader c) (\<lambda>x. x) target ctx (zip cols vals) now d st"
proof -
  note defs = insert_or_replay_body_def projecting_def insert_or_nothing_def
    select_one_def submit_spec_def submission_reader_def Let_def
  let ?hit = "List.find (by_key (ctx_idempotency_key ctx) now) (st (table_name kind))"
  have key: "list_ex (\<lambda>r. sql_eq (r C_idempotency_key)
      (set_cols (zip cols vals) (d (table_name kind)) C_idempotency_key)) (st (table_name kind))
      \<longleftrightarrow> ?hit \<noteq> None"
    unfolding list_ex_find binds_identity_cols(2) [OF cvs] by (simp add: by_key_def [abs_def])
  show ?thesis
  proof (cases ?hit)
    case None
    with key show ?thesis
      by (cases "stored_from_row (as_accepted_at c (set_cols (zip cols vals) (d (table_name kind)))) False")
        (simp_all add: defs bindA_assoc outbox_body_eq bindA_def [of "outbox_body _ _ _ _ _ _"]
          atomically_def)
  next
    case (Some r)
    have replayed: "ss_replayed stored"
      if "stored_from_row (as_accepted_at c r) True = Inr stored" for stored
      using that by (auto simp: stored_from_row_def yields)
    from Some key replayed show ?thesis
      by (cases "require_same_payload r (ctx_payload_sha256 ctx)";
          cases "stored_from_row (as_accepted_at c r) True")
        (auto simp: defs bindA_assoc outbox_body_eq bindA_def [of "outbox_body _ _ _ _ _ _"]
          atomically_def enqueue_def)
  qed
qed

lemma bindA_assoc_fun: "bindA (bindA m f) g = bindA m (\<lambda>a. bindA (f a) g)"
  by (rule ext) (rule bindA_assoc)

lemma bindA_okA_fun: "bindA (okA a) f = f a"
  by (rule ext) simp

lemma bindA_liftR_fun: "bindA (liftR (Inl e)) f = failA e" "bindA (liftR (Inr a)) f = f a"
  by (rule ext, simp)+

lemmas sequencing = transaction_def bindA_assoc_fun bindA_okA_fun

lemma refines_eq:
  "refines sp m \<Longrightarrow> (\<And>now d st. sp now d st = sp' now d st) \<Longrightarrow> refines sp' m"
  by (subgoal_tac "sp = sp'") (simp, intro ext, simp)

section \<open>The storing commands implement their specification\<close>

definition plan_pre_interest ::
  "contract \<Rightarrow> pre_interest_create \<Rightarrow> persistence_target \<Rightarrow> submission_context
    \<Rightarrow> timestamp \<Rightarrow> store \<Rightarrow> data_error + (column \<times> sql_value) list" where
  "plan_pre_interest k input target ctx now st =
     bindR (map_err Validation (pre_interest_validate k input)) (\<lambda>_.
     Inr (zip pre_interest_columns (pre_interest_values target ctx input)))"

definition plan_upload ::
  "contract \<Rightarrow> (uuid \<Rightarrow> str) \<Rightarrow> (persistence_target \<Rightarrow> timestamp) \<Rightarrow> upload_intent_create
    \<Rightarrow> persistence_target \<Rightarrow> submission_context
    \<Rightarrow> timestamp \<Rightarrow> store \<Rightarrow> data_error + (column \<times> sql_value) list" where
  "plan_upload k uuid_display utc input target ctx now st =
     bindR (map_err Validation (upload_intent_validate k input)) (\<lambda>_.
     bindR (ok_or (upload_object_key uuid_display ctx input) Panicked) (\<lambda>object_key.
     bindR (ok_or (i64_of_u64 (ui_size_bytes input)) Invariant) (\<lambda>size_bytes.
     Inr (zip upload_columns (upload_values ctx input object_key size_bytes
            (utc target + hours UPLOAD_LIFETIME_HOURS))))))"

definition plan_application ::
  "contract \<Rightarrow> application_create \<Rightarrow> persistence_target \<Rightarrow> submission_context
    \<Rightarrow> timestamp \<Rightarrow> store \<Rightarrow> data_error + (column \<times> sql_value) list" where
  "plan_application k input target ctx now st =
     bindR (map_err Validation (application_validate k input)) (\<lambda>_.
     bindR (ok_or (i16_try_from (ap_preferred_room_occupancy input)) Invariant) (\<lambda>occupancy.
     bindR (ensure (length (filter (verified_upload_for ctx input now) (st Hhm_intake_uploads)) = 2)
       IntakeObjectUnavailable) (\<lambda>_.
     Inr (zip application_columns (application_values target ctx input occupancy)))))"

definition plan_referral ::
  "contract \<Rightarrow> referral_create \<Rightarrow> persistence_target \<Rightarrow> submission_context
    \<Rightarrow> timestamp \<Rightarrow> store \<Rightarrow> data_error + (column \<times> sql_value) list" where
  "plan_referral k input target ctx now st =
     bindR (map_err Validation (referral_validate k input)) (\<lambda>_.
     bindR (require_subject ctx) (\<lambda>subject.
     Inr (zip referral_columns (referral_values target ctx input subject))))"

lemmas column_defs =
  pre_interest_columns_def upload_columns_def application_columns_def referral_columns_def

lemmas value_defs =
  pre_interest_values_def upload_values_def application_values_def referral_values_def

lemma insert_binds_identity [simp]:
  "binds_identity ctx (zip pre_interest_columns (pre_interest_values target ctx input1))"
  "binds_identity ctx (zip upload_columns (upload_values ctx input2 key sz expires))"
  "binds_identity ctx (zip application_columns (application_values target ctx input3 occupancy))"
  "binds_identity ctx (zip referral_columns (referral_values target ctx input4 subject))"
  by (simp_all add: binds_identity_def column_defs value_defs)

lemma plans_bind_identity:
  "plan_pre_interest k input1 target ctx now st = Inr cvs \<Longrightarrow> binds_identity ctx cvs"
  "plan_upload k uuid_display utc input2 target ctx now st = Inr cvs \<Longrightarrow> binds_identity ctx cvs"
  "plan_application k input3 target ctx now st = Inr cvs \<Longrightarrow> binds_identity ctx cvs"
  "plan_referral k input4 target ctx now st = Inr cvs \<Longrightarrow> binds_identity ctx cvs"
  by (auto simp: plan_pre_interest_def plan_upload_def plan_application_def plan_referral_def
      yields)

lemma bind_lift_eq:
  "bindA (liftR r) f st = (case r of Inl e \<Rightarrow> (Inl e, st) | Inr a \<Rightarrow> f a st)"
  by (cases r) simp_all

lemma refines_if_ok:
  "(\<And>a. refines (sp a) (m a)) \<Longrightarrow>
   refines (\<lambda>now d st. case r of Inl e \<Rightarrow> (Inl e, st) | Inr a \<Rightarrow> sp a now d st) (bindA (liftR r) m)"
  by (rule refines_eq [OF refines_bind_lift]) (auto simp: bind_lift_eq)

lemmas submission_refines =
  refines_eq [OF refines_transaction [OF simulates_bindA [OF simulates_insert_or_replay
    simulates_bindA [OF simulates_maybe_insert_outbox simulates_okA]]] submission_body_spec]

lemma store_pre_interest_refines [refinement]:
  "refines (command_spec PreInterest (submission_reader C_created_at) (\<lambda>x. x)
      (plan_pre_interest k input target ctx) target ctx)
    (store_pre_interest k target ctx input)"
proof -
  note tx = submission_refines [where kind = PreInterest and cols = pre_interest_columns
      and vals = "pre_interest_values target ctx input" and ctx = ctx and target = target
      and c = C_created_at, simplified]
  show ?thesis
    unfolding store_pre_interest_def
    by (rule refines_eq [OF refines_if_ok [OF tx [unfolded sequencing]]])
      (simp add: command_spec_def plan_pre_interest_def bindR_def split: sum.splits)
qed

lemma store_referral_refines [refinement]:
  "refines (command_spec Referral (submission_reader C_created_at) (\<lambda>x. x)
      (plan_referral k input target ctx) target ctx)
    (store_referral k target ctx input)"
proof -
  have tx: "refines (submit_spec Referral (submission_reader C_created_at) (\<lambda>x. x) target ctx
      (zip referral_columns (referral_values target ctx input subject)))
    (transaction (bindA (insert_or_replay ctx
        (projecting (as_accepted_at C_created_at)
          (insert_or_nothing Hhm_referrals referral_columns
            (referral_values target ctx input subject)))
        (projecting (as_accepted_at C_created_at)
          (select_one Hhm_referrals (by_key (ctx_idempotency_key ctx)))))
      (\<lambda>stored. bindA (maybe_insert_outbox target Referral stored ctx) (\<lambda>_. okA stored))))"
    for subject
    using submission_refines [where kind = Referral and cols = referral_columns
      and vals = "referral_values target ctx input subject" and ctx = ctx and target = target
      and c = C_created_at] by simp
  show ?thesis
    unfolding store_referral_def
    by (rule refines_eq [OF refines_if_ok [OF refines_if_ok [OF tx [unfolded sequencing]]]])
      (simp add: command_spec_def plan_referral_def bindR_def split: sum.splits)
qed

text \<open>A check inside the transaction that reads the tables and changes nothing.\<close>

definition check_body :: "(timestamp \<Rightarrow> store \<Rightarrow> data_error + unit) \<Rightarrow> unit body" where
  "check_body g now d st = (g now st, st)"

lemma atomically_check:
  "atomically (bindA (check_body g now d) f) st =
     (case g now st of Inl e \<Rightarrow> (Inl e, st) | Inr u \<Rightarrow> atomically (f u) st)"
  by (simp add: atomically_def bindA_def check_body_def split: sum.splits)

lemma simulates_eq:
  "simulates sp m \<Longrightarrow> (\<And>now d st. sp now d st = sp' now d st) \<Longrightarrow> simulates sp' m"
  by (subgoal_tac "sp = sp'") (simp, intro ext, simp)

definition uploads_verified ::
  "submission_context \<Rightarrow> application_create \<Rightarrow> timestamp \<Rightarrow> store \<Rightarrow> data_error + unit" where
  "uploads_verified ctx input now st =
     ensure (length (filter (verified_upload_for ctx input now) (st Hhm_intake_uploads)) = 2)
       IntakeObjectUnavailable"

lemma simulates_require_verified_uploads [simulation]:
  "simulates (check_body (uploads_verified ctx input)) (require_verified_uploads ctx input)"
  unfolding require_verified_uploads_def
  by (rule simulates_eq, (rule simulation)+)
    (simp add: check_body_def uploads_verified_def select_count_def read_bigint.simps)

lemma atomically_bind_body:
  "atomically (bindA (liftR r) f) st =
     (case r of Inl e \<Rightarrow> (Inl e, st) | Inr a \<Rightarrow> atomically (f a) st)"
  by (cases r) (simp_all add: atomically_def)

lemma store_application_refines [refinement]:
  "refines (command_spec Application (submission_reader C_submitted_at) (\<lambda>x. x)
      (plan_application k input target ctx) target ctx)
    (store_application k target ctx input)"
proof -
  have tx: "refines (\<lambda>now d st. case uploads_verified ctx input now st of
        Inl e \<Rightarrow> (Inl e, st)
      | Inr _ \<Rightarrow> submit_spec Application (submission_reader C_submitted_at) (\<lambda>x. x) target ctx
          (zip application_columns (application_values target ctx input occupancy)) now d st)
    (transaction (bindA (require_verified_uploads ctx input) (\<lambda>_.
      bindA (insert_or_replay ctx
        (projecting (as_accepted_at C_submitted_at)
          (insert_or_nothing Hhm_applications application_columns
            (application_values target ctx input occupancy)))
        (projecting (as_accepted_at C_submitted_at)
          (select_one Hhm_applications (by_key (ctx_idempotency_key ctx)))))
      (\<lambda>stored. bindA (maybe_insert_outbox target Application stored ctx) (\<lambda>_. okA stored)))))"
    for occupancy
    by (rule refines_eq [OF refines_transaction], (rule simulation)+)
      (simp add: atomically_check submission_body_spec [where kind = Application, simplified]
        split: sum.splits)
  show ?thesis
    unfolding store_application_def
    by (rule refines_eq [OF refines_if_ok [OF refines_if_ok [OF tx [unfolded sequencing]]]])
      (simp add: command_spec_def plan_application_def uploads_verified_def bindR_def
        split: sum.splits)
qed

definition upload_body :: "persistence_target \<Rightarrow> submission_context \<Rightarrow> sql_value list \<Rightarrow> stored_upload db" where
  "upload_body target ctx vals =
     bindA (in_tx (insert_or_nothing Hhm_intake_uploads upload_columns vals)) (\<lambda>inserted.
     bindA (case inserted of
         Some row \<Rightarrow> liftR (upload_from_row row False)
       | None \<Rightarrow>
           bindA (in_tx (select_one Hhm_intake_uploads (by_key (ctx_idempotency_key ctx)))) (\<lambda>found.
           bindA (liftR (ok_or found Invariant)) (\<lambda>row.
           bindA (liftR (require_same_payload row (ctx_payload_sha256 ctx))) (\<lambda>_.
           liftR (upload_from_row row True))))) (\<lambda>upload.
     bindA (maybe_insert_outbox target Upload (upload_view upload) ctx) (\<lambda>_.
     okA upload)))"

lemma upload_body_refines:
  assumes cvs: "binds_identity ctx (zip upload_columns vals)"
  shows "refines (submit_spec Upload upload_from_row upload_view target ctx
      (zip upload_columns vals)) (transaction (upload_body target ctx vals))"
  unfolding upload_body_def
proof (rule refines_eq [OF refines_transaction], (rule simulation)+)
  fix now d st
  let ?hit = "List.find (by_key (ctx_idempotency_key ctx) now) (st Hhm_intake_uploads)"
  have key: "list_ex (\<lambda>r. sql_eq (r C_idempotency_key)
      (set_cols (zip upload_columns vals) (d Hhm_intake_uploads) C_idempotency_key))
        (st Hhm_intake_uploads) \<longleftrightarrow> ?hit \<noteq> None"
    unfolding list_ex_find binds_identity_cols(2) [OF cvs] by (simp add: by_key_def [abs_def])
  have replayed: "ss_replayed (upload_view u)" if "upload_from_row r True = Inr u" for r u
    using that by (auto simp: upload_from_row_def upload_view_def yields)
  note defs = insert_or_nothing_def select_one_def submit_spec_def Let_def bindA_assoc
    bindA_def [of "outbox_body _ _ _ _ _ _"] outbox_body_eq atomically_def enqueue_def
  show "atomically (bindA (statement_body (insert_or_nothing Hhm_intake_uploads upload_columns vals) now d)
     (\<lambda>inserted. bindA (case inserted of
         None \<Rightarrow> bindA (statement_body (select_one Hhm_intake_uploads
              (by_key (ctx_idempotency_key ctx))) now d) (\<lambda>found.
           bindA (liftR (ok_or found Invariant)) (\<lambda>row.
           bindA (liftR (require_same_payload row (ctx_payload_sha256 ctx))) (\<lambda>_.
           liftR (upload_from_row row True))))
       | Some row \<Rightarrow> liftR (upload_from_row row False)) (\<lambda>upload.
     bindA (outbox_body target Upload (upload_view upload) ctx now d) (\<lambda>_. okA upload)))) st =
    submit_spec Upload upload_from_row upload_view target ctx (zip upload_columns vals) now d st"
  proof (cases ?hit)
    case None
    with key show ?thesis
      by (cases "upload_from_row (set_cols (zip upload_columns vals) (d Hhm_intake_uploads)) False")
        (simp_all add: defs)
  next
    case (Some r)
    with key replayed show ?thesis
      by (cases "require_same_payload r (ctx_payload_sha256 ctx)"; cases "upload_from_row r True")
        (auto simp: defs)
  qed
qed

lemma store_upload_intent_refines [refinement]:
  "refines (command_spec Upload upload_from_row upload_view
      (plan_upload k uuid_display utc input target ctx) target ctx)
    (store_upload_intent k uuid_display (utc target) target ctx input)"
proof -
  have begin_check: "refines (\<lambda>now d st. case r of Inl e \<Rightarrow> (Inl e, st) | Inr a \<Rightarrow> sp a now d st)
      (bindA begin_tx (\<lambda>_. bindA (liftR r) m))"
    if "\<And>a. refines (sp a) (bindA begin_tx (\<lambda>_. m a))"
    for r :: "data_error + 'z" and sp :: "'z \<Rightarrow> stored_upload body" and m
  proof (cases r)
    case (Inl e)
    have "refines (\<lambda>now d. atomically (liftR r))
        (transaction (liftR r :: stored_upload db))" for r
      by (intro refinement simulation)
    from this [of "Inl e"] show ?thesis
      by (simp add: Inl transaction_def bindA_liftR_fun refines_def atomically_def)
  next
    case (Inr a)
    with that [of a] show ?thesis by (simp add: bindA_liftR_fun)
  qed
  note tx = upload_body_refines [OF insert_binds_identity(2), unfolded upload_body_def
      upload_view_def sequencing, folded upload_view_def [abs_def]]
  show ?thesis
    unfolding store_upload_intent_def
    by (rule refines_eq [OF refines_if_ok [OF begin_check [OF begin_check [OF tx]]]])
      (simp add: command_spec_def plan_upload_def uploads_verified_def bindR_def
        split: sum.splits)
qed

section \<open>Updates of existing rows\<close>

text \<open>\<open>UPDATE\<close> as a function on one table, and the number of rows it touches.\<close>

definition update_table :: "table \<Rightarrow> (row \<Rightarrow> bool) \<Rightarrow> (row \<Rightarrow> row) \<Rightarrow> store \<Rightarrow> store" where
  "update_table t p f st = st(t := map (\<lambda>r. if p r then f r else r) (st t))"

definition matching :: "table \<Rightarrow> (row \<Rightarrow> bool) \<Rightarrow> store \<Rightarrow> nat" where
  "matching t p st = length (filter p (st t))"

lemma update_where_eq:
  "update_where t p f now d st = (matching t (p now) st, update_table t (p now) (f now) st)"
  by (simp add: update_where_def update_table_def matching_def)

lemma matching_other [simp]: "t' \<noteq> t \<Longrightarrow> matching t' q (update_table t p f st) = matching t' q st"
  by (simp add: matching_def update_table_def)

lemma update_table_other [simp]: "t' \<noteq> t \<Longrightarrow> update_table t p f st t' = st t'"
  by (simp add: update_table_def)

lemma update_table_none: "matching t p st = 0 \<Longrightarrow> update_table t p f st = st"
  by (auto simp: matching_def update_table_def filter_empty_conv fun_eq_iff
      intro!: map_idI)

lemma table_name_not_outbox [simp]:
  "table_name kind \<noteq> Hhm_submission_outbox" "Hhm_submission_outbox \<noteq> table_name kind"
  by (cases kind; simp)+

lemma table_name_inj [simp]: "table_name a = table_name b \<longleftrightarrow> a = b"
  by (cases a; cases b) simp_all

text \<open>
  Marking and recording share one shape: update the submission's own row (uploads have no
  mirror column), then the outbox entry, and refuse both unless each matched exactly one row.
\<close>

definition two_updates ::
  "stored_submission_kind \<Rightarrow> (row \<Rightarrow> bool) \<Rightarrow> (row \<Rightarrow> row) \<Rightarrow> (row \<Rightarrow> bool) \<Rightarrow> (row \<Rightarrow> row)
    \<Rightarrow> (store, data_error, unit) action" where
  "two_updates kind p f q g st =
     (if (kind = Upload \<or> matching (table_name kind) p st = 1) \<and>
         matching Hhm_submission_outbox q st = 1
      then (Inr (), update_table Hhm_submission_outbox q g
              (if kind = Upload then st else update_table (table_name kind) p f st))
      else (Inl Invariant, st))"

definition two_updates_db ::
  "stored_submission_kind \<Rightarrow> (timestamp \<Rightarrow> row \<Rightarrow> bool) \<Rightarrow> (timestamp \<Rightarrow> row \<Rightarrow> row)
    \<Rightarrow> (timestamp \<Rightarrow> row \<Rightarrow> bool) \<Rightarrow> (timestamp \<Rightarrow> row \<Rightarrow> row) \<Rightarrow> unit db" where
  "two_updates_db kind p f q g =
     bindA (if kind \<noteq> Upload
       then bindA (in_tx (update_where (table_name kind) p f)) (\<lambda>rows_affected.
            liftR (ensure (rows_affected = 1) Invariant))
       else okA ()) (\<lambda>_.
     bindA (in_tx (update_where Hhm_submission_outbox q g)) (\<lambda>rows_affected.
     bindA (liftR (ensure (rows_affected = 1) Invariant)) (\<lambda>_. okA ())))"

lemma two_updates_refines:
  "refines (\<lambda>now d. two_updates kind (p now) (f now) (q now) (g now))
    (transaction (two_updates_db kind p f q g))"
  unfolding two_updates_db_def
proof (rule refines_eq [OF refines_transaction], (rule simulation)+)
  fix now d st
  show "atomically (bindA (if kind \<noteq> Upload
       then bindA (statement_body (update_where (table_name kind) p f) now d) (\<lambda>n.
            liftR (ensure (n = 1) Invariant))
       else okA ()) (\<lambda>_.
     bindA (statement_body (update_where Hhm_submission_outbox q g) now d) (\<lambda>n.
     bindA (liftR (ensure (n = 1) Invariant)) (\<lambda>_. okA ())))) st
    = two_updates kind (p now) (f now) (q now) (g now) st"
    by (cases "kind = Upload"; cases "matching (table_name kind) (p now) st = 1";
        cases "matching Hhm_submission_outbox (q now) st = 1")
      (simp_all add: two_updates_def update_where_eq bindA_assoc atomically_def)
qed

definition mark_mirrored_spec :: "stored_submission_kind \<Rightarrow> uuid \<Rightarrow> str \<Rightarrow> unit body" where
  "mark_mirrored_spec kind i payload now d =
     two_updates kind
       (\<lambda>r. submission_row i now r \<and> sql_eq (r C_payload_sha256) (SText payload))
       (\<lambda>r. r(C_mirror_status := SText (lit ''mirrored'')))
       (\<lambda>r. outbox_entry kind i now r \<and> sql_eq (r C_payload_sha256) (SText payload))
       (\<lambda>r. r(C_mirror_status := SText (lit ''mirrored''), Ob C_last_error_code := SNull))"

lemma mark_mirrored_refines [refinement]:
  "refines (mark_mirrored_spec kind i payload) (mark_mirrored kind i payload)"
  using two_updates_refines [of kind
      "\<lambda>now r. submission_row i now r \<and> sql_eq (r C_payload_sha256) (SText payload)"
      "\<lambda>now r. r(C_mirror_status := SText (lit ''mirrored''))"
      "\<lambda>now r. outbox_entry kind i now r \<and> sql_eq (r C_payload_sha256) (SText payload)"
      "\<lambda>now r. r(C_mirror_status := SText (lit ''mirrored''), Ob C_last_error_code := SNull)"]
  by (simp add: mark_mirrored_def two_updates_db_def mark_mirrored_spec_def [abs_def] sequencing)

definition record_failure_spec :: "stored_submission_kind \<Rightarrow> uuid \<Rightarrow> str \<Rightarrow> unit body" where
  "record_failure_spec kind i code now d st =
     (if valid_error_code code
      then two_updates kind (submission_row i now)
        (\<lambda>r. r(C_mirror_status := SText (lit ''retryable_failure'')))
        (\<lambda>r. outbox_entry kind i now r \<and> attempts_below (r (Ob C_attempts)) 100)
        (record_attempt code now) st
      else (Inl (InvalidContext ''mirror_error_code''), st))"

lemma record_mirror_failure_refines [refinement]:
  "refines (record_failure_spec kind i code) (record_mirror_failure kind i code)"
proof -
  have tx: "refines (\<lambda>now d. two_updates kind (submission_row i now)
        (\<lambda>r. r(C_mirror_status := SText (lit ''retryable_failure'')))
        (\<lambda>r. outbox_entry kind i now r \<and> attempts_below (r (Ob C_attempts)) 100)
        (record_attempt code now))
    (transaction (two_updates_db kind (submission_row i)
        (\<lambda>now r. r(C_mirror_status := SText (lit ''retryable_failure'')))
        (\<lambda>now r. outbox_entry kind i now r \<and> attempts_below (r (Ob C_attempts)) 100)
        (record_attempt code)))"
    by (rule two_updates_refines)
  show ?thesis
    unfolding record_mirror_failure_def
    by (rule refines_eq [OF refines_if_ok [OF tx [unfolded two_updates_db_def sequencing]]])
      (simp add: record_failure_spec_def)
qed

definition upload_match :: "uuid \<Rightarrow> verified_subject option \<Rightarrow> str \<Rightarrow> timestamp \<Rightarrow> row \<Rightarrow> bool" where
  "upload_match i subject sha now r \<longleftrightarrow>
     owned_open_upload i subject now r \<and> sql_eq (r (Up C_content_sha256)) (SText sha)"

definition verify_upload_spec :: "uuid \<Rightarrow> verified_subject option \<Rightarrow> str \<Rightarrow> unit body" where
  "verify_upload_spec i subject sha now d st =
     (if valid_digest sha
      then (ensure (matching Hhm_intake_uploads (upload_match i subject sha now) st = 1)
              IntakeObjectUnavailable,
            update_table Hhm_intake_uploads (upload_match i subject sha now)
              (mark_verified now) st)
      else (Inl (InvalidContext ''observed_sha256''), st))"

lemma verify_upload_refines [refinement]:
  "refines (verify_upload_spec i subject sha) (verify_upload i subject sha)"
proof -
  have check: "refines (\<lambda>now d. bindA (statement_body q now d) (\<lambda>n. liftR (ensure (n = 1) e)))
      (bindA (autocommit q) (\<lambda>n. liftR (ensure (n = 1) e)))" for q and e
    by (intro refinement)
  show ?thesis
    unfolding verify_upload_def
    by (rule refines_eq [OF refines_if_ok [OF check]])
      (simp add: verify_upload_spec_def update_where_eq upload_match_def [abs_def])
qed

definition pending_upload_spec :: "uuid \<Rightarrow> verified_subject option \<Rightarrow> pending_upload body" where
  "pending_upload_spec i subject now d st =
     (pending_from_row (List.find (owned_open_upload i subject now) (st Hhm_intake_uploads)), st)"

lemma pending_upload_refines [refinement]:
  "refines (pending_upload_spec i subject) (pending_upload i subject)"
  unfolding pending_upload_def
  by (rule refines_eq [OF refines_bind_check [OF refines_autocommit]])
    (simp add: pending_upload_spec_def select_one_def)

lemma ping_refines [refinement]: "refines (\<lambda>now d. okA ()) ping"
  unfolding ping_def
  by (rule refines_eq [OF refines_autocommit]) (simp add: statement_body_def)

interpretation marking: atomic_command "mark_mirrored kind i payload"
    "mark_mirrored_spec kind i payload" for kind i payload
  by unfold_locales (rule mark_mirrored_refines)

interpretation recording: atomic_command "record_mirror_failure kind i code"
    "record_failure_spec kind i code" for kind i code
  by unfold_locales (rule record_mirror_failure_refines)

interpretation verifying: atomic_command "verify_upload i subject sha"
    "verify_upload_spec i subject sha" for i subject sha
  by unfold_locales (rule verify_upload_refines)

interpretation pending: atomic_command "pending_upload i subject"
    "pending_upload_spec i subject" for i subject
  by unfold_locales (rule pending_upload_refines)

interpretation pinging: atomic_command ping "\<lambda>now d. okA ()"
  by unfold_locales (rule ping_refines)

end
