(* ===== verification/Invariants.thy ===== *)
theory Invariants imports Commands begin

text \<open>
  The invariants of one database and of the pair, and the contract \<open>intake_command\<close> of the
  four storing commands.

  \<^item> \<open>wf_rows\<close>: every submission row carries an identifier, an idempotency key and a digest.
  \<^item> \<open>rows_readable\<close>: what a replay reads from a row can be read.
  \<^item> \<open>keys_unique\<close>, \<open>ids_unique\<close>: no table holds two rows with one key, or one identifier.
  \<^item> \<open>outbox_in_step\<close>: for every kind, the outbox entries of that kind are, in order, the rows
    of its table: same identifiers, same digests. So no row lacks its entry and no entry lacks
    its row.
  \<^item> \<open>attempts_sound\<close>: attempts stay between 0 and 100, and only an entry at 100 is terminal.
  \<^item> \<open>mirror_within\<close>: every mirror row has the identity of a primary row.
\<close>

section \<open>Identity of rows\<close>

definition identity :: "row \<Rightarrow> sql_value \<times> sql_value \<times> sql_value" where
  "identity r = (r C_id, r C_idempotency_key, r C_payload_sha256)"

definition is_submission :: "uuid \<Rightarrow> str \<Rightarrow> str \<Rightarrow> row \<Rightarrow> bool" where
  "is_submission i key digest r \<longleftrightarrow> identity r = (SUuid i, SText key, SText digest)"

definition holds :: "stored_submission_kind \<Rightarrow> uuid \<Rightarrow> str \<Rightarrow> str \<Rightarrow> store \<Rightarrow> bool" where
  "holds kind i key digest st \<longleftrightarrow> (\<exists>r \<in> set (st (table_name kind)). is_submission i key digest r)"

lemma is_submissionD:
  "is_submission i key digest r \<Longrightarrow>
     r C_id = SUuid i \<and> r C_idempotency_key = SText key \<and> r C_payload_sha256 = SText digest"
  by (simp add: is_submission_def identity_def)

text \<open>\<open>holds\<close> depends on the identities only.\<close>

lemma holds_identities:
  "holds kind i key digest st \<longleftrightarrow>
     (SUuid i, SText key, SText digest) \<in> identity ` set (st (table_name kind))"
  by (force simp: holds_def is_submission_def)

definition identities :: "stored_submission_kind \<Rightarrow> store \<Rightarrow> (sql_value \<times> sql_value \<times> sql_value) list" where
  "identities kind st = map identity (st (table_name kind))"

lemma holds_identities_list:
  "holds kind i key digest st \<longleftrightarrow> (SUuid i, SText key, SText digest) \<in> set (identities kind st)"
  by (simp add: holds_identities identities_def)

section \<open>Invariants of one database\<close>

definition wf_rows :: "store \<Rightarrow> bool" where
  "wf_rows st \<longleftrightarrow> (\<forall>kind. \<forall>v \<in> set (identities kind st).
     \<exists>i key digest. v = (SUuid i, SText key, SText digest))"

definition keys_unique :: "store \<Rightarrow> bool" where
  "keys_unique st \<longleftrightarrow> (\<forall>kind. distinct (map (fst \<circ> snd) (identities kind st)))"

definition ids_unique :: "store \<Rightarrow> bool" where
  "ids_unique st \<longleftrightarrow> (\<forall>kind. distinct (map fst (identities kind st)))"

definition entries :: "stored_submission_kind \<Rightarrow> store \<Rightarrow> (sql_value \<times> sql_value) list" where
  "entries kind st = map (\<lambda>e. (e (Ob C_submission_id), e C_payload_sha256))
     (filter (\<lambda>e. e (Ob C_submission_kind) = SText (database_value kind))
       (st Hhm_submission_outbox))"

definition outbox_in_step :: "store \<Rightarrow> bool" where
  "outbox_in_step st \<longleftrightarrow>
     (\<forall>kind. entries kind st = map (\<lambda>(i, key, digest). (i, digest)) (identities kind st))"

definition attempts_ok :: "row \<Rightarrow> bool" where
  "attempts_ok e \<longleftrightarrow> (\<exists>a. e (Ob C_attempts) = SInt a \<and> 0 \<le> a \<and> a \<le> 100 \<and>
     (e C_mirror_status = SText (lit ''terminal_failure'') \<longrightarrow> a = 100))"

definition attempts_sound :: "store \<Rightarrow> bool" where
  "attempts_sound st \<longleftrightarrow> (\<forall>e \<in> set (st Hhm_submission_outbox). attempts_ok e)"

definition rows_readable :: "store \<Rightarrow> bool" where
  "rows_readable st \<longleftrightarrow> (\<forall>kind. \<forall>r \<in> set (st (table_name kind)). readable kind r)"

definition store_ok :: "store \<Rightarrow> bool" where
  "store_ok st \<longleftrightarrow> wf_rows st \<and> keys_unique st \<and> rows_readable st"

definition primary_ok :: "store \<Rightarrow> bool" where
  "primary_ok st \<longleftrightarrow> store_ok st \<and> ids_unique st \<and> outbox_in_step st \<and> attempts_sound st"

text \<open>What the schema must fill in for an outbox entry: a fresh entry has no failed attempt.\<close>

definition good_defaults :: "(table \<Rightarrow> row) \<Rightarrow> bool" where
  "good_defaults d \<longleftrightarrow>
     d Hhm_submission_outbox (Ob C_attempts) = SInt 0 \<and>
     d Hhm_submission_outbox C_mirror_status \<noteq> SText (lit ''terminal_failure'')"

section \<open>Invariants of the pair\<close>

definition mirror_within :: "store \<Rightarrow> store \<Rightarrow> bool" where
  "mirror_within p m \<longleftrightarrow> (\<forall>kind. set (identities kind m) \<subseteq> set (identities kind p))"

definition consistent :: "store \<Rightarrow> store \<Rightarrow> bool" where
  "consistent p m \<longleftrightarrow> primary_ok p \<and> store_ok m \<and> mirror_within p m"

section \<open>Updates keep identities\<close>

definition keeps_identity :: "(row \<Rightarrow> row) \<Rightarrow> bool" where
  "keeps_identity f \<longleftrightarrow>
     (\<forall>r. identity (f r) = identity r \<and> (\<forall>kind. readable kind r \<longrightarrow> readable kind (f r)))"

lemma identities_update_table:
  assumes "keeps_identity f"
  shows "identities kind (update_table t p f st) = identities kind st"
proof (cases "t = table_name kind")
  case True
  with assms show ?thesis
    by (auto simp: identities_def update_table_def keeps_identity_def)
next
  case False
  then show ?thesis by (simp add: identities_def)
qed

lemma identities_update_outbox [simp]:
  "identities kind (update_table Hhm_submission_outbox p f st) = identities kind st"
  by (simp add: identities_def)

lemma identities_append_outbox [simp]:
  "identities kind (st(Hhm_submission_outbox := os)) = identities kind st"
  by (simp add: identities_def)

lemma identities_append:
  "identities kind (st(table_name k := st (table_name k) @ [r])) =
     identities kind st @ (if k = kind then [identity r] else [])"
  by (simp add: identities_def)

lemma entries_other_table [simp]:
  "entries kind (st(table_name k := rs)) = entries kind st"
  "t \<noteq> Hhm_submission_outbox \<Longrightarrow> entries kind (update_table t p f st) = entries kind st"
  by (simp_all add: entries_def)

lemma entries_update_outbox:
  assumes "\<And>r. f r (Ob C_submission_kind) = r (Ob C_submission_kind)"
    and "\<And>r. f r (Ob C_submission_id) = r (Ob C_submission_id)"
    and "\<And>r. f r C_payload_sha256 = r C_payload_sha256"
  shows "entries kind (update_table Hhm_submission_outbox p f st) = entries kind st"
proof -
  have "map (\<lambda>e. (e (Ob C_submission_id), e C_payload_sha256))
          (filter (\<lambda>e. e (Ob C_submission_kind) = k) (map (\<lambda>r. if p r then f r else r) os)) =
        map (\<lambda>e. (e (Ob C_submission_id), e C_payload_sha256))
          (filter (\<lambda>e. e (Ob C_submission_kind) = k) os)" for os k
    by (induction os) (auto simp: assms)
  then show ?thesis by (simp add: entries_def update_table_def)
qed

lemma identities_determine:
  assumes "\<And>kind. identities kind st' = identities kind st"
  shows "wf_rows st' = wf_rows st" "keys_unique st' = keys_unique st"
    "ids_unique st' = ids_unique st"
    "holds kind i key digest st' = holds kind i key digest st"
    "mirror_within p st' = mirror_within p st" "mirror_within st' m = mirror_within st m"
  by (simp_all add: wf_rows_def keys_unique_def ids_unique_def assms
      holds_identities_list mirror_within_def)

section \<open>Looking a key up\<close>

lemma find_key_None:
  assumes "wf_rows st" and "List.find (by_key key now) (st (table_name kind)) = None"
  shows "\<nexists>i digest. holds kind i key digest st"
  using assms by (auto simp: find_None_iff by_key_def sql_eq_def holds_def dest!: is_submissionD)

lemma find_key_Some:
  assumes "wf_rows st" and "List.find (by_key key now) (st (table_name kind)) = Some r"
  obtains i digest where "r \<in> set (st (table_name kind))" "is_submission i key digest r"
proof -
  from find_SomeD [OF assms(2)] have r: "r \<in> set (st (table_name kind))" "by_key key now r"
    by auto
  then have "identity r \<in> set (identities kind st)" by (simp add: identities_def)
  with assms(1) obtain i k digest where "identity r = (SUuid i, SText k, SText digest)"
    unfolding wf_rows_def by metis
  with r have "is_submission i key digest r"
    by (simp add: is_submission_def by_key_def sql_eq_def identity_def)
  with r that show ?thesis by blast
qed

text \<open>One key, one submission.\<close>

lemma is_submission_id: "is_submission i key digest r \<Longrightarrow> r C_id = SUuid j \<Longrightarrow> j = i"
  by (simp add: is_submission_def identity_def)

lemma map_inj_on_distinct:
  "distinct (map f xs) \<Longrightarrow> x \<in> set xs \<Longrightarrow> y \<in> set xs \<Longrightarrow> f x = f y \<Longrightarrow> x = y"
  by (auto simp: distinct_map dest: inj_onD)

lemma key_determines:
  assumes "keys_unique st" and "holds kind i key digest st" and "holds kind j key digest' st"
  shows "i = j \<and> digest = digest'"
  using map_inj_on_distinct [of "fst \<circ> snd" "identities kind st"] assms
  by (fastforce simp: keys_unique_def holds_identities_list)

lemma id_determines:
  assumes "ids_unique st" and "holds kind i key digest st" and "holds kind i key' digest' st"
  shows "key = key' \<and> digest = digest'"
  using map_inj_on_distinct [of fst "identities kind st"] assms
  by (fastforce simp: ids_unique_def holds_identities_list)

lemma mirror_ids_unique:
  assumes "consistent p m"
  shows "ids_unique m"
  unfolding ids_unique_def
proof
  fix kind
  from assms have keys: "distinct (map (fst \<circ> snd) (identities kind m))"
    and ids: "distinct (map fst (identities kind p))"
    and sub: "set (identities kind m) \<subseteq> set (identities kind p)"
    by (simp_all add: consistent_def store_ok_def primary_ok_def keys_unique_def ids_unique_def
        mirror_within_def)
  from keys have "distinct (identities kind m)" by (simp add: distinct_map)
  moreover have "inj_on fst (set (identities kind m))"
    using ids sub by (auto simp: distinct_map intro: inj_on_subset)
  ultimately show "distinct (map fst (identities kind m))" by (simp add: distinct_map)
qed

section \<open>Storing keeps the invariants\<close>

text \<open>A storing command leaves the store alone or appends one row and its outbox entry.\<close>

definition appended ::
  "stored_submission_kind \<Rightarrow> persistence_target \<Rightarrow> submission_context \<Rightarrow> (table \<Rightarrow> row)
    \<Rightarrow> store \<Rightarrow> store \<Rightarrow> bool" where
  "appended kind target ctx d st st' \<longleftrightarrow>
     (\<nexists>i digest. holds kind i (ctx_idempotency_key ctx) digest st) \<and>
     (\<forall>k. identities k st' = identities k st @
        (if k = kind then [(SUuid (ctx_canonical_id ctx), SText (ctx_idempotency_key ctx),
           SText (ctx_payload_sha256 ctx))] else [])) \<and>
     (\<forall>k. entries k st' = entries k st @
        (if k = kind \<and> creates_outbox target
         then [(SUuid (ctx_canonical_id ctx), SText (ctx_payload_sha256 ctx))] else [])) \<and>
     (\<forall>k. \<forall>r \<in> set (st' (table_name k)). r \<in> set (st (table_name k)) \<or> readable k r) \<and>
     (\<forall>e \<in> set (st' Hhm_submission_outbox).
        e \<in> set (st Hhm_submission_outbox) \<or>
        e (Ob C_attempts) = d Hhm_submission_outbox (Ob C_attempts) \<and>
        e C_mirror_status = d Hhm_submission_outbox C_mirror_status)"

lemma outbox_row_cols:
  "set_cols (zip outbox_columns (outbox_values kind stored ctx)) r (Ob C_submission_kind)
     = SText (database_value kind)"
  "set_cols (zip outbox_columns (outbox_values kind stored ctx)) r (Ob C_submission_id)
     = SUuid (ss_id stored)"
  "set_cols (zip outbox_columns (outbox_values kind stored ctx)) r C_payload_sha256
     = SText (ctx_payload_sha256 ctx)"
  "set_cols (zip outbox_columns (outbox_values kind stored ctx)) r (Ob C_attempts)
     = r (Ob C_attempts)"
  "set_cols (zip outbox_columns (outbox_values kind stored ctx)) r C_mirror_status
     = r C_mirror_status"
  by (simp_all add: outbox_columns_def outbox_values_def)

lemma submit_spec_cases:
  assumes run: "submit_spec kind rd view target ctx cvs now d st = (r, st')"
    and wf: "wf_rows st" and binds: "binds_identity ctx cvs" and reads: "reads_identity kind rd view"
  obtains
    (hit) row i digest where "row \<in> set (st (table_name kind))"
      "is_submission i (ctx_idempotency_key ctx) digest row" "st' = st"
      "r = (if digest = ctx_payload_sha256 ctx then rd row True else Inl IdempotencyConflict)"
  | (new) x where "r = Inr x" "rd (set_cols cvs (d (table_name kind))) False = Inr x"
      "\<not> ss_replayed (view x)" "ss_id (view x) = ctx_canonical_id ctx"
      "appended kind target ctx d st st'"
  | (unreadable) "r = Inl Decode" "st' = st"
proof -
  let ?key = "ctx_idempotency_key ctx" and ?digest = "ctx_payload_sha256 ctx"
  let ?t = "table_name kind"
  let ?new = "set_cols cvs (d ?t)"
  note cols = binds_identity_cols [OF binds]
  show ?thesis
  proof (cases "List.find (by_key ?key now) (st ?t)")
    case (Some row)
    then obtain i digest where row: "row \<in> set (st ?t)" "is_submission i ?key digest row"
      using find_key_Some [OF wf] by blast
    from run Some is_submissionD [OF row(2)] have "st' = st"
      "r = (if digest = ?digest then rd row True else Inl IdempotencyConflict)"
      by (auto simp: submit_spec_def require_same_payload_def read_string.simps)
    with row show ?thesis by (rule hit)
  next
    case None
    show ?thesis
    proof (cases "rd ?new False")
      case (Inl e)
      with run None reads_identityD(2) [OF reads Inl] cols show ?thesis
        by (auto simp: submit_spec_def intro: unreadable)
    next
      case (Inr x)
      with reads_identityD(1) [OF reads Inr] cols
      have x: "\<not> ss_replayed (view x)" "ss_id (view x) = ctx_canonical_id ctx" by simp_all
      from run None Inr have r: "r = Inr x"
        and st': "st' = enqueue target kind (view x) ctx d (st(?t := st ?t @ [?new]))"
        by (simp_all add: submit_spec_def)
      have ids: "identities k st' = identities k st @
          (if k = kind then [(SUuid (ctx_canonical_id ctx), SText ?key, SText ?digest)] else [])" for k
        unfolding st' by (auto simp: enqueue_def identities_append identity_def cols)
      have ents: "entries k st' = entries k st @ (if k = kind \<and> creates_outbox target
          then [(SUuid (ctx_canonical_id ctx), SText ?digest)] else [])" for k
        unfolding st' using x
        by (auto simp: enqueue_def entries_def outbox_row_cols kinds.enc_eq_iff)
      have rows: "r \<in> set (st (table_name k)) \<or> readable k r"
        if "r \<in> set (st' (table_name k))" for k r
        using that reads_identityD(1) [OF reads Inr] unfolding st'
        by (auto simp: enqueue_def split: if_splits)
      have "appended kind target ctx d st st'"
        unfolding appended_def
        using find_key_None [OF wf None] ids ents rows
        by (auto simp: st' enqueue_def outbox_row_cols)
      with r Inr x show ?thesis by (intro new) simp_all
    qed
  qed
qed

lemma appended_fresh:
  "appended kind target ctx d st st' \<Longrightarrow> \<not> holds kind i (ctx_idempotency_key ctx) digest st"
  by (auto simp: appended_def)

lemma appended_holds:
  "appended kind target ctx d st st' \<Longrightarrow>
     holds kind (ctx_canonical_id ctx) (ctx_idempotency_key ctx) (ctx_payload_sha256 ctx) st'"
  by (simp add: appended_def holds_identities_list)

lemma appended_keeps_store_ok:
  assumes "appended kind target ctx d st st'" and "store_ok st"
  shows "store_ok st'"
proof -
  have ids: "identities k st' = identities k st @
        (if k = kind then [(SUuid (ctx_canonical_id ctx), SText (ctx_idempotency_key ctx),
           SText (ctx_payload_sha256 ctx))] else [])" for k
    using assms(1) by (simp add: appended_def)
  have wf: "wf_rows st'" using assms(2) by (auto simp: store_ok_def wf_rows_def ids)
  have fresh: "SText (ctx_idempotency_key ctx) \<notin> (fst \<circ> snd) ` set (identities kind st)"
  proof
    assume "SText (ctx_idempotency_key ctx) \<in> (fst \<circ> snd) ` set (identities kind st)"
    then obtain v where v: "v \<in> set (identities kind st)"
      "fst (snd v) = SText (ctx_idempotency_key ctx)" by auto
    with assms(2) obtain i digest where "v = (SUuid i, SText (ctx_idempotency_key ctx), SText digest)"
      by (fastforce simp: store_ok_def wf_rows_def)
    with v assms(1) show False by (auto simp: appended_def holds_identities_list)
  qed
  then have "keys_unique st'"
    using assms(2) by (auto simp: store_ok_def keys_unique_def ids)
  moreover have "rows_readable st'"
    using assms by (fastforce simp: appended_def store_ok_def rows_readable_def)
  ultimately show ?thesis using wf by (simp add: store_ok_def)
qed

definition fresh_id :: "stored_submission_kind \<Rightarrow> uuid \<Rightarrow> store \<Rightarrow> bool" where
  "fresh_id kind i st \<longleftrightarrow> SUuid i \<notin> fst ` set (identities kind st)"

lemma appended_keeps_primary_ok:
  assumes app: "appended kind Primary ctx d st st'" and ok: "primary_ok st"
    and fresh: "fresh_id kind (ctx_canonical_id ctx) st" and d: "good_defaults d"
  shows "primary_ok st'"
proof -
  have ids: "identities k st' = identities k st @
        (if k = kind then [(SUuid (ctx_canonical_id ctx), SText (ctx_idempotency_key ctx),
           SText (ctx_payload_sha256 ctx))] else [])"
    and ents: "entries k st' = entries k st @
        (if k = kind then [(SUuid (ctx_canonical_id ctx), SText (ctx_payload_sha256 ctx))] else [])" for k
    using app by (simp_all add: appended_def)
  have "store_ok st'" using app ok by (auto simp: primary_ok_def intro: appended_keeps_store_ok)
  moreover have "ids_unique st'"
    using ok fresh by (auto simp: primary_ok_def ids_unique_def fresh_id_def ids)
  moreover have "outbox_in_step st'"
    using ok by (simp add: primary_ok_def outbox_in_step_def ids ents)
  moreover have "attempts_sound st'"
    using app ok d
    by (fastforce simp: appended_def primary_ok_def attempts_sound_def attempts_ok_def
        good_defaults_def)
  ultimately show ?thesis by (simp add: primary_ok_def)
qed

lemma appended_mirror:
  assumes app: "appended kind target ctx d m m'" and ok: "consistent p m"
    and held: "holds kind (ctx_canonical_id ctx) (ctx_idempotency_key ctx) (ctx_payload_sha256 ctx) p"
  shows "consistent p m'"
  using app ok held appended_keeps_store_ok [OF app]
  by (auto simp: consistent_def mirror_within_def appended_def holds_identities_list)

lemma appended_primary:
  assumes "appended kind Primary ctx d p p'" and "consistent p m"
    and "fresh_id kind (ctx_canonical_id ctx) p" and "good_defaults d"
  shows "consistent p' m"
  using assms appended_keeps_primary_ok [OF assms(1)]
  by (fastforce simp: consistent_def mirror_within_def appended_def)

text \<open>No command ever forgets a submission.\<close>

definition remembers :: "store \<Rightarrow> store \<Rightarrow> bool" where
  "remembers st st' \<longleftrightarrow> (\<forall>kind. set (identities kind st) \<subseteq> set (identities kind st'))"

lemma remembers_refl [simp]: "remembers st st"
  by (simp add: remembers_def)

lemma remembers_trans: "remembers a b \<Longrightarrow> remembers b c \<Longrightarrow> remembers a c"
  by (fastforce simp: remembers_def)

lemma remembers_holds:
  "remembers st st' \<Longrightarrow> holds kind i key digest st \<Longrightarrow> holds kind i key digest st'"
  by (auto simp: remembers_def holds_identities_list)

lemma appended_remembers: "appended kind target ctx d st st' \<Longrightarrow> remembers st st'"
  by (simp add: appended_def remembers_def)

section \<open>Updates keep the invariants\<close>

lemma rows_readable_update:
  assumes "keeps_identity f" and "rows_readable st"
  shows "rows_readable (update_table t p f st)"
  unfolding rows_readable_def
proof (intro allI ballI)
  fix kind r assume r: "r \<in> set (update_table t p f st (table_name kind))"
  show "readable kind r"
  proof (cases "t = table_name kind")
    case True
    with r assms show ?thesis
      by (auto simp: update_table_def rows_readable_def keeps_identity_def)
  next
    case False
    with r assms show ?thesis by (auto simp: rows_readable_def)
  qed
qed

lemma rows_readable_update_outbox:
  "rows_readable st \<Longrightarrow> rows_readable (update_table Hhm_submission_outbox p f st)"
  by (simp add: rows_readable_def)

lemma keeps_identity_mirror_status: "keeps_identity (\<lambda>r. r(C_mirror_status := v))"
proof -
  have "readable kind r \<Longrightarrow> readable kind (r(C_mirror_status := v))" for kind r
    by (cases kind) auto
  then show ?thesis by (simp add: keeps_identity_def identity_def)
qed

lemma keeps_identity_mark_verified: "keeps_identity (mark_verified now)"
proof -
  have "readable kind r \<Longrightarrow> readable kind (mark_verified now r)" for kind r
    by (cases kind) (auto simp: mark_verified_def)
  then show ?thesis by (simp add: keeps_identity_def identity_def mark_verified_def)
qed

text \<open>An update of an outbox entry that leaves its identity alone and its attempts sound.\<close>

definition keeps_entry :: "(row \<Rightarrow> bool) \<Rightarrow> (row \<Rightarrow> row) \<Rightarrow> bool" where
  "keeps_entry q g \<longleftrightarrow>
     (\<forall>r. g r (Ob C_submission_kind) = r (Ob C_submission_kind) \<and>
          g r (Ob C_submission_id) = r (Ob C_submission_id) \<and>
          g r C_payload_sha256 = r C_payload_sha256) \<and>
     (\<forall>r. attempts_ok r \<longrightarrow> q r \<longrightarrow> attempts_ok (g r))"

lemma keeps_entry_mirrored:
  "keeps_entry q (\<lambda>r. r(C_mirror_status := SText (lit ''mirrored''), Ob C_last_error_code := SNull))"
  by (auto simp: keeps_entry_def attempts_ok_def)

lemma keeps_entry_attempt:
  "keeps_entry (\<lambda>r. q r \<and> attempts_below (r (Ob C_attempts)) 100) (record_attempt code now)"
  by (auto simp: keeps_entry_def record_attempt_def attempts_ok_def split: sql_value.splits)

lemma two_updates_identities:
  assumes "two_updates kind p f q g st = (r, st')" and "keeps_identity f"
  shows "identities k st' = identities k st"
  using assms by (auto simp: two_updates_def identities_update_table split: if_splits)

lemma two_updates_keeps_store_ok:
  assumes run: "two_updates kind p f q g st = (r, st')" and f: "keeps_identity f"
    and ok: "store_ok st"
  shows "store_ok st'"
proof -
  note ids = two_updates_identities [OF run f]
  have "rows_readable st'"
    using run ok f
    by (auto simp: two_updates_def store_ok_def rows_readable_update rows_readable_update_outbox
        split: if_splits)
  with ok show ?thesis
    by (simp add: store_ok_def identities_determine(1,2) [of st', OF ids])
qed

lemma two_updates_keeps_primary_ok:
  assumes run: "two_updates kind p f q g st = (r, st')" and f: "keeps_identity f"
    and g: "keeps_entry q g" and ok: "primary_ok st"
  shows "primary_ok st'"
proof -
  note ids = two_updates_identities [OF run f]
  have ents: "entries k st' = entries k st" for k
  proof -
    have "entries k (update_table Hhm_submission_outbox q g s) = entries k s" for s
      by (rule entries_update_outbox) (use g in \<open>simp_all add: keeps_entry_def\<close>)
    then show ?thesis using run by (auto simp: two_updates_def split: if_splits)
  qed
  have "attempts_sound st'"
    using run ok g
    by (auto simp: two_updates_def primary_ok_def attempts_sound_def update_table_def
        keeps_entry_def split: if_splits)
  moreover have "store_ok st'"
    using two_updates_keeps_store_ok [OF run f] ok by (simp add: primary_ok_def)
  ultimately show ?thesis
    using ok ids ents by (simp add: primary_ok_def outbox_in_step_def ids_unique_def)
qed

lemma mark_mirrored_spec_keeps:
  assumes "mark_mirrored_spec kind i payload now d st = (r, st')" and "primary_ok st"
  shows "primary_ok st'" and "identities k st' = identities k st"
  using assms two_updates_keeps_primary_ok two_updates_identities
    keeps_identity_mirror_status keeps_entry_mirrored
  unfolding mark_mirrored_spec_def by blast+

lemma record_failure_spec_keeps:
  assumes "record_failure_spec kind i code now d st = (r, st')" and "primary_ok st"
  shows "primary_ok st'" and "identities k st' = identities k st"
  using assms two_updates_keeps_primary_ok two_updates_identities
    keeps_identity_mirror_status keeps_entry_attempt
  unfolding record_failure_spec_def by (auto split: if_splits)

lemma verify_upload_spec_keeps:
  assumes "verify_upload_spec i subject sha now d st = (r, st')"
  shows "identities k st' = identities k st" and "store_ok st \<Longrightarrow> store_ok st'"
    and "primary_ok st \<Longrightarrow> primary_ok st'"
proof -
  have st': "st' = st \<or> st' = update_table Hhm_intake_uploads (upload_match i subject sha now)
      (mark_verified now) st"
    using assms by (auto simp: verify_upload_spec_def split: if_splits)
  then have ids: "identities k st' = identities k st" for k
    by (auto simp: identities_update_table keeps_identity_mark_verified)
  then show "identities k st' = identities k st" .
  show ok: "store_ok st'" if "store_ok st"
  proof -
    from that st' have "rows_readable st'"
      by (auto simp: store_ok_def intro: rows_readable_update keeps_identity_mark_verified)
    with that show ?thesis by (simp add: store_ok_def identities_determine(1,2) [of st', OF ids])
  qed
  have "entries k st' = entries k st" for k using st' by auto
  moreover have "attempts_sound st'" if "attempts_sound st"
    using that st' by (auto simp: attempts_sound_def)
  ultimately show "primary_ok st'" if "primary_ok st"
    using that ok ids by (simp add: primary_ok_def outbox_in_step_def ids_unique_def)
qed

section \<open>Marking succeeds on a stored submission\<close>

lemma matching_one:
  assumes "distinct (map f xs)" and "x \<in> set xs" and "\<And>y. y \<in> set xs \<Longrightarrow> P y \<longleftrightarrow> f y = f x"
  shows "length (filter P xs) = 1"
proof -
  have "filter P xs = filter (\<lambda>y. f y = f x) xs" using assms(3) by (rule filter_cong [OF refl])
  also have "\<dots> = [x]" using filter_length_one [OF assms(1,2)] by simp
  finally show ?thesis by simp
qed

lemma stored_row_matches_once:
  assumes ids: "ids_unique st" and held: "holds kind i key digest st"
    and P: "\<And>r. P r \<longleftrightarrow> r C_id = SUuid i \<and> Q r"
    and Q: "\<And>r. is_submission i key digest r \<Longrightarrow> Q r"
  shows "matching (table_name kind) P st = 1"
proof -
  from held obtain r where r: "r \<in> set (st (table_name kind))" "is_submission i key digest r"
    by (auto simp: holds_def)
  have d: "distinct (map (\<lambda>r. r C_id) (st (table_name kind)))"
    using ids by (simp add: ids_unique_def identities_def identity_def comp_def)
  have "P y \<longleftrightarrow> y C_id = r C_id" if y: "y \<in> set (st (table_name kind))" for y
  proof
    assume "P y" then show "y C_id = r C_id" using P is_submissionD [OF r(2)] by simp
  next
    assume "y C_id = r C_id"
    then have "y = r" using map_inj_on_distinct [OF d y r(1)] by simp
    then show "P y" using P Q [OF r(2)] is_submissionD [OF r(2)] by simp
  qed
  then show ?thesis unfolding matching_def by (rule matching_one [OF d r(1)])
qed

lemma outbox_matches_once:
  assumes ok: "primary_ok st" and held: "holds kind i key digest st"
    and Q: "\<And>e. e \<in> set (st Hhm_submission_outbox) \<Longrightarrow>
      e (Ob C_submission_kind) = SText (database_value kind) \<Longrightarrow>
      e (Ob C_submission_id) = SUuid i \<Longrightarrow> e C_payload_sha256 = SText digest \<Longrightarrow> Q e"
  shows "matching Hhm_submission_outbox (\<lambda>e. outbox_entry kind i now e \<and> Q e) st = 1"
proof -
  let ?K = "\<lambda>e. e (Ob C_submission_kind) = SText (database_value kind)"
  let ?es = "filter ?K (st Hhm_submission_outbox)"
  have step: "map (\<lambda>e. (e (Ob C_submission_id), e C_payload_sha256)) ?es =
      map (\<lambda>(i, key, digest). (i, digest)) (identities kind st)"
    using ok by (simp add: primary_ok_def outbox_in_step_def entries_def)
  have "map (\<lambda>e. e (Ob C_submission_id)) ?es = map fst (identities kind st)"
    using arg_cong [OF step, of "map fst"] by (simp add: comp_def case_prod_unfold)
  then have d: "distinct (map (\<lambda>e. e (Ob C_submission_id)) ?es)"
    using ok by (simp add: primary_ok_def ids_unique_def)
  have "(SUuid i, SText digest) \<in> set (map (\<lambda>(i, key, digest). (i, digest)) (identities kind st))"
    using held by (force simp: holds_identities_list)
  then obtain e where e: "e \<in> set ?es" "e (Ob C_submission_id) = SUuid i"
      "e C_payload_sha256 = SText digest"
    unfolding step [symmetric] by auto
  have P: "outbox_entry kind i now y \<and> Q y \<longleftrightarrow> y (Ob C_submission_id) = e (Ob C_submission_id)"
    if y: "y \<in> set ?es" for y
  proof
    assume "outbox_entry kind i now y \<and> Q y"
    then show "y (Ob C_submission_id) = e (Ob C_submission_id)"
      using e by (simp add: outbox_entry_def sql_eq_def)
  next
    assume "y (Ob C_submission_id) = e (Ob C_submission_id)"
    then have "y = e" using map_inj_on_distinct [OF d y e(1)] by simp
    then show "outbox_entry kind i now y \<and> Q y"
      using e Q [of e] by (simp add: outbox_entry_def sql_eq_def)
  qed
  have "filter (\<lambda>e. outbox_entry kind i now e \<and> Q e) (st Hhm_submission_outbox) =
      filter (\<lambda>e. outbox_entry kind i now e \<and> Q e) ?es"
    by (auto simp: outbox_entry_def sql_eq_def intro!: filter_cong)
  moreover have "length (filter (\<lambda>e. outbox_entry kind i now e \<and> Q e) ?es) = 1"
    by (rule matching_one [OF d e(1)]) (rule P)
  ultimately show ?thesis unfolding matching_def by simp
qed

lemma mark_mirrored_spec_ok:
  assumes ok: "primary_ok st" and held: "holds kind i key digest st"
  shows "fst (mark_mirrored_spec kind i digest now d st) = Inr ()"
proof -
  have "matching (table_name kind)
      (\<lambda>r. submission_row i now r \<and> sql_eq (r C_payload_sha256) (SText digest)) st = 1"
    using ok by (intro stored_row_matches_once
        [where Q = "\<lambda>r. sql_eq (r C_payload_sha256) (SText digest)", OF _ held])
      (auto simp: primary_ok_def submission_row_def sql_eq_def dest: is_submissionD)
  moreover have "matching Hhm_submission_outbox
      (\<lambda>r. outbox_entry kind i now r \<and> sql_eq (r C_payload_sha256) (SText digest)) st = 1"
    by (rule outbox_matches_once [OF ok held]) (simp add: sql_eq_def)
  ultimately show ?thesis by (simp add: mark_mirrored_spec_def two_updates_def)
qed

end
