(* ===== verification/Command_Contract.thy ===== *)
theory Command_Contract imports Invariants begin

text \<open>
  \<open>intake_command\<close>: what the request handlers may assume of a storing command, and what
  follows from it for any state of the database and any behaviour of the environment. It is
  interpreted on the four commands of \<open>Persistence\<close>.
\<close>

locale intake_command =
  fixes kind :: stored_submission_kind
    and rd :: "row \<Rightarrow> bool \<Rightarrow> data_error + 'r"
    and view :: "'r \<Rightarrow> stored_submission"
    and plan :: "persistence_target \<Rightarrow> submission_context \<Rightarrow> timestamp \<Rightarrow> store
      \<Rightarrow> data_error + (column \<times> sql_value) list"
    and cmd :: "persistence_target \<Rightarrow> submission_context \<Rightarrow> 'r db"
  assumes reads: "reads_identity kind rd view"
    and binds: "plan target ctx now st = Inr cvs \<Longrightarrow> binds_identity ctx cvs"
    and plan_error: "plan target ctx now st = Inl e \<Longrightarrow> e \<noteq> IdempotencyConflict \<and> e \<noteq> Database"
    and implements: "refines (command_spec kind rd view (plan target ctx) target ctx) (cmd target ctx)"

sublocale intake_command \<subseteq> stored: atomic_command
    "cmd target ctx" "command_spec kind rd view (plan target ctx) target ctx" for target ctx
  by unfold_locales (rule implements)

context intake_command begin

abbreviation spec :: "persistence_target \<Rightarrow> submission_context \<Rightarrow> 'r body" where
  "spec target ctx \<equiv> command_spec kind rd view (plan target ctx) target ctx"

lemma spec_cases:
  assumes run: "spec target ctx now d st = (r, st')" and wf: "wf_rows st"
  obtains
    (stopped) e where "r = Inl e" "e \<noteq> IdempotencyConflict" "e \<noteq> Database" "st' = st"
  | (hit) row i digest where "row \<in> set (st (table_name kind))"
      "is_submission i (ctx_idempotency_key ctx) digest row" "st' = st"
      "r = (if digest = ctx_payload_sha256 ctx then rd row True else Inl IdempotencyConflict)"
  | (new) x where "r = Inr x" "\<not> ss_replayed (view x)" "ss_id (view x) = ctx_canonical_id ctx"
      "appended kind target ctx d st st'"
proof (cases "plan target ctx now st")
  case (Inl e)
  with run plan_error [OF Inl] stopped show ?thesis by (auto simp: command_spec_def)
next
  case (Inr cvs)
  with run have "submit_spec kind rd view target ctx cvs now d st = (r, st')"
    by (simp add: command_spec_def)
  from this wf binds [OF Inr] reads show ?thesis
    by (cases rule: submit_spec_cases) (auto intro: stopped hit new)
qed

text \<open>Whatever happens, the committed tables are as before or have the one new submission.\<close>

lemma effect:
  assumes "cmd target ctx s = (r, t)" and "wf_rows (committed s)"
  obtains (none) "committed t = committed s"
  | (one) now where "appended kind target ctx (schema_defaults s now) (committed s) (committed t)"
proof -
  from stored.all_or_nothing [OF assms(1)] obtain now where now:
    "committed t = committed s \<or>
     committed t = snd (spec target ctx now (schema_defaults s now) (committed s))"
    by blast
  obtain r' st' where
    sp: "spec target ctx now (schema_defaults s now) (committed s) = (r', st')"
    by (cases "spec target ctx now (schema_defaults s now) (committed s)")
  from sp assms(2)
  have "st' = committed s \<or> appended kind target ctx (schema_defaults s now) (committed s) st'"
    by (cases rule: spec_cases) simp_all
  with now sp show ?thesis by (auto intro: none one)
qed

lemma effect_remembers:
  "cmd target ctx s = (r, t) \<Longrightarrow> wf_rows (committed s) \<Longrightarrow> remembers (committed s) (committed t)"
  by (erule (1) effect) (auto intro: appended_remembers)

text \<open>A result is the identity of a stored row: an old one, untouched, or the new one.\<close>

lemma result:
  assumes run: "cmd target ctx s = (Inr x, t)" and wf: "wf_rows (committed s)"
  shows "holds kind (ss_id (view x)) (ctx_idempotency_key ctx) (ctx_payload_sha256 ctx) (committed t)"
    and "ss_replayed (view x) \<Longrightarrow> committed t = committed s"
    and "\<not> ss_replayed (view x) \<Longrightarrow> ss_id (view x) = ctx_canonical_id ctx \<and>
      (\<exists>now. appended kind target ctx (schema_defaults s now) (committed s) (committed t))"
proof -
  from stored.ok_effect [OF run] obtain now where
    sp: "spec target ctx now (schema_defaults s now) (committed s) = (Inr x, committed t)"
    by blast
  have "holds kind (ss_id (view x)) (ctx_idempotency_key ctx) (ctx_payload_sha256 ctx) (committed t)
    \<and> (if ss_replayed (view x) then committed t = committed s
       else ss_id (view x) = ctx_canonical_id ctx \<and>
         appended kind target ctx (schema_defaults s now) (committed s) (committed t))"
    using sp wf
  proof (cases rule: spec_cases)
    case (hit row i digest)
    then have "digest = ctx_payload_sha256 ctx" and x: "rd row True = Inr x"
      by (auto split: if_splits)
    with reads_identityD(1) [OF reads x] is_submission_id [OF hit(2)] hit show ?thesis
      by (auto simp: holds_def)
  next
    case (new y)
    then show ?thesis by (auto dest: appended_holds)
  qed auto
  then show "holds kind (ss_id (view x)) (ctx_idempotency_key ctx) (ctx_payload_sha256 ctx) (committed t)"
    and "ss_replayed (view x) \<Longrightarrow> committed t = committed s"
    and "\<not> ss_replayed (view x) \<Longrightarrow> ss_id (view x) = ctx_canonical_id ctx \<and>
      (\<exists>now. appended kind target ctx (schema_defaults s now) (committed s) (committed t))"
    by (auto split: if_splits)
qed

text \<open>A result rests on an accepted plan; one that is not a replay has added the planned row.\<close>

lemma planned:
  assumes run: "cmd target ctx s = (Inr x, t)"
  obtains now cvs where "clock s \<le> now" "now \<le> clock t"
    "plan target ctx now (committed s) = Inr cvs"
    "\<not> ss_replayed (view x) \<Longrightarrow> committed t (table_name kind)
      = committed s (table_name kind) @ [set_cols cvs (schema_defaults s now (table_name kind))]"
    "\<not> ss_replayed (view x) \<Longrightarrow> rd (set_cols cvs (schema_defaults s now (table_name kind))) False = Inr x"
proof -
  from stored.ok_effect [OF run] obtain now where now: "clock s \<le> now" "now \<le> clock t"
    and sp: "spec target ctx now (schema_defaults s now) (committed s) = (Inr x, committed t)"
    by blast
  then obtain cvs where cvs: "plan target ctx now (committed s) = Inr cvs"
    and sub: "submit_spec kind rd view target ctx cvs now (schema_defaults s now) (committed s)
      = (Inr x, committed t)"
    by (auto simp: command_spec_def split: sum.splits)
  let ?new = "set_cols cvs (schema_defaults s now (table_name kind))"
  have row: "committed t (table_name kind) = committed s (table_name kind) @ [?new] \<and>
      rd ?new False = Inr x"
    if fresh: "\<not> ss_replayed (view x)"
  proof (cases "List.find (by_key (ctx_idempotency_key ctx) now) (committed s (table_name kind))")
    case None
    with sub show ?thesis
      by (auto simp: submit_spec_def Let_def enqueue_def split: sum.splits if_splits
          dest!: sym [of _ "committed t"])
  next
    case (Some r)
    with sub have "rd r True = Inr x" by (auto simp: submit_spec_def yields)
    with reads_identityD(1) [OF reads this] fresh show ?thesis by simp
  qed
  from now cvs row show ?thesis by (intro that) blast+
qed

text \<open>A key that is bound stays bound: the same payload replays, another one is refused.\<close>

lemma replay:
  assumes run: "cmd target ctx s = (Inr x, t)" and wf: "wf_rows (committed s)"
    and keys: "keys_unique (committed s)"
    and held: "holds kind i (ctx_idempotency_key ctx) digest (committed s)"
  shows "ss_replayed (view x)" and "ss_id (view x) = i" and "digest = ctx_payload_sha256 ctx"
    and "committed t = committed s"
proof -
  show rep: "ss_replayed (view x)"
    using result(3) [OF run wf] held by (blast dest: appended_fresh)
  then show same: "committed t = committed s" by (rule result(2) [OF run wf])
  from key_determines [OF keys held] result(1) [OF run wf] same
  show "ss_id (view x) = i" and "digest = ctx_payload_sha256 ctx" by auto
qed

lemma conflict:
  assumes wf: "wf_rows (committed s)" and keys: "keys_unique (committed s)"
    and held: "holds kind i (ctx_idempotency_key ctx) digest (committed s)"
    and other: "digest \<noteq> ctx_payload_sha256 ctx" and run: "cmd target ctx s = (r, t)"
  shows "committed t = committed s" and "\<exists>e. r = Inl e"
proof -
  from wf show "committed t = committed s"
    by (rule effect [OF run]) (use held in \<open>auto dest: appended_fresh\<close>)
  show "\<exists>e. r = Inl e"
  proof (cases r)
    case (Inr x)
    with replay(3) [OF run [unfolded Inr] wf keys held] other show ?thesis by simp
  qed simp
qed

lemma conflict_reported:
  assumes "cmd target ctx s = (Inl IdempotencyConflict, t)" and wf: "wf_rows (committed s)"
  shows "committed t = committed s"
    and "\<exists>i digest. digest \<noteq> ctx_payload_sha256 ctx \<and>
      holds kind i (ctx_idempotency_key ctx) digest (committed s)"
proof -
  from stored.error_effect [OF assms(1)] obtain now where
    sp: "spec target ctx now (schema_defaults s now) (committed s) = (Inl IdempotencyConflict, committed t)"
    by auto
  have "committed t = committed s \<and> (\<exists>i digest. digest \<noteq> ctx_payload_sha256 ctx \<and>
      holds kind i (ctx_idempotency_key ctx) digest (committed s))"
    using sp wf
  proof (cases rule: spec_cases)
    case (hit row i digest)
    with reads_identityD(2) [OF reads, of row True IdempotencyConflict]
    show ?thesis by (auto simp: holds_def split: if_splits)
  qed auto
  then show "committed t = committed s"
    and "\<exists>i digest. digest \<noteq> ctx_payload_sha256 ctx \<and>
      holds kind i (ctx_idempotency_key ctx) digest (committed s)" by simp_all
qed

section \<open>The command and the invariants\<close>

lemma keeps_consistent_primary:
  assumes run: "cmd Primary ctx s = (r, t)" and ok: "consistent (committed s) m"
    and fresh: "fresh_id kind (ctx_canonical_id ctx) (committed s)"
    and d: "\<And>now. good_defaults (schema_defaults s now)"
  shows "consistent (committed t) m"
proof -
  have "wf_rows (committed s)" using ok by (simp add: consistent_def primary_ok_def store_ok_def)
  then show ?thesis
    by (rule effect [OF run]) (use ok appended_primary [OF _ ok fresh d] in auto)
qed

lemma keeps_consistent_mirror:
  assumes run: "cmd SupabaseMirror ctx s = (r, t)" and ok: "consistent p (committed s)"
    and held: "holds kind (ctx_canonical_id ctx) (ctx_idempotency_key ctx) (ctx_payload_sha256 ctx) p"
  shows "consistent p (committed t)"
proof -
  have "wf_rows (committed s)" using ok by (simp add: consistent_def store_ok_def)
  then show ?thesis
    by (rule effect [OF run]) (use ok appended_mirror [OF _ ok held] in auto)
qed

section \<open>The command on an undisturbed database\<close>

lemma undisturbed_replay:
  assumes quiet: "answers s = []" and ok: "store_ok (committed s)"
    and plan: "plan target ctx (clock s) (committed s) = Inr cvs"
    and held: "holds kind i (ctx_idempotency_key ctx) (ctx_payload_sha256 ctx) (committed s)"
  obtains x t where "cmd target ctx s = (Inr x, t)" "ss_id (view x) = i"
    "committed t = committed s" "answers t = []"
proof -
  obtain r t where run: "cmd target ctx s = (r, t)" by (cases "cmd target ctx s")
  note quiet' = stored.undisturbed [OF quiet run]
  have wf: "wf_rows (committed s)" and keys: "keys_unique (committed s)"
    using ok by (simp_all add: store_ok_def)
  let ?row = "List.find (by_key (ctx_idempotency_key ctx) (clock s)) (committed s (table_name kind))"
  obtain row where hit: "?row = Some row"
    using find_key_None [OF wf] held by fastforce
  obtain j dg where row: "row \<in> set (committed s (table_name kind))"
      "is_submission j (ctx_idempotency_key ctx) dg row"
    by (rule find_key_Some [OF wf hit])
  then have "holds kind j (ctx_idempotency_key ctx) dg (committed s)" by (auto simp: holds_def)
  with key_determines [OF keys held] have "dg = ctx_payload_sha256 ctx" by simp
  with quiet'(1) plan hit is_submissionD [OF row(2)] have r: "r = rd row True"
    by (simp add: command_spec_def submit_spec_def require_same_payload_def read_string.simps)
  have "readable kind row" using ok row(1) by (auto simp: store_ok_def rows_readable_def)
  with reads_identityD(2) [OF reads, of row True] is_submissionD [OF row(2)]
  obtain x where x: "r = Inr x" unfolding r by (cases "rd row True") blast+
  from replay [OF run [unfolded x] wf keys held] quiet'(2) run x that
  show ?thesis by blast
qed

end

section \<open>The four storing commands\<close>

interpretation pre_interests: intake_command PreInterest "submission_reader C_created_at"
    "\<lambda>x. x" "plan_pre_interest k input" "\<lambda>target ctx. store_pre_interest k target ctx input"
  for k input
  by unfold_locales
    (auto simp: plan_pre_interest_def yields bindR_def split: sum.splits
      intro: reads_submission store_pre_interest_refines)

interpretation referrals: intake_command Referral "submission_reader C_created_at"
    "\<lambda>x. x" "plan_referral k input" "\<lambda>target ctx. store_referral k target ctx input"
  for k input
  by unfold_locales
    (auto simp: plan_referral_def require_subject_def ok_or_def yields bindR_def
      split: sum.splits option.splits intro: reads_submission store_referral_refines)

interpretation applications: intake_command Application "submission_reader C_submitted_at"
    "\<lambda>x. x" "plan_application k input" "\<lambda>target ctx. store_application k target ctx input"
  for k input
  by unfold_locales
    (auto simp: plan_application_def ok_or_def ensure_def yields bindR_def
      split: sum.splits option.splits if_splits intro: reads_submission store_application_refines)

interpretation uploads: intake_command Upload upload_from_row upload_view
    "plan_upload k uuid_display utc input"
    "\<lambda>target ctx. store_upload_intent k uuid_display (utc target) target ctx input"
  for k uuid_display utc input
  by unfold_locales
    (auto simp: plan_upload_def ok_or_def yields bindR_def
      split: sum.splits option.splits intro: reads_upload store_upload_intent_refines)

end
