(* ===== verification/Policy.thy ===== *)
theory Policy imports Intake_Types Complex_Main begin

text \<open>
  \<open>src/middleware.rs\<close>: the request-lifecycle policy read from the resolved configuration, and
  the settings it hands to the \<open>ores-middleware\<close> package. A lookup is the resolver's answer to
  each name. Parsing of a decimal fraction (\<open>f64::from_str\<close>) is the parameter \<open>parse_f64\<close>; the
  package's default settings and its own validation are parameters too.
\<close>

section \<open>Reading settings\<close>

type_synonym lookup = "str \<Rightarrow> str option"

definition optional :: "lookup \<Rightarrow> string \<Rightarrow> str option" where
  "optional lookup name =
     (case lookup (lit name) of
        None \<Rightarrow> None
      | Some value \<Rightarrow> (if trim value = [] then None else Some (trim value)))"

definition unwrap_or :: "'a option \<Rightarrow> 'a \<Rightarrow> 'a" where
  "unwrap_or r d = (case r of None \<Rightarrow> d | Some a \<Rightarrow> a)"

text \<open>\<open>FromStr\<close> of the unsigned integers: an optional plus sign and at least one decimal digit,
  refused when the value does not fit.\<close>

fun parse_digits :: "nat \<Rightarrow> nat \<Rightarrow> str \<Rightarrow> nat option" where
  "parse_digits limit acc [] = Some acc"
| "parse_digits limit acc (c # s) =
     (if is_ascii_digit c \<and> acc * 10 + (c - 48) < limit
      then parse_digits limit (acc * 10 + (c - 48)) s else None)"

definition parse_unsigned :: "nat \<Rightarrow> str \<Rightarrow> nat option" where
  "parse_unsigned limit s =
     (let digits = (case s of c # rest \<Rightarrow> if c = 43 \<and> rest \<noteq> [] then rest else s | [] \<Rightarrow> []) in
      if digits = [] then None else parse_digits limit 0 digits)"

definition parse_number :: "(str \<Rightarrow> 'n option) \<Rightarrow> str option \<Rightarrow> 'n \<Rightarrow> 'n option" where
  "parse_number parse value d = (case value of Some v \<Rightarrow> parse v | None \<Rightarrow> Some d)"

definition filter_option :: "('a \<Rightarrow> bool) \<Rightarrow> 'a option \<Rightarrow> 'a option" where
  "filter_option p r = (case r of Some a \<Rightarrow> (if p a then Some a else None) | None \<Rightarrow> None)"

definition split_csv :: "str \<Rightarrow> str list" where
  "split_csv value = filter (\<lambda>item. item \<noteq> []) (map trim (split_on 44 value))"

datatype f64 = NaN | Infinite bool | Finite rat

fun f64_finite_positive :: "f64 \<Rightarrow> bool" where
  "f64_finite_positive (Finite q) = (0 < q)"
| "f64_finite_positive _ = False"

section \<open>The request policy\<close>

datatype tls_mode = TlsDisabled | InProcess | TrustedProxy

datatype runtime_environment = Development | Test | Staging | Production

datatype request_policy_error =
    InvalidEnvironment | InvalidTlsMode | ProductionTlsDisabled | MissingTrustedProxy
  | InvalidTimeout | InvalidBodyLimit | InvalidRateLimitCapacity | InvalidRateLimitRefill
  | MissingRateLimitSecret

fun as_contract_value :: "tls_mode \<Rightarrow> str" where
  "as_contract_value TlsDisabled = lit ''disabled''"
| "as_contract_value InProcess = lit ''in-process''"
| "as_contract_value TrustedProxy = lit ''trusted-proxy''"

record request_policy =
  rp_environment :: runtime_environment
  rp_tls_mode :: tls_mode
  rp_trusted_proxy_cidrs :: "str list"
  rp_timeout_ms :: nat
  rp_max_body_bytes :: nat
  rp_rate_limit_capacity :: nat
  rp_rate_limit_refill_per_second :: f64
  rp_rate_limit_hmac_secret :: "str option"

definition parse_environment :: "str \<Rightarrow> request_policy_error + runtime_environment" where
  "parse_environment v =
     (if List.member [lit ''development'', lit ''dev'', lit ''local''] v then Inr Development
      else if List.member [lit ''test'', lit ''testing''] v then Inr Test
      else if List.member [lit ''staging'', lit ''stage''] v then Inr Staging
      else if List.member [lit ''production'', lit ''prod''] v then Inr Production
      else Inl InvalidEnvironment)"

definition parse_tls_mode :: "str \<Rightarrow> request_policy_error + tls_mode" where
  "parse_tls_mode v =
     (if v = lit ''disabled'' then Inr TlsDisabled
      else if List.member [lit ''in-process'', lit ''in_process''] v then Inr InProcess
      else if List.member [lit ''trusted-proxy'', lit ''trusted_proxy''] v then Inr TrustedProxy
      else Inl InvalidTlsMode)"

definition policy_from_lookup ::
  "(str \<Rightarrow> f64 option) \<Rightarrow> lookup \<Rightarrow> request_policy_error + request_policy" where
  "policy_from_lookup parse_f64 lookup =
     bindR (parse_environment (to_ascii_lowercase
       (unwrap_or (optional lookup ''APP_ENV'') (lit ''development'')))) (\<lambda>environment.
     bindR (parse_tls_mode (to_ascii_lowercase
       (unwrap_or (optional lookup ''ORES_MIDDLEWARE_TLS_MODE'') (lit ''disabled'')))) (\<lambda>tls.
     bindR (ensure (\<not> (environment = Production \<and> tls = TlsDisabled)) ProductionTlsDisabled) (\<lambda>_.
     let cidrs = unwrap_or (map_option split_csv
           (optional lookup ''ORES_MIDDLEWARE_TRUSTED_PROXY_CIDRS'')) [] in
     bindR (ensure (\<not> (tls = TrustedProxy \<and> cidrs = [])) MissingTrustedProxy) (\<lambda>_.
     bindR (ok_or (filter_option (\<lambda>v. 0 < v) (parse_number (parse_unsigned (2 ^ 64))
         (optional lookup ''ORES_MIDDLEWARE_TIMEOUT_MS'') 10000)) InvalidTimeout) (\<lambda>timeout.
     bindR (ok_or (filter_option (\<lambda>v. 0 < v \<and> v \<le> 2 * 1024 * 1024)
         (parse_number (parse_unsigned (2 ^ 64))
           (optional lookup ''ORES_MIDDLEWARE_MAX_BODY_BYTES'') (256 * 1024))) InvalidBodyLimit)
       (\<lambda>max_body.
     bindR (ok_or (filter_option (\<lambda>v. 0 < v) (parse_number (parse_unsigned (2 ^ 32))
         (optional lookup ''ORES_MIDDLEWARE_RATE_LIMIT_CAPACITY'') 60)) InvalidRateLimitCapacity)
       (\<lambda>capacity.
     bindR (ok_or (filter_option f64_finite_positive (parse_number parse_f64
         (optional lookup ''ORES_MIDDLEWARE_RATE_LIMIT_REFILL_PER_SECOND'') (Finite 1)))
         InvalidRateLimitRefill) (\<lambda>refill.
     let secret = optional lookup ''ORES_MIDDLEWARE_RATE_LIMIT_HMAC_SECRET'' in
     bindR (ensure (\<not> (environment = Production \<and> secret = None)) MissingRateLimitSecret) (\<lambda>_.
     Inr \<lparr>rp_environment = environment, rp_tls_mode = tls, rp_trusted_proxy_cidrs = cidrs,
          rp_timeout_ms = timeout, rp_max_body_bytes = max_body,
          rp_rate_limit_capacity = capacity, rp_rate_limit_refill_per_second = refill,
          rp_rate_limit_hmac_secret = secret\<rparr>)))))))))"

section \<open>What an accepted policy guarantees\<close>

definition policy_ok :: "request_policy \<Rightarrow> bool" where
  "policy_ok p \<longleftrightarrow>
     (rp_environment p = Production \<longrightarrow>
        rp_tls_mode p \<noteq> TlsDisabled \<and> rp_rate_limit_hmac_secret p \<noteq> None) \<and>
     (rp_tls_mode p = TrustedProxy \<longrightarrow> rp_trusted_proxy_cidrs p \<noteq> []) \<and>
     (\<forall>cidr \<in> set (rp_trusted_proxy_cidrs p). cidr \<noteq> [] \<and> trim cidr = cidr) \<and>
     (\<forall>secret. rp_rate_limit_hmac_secret p = Some secret \<longrightarrow> secret \<noteq> []) \<and>
     0 < rp_timeout_ms p \<and> rp_timeout_ms p < 2 ^ 64 \<and>
     0 < rp_max_body_bytes p \<and> rp_max_body_bytes p \<le> 2 * 1024 * 1024 \<and>
     0 < rp_rate_limit_capacity p \<and> rp_rate_limit_capacity p < 2 ^ 32 \<and>
     f64_finite_positive (rp_rate_limit_refill_per_second p)"

lemma optional_Some_nonempty: "optional lookup name = Some v \<Longrightarrow> v \<noteq> []"
  by (auto simp: optional_def split: option.splits if_splits)

lemma trim_trim [simp]: "trim (trim s) = trim s"
proof (cases "trim s = []")
  case True
  moreover have "trim [] = []" by (simp add: trim_def trim_start_def)
  ultimately show ?thesis by simp
next
  case False
  have last: "\<not> is_whitespace (last (trim s))"
  proof -
    from False have "trim_start (rev (trim_start s)) \<noteq> []"
      unfolding trim_def by (simp only: rev_is_Nil_conv not_False_eq_True)
    then have "\<not> is_whitespace (hd (trim_start (rev (trim_start s))))"
      unfolding trim_start_def by (rule hd_dropWhile)
    then show ?thesis using False by (simp add: trim_def last_rev)
  qed
  have hd: "\<not> is_whitespace (hd (trim s))"
  proof -
    let ?u = "trim_start s"
    have "?u \<noteq> []"
    proof
      assume "?u = []"
      then have "trim s = trim_start []" by (simp only: trim_def rev.simps) (simp add: trim_start_def)
      with False show False by (simp add: trim_start_def)
    qed
    then have w: "\<not> is_whitespace (hd ?u)" unfolding trim_start_def by (rule hd_dropWhile)
    obtain v where v: "?u = trim s @ v"
      using takeWhile_dropWhile_id [of is_whitespace "rev ?u"]
      by (metis rev_append rev_rev_ident trim_def trim_start_def)
    then have "hd ?u = hd (trim s)" using False by simp
    with w show ?thesis by simp
  qed
  from hd last show ?thesis by (simp add: trim_id_iff)
qed

lemma split_csv_items: "item \<in> set (split_csv v) \<Longrightarrow> item \<noteq> [] \<and> trim item = item"
  by (auto simp: split_csv_def)

lemma parse_digits_bound: "parse_digits limit acc s = Some n \<Longrightarrow> acc < limit \<Longrightarrow> n < limit"
  by (induction limit acc s rule: parse_digits.induct) (auto split: if_splits)

lemma parse_unsigned_bound: "parse_unsigned limit s = Some n \<Longrightarrow> 0 < limit \<Longrightarrow> n < limit"
  by (auto simp: parse_unsigned_def Let_def split: if_splits list.splits dest: parse_digits_bound)

lemma parse_number_bound:
  "parse_number (parse_unsigned limit) v d = Some n \<Longrightarrow> d < limit \<Longrightarrow> n < limit"
  by (auto simp: parse_number_def split: option.splits dest: parse_unsigned_bound)

lemma filter_option_Some [yields]: "filter_option p r = Some a \<longleftrightarrow> r = Some a \<and> p a"
  by (auto simp: filter_option_def split: option.splits if_splits)

lemma unwrap_or_simps [simp]: "unwrap_or (Some a) d = a" "unwrap_or None d = d"
  by (simp_all add: unwrap_or_def)

text \<open>Where each field of an accepted policy comes from, and the checks it passed.\<close>

lemma policy_from_lookup_fields:
  assumes "policy_from_lookup parse_f64 lookup = Inr p"
  shows "\<not> (rp_environment p = Production \<and> rp_tls_mode p = TlsDisabled)"
    and "rp_trusted_proxy_cidrs p = unwrap_or (map_option split_csv
       (optional lookup ''ORES_MIDDLEWARE_TRUSTED_PROXY_CIDRS'')) []"
    and "\<not> (rp_tls_mode p = TrustedProxy \<and> rp_trusted_proxy_cidrs p = [])"
    and "parse_number (parse_unsigned (2 ^ 64)) (optional lookup ''ORES_MIDDLEWARE_TIMEOUT_MS'')
       10000 = Some (rp_timeout_ms p)" and "0 < rp_timeout_ms p"
    and "0 < rp_max_body_bytes p" and "rp_max_body_bytes p \<le> 2 * 1024 * 1024"
    and "parse_number (parse_unsigned (2 ^ 32))
       (optional lookup ''ORES_MIDDLEWARE_RATE_LIMIT_CAPACITY'') 60 = Some (rp_rate_limit_capacity p)"
    and "0 < rp_rate_limit_capacity p"
    and "f64_finite_positive (rp_rate_limit_refill_per_second p)"
    and "rp_rate_limit_hmac_secret p = optional lookup ''ORES_MIDDLEWARE_RATE_LIMIT_HMAC_SECRET''"
    and "\<not> (rp_environment p = Production \<and> rp_rate_limit_hmac_secret p = None)"
  using assms unfolding policy_from_lookup_def Let_def
  by (elim bindRE; simp only: ensure_Inr_iff ok_or_Inr_iff filter_option_Some sum.inject;
    elim conjE; hypsubst; simp only: request_policy.simps not_False_eq_True)+

lemma policy_from_lookup_ok:
  assumes "policy_from_lookup parse_f64 lookup = Inr p"
  shows "policy_ok p"
proof -
  note p = policy_from_lookup_fields [OF assms]
  have cidrs: "cidr \<noteq> [] \<and> trim cidr = cidr" if "cidr \<in> set (rp_trusted_proxy_cidrs p)" for cidr
    using that p(2) split_csv_items
    by (cases "optional lookup ''ORES_MIDDLEWARE_TRUSTED_PROXY_CIDRS''") auto
  have "rp_timeout_ms p < 2 ^ 64" using p(4) by (rule parse_number_bound) simp
  moreover have "rp_rate_limit_capacity p < 2 ^ 32" using p(8) by (rule parse_number_bound) simp
  moreover have "rp_rate_limit_hmac_secret p \<noteq> Some []" using p(11) optional_Some_nonempty by metis
  ultimately show ?thesis
    unfolding policy_ok_def using p(1,3,5-7,9,10,12) cidrs by auto
qed

section \<open>The settings handed to the middleware package\<close>

datatype rate_limit_signal = SignalIp | SignalRoute | SignalMethod
datatype rate_limit_failure_mode = FailClosed | LocalOnly
datatype rate_limit_key_derivation = ExternalHmacSha256 | EphemeralHmacSha256

record middleware_config =
  mc_environment :: runtime_environment
  mc_timeout_ms :: nat
  mc_max_body_bytes :: nat
  mc_tls_mode :: str
  mc_require_https :: bool
  mc_strict_forwarded_headers :: bool
  mc_trusted_proxy_cidrs :: "str list"
  mc_capacity :: nat
  mc_refill_per_second :: f64
  mc_key_by :: "rate_limit_signal list"
  mc_failure_mode :: rate_limit_failure_mode
  mc_key_derivation :: rate_limit_key_derivation
  mc_otel_enabled :: bool
  mc_otel_service_name :: str
  mc_otel_propagators :: "str list"

definition middleware_config_of :: "middleware_config \<Rightarrow> request_policy \<Rightarrow> middleware_config" where
  "middleware_config_of default_config policy = default_config\<lparr>
     mc_environment := rp_environment policy,
     mc_timeout_ms := rp_timeout_ms policy,
     mc_max_body_bytes := rp_max_body_bytes policy,
     mc_tls_mode := as_contract_value (rp_tls_mode policy),
     mc_require_https := rp_tls_mode policy \<noteq> TlsDisabled,
     mc_strict_forwarded_headers := True,
     mc_trusted_proxy_cidrs := rp_trusted_proxy_cidrs policy,
     mc_capacity := rp_rate_limit_capacity policy,
     mc_refill_per_second := rp_rate_limit_refill_per_second policy,
     mc_key_by := [SignalIp, SignalRoute, SignalMethod],
     mc_failure_mode := (if rp_environment policy = Production then FailClosed else LocalOnly),
     mc_key_derivation := (if rp_environment policy = Production then ExternalHmacSha256
       else EphemeralHmacSha256),
     mc_otel_enabled := True,
     mc_otel_service_name := lit ''hhm-api'',
     mc_otel_propagators := [lit ''tracecontext'', lit ''baggage'']\<rparr>"

text \<open>\<open>stack_new\<close> is \<open>MiddlewareStack::new\<close>, \<open>with_key\<close> installs the rate-limit key; both belong
  to the package and may refuse.\<close>

datatype stack_error = PolicyInvalid | RateLimitKeyInvalid

definition stack_from_policy ::
  "middleware_config \<Rightarrow> (middleware_config \<Rightarrow> 'stack option) \<Rightarrow> ('stack \<Rightarrow> nat list \<Rightarrow> 'stack option)
    \<Rightarrow> request_policy \<Rightarrow> stack_error + 'stack" where
  "stack_from_policy default_config stack_new with_key policy =
     bindR (ok_or (stack_new (middleware_config_of default_config policy)) PolicyInvalid) (\<lambda>middleware.
     case rp_rate_limit_hmac_secret policy of
       Some secret \<Rightarrow> ok_or (with_key middleware (str_bytes secret)) RateLimitKeyInvalid
     | None \<Rightarrow> Inr middleware)"

section \<open>Installing the stack, and messages of a WebSocket\<close>

text \<open>Both hand their arguments to the package: \<open>framework\<close> is its adapter for the router,
  \<open>boundary\<close> its panic and deadline boundary around one operation.\<close>

datatype operation_transport = WebSocket
datatype operation_scope = Message

record operation_descriptor =
  od_transport :: operation_transport
  od_scope :: operation_scope
  od_name :: str

definition install :: "('router \<Rightarrow> 'stack \<Rightarrow> 'app) \<Rightarrow> 'router \<Rightarrow> 'stack \<Rightarrow> 'app" where
  "install framework router stack = framework router stack"

definition run_websocket_message ::
  "('ctx \<Rightarrow> operation_descriptor \<Rightarrow> 'duration \<Rightarrow> 'future \<Rightarrow> 'outcome) \<Rightarrow> 'ctx \<Rightarrow> str \<Rightarrow> 'duration
    \<Rightarrow> 'future \<Rightarrow> 'outcome" where
  "run_websocket_message boundary context_of_request name timeout future =
     boundary context_of_request \<lparr>od_transport = WebSocket, od_scope = Message, od_name = name\<rparr> timeout future"

end
