(* ===== verification/Web.thy ===== *)
theory Web imports Intake_Prelude Rust_Std begin

text \<open>
  What the program sees of the packages \<open>url\<close>, \<open>http\<close> and \<open>reqwest\<close>, which are not part of the
  repository. A \<open>url\<close> is the record of the components the program reads; how a text becomes one
  is in the parameter record \<open>url_lib\<close>. A reply of a remote service is its status, the headers
  the program looks at, and the chunks its body arrives in, each of which may be a transport
  error; \<open>None\<close> in place of a reply is a request that could not be sent.
\<close>

section \<open>URLs\<close>

record url =
  scheme :: str
  username :: str
  password :: "str option"
  host_str :: "str option"
  path :: str
  query :: "str option"
  fragment :: "str option"

record url_lib =
  url_parse :: "str \<Rightarrow> url option"
  url_join :: "url \<Rightarrow> str \<Rightarrow> url option"
  url_query_pairs :: "url \<Rightarrow> (str \<times> str) list"
  url_segments_mut :: "url \<Rightarrow> bool" \<comment> \<open>\<open>path_segments_mut\<close> succeeds\<close>
  url_pop_if_empty :: "url \<Rightarrow> url"
  url_extend :: "str list \<Rightarrow> url \<Rightarrow> url"

section \<open>Headers and replies\<close>

text \<open>A header value is visible text or bytes \<open>to_str\<close> refuses; \<open>get\<close> is the first value.\<close>

datatype header_value = HText str | HOpaque "u8 list"

fun header_to_str :: "header_value \<Rightarrow> str option" where
  "header_to_str (HText s) = Some s"
| "header_to_str (HOpaque _) = None"

type_synonym header_map = "string \<Rightarrow> header_value option"

type_synonym chunk = "unit + u8 list"

record http_reply =
  reply_status :: nat
  reply_content_type :: "header_value option"
  reply_content_length :: "u64 option"
  reply_chunks :: "chunk list"

definition is_success :: "nat \<Rightarrow> bool" where
  "is_success status \<longleftrightarrow> 200 \<le> status \<and> status < 300"

definition is_server_error :: "nat \<Rightarrow> bool" where
  "is_server_error status \<longleftrightarrow> 500 \<le> status \<and> status < 600"

fun chunk_bytes :: "chunk list \<Rightarrow> u8 list option" where
  "chunk_bytes [] = Some []"
| "chunk_bytes (Inl _ # cs) = None"
| "chunk_bytes (Inr bs # cs) = map_option (\<lambda>rest. bs @ rest) (chunk_bytes cs)"

text \<open>\<open>Response::json\<close>: the whole body, decoded.\<close>

definition response_json :: "(u8 list \<Rightarrow> 'a option) \<Rightarrow> http_reply \<Rightarrow> 'a option" where
  "response_json decode reply = Option.bind (chunk_bytes (reply_chunks reply)) decode"

section \<open>JSON values\<close>

text \<open>\<open>serde_json::Value\<close>; a number is the text it prints as, an object its entries in the order
  the package iterates them.\<close>

datatype json =
    JNull | JBool bool | JNumber str | JString str | JArray "json list" | JObject "(str \<times> json) list"

section \<open>Bounded streaming\<close>

text \<open>
  The contract of the program's two streaming loops. \<open>step\<close> handles one chunk; a run stops at
  the first transport error or the first chunk \<open>step\<close> refuses. \<open>seen\<close> is what a state has
  absorbed, and \<open>step\<close> absorbs a chunk exactly when the total stays within \<open>limit\<close>.
\<close>

fun stream :: "'e \<Rightarrow> ('s \<Rightarrow> u8 list \<Rightarrow> 'e + 's) \<Rightarrow> 's \<Rightarrow> chunk list \<Rightarrow> 'e + 's" where
  "stream lost step s [] = Inr s"
| "stream lost step s (Inl _ # cs) = Inl lost"
| "stream lost step s (Inr bs # cs) = bindR (step s bs) (\<lambda>s'. stream lost step s' cs)"

locale bounded_stream =
  fixes lost :: 'e and step :: "'s \<Rightarrow> u8 list \<Rightarrow> 'e + 's" and seen :: "'s \<Rightarrow> u8 list"
    and good :: "'s \<Rightarrow> bool" and limit :: nat
  assumes step_ok: "good s \<Longrightarrow> length (seen s) + length bs \<le> limit \<Longrightarrow>
      \<exists>s'. step s bs = Inr s' \<and> good s' \<and> seen s' = seen s @ bs"
    and step_refuses: "good s \<Longrightarrow> limit < length (seen s) + length bs \<Longrightarrow> \<exists>e. step s bs = Inl e"
begin

text \<open>The loop succeeds exactly on a body that arrives whole and within the limit, and then its
  state has absorbed that body.\<close>

lemma stream_complete:
  "good s \<Longrightarrow> chunk_bytes cs = Some body \<Longrightarrow> length (seen s) + length body \<le> limit \<Longrightarrow>
     \<exists>s'. stream lost step s cs = Inr s' \<and> good s' \<and> seen s' = seen s @ body"
proof (induction cs arbitrary: s body rule: chunk_bytes.induct)
  case 1
  then show ?case by simp
next
  case (2 u cs)
  then show ?case by simp
next
  case (3 bs cs)
  then obtain rest where rest: "chunk_bytes cs = Some rest" "body = bs @ rest" by auto
  with 3 step_ok [of s bs] obtain s' where "step s bs = Inr s'" "good s'" "seen s' = seen s @ bs"
    by auto
  with rest 3 show ?case by fastforce
qed

lemma stream_sound:
  "good s \<Longrightarrow> length (seen s) \<le> limit \<Longrightarrow> stream lost step s cs = Inr s' \<Longrightarrow>
     \<exists>body. chunk_bytes cs = Some body \<and> good s' \<and> seen s' = seen s @ body \<and>
       length (seen s') \<le> limit"
proof (induction cs arbitrary: s rule: chunk_bytes.induct)
  case 1
  then show ?case by simp
next
  case (2 u cs)
  then show ?case by simp
next
  case (3 bs cs)
  from 3 obtain t where t: "step s bs = Inr t" "stream lost step t cs = Inr s'"
    by (auto simp: yields)
  have fits: "length (seen s) + length bs \<le> limit"
    using step_refuses [OF 3(2), of bs] t by fastforce
  from step_ok [OF 3(2) this] t have t': "good t" "seen t = seen s @ bs" by auto
  with fits have "length (seen t) \<le> limit" by simp
  from 3(1) [OF t'(1) this t(2)] t' show ?case by auto
qed

text \<open>Once more than the limit has arrived the loop has ended: what follows does not matter.\<close>

lemma stream_stops:
  assumes refuse: "\<And>s bs e'. good s \<Longrightarrow> step s bs = Inl e' \<Longrightarrow> e' = e"
  shows "good s \<Longrightarrow> length (seen s) \<le> limit \<Longrightarrow> chunk_bytes front = Some body \<Longrightarrow>
    limit < length (seen s) + length body \<Longrightarrow> stream lost step s (front @ rest) = Inl e"
proof (induction front arbitrary: s body rule: chunk_bytes.induct)
  case (3 bs cs)
  then obtain tl where tl: "chunk_bytes cs = Some tl" "body = bs @ tl" by auto
  show ?case
  proof (cases "length (seen s) + length bs \<le> limit")
    case True
    from step_ok [OF 3(2) this] obtain s' where "step s bs = Inr s'" "good s'" "seen s' = seen s @ bs"
      by auto
    with 3 tl True show ?thesis by simp
  next
    case False
    with step_refuses [OF 3(2), of bs] refuse [OF 3(2), of bs] show ?thesis by auto
  qed
qed simp_all

lemma stream_iff:
  assumes "good s" and "length (seen s) \<le> limit"
  shows "(\<exists>s'. stream lost step s cs = Inr s' \<and> seen s' = out) \<longleftrightarrow>
     (\<exists>body. chunk_bytes cs = Some body \<and> out = seen s @ body \<and> length out \<le> limit)"
  using stream_sound [OF assms] stream_complete [OF assms(1)] by fastforce

end

end
