(* ===== verification/Config.thy ===== *)
theory Config imports Policy Web begin

text \<open>
  \<open>src/config.rs\<close>: the fail-closed configuration. \<open>url_parse\<close> (in \<open>url_lib\<close>), the parser of a
  socket address and the one of a decimal fraction are parameters; a secret is its text.
\<close>

datatype config_error = Missing string | Invalid string | RequestPolicy request_policy_error

record 'addr config =
  bind_address :: 'addr
  primary_database_url :: str
  supabase_database_url :: str
  supabase_url :: url
  supabase_service_role_key :: str
  turnstile_secret_key :: str
  turnstile_action :: str
  shared_auth_base_url :: str
  shared_auth_service_credential :: str
  shared_auth_audience :: str
  cors_origins :: str
  config_request_policy :: request_policy

definition required :: "lookup \<Rightarrow> string \<Rightarrow> config_error + str" where
  "required lookup name = ok_or (optional lookup name) (Missing name)"

definition parse_https_url :: "url_lib \<Rightarrow> lookup \<Rightarrow> string \<Rightarrow> config_error + url" where
  "parse_https_url lib lookup name =
     bindR (required lookup name) (\<lambda>raw.
     bindR (ok_or (url_parse lib raw) (Invalid name)) (\<lambda>url.
     if scheme url \<noteq> lit ''https'' \<or> host_str url = None \<or> query url \<noteq> None
     then Inl (Invalid name) else Inr url))"

definition in_cluster :: "str \<Rightarrow> bool" where
  "in_cluster host =
     (let labels = split_on 46 host; suffix = drop (length labels - 3) labels in
      eq_ignore_ascii_case (last labels) (lit ''svc'') \<or>
      length suffix = 3 \<and>
        eq_ignore_ascii_case (suffix ! 0) (lit ''svc'') \<and>
        eq_ignore_ascii_case (suffix ! 1) (lit ''cluster'') \<and>
        eq_ignore_ascii_case (suffix ! 2) (lit ''local''))"

definition validate_auth_url :: "url_lib \<Rightarrow> str \<Rightarrow> config_error + unit" where
  "validate_auth_url lib value =
     bindR (ok_or (url_parse lib value) (Invalid ''SHARED_AUTH_BASE_URL'')) (\<lambda>url.
     let host = unwrap_or (host_str url) [];
         local = (host = lit ''localhost'' \<or> host = lit ''127.0.0.1'' \<or> in_cluster host) in
     if host_str url = None \<or> query url \<noteq> None \<or>
        \<not> (scheme url = lit ''https'' \<or> scheme url = lit ''http'' \<and> local)
     then Inl (Invalid ''SHARED_AUTH_BASE_URL'') else Inr ())"

definition action_byte :: "nat \<Rightarrow> bool" where
  "action_byte b \<longleftrightarrow> is_ascii_alphanumeric b \<or> b = 45 \<or> b = 95"

interpretation action: ascii_class action_byte
  by unfold_locales (auto simp: action_byte_def ascii_class_defs)

definition config_from_lookup ::
  "url_lib \<Rightarrow> (str \<Rightarrow> 'addr option) \<Rightarrow> (str \<Rightarrow> f64 option) \<Rightarrow> lookup \<Rightarrow> config_error + 'addr config" where
  "config_from_lookup lib parse_socket_addr parse_f64 lookup =
     (let host = unwrap_or (optional lookup ''HOST'') (lit ''0.0.0.0'');
          port = unwrap_or (optional lookup ''PORT'') (lit ''8080'') in
      bindR (ok_or (parse_socket_addr (host @ lit '':'' @ port)) (Invalid ''HOST or PORT'')) (\<lambda>address.
      bindR (parse_https_url lib lookup ''SUPABASE_URL'') (\<lambda>supabase.
      bindR (required lookup ''SHARED_AUTH_BASE_URL'') (\<lambda>auth_url.
      bindR (validate_auth_url lib auth_url) (\<lambda>_.
      let action = unwrap_or (optional lookup ''TURNSTILE_ACTION'') (lit ''intake'') in
      if 64 < str_len action \<or> action = [] \<or> \<not> list_all action_byte (str_bytes action)
      then Inl (Invalid ''TURNSTILE_ACTION'')
      else
      bindR (map_err RequestPolicy (policy_from_lookup parse_f64 lookup)) (\<lambda>policy.
      bindR (required lookup ''DATABASE_URL'') (\<lambda>database_url.
      bindR (required lookup ''SUPABASE_DATABASE_URL'') (\<lambda>mirror_url.
      bindR (required lookup ''SUPABASE_SERVICE_ROLE_KEY'') (\<lambda>service_key.
      bindR (required lookup ''TURNSTILE_SECRET_KEY'') (\<lambda>turnstile_key.
      bindR (required lookup ''SHARED_AUTH_SERVICE_CREDENTIAL'') (\<lambda>credential.
      bindR (required lookup ''SHARED_AUTH_AUDIENCE'') (\<lambda>audience.
      bindR (required lookup ''CORS_ORIGINS'') (\<lambda>origins.
      Inr \<lparr>bind_address = address, primary_database_url = database_url,
           supabase_database_url = mirror_url, supabase_url = supabase,
           supabase_service_role_key = service_key, turnstile_secret_key = turnstile_key,
           turnstile_action = action, shared_auth_base_url = auth_url,
           shared_auth_service_credential = credential, shared_auth_audience = audience,
           cors_origins = origins, config_request_policy = policy\<rparr>)))))))))))))"

section \<open>What an accepted configuration guarantees\<close>

text \<open>A Shared Auth address the program may send credentials to: encrypted, or on the machine or
  cluster it runs on.\<close>

definition safe_auth_url :: "url \<Rightarrow> bool" where
  "safe_auth_url u \<longleftrightarrow> query u = None \<and> (\<exists>host. host_str u = Some host \<and>
     (scheme u = lit ''https'' \<or>
      scheme u = lit ''http'' \<and>
        (host = lit ''localhost'' \<or> host = lit ''127.0.0.1'' \<or> in_cluster host)))"

lemma validate_auth_url_iff [yields]:
  "validate_auth_url lib v = Inr x \<longleftrightarrow> (\<exists>u. url_parse lib v = Some u \<and> safe_auth_url u)"
  by (cases "url_parse lib v")
    (auto simp: validate_auth_url_def safe_auth_url_def Let_def unwrap_or_def split: option.splits)

definition config_ok :: "url_lib \<Rightarrow> 'addr config \<Rightarrow> bool" where
  "config_ok lib c \<longleftrightarrow>
     scheme (supabase_url c) = lit ''https'' \<and> host_str (supabase_url c) \<noteq> None \<and>
     query (supabase_url c) = None \<and>
     (\<exists>u. url_parse lib (shared_auth_base_url c) = Some u \<and> safe_auth_url u) \<and>
     turnstile_action c \<noteq> [] \<and> length (turnstile_action c) \<le> 64 \<and>
     list_all action_byte (turnstile_action c) \<and>
     policy_ok (config_request_policy c) \<and>
     (\<forall>s \<in> {primary_database_url c, supabase_database_url c, supabase_service_role_key c,
        turnstile_secret_key c, shared_auth_service_credential c, shared_auth_audience c,
        cors_origins c}. s \<noteq> [] \<and> trim s = s)"

lemma optional_Some_trimmed: "optional lookup name = Some v \<Longrightarrow> v \<noteq> [] \<and> trim v = v"
  by (auto simp: optional_def split: option.splits if_splits)

lemma required_Inr_iff [yields]: "required lookup name = Inr v \<longleftrightarrow> optional lookup name = Some v"
  by (simp add: required_def yields)

lemma parse_https_url_Inr:
  "parse_https_url lib lookup name = Inr u \<Longrightarrow>
     scheme u = lit ''https'' \<and> host_str u \<noteq> None \<and> query u = None"
  by (auto simp: parse_https_url_def yields split: if_splits)

lemma config_from_lookup_ok:
  assumes "config_from_lookup lib parse_socket_addr parse_f64 lookup = Inr c"
  shows "config_ok lib c"
proof -
  have action: "list_all action_byte s \<and> length s \<le> 64"
    if "\<not> (64 < str_len s \<or> s = [] \<or> \<not> list_all action_byte (str_bytes s))" for s
    using that by (auto simp: action.bytes_iff action.len)
  show ?thesis
    using assms unfolding config_from_lookup_def Let_def
    by (elim bindRE guardRE; simp only: yields sum.inject; hypsubst)
      (auto simp: config_ok_def action dest: parse_https_url_Inr policy_from_lookup_ok
        optional_Some_trimmed)
qed

lemma config_from_lookup_address:
  assumes "config_from_lookup lib parse_socket_addr parse_f64 lookup = Inr c"
  shows "parse_socket_addr (unwrap_or (optional lookup ''HOST'') (lit ''0.0.0.0'') @ lit '':'' @
    unwrap_or (optional lookup ''PORT'') (lit ''8080'')) = Some (bind_address c)"
  using assms unfolding config_from_lookup_def Let_def
  by (elim bindRE guardRE; simp only: yields sum.inject; hypsubst) simp

end
