(* ===== verification/Auth.thy ===== *)
theory Auth imports Config Context begin

text \<open>
  \<open>src/auth.rs\<close>: the adapter to the Shared Auth introspection service. The service is the
  parameter \<open>ask\<close> (a request yields a reply, or \<open>None\<close> when it cannot be sent), the JSON decoder
  of its answer is \<open>decode\<close>; a byte string that is no JSON or lacks \<open>active\<close> decodes to \<open>None\<close>.
\<close>

definition MAX_CREDENTIAL_BYTES :: nat where "MAX_CREDENTIAL_BYTES = 16 * 1024"
definition MAX_RESPONSE_BYTES :: nat where "MAX_RESPONSE_BYTES = 1024 * 1024"
definition MAX_AUDIENCE_BYTES :: nat where "MAX_AUDIENCE_BYTES = 128"
definition REQUIRED_SCOPES :: "str list" where "REQUIRED_SCOPES = [lit ''hhm:intake:write'']"

record authenticator =
  au_endpoint :: url
  au_service_credential :: str
  au_audience :: str

datatype auth_build_error =
  InvalidBaseUrl | InvalidServiceCredential | InvalidAudience | TransportError

datatype auth_error = AuthMissing | AuthInvalid | AuthForbidden | AuthUnavailable

text \<open>The request sent: \<open>IntrospectionEnvelope\<close> with the address and the service credential.\<close>

record introspection_request =
  iq_endpoint :: url
  iq_bearer :: str
  iq_contract :: str
  iq_token :: str
  iq_audience :: str
  iq_required_scopes :: "str list"

record introspection =
  in_active :: bool
  in_sub :: "str option"
  in_aud :: "str option"
  in_scope :: "str option"

definition has_scope :: "introspection \<Rightarrow> str \<Rightarrow> bool" where
  "has_scope i required_scope \<longleftrightarrow>
     in_active i \<and>
     (case in_scope i of
        None \<Rightarrow> False
      | Some scope \<Rightarrow> list_ex (\<lambda>candidate. candidate = required_scope) (split_ascii_whitespace scope))"

section \<open>Building the adapter\<close>

definition introspection_endpoint :: "url_lib \<Rightarrow> str \<Rightarrow> auth_build_error + url" where
  "introspection_endpoint lib raw =
     bindR (ok_or (url_parse lib raw) InvalidBaseUrl) (\<lambda>url.
     if username url \<noteq> [] \<or> password url \<noteq> None \<or> query url \<noteq> None \<or> fragment url \<noteq> None
     then Inl InvalidBaseUrl
     else
     bindR (ensure (url_segments_mut lib url) InvalidBaseUrl) (\<lambda>_.
     Inr (url_extend lib [lit ''auth'', lit ''introspect''] (url_pop_if_empty lib url))))"

text \<open>\<open>client_builds\<close>: the HTTP client could be initialised.\<close>

definition authenticator_from_config ::
  "url_lib \<Rightarrow> bool \<Rightarrow> 'addr config \<Rightarrow> auth_build_error + authenticator" where
  "authenticator_from_config lib client_builds config =
     (let credential = shared_auth_service_credential config;
          audience = shared_auth_audience config in
      if credential = [] \<or> MAX_CREDENTIAL_BYTES < str_len credential \<or>
         list_ex is_whitespace credential
      then Inl InvalidServiceCredential
      else if audience = [] \<or> MAX_AUDIENCE_BYTES < str_len audience \<or>
         \<not> list_all token_byte (str_bytes audience)
      then Inl InvalidAudience
      else
      bindR (introspection_endpoint lib (shared_auth_base_url config)) (\<lambda>endpoint.
      bindR (ensure client_builds TransportError) (\<lambda>_.
      Inr \<lparr>au_endpoint = endpoint, au_service_credential = credential, au_audience = audience\<rparr>)))"

lemma introspection_endpoint_Inr [yields]:
  "introspection_endpoint lib raw = Inr e \<longleftrightarrow>
     (\<exists>u. url_parse lib raw = Some u \<and> username u = [] \<and> password u = None \<and> query u = None \<and>
        fragment u = None \<and> url_segments_mut lib u \<and>
        e = url_extend lib [lit ''auth'', lit ''introspect''] (url_pop_if_empty lib u))"
  by (cases "url_parse lib raw") (auto simp: introspection_endpoint_def yields)

section \<open>Reading the credential\<close>

definition bearer_token :: "header_map \<Rightarrow> auth_error + str option" where
  "bearer_token headers =
     (case headers ''authorization'' of
        None \<Rightarrow> Inr None
      | Some value \<Rightarrow>
          bindR (ok_or (header_to_str value) AuthInvalid) (\<lambda>raw.
          bindR (ok_or (split_once 32 raw) AuthInvalid) (\<lambda>(auth_scheme, token).
          if \<not> eq_ignore_ascii_case auth_scheme (lit ''bearer'') \<or> token = [] \<or>
             MAX_CREDENTIAL_BYTES < str_len token \<or> list_ex is_whitespace token
          then Inl AuthInvalid else Inr (Some token))))"

text \<open>What the parser accepts: one scheme word, one space, one bounded token without spaces.\<close>

definition bearer_text :: "str \<Rightarrow> str \<Rightarrow> bool" where
  "bearer_text raw token \<longleftrightarrow>
     (\<exists>auth_scheme. raw = auth_scheme @ 32 # token \<and>
        to_ascii_lowercase auth_scheme = lit ''bearer'') \<and>
     token \<noteq> [] \<and> str_len token \<le> MAX_CREDENTIAL_BYTES \<and> (\<forall>c \<in> set token. \<not> is_whitespace c)"

lemma lower_no_space: "to_ascii_lowercase s = lit ''bearer'' \<Longrightarrow> 32 \<notin> set s"
proof
  assume s: "to_ascii_lowercase s = lit ''bearer''" and "32 \<in> set s"
  then have "ascii_lower 32 \<in> set (lit ''bearer'')"
    by (metis image_eqI list.set_map to_ascii_lowercase_def)
  then show False by (simp add: ascii_lower_def is_ascii_uppercase_def lit_def)
qed

lemma lower_bearer [simp]: "to_ascii_lowercase (lit ''bearer'') = lit ''bearer''"
  by (simp add: to_ascii_lowercase_def ascii_lower_def is_ascii_uppercase_def lit_def)

lemma bearer_token_Some [yields]:
  "bearer_token h = Inr (Some token) \<longleftrightarrow>
     (\<exists>raw. h ''authorization'' = Some (HText raw) \<and> bearer_text raw token)"
proof (cases "h ''authorization''")
  case None
  then show ?thesis by (simp add: bearer_token_def)
next
  case (Some v)
  show ?thesis
  proof (cases v)
    case (HText raw)
    with Some show ?thesis
      by (auto simp: bearer_token_def bearer_text_def yields split_once_Some_iff
          eq_ignore_ascii_case_def list_ex_iff not_less dest: lower_no_space split: if_splits)
  next
    case (HOpaque bs)
    with Some show ?thesis by (simp add: bearer_token_def)
  qed
qed

lemma bearer_token_None [yields]: "bearer_token h = Inr None \<longleftrightarrow> h ''authorization'' = None"
  by (auto simp: bearer_token_def yields split: option.splits prod.splits if_splits)

lemma bearer_token_error: "bearer_token h = Inl e \<Longrightarrow> e = AuthInvalid"
  by (auto simp: bearer_token_def bindR_def ok_or_def
      split: option.splits prod.splits if_splits sum.splits)

section \<open>Asking Shared Auth\<close>

definition absorb :: "u8 list \<Rightarrow> u8 list \<Rightarrow> auth_error + u8 list" where
  "absorb body chunk =
     bindR (ensure (length body + length chunk < 2 ^ 64) AuthInvalid) (\<lambda>_.
     let next_len = length body + length chunk in
     if MAX_RESPONSE_BYTES < next_len then Inl AuthInvalid else Inr (body @ chunk))"

definition bounded_response :: "http_reply \<Rightarrow> auth_error + u8 list" where
  "bounded_response reply = stream AuthUnavailable absorb [] (reply_chunks reply)"

interpretation body: bounded_stream AuthUnavailable absorb "\<lambda>b. b" "\<lambda>_. True" MAX_RESPONSE_BYTES
  by unfold_locales (auto simp: absorb_def MAX_RESPONSE_BYTES_def ensure_def)

lemma bounded_response_Inr [yields]:
  "bounded_response reply = Inr out \<longleftrightarrow>
     chunk_bytes (reply_chunks reply) = Some out \<and> length out \<le> MAX_RESPONSE_BYTES"
  using body.stream_iff [of "[]" "reply_chunks reply" out]
  by (auto simp: bounded_response_def)

lemma bounded_response_stops:
  assumes "chunk_bytes front = Some body" and "MAX_RESPONSE_BYTES < length body"
  shows "bounded_response (reply\<lparr>reply_chunks := front @ rest\<rparr>) = Inl AuthInvalid"
proof -
  have "stream AuthUnavailable absorb [] (front @ rest) = Inl AuthInvalid"
    by (rule body.stream_stops [where body = body])
      (use assms in \<open>auto simp: absorb_def bindR_def ensure_def Let_def split: if_splits sum.splits\<close>)
  then show ?thesis by (simp add: bounded_response_def)
qed

definition authorize_introspection :: "introspection \<Rightarrow> str \<Rightarrow> auth_error + unit" where
  "authorize_introspection i audience =
     (if \<not> in_active i \<or> in_aud i \<noteq> Some audience then Inl AuthInvalid
      else if \<not> has_scope i (lit ''hhm:intake:write'') then Inl AuthForbidden
      else Inr ())"

type_synonym ask = "introspection_request \<Rightarrow> http_reply option"

definition introspection_call :: "authenticator \<Rightarrow> str \<Rightarrow> introspection_request" where
  "introspection_call self token =
     \<lparr>iq_endpoint = au_endpoint self, iq_bearer = au_service_credential self,
      iq_contract = lit ''IntrospectionRequest'', iq_token = token,
      iq_audience = au_audience self, iq_required_scopes = REQUIRED_SCOPES\<rparr>"

definition auth_verify ::
  "ask \<Rightarrow> (u8 list \<Rightarrow> introspection option) \<Rightarrow> authenticator \<Rightarrow> str \<Rightarrow> auth_error + verified_subject" where
  "auth_verify ask decode self token =
     bindR (ok_or (ask (introspection_call self token)) AuthUnavailable) (\<lambda>response.
     let status = reply_status response in
     if is_server_error status then Inl AuthUnavailable
     else if status = 401 \<or> \<not> is_success status then Inl AuthInvalid
     else if (case reply_content_length response of
                None \<Rightarrow> False | Some len \<Rightarrow> of_nat MAX_RESPONSE_BYTES < len)
     then Inl AuthInvalid
     else
     bindR (bounded_response response) (\<lambda>bytes.
     bindR (ok_or (decode bytes) AuthInvalid) (\<lambda>answer.
     bindR (authorize_introspection answer (au_audience self)) (\<lambda>_.
     if (case in_sub answer of None \<Rightarrow> True | Some s \<Rightarrow> s = []) then Inl AuthInvalid
     else
     bindR (ok_or (in_sub answer) AuthInvalid) (\<lambda>claim.
     map_err (\<lambda>_. AuthInvalid) (from_verified_claim claim))))))"

definition optional_subject ::
  "ask \<Rightarrow> (u8 list \<Rightarrow> introspection option) \<Rightarrow> authenticator \<Rightarrow> header_map
    \<Rightarrow> auth_error + verified_subject option" where
  "optional_subject ask decode self headers =
     bindR (bearer_token headers) (\<lambda>found.
     case found of
       None \<Rightarrow> Inr None
     | Some token \<Rightarrow> bindR (auth_verify ask decode self token) (\<lambda>s. Inr (Some s)))"

definition required_subject ::
  "ask \<Rightarrow> (u8 list \<Rightarrow> introspection option) \<Rightarrow> authenticator \<Rightarrow> header_map
    \<Rightarrow> auth_error + verified_subject" where
  "required_subject ask decode self headers =
     bindR (bearer_token headers) (\<lambda>found.
     bindR (ok_or found AuthMissing) (\<lambda>token.
     auth_verify ask decode self token))"

section \<open>Who is let in\<close>

text \<open>An answer of the authority that vouches for a subject: a success status other than 401 that
  declares and delivers at most the bound, decoding to an active token for our audience with
  the write scope.\<close>

definition vouches ::
  "(u8 list \<Rightarrow> introspection option) \<Rightarrow> str \<Rightarrow> http_reply \<Rightarrow> str \<Rightarrow> bool" where
  "vouches decode audience reply claim \<longleftrightarrow>
     is_success (reply_status reply) \<and>
     (\<forall>len. reply_content_length reply = Some len \<longrightarrow> unat len \<le> MAX_RESPONSE_BYTES) \<and>
     (\<exists>bytes i scope. chunk_bytes (reply_chunks reply) = Some bytes \<and>
        length bytes \<le> MAX_RESPONSE_BYTES \<and> decode bytes = Some i \<and>
        in_active i \<and> in_aud i = Some audience \<and> in_scope i = Some scope \<and>
        lit ''hhm:intake:write'' \<in> set (split_ascii_whitespace scope) \<and> in_sub i = Some claim)"

lemma authorize_introspection_iff [yields]:
  "authorize_introspection i audience = Inr u \<longleftrightarrow>
     in_active i \<and> in_aud i = Some audience \<and>
     (\<exists>scope. in_scope i = Some scope \<and>
        lit ''hhm:intake:write'' \<in> set (split_ascii_whitespace scope))"
  by (auto simp: authorize_introspection_def has_scope_def list_ex_iff split: option.splits)

lemma declared_length_iff:
  "of_nat MAX_RESPONSE_BYTES < (len :: u64) \<longleftrightarrow> \<not> unat len \<le> MAX_RESPONSE_BYTES"
  by (simp add: word_less_nat_alt MAX_RESPONSE_BYTES_def not_le)

lemma subject_claim_iff:
  "(if (case sub of None \<Rightarrow> True | Some s \<Rightarrow> s = []) then Inl AuthInvalid
    else bindR (ok_or sub AuthInvalid) (\<lambda>claim.
      map_err (\<lambda>_. AuthInvalid) (from_verified_claim claim))) = Inr s \<longleftrightarrow>
   sub = Some (as_str s) \<and> wf_subject s"
  by (cases sub; cases s) (auto simp: yields wf_subject_def)

lemma auth_verify_Inr [yields]:
  "auth_verify ask decode self token = Inr s \<longleftrightarrow>
     (\<exists>reply. ask (introspection_call self token) = Some reply \<and>
        vouches decode (au_audience self) reply (as_str s)) \<and> wf_subject s"
proof (cases "ask (introspection_call self token)")
  case None
  then show ?thesis by (simp add: auth_verify_def)
next
  case (Some reply)
  have success: "is_success n \<Longrightarrow> \<not> is_server_error n \<and> n \<noteq> 401" for n
    by (simp add: is_success_def is_server_error_def)
  show ?thesis
  proof (cases "is_success (reply_status reply) \<and>
      (\<forall>len. reply_content_length reply = Some len \<longrightarrow> unat len \<le> MAX_RESPONSE_BYTES)")
    case False
    with Some show ?thesis
      by (auto simp: auth_verify_def vouches_def Let_def declared_length_iff)
  next
    case True
    then have "auth_verify ask decode self token =
      bindR (bounded_response reply) (\<lambda>bytes.
      bindR (ok_or (decode bytes) AuthInvalid) (\<lambda>answer.
      bindR (authorize_introspection answer (au_audience self)) (\<lambda>_.
      if (case in_sub answer of None \<Rightarrow> True | Some s \<Rightarrow> s = []) then Inl AuthInvalid
      else
      bindR (ok_or (in_sub answer) AuthInvalid) (\<lambda>claim.
      map_err (\<lambda>_. AuthInvalid) (from_verified_claim claim)))))"
      using Some success by (auto simp: auth_verify_def Let_def declared_length_iff split: option.splits)
    then show ?thesis
      using True Some
      by (auto simp: vouches_def bindR_Inr_iff ok_or_Inr_iff subject_claim_iff
          bounded_response_Inr authorize_introspection_iff)
  qed
qed

lemma optional_subject_None [yields]:
  "optional_subject ask decode self h = Inr None \<longleftrightarrow> h ''authorization'' = None"
  by (auto simp: optional_subject_def yields split: option.splits)

lemma optional_subject_Some [yields]:
  "optional_subject ask decode self h = Inr (Some s) \<longleftrightarrow>
     required_subject ask decode self h = Inr s"
  by (auto simp: optional_subject_def required_subject_def bindR_Inr_iff ok_or_Inr_iff
      split: option.splits)

lemma required_subject_Inr [yields]:
  "required_subject ask decode self h = Inr s \<longleftrightarrow>
     (\<exists>raw token. h ''authorization'' = Some (HText raw) \<and> bearer_text raw token \<and>
        auth_verify ask decode self token = Inr s)"
proof -
  have "required_subject ask decode self h = Inr s \<longleftrightarrow>
      (\<exists>token. bearer_token h = Inr (Some token) \<and> auth_verify ask decode self token = Inr s)"
    by (auto simp: required_subject_def bindR_Inr_iff ok_or_Inr_iff)
  also have "\<dots> \<longleftrightarrow> (\<exists>raw token. h ''authorization'' = Some (HText raw) \<and> bearer_text raw token \<and>
        auth_verify ask decode self token = Inr s)"
    unfolding bearer_token_Some by blast
  finally show ?thesis .
qed

lemma required_subject_wf: "required_subject ask decode self h = Inr s \<Longrightarrow> wf_subject s"
  by (auto simp: yields)

end
