(* ===== verification/External.thy ===== *)
theory External imports Config Intake_Types begin

text \<open>
  \<open>src/external.rs\<close>: the Turnstile check and the private object storage. The remote services are
  the parameters \<open>siteverify\<close>, \<open>sign\<close> and \<open>fetch\<close>, their JSON decoders \<open>decode\<close>; SHA-256 (the
  package \<open>sha2\<close>) is the parameter \<open>sha256\<close>.
\<close>

definition INTAKE_BUCKET :: str where "INTAKE_BUCKET = lit ''hhm-intake-private''"
definition MAX_UPLOAD_BYTES :: u64 where "MAX_UPLOAD_BYTES = 10 * 1024 * 1024"

datatype external_error = Rejected | Unavailable | ObjectMismatch | InvalidResponse

record turnstile_verifier =
  tv_secret :: str
  tv_expected_action :: str

record supabase_storage =
  sb_project_url :: url
  sb_service_role_key :: str

record turnstile_response =
  tr_success :: bool
  tr_hostname :: str
  tr_action :: str

definition turnstile_from_config :: "'addr config \<Rightarrow> turnstile_verifier" where
  "turnstile_from_config c =
     \<lparr>tv_secret = turnstile_secret_key c, tv_expected_action = turnstile_action c\<rparr>"

definition storage_from_config :: "'addr config \<Rightarrow> supabase_storage" where
  "storage_from_config c =
     \<lparr>sb_project_url = supabase_url c, sb_service_role_key = supabase_service_role_key c\<rparr>"

section \<open>Turnstile\<close>

definition site_hosts :: "str list" where
  "site_hosts =
     [lit ''hhaus.org'', lit ''www.hhaus.org'', lit ''user.hhaus.org'', lit ''medellin.hhaus.org'']"

definition turnstile_verify ::
  "(str \<Rightarrow> str \<Rightarrow> http_reply option) \<Rightarrow> (u8 list \<Rightarrow> turnstile_response option)
    \<Rightarrow> turnstile_verifier \<Rightarrow> str \<Rightarrow> external_error + unit" where
  "turnstile_verify siteverify decode self token =
     (if token = [] \<or> 4096 < str_len token \<or> list_ex is_control token then Inl Rejected
      else
      bindR (ok_or (siteverify (tv_secret self) token) Unavailable) (\<lambda>response.
      if \<not> is_success (reply_status response) then Inl Unavailable
      else
      bindR (ok_or (response_json decode response) InvalidResponse) (\<lambda>result.
      if \<not> tr_success result \<or> tr_action result \<noteq> tv_expected_action self \<or>
         \<not> List.member site_hosts (tr_hostname result)
      then Inl Rejected else Inr ())))"

lemma turnstile_verify_Inr [yields]:
  "turnstile_verify siteverify decode self token = Inr u \<longleftrightarrow>
     token \<noteq> [] \<and> str_len token \<le> 4096 \<and> (\<forall>c \<in> set token. \<not> is_control c) \<and>
     (\<exists>reply result. siteverify (tv_secret self) token = Some reply \<and>
        is_success (reply_status reply) \<and> response_json decode reply = Some result \<and>
        tr_success result \<and> tr_action result = tv_expected_action self \<and>
        tr_hostname result \<in> set site_hosts)"
  by (auto simp: turnstile_verify_def yields list_ex_iff not_less)

section \<open>Object keys\<close>

definition key_byte :: "nat \<Rightarrow> bool" where
  "key_byte b \<longleftrightarrow> is_ascii_alphanumeric b \<or> b = 45 \<or> b = 95"

interpretation object_key: ascii_class key_byte
  by unfold_locales (auto simp: key_byte_def ascii_class_defs)

definition bad_segment :: "str \<Rightarrow> bool" where
  "bad_segment segment \<longleftrightarrow>
     segment = [] \<or> segment = lit ''.'' \<or> segment = lit ''..'' \<or>
     \<not> list_all key_byte (str_bytes segment)"

definition validate_object_key :: "str \<Rightarrow> external_error + unit" where
  "validate_object_key value =
     (if value = [] \<or> 1024 < str_len value \<or> starts_with value (lit ''/'') \<or>
         list_ex bad_segment (split_on 47 value)
      then Inl InvalidResponse else Inr ())"

lemma bad_segment_iff: "\<not> bad_segment s \<longleftrightarrow> s \<noteq> [] \<and> list_all key_byte s"
  by (auto simp: bad_segment_def object_key.bytes_iff lit_def key_byte_def ascii_class_defs)

lemma validate_object_key_Inr [yields]:
  "validate_object_key v = Inr u \<longleftrightarrow>
     str_len v \<le> 1024 \<and> (\<forall>s \<in> set (split_on 47 v). s \<noteq> [] \<and> list_all key_byte s)"
proof -
  have first: "v \<noteq> [] \<and> \<not> starts_with v (lit ''/'')"
    if "\<forall>s \<in> set (split_on 47 v). s \<noteq> []"
    using that by (cases v) (auto simp: starts_with_def lit_def)
  have "validate_object_key v = Inr u \<longleftrightarrow>
      v \<noteq> [] \<and> str_len v \<le> 1024 \<and> \<not> starts_with v (lit ''/'') \<and>
      (\<forall>s \<in> set (split_on 47 v). \<not> bad_segment s)"
    by (auto simp: validate_object_key_def list_ex_iff)
  with first show ?thesis unfolding bad_segment_iff by blast
qed

section \<open>Signed upload addresses\<close>

definition storage_base :: "url_lib \<Rightarrow> supabase_storage \<Rightarrow> external_error + url" where
  "storage_base lib self =
     ok_or (url_join lib (sb_project_url self) (lit ''storage/v1/'')) InvalidResponse"

definition relative_upload :: "str \<Rightarrow> str" where
  "relative_upload raw =
     (let suffix = unwrap_or (strip_prefix raw (lit ''/'')) raw;
          suffix = unwrap_or (strip_prefix suffix (lit ''object/'')) suffix in
      lit ''object/'' @ suffix)"

definition create_signed_upload_url ::
  "url_lib \<Rightarrow> (url \<Rightarrow> str \<Rightarrow> http_reply option) \<Rightarrow> (u8 list \<Rightarrow> str option) \<Rightarrow> supabase_storage
    \<Rightarrow> str \<Rightarrow> external_error + url" where
  "create_signed_upload_url lib sign decode self object_key =
     bindR (validate_object_key object_key) (\<lambda>_.
     bindR (storage_base lib self) (\<lambda>base.
     bindR (ok_or (url_join lib base
        (lit ''object/upload/sign/'' @ INTAKE_BUCKET @ lit ''/'' @ object_key)) InvalidResponse)
       (\<lambda>endpoint.
     bindR (ok_or (sign endpoint (sb_service_role_key self)) Unavailable) (\<lambda>response.
     if \<not> is_success (reply_status response) then Inl Unavailable
     else
     bindR (ok_or (response_json decode response) InvalidResponse) (\<lambda>signed.
     bindR (if starts_with signed (lit ''https://'')
            then ok_or (url_parse lib signed) InvalidResponse
            else ok_or (url_join lib base (relative_upload signed)) InvalidResponse) (\<lambda>signed_url.
     if scheme signed_url \<noteq> lit ''https'' \<or> host_str signed_url \<noteq> host_str (sb_project_url self) \<or>
        \<not> starts_with (path signed_url) (lit ''/storage/v1/object/upload/sign/'') \<or>
        list_all (\<lambda>(key, _). key \<noteq> lit ''token'') (url_query_pairs lib signed_url)
     then Inl InvalidResponse else Inr signed_url))))))"

lemma create_signed_upload_url_Inl:
  "create_signed_upload_url lib sign decode self object_key = Inl e \<Longrightarrow>
     e = Unavailable \<or> e = InvalidResponse"
  by (auto simp: create_signed_upload_url_def bindR_def ok_or_def validate_object_key_def
      storage_base_def Let_def split: sum.splits option.splits if_splits)

text \<open>An address handed to the client: encrypted, on the project's own host, an upload path, and
  carrying a token.\<close>

definition safe_upload_url :: "url_lib \<Rightarrow> supabase_storage \<Rightarrow> url \<Rightarrow> bool" where
  "safe_upload_url lib self u \<longleftrightarrow>
     scheme u = lit ''https'' \<and> host_str u = host_str (sb_project_url self) \<and>
     starts_with (path u) (lit ''/storage/v1/object/upload/sign/'') \<and>
     lit ''token'' \<in> fst ` set (url_query_pairs lib u)"

lemma create_signed_upload_url_safe:
  "create_signed_upload_url lib sign decode self object_key = Inr u \<Longrightarrow>
     is_ok (validate_object_key object_key) \<and> safe_upload_url lib self u"
  unfolding create_signed_upload_url_def
  by (elim bindRE guardRE) (force simp: safe_upload_url_def list_all_iff)

section \<open>Checking a stored object\<close>

definition media_type :: "header_value option \<Rightarrow> str option" where
  "media_type value =
     Option.bind value (\<lambda>v. Option.bind (header_to_str v) (\<lambda>text.
       map_option trim (case split_on 59 text of [] \<Rightarrow> None | first # _ \<Rightarrow> Some first)))"

text \<open>The loop state: the size counted so far and the bytes fed to the digest.\<close>

definition observe ::
  "u64 \<Rightarrow> u64 \<times> u8 list \<Rightarrow> u8 list \<Rightarrow> external_error + u64 \<times> u8 list" where
  "observe expected_size st chunk =
     (case st of (observed_size, digested) \<Rightarrow>
     bindR (ensure (length chunk < 2 ^ 64) ObjectMismatch) (\<lambda>_.
     bindR (ok_or (u64_checked_add observed_size (of_nat (length chunk))) ObjectMismatch) (\<lambda>size.
     if expected_size < size \<or> MAX_UPLOAD_BYTES < size then Inl ObjectMismatch
     else Inr (size, digested @ chunk))))"

definition verify_object ::
  "url_lib \<Rightarrow> (url \<Rightarrow> str \<Rightarrow> http_reply option) \<Rightarrow> (u8 list \<Rightarrow> u8 list) \<Rightarrow> supabase_storage
    \<Rightarrow> pending_upload \<Rightarrow> external_error + unit" where
  "verify_object lib fetch sha256 self expected =
     bindR (validate_object_key (pu_object_key expected)) (\<lambda>_.
     if MAX_UPLOAD_BYTES < pu_size_bytes expected then Inl ObjectMismatch
     else
     bindR (storage_base lib self) (\<lambda>base.
     bindR (ok_or (url_join lib base (lit ''object/authenticated/'' @ INTAKE_BUCKET @ lit ''/''
        @ pu_object_key expected)) InvalidResponse) (\<lambda>endpoint.
     bindR (ok_or (fetch endpoint (sb_service_role_key self)) Unavailable) (\<lambda>response.
     if \<not> is_success (reply_status response) then Inl ObjectMismatch
     else
     bindR (ok_or (media_type (reply_content_type response)) ObjectMismatch) (\<lambda>content_type.
     if content_type \<noteq> pu_content_type expected then Inl ObjectMismatch
     else if (case reply_content_length response of
                None \<Rightarrow> False | Some len \<Rightarrow> len \<noteq> pu_size_bytes expected)
     then Inl ObjectMismatch
     else
     bindR (stream Unavailable (observe (pu_size_bytes expected)) (0, []) (reply_chunks response))
       (\<lambda>(observed_size, digested).
     let observed_digest = lower_hex (sha256 digested) in
     if observed_size \<noteq> pu_size_bytes expected \<or> observed_digest \<noteq> pu_expected_sha256 expected
     then Inl ObjectMismatch else Inr ()))))))"

definition object_limit :: "u64 \<Rightarrow> nat" where
  "object_limit expected_size = min (unat expected_size) (unat MAX_UPLOAD_BYTES)"

definition size_in_step :: "u64 \<times> u8 list \<Rightarrow> bool" where
  "size_in_step st \<longleftrightarrow> unat (fst st) = length (snd st)"

lemma observe_step:
  assumes "size_in_step st"
  shows "observe n st bs =
    (if length (snd st) + length bs \<le> object_limit n
     then Inr (fst st + of_nat (length bs), snd st @ bs) else Inl ObjectMismatch)"
    and "length (snd st) + length bs \<le> object_limit n \<Longrightarrow>
      size_in_step (fst st + of_nat (length bs), snd st @ bs)"
proof -
  obtain size digested where st: "st = (size, digested)" by (cases st)
  have size: "unat size = length digested" using assms st by (simp add: size_in_step_def)
  have small: "unat (size + of_nat (length bs)) = length digested + length bs"
    if "length digested + length bs < 2 ^ 64"
    using that size by (simp add: unat_word_ariths unat_of_nat take_bit_eq_mod)
  have "unat n < 2 ^ 64" using unsigned_less [of n] by simp
  then have lim: "object_limit n < 2 ^ 64" by (simp add: object_limit_def)
  show "observe n st bs =
    (if length (snd st) + length bs \<le> object_limit n
     then Inr (fst st + of_nat (length bs), snd st @ bs) else Inl ObjectMismatch)"
  proof (cases "length digested + length bs < 2 ^ 64")
    case True
    have add: "u64_checked_add size (of_nat (length bs)) = Some (size + of_nat (length bs))"
      using True size
      by (simp add: u64_checked_add_def uint_nat unat_of_nat take_bit_eq_mod flip: of_nat_add)
    from True small [OF True] show ?thesis
      by (auto simp: st observe_def add word_less_nat_alt object_limit_def ensure_def)
  next
    case False
    have "u64_checked_add size (of_nat (length bs)) = None" if "length bs < 2 ^ 64"
      using that False size
      by (simp add: u64_checked_add_def uint_nat unat_of_nat take_bit_eq_mod flip: of_nat_add)
    with False lim show ?thesis by (auto simp: st observe_def ensure_def)
  qed
  show "size_in_step (fst st + of_nat (length bs), snd st @ bs)"
    if "length (snd st) + length bs \<le> object_limit n"
    using small that lim by (simp add: st size_in_step_def)
qed

interpretation object_stream: bounded_stream Unavailable "observe n" snd size_in_step "object_limit n"
  for n
  by unfold_locales (simp_all add: observe_step)

text \<open>What a verified object is: the reply to the authenticated request for exactly that key is a
  success whose media type, length and digest are the declared ones.\<close>

definition stored_object ::
  "url_lib \<Rightarrow> (url \<Rightarrow> str \<Rightarrow> http_reply option) \<Rightarrow> supabase_storage \<Rightarrow> str \<Rightarrow> http_reply option" where
  "stored_object lib fetch self object_key =
     Option.bind (url_join lib (sb_project_url self) (lit ''storage/v1/'')) (\<lambda>base.
     Option.bind (url_join lib base (lit ''object/authenticated/'' @ INTAKE_BUCKET @ lit ''/''
        @ object_key)) (\<lambda>endpoint.
     fetch endpoint (sb_service_role_key self)))"

definition object_matches :: "(u8 list \<Rightarrow> u8 list) \<Rightarrow> pending_upload \<Rightarrow> http_reply \<Rightarrow> bool" where
  "object_matches sha256 expected reply \<longleftrightarrow>
     is_success (reply_status reply) \<and>
     media_type (reply_content_type reply) = Some (pu_content_type expected) \<and>
     reply_content_length reply \<in> {None, Some (pu_size_bytes expected)} \<and>
     (\<exists>body. chunk_bytes (reply_chunks reply) = Some body \<and>
        length body = unat (pu_size_bytes expected) \<and>
        lower_hex (sha256 body) = pu_expected_sha256 expected)"

lemma object_stream_Inr:
  "stream Unavailable (observe n) (0, []) cs = Inr (sz, digested) \<longleftrightarrow>
     chunk_bytes cs = Some digested \<and> length digested \<le> object_limit n \<and>
     sz = of_nat (length digested)" (is "?l \<longleftrightarrow> ?r")
proof
  have start: "size_in_step (0, [])" by (simp add: size_in_step_def)
  have count: "k = of_nat (length bs)" if "size_in_step (k, bs)" for k bs
  proof -
    have "k = of_nat (unat k)" by simp
    also have "unat k = length bs" using that by (simp add: size_in_step_def)
    finally show ?thesis .
  qed
  {
    assume ?l
    then have "\<exists>body. chunk_bytes cs = Some body \<and> size_in_step (sz, digested) \<and>
        snd (sz, digested) = snd (0 :: u64, []) @ body \<and> length (snd (sz, digested)) \<le> object_limit n"
      by (intro object_stream.stream_sound [OF start]) (simp_all only: snd_conv list.size le0)
    then show ?r using count [of sz digested] by fastforce
  next
    assume r: ?r
    with object_stream.stream_complete [OF start, of cs digested n]
    obtain s' where "stream Unavailable (observe n) (0, []) cs = Inr s'" "size_in_step s'"
      "snd s' = digested" by auto
    with r count [of "fst s'" "snd s'"] show ?l by (cases s') simp
  }
qed

lemma of_nat_length_eq_iff:
  "length bs \<le> object_limit n \<Longrightarrow> of_nat (length bs) = n \<longleftrightarrow> length bs = unat n" for n :: u64
proof -
  assume "length bs \<le> object_limit n"
  moreover have "unat n < 2 ^ 64" using unsigned_less [of n] by simp
  ultimately have "length bs < 2 ^ 64" by (simp add: object_limit_def)
  then have "unat (of_nat (length bs) :: u64) = length bs"
    by (simp add: unat_of_nat take_bit_eq_mod)
  then show ?thesis by (metis of_nat_unat word_unat_eq_iff)
qed

lemma verify_object_Inr [yields]:
  "verify_object lib fetch sha256 self expected = Inr u \<longleftrightarrow>
     validate_object_key (pu_object_key expected) = Inr () \<and>
     pu_size_bytes expected \<le> MAX_UPLOAD_BYTES \<and>
     (\<exists>reply. stored_object lib fetch self (pu_object_key expected) = Some reply \<and>
        object_matches sha256 expected reply)" (is "?l \<longleftrightarrow> ?r")
proof -
  let ?n = "pu_size_bytes expected"
  have fits: "length body \<le> object_limit ?n" if "length body = unat ?n" "?n \<le> MAX_UPLOAD_BYTES"
    for body :: "u8 list"
    using that by (simp add: object_limit_def word_le_nat_alt)
  have body: "bindR (stream Unavailable (observe ?n) (0, []) cs) (\<lambda>(observed_size, digested).
      let observed_digest = lower_hex (sha256 digested) in
      if observed_size \<noteq> ?n \<or> observed_digest \<noteq> pu_expected_sha256 expected
      then Inl ObjectMismatch else Inr ()) = Inr () \<longleftrightarrow>
      (\<exists>body. chunk_bytes cs = Some body \<and> length body = unat ?n \<and>
        lower_hex (sha256 body) = pu_expected_sha256 expected)"
    if limit: "?n \<le> MAX_UPLOAD_BYTES" for cs
  proof -
    have whole: "of_nat (length bs) = ?n"
      if "length bs = unat ?n" for bs :: "u8 list"
      using that by simp
    have iff: "(sz = ?n \<and> stream Unavailable (observe ?n) (0, []) cs = Inr (sz, bs)) \<longleftrightarrow>
        (sz = ?n \<and> chunk_bytes cs = Some bs \<and> length bs = unat ?n)" for sz bs
      using limit fits [of bs] whole [of bs] of_nat_length_eq_iff [of bs ?n]
      by (auto simp: object_stream_Inr)
    have "bindR r (\<lambda>(observed_size, digested).
        let observed_digest = lower_hex (sha256 digested) in
        if observed_size \<noteq> ?n \<or> observed_digest \<noteq> pu_expected_sha256 expected
        then Inl ObjectMismatch else Inr ()) = Inr () \<longleftrightarrow>
      (\<exists>sz bs. (sz = ?n \<and> r = Inr (sz, bs)) \<and> lower_hex (sha256 bs) = pu_expected_sha256 expected)" for r
      by (cases r) (auto simp: Let_def split: if_splits)
    then have "bindR (stream Unavailable (observe ?n) (0, []) cs) (\<lambda>(observed_size, digested).
        let observed_digest = lower_hex (sha256 digested) in
        if observed_size \<noteq> ?n \<or> observed_digest \<noteq> pu_expected_sha256 expected
        then Inl ObjectMismatch else Inr ()) = Inr () \<longleftrightarrow>
      (\<exists>sz bs. (sz = ?n \<and> chunk_bytes cs = Some bs \<and> length bs = unat ?n) \<and>
        lower_hex (sha256 bs) = pu_expected_sha256 expected)"
      by (simp only: iff)
    then show ?thesis by blast
  qed
  define finish where "finish cs =
      bindR (stream Unavailable (observe ?n) (0, []) cs) (\<lambda>(observed_size, digested).
      let observed_digest = lower_hex (sha256 digested) in
      if observed_size \<noteq> ?n \<or> observed_digest \<noteq> pu_expected_sha256 expected
      then Inl ObjectMismatch else Inr ())" for cs
  note unfolded = verify_object_def [of lib fetch sha256 self expected, folded finish_def]
  note finished = body [folded finish_def]
  show ?thesis
  proof
    assume ?l
    then show ?r
      unfolding unfolded
      by (elim bindRE guardRE)
        (auto simp: yields storage_base_def stored_object_def object_matches_def finished not_less
          split: option.splits)
  next
    assume ?r
    then show ?l
      by (auto simp: unfolded storage_base_def stored_object_def object_matches_def finished
          bind_eq_Some_conv)
  qed
qed

end
