(* ===== verification/Api.thy ===== *)
theory Api imports Auth External Persistence begin

text \<open>
  \<open>src/api.rs\<close>: the request handlers. A handler runs on a \<open>world\<close> of the two database sessions
  and returns the response or the failure, with every effect it had until then. What lies
  outside the repository is the parameter record \<open>services\<close>: the payload contract, the URL
  package, the remote services, JSON and SHA-256, and the wall clock read when an upload
  intent is stored. \<open>Aborted\<close> is not a response of the source but a handler that panicked.
\<close>

section \<open>Failures\<close>

record api_failure =
  af_status :: nat
  af_code :: string
  af_message :: string
  af_retryable :: bool
  af_submission_id :: "uuid option"

datatype api_error = Failed api_failure | Aborted

definition api_failure_new ::
  "nat \<Rightarrow> string \<Rightarrow> string \<Rightarrow> bool \<Rightarrow> uuid option \<Rightarrow> api_failure" where
  "api_failure_new status code message retryable submission_id =
     \<lparr>af_status = status, af_code = code, af_message = message, af_retryable = retryable,
      af_submission_id = submission_id\<rparr>"

definition failure_invalid :: api_failure where
  "failure_invalid = api_failure_new 422 ''invalid_request''
     ''The request did not satisfy the intake contract.'' False None"

definition failure_conflict :: api_failure where
  "failure_conflict = api_failure_new 409 ''intake_conflict''
     ''The intake resource conflicts with its verified state.'' False None"

definition mirror_unavailable :: "uuid \<Rightarrow> api_failure" where
  "mirror_unavailable i = api_failure_new 503 ''dual_persistence_incomplete''
     ''The submission is retained for retry but is not yet accepted.'' True (Some i)"

fun failure_of_auth :: "auth_error \<Rightarrow> api_failure" where
  "failure_of_auth AuthMissing = api_failure_new 401 ''authentication_required''
     ''A valid Shared Auth session is required.'' False None"
| "failure_of_auth AuthInvalid = api_failure_new 401 ''authentication_required''
     ''A valid Shared Auth session is required.'' False None"
| "failure_of_auth AuthForbidden = api_failure_new 403 ''authorization_denied''
     ''The authenticated subject is not allowed to perform this action.'' False None"
| "failure_of_auth AuthUnavailable = api_failure_new 503 ''authentication_unavailable''
     ''Shared Auth could not make an authorization decision.'' True None"

fun failure_of_external :: "external_error \<Rightarrow> api_failure" where
  "failure_of_external Rejected = failure_invalid"
| "failure_of_external ObjectMismatch = failure_conflict"
| "failure_of_external Unavailable = api_failure_new 503 ''external_verification_unavailable''
     ''An external verification step could not be completed.'' True None"
| "failure_of_external InvalidResponse = api_failure_new 503 ''external_verification_unavailable''
     ''An external verification step could not be completed.'' True None"

definition persistence_unavailable :: api_failure where
  "persistence_unavailable = api_failure_new 503 ''persistence_unavailable''
     ''The intake service could not complete persistence.'' True None"

fun failure_of_data :: "data_error \<Rightarrow> api_error" where
  "failure_of_data (Validation _) = Failed failure_invalid"
| "failure_of_data (InvalidContext _) = Failed failure_invalid"
| "failure_of_data IdempotencyConflict = Failed failure_conflict"
| "failure_of_data IntakeObjectUnavailable = Failed failure_conflict"
| "failure_of_data Unauthenticated = Failed (failure_of_auth AuthMissing)"
| "failure_of_data Database = Failed persistence_unavailable"
| "failure_of_data Decode = Failed persistence_unavailable"
| "failure_of_data Invariant = Failed persistence_unavailable"
| "failure_of_data Panicked = Aborted"

section \<open>State and environment\<close>

record services =
  sv_contract :: contract
  sv_uuid_display :: "uuid \<Rightarrow> str"
  sv_url_lib :: url_lib
  sv_ask :: ask
  sv_decode_introspection :: "u8 list \<Rightarrow> introspection option"
  sv_siteverify :: "str \<Rightarrow> str \<Rightarrow> http_reply option"
  sv_decode_turnstile :: "u8 list \<Rightarrow> turnstile_response option"
  sv_sign :: "url \<Rightarrow> str \<Rightarrow> http_reply option"
  sv_decode_signed :: "u8 list \<Rightarrow> str option"
  sv_fetch :: "url \<Rightarrow> str \<Rightarrow> http_reply option"
  sv_sha256 :: "u8 list \<Rightarrow> u8 list"
  sv_utc_now :: "persistence_target \<Rightarrow> timestamp"
  sv_pre_interest_to_value :: "pre_interest_create \<Rightarrow> json option"
  sv_upload_intent_to_value :: "upload_intent_create \<Rightarrow> json option"
  sv_application_to_value :: "application_create \<Rightarrow> json option"
  sv_json_to_vec :: "json \<Rightarrow> u8 list option"
  sv_referral_to_vec :: "referral_create \<Rightarrow> u8 list option"

record app_state =
  app_auth :: authenticator
  app_turnstile :: turnstile_verifier
  app_storage :: supabase_storage
  app_services :: services

record world =
  w_primary :: session
  w_supabase :: session

type_synonym 'a handler = "(world, api_error, 'a) action"

definition on_primary :: "'a db \<Rightarrow> (world, data_error, 'a) action" where
  "on_primary m w = (case m (w_primary w) of (r, s) \<Rightarrow> (r, w\<lparr>w_primary := s\<rparr>))"

definition on_supabase :: "'a db \<Rightarrow> (world, data_error, 'a) action" where
  "on_supabase m w = (case m (w_supabase w) of (r, s) \<Rightarrow> (r, w\<lparr>w_supabase := s\<rparr>))"

text \<open>\<open>map_err(ApiFailure::from)\<close>; the second form is \<open>map_err\<close> with a failure of the caller's,
  the third leaves the result to the caller. A panic is not an error any of them can catch.\<close>

definition from_data :: "(world, data_error, 'a) action \<Rightarrow> 'a handler" where
  "from_data m = map_errA failure_of_data m"

definition or_failure :: "api_failure \<Rightarrow> (world, data_error, 'a) action \<Rightarrow> 'a handler" where
  "or_failure f m = map_errA (\<lambda>e. if e = Panicked then Aborted else Failed f) m"

definition caught :: "(world, data_error, 'a) action \<Rightarrow> (data_error + 'a) handler" where
  "caught m w = (case m w of
     (Inl Panicked, w') \<Rightarrow> (Inl Aborted, w')
   | (r, w') \<Rightarrow> (Inr r, w'))"

definition reject :: "'a option \<Rightarrow> api_failure + 'a" where
  "reject r = ok_or r failure_invalid"

section \<open>Request headers\<close>

definition header_text :: "header_map \<Rightarrow> string \<Rightarrow> api_failure + str" where
  "header_text headers name =
     bindR (reject (headers name)) (\<lambda>value. reject (header_to_str value))"

definition idempotency_key :: "header_map \<Rightarrow> api_failure + str" where
  "idempotency_key headers =
     bindR (header_text headers ''idempotency-key'') (\<lambda>value.
     if \<not> (16 \<le> str_len value \<and> str_len value \<le> 128) \<or> list_ex is_whitespace value \<or>
        list_ex is_control value
     then Inl failure_invalid else Inr value)"

definition source_host :: "url_lib \<Rightarrow> header_map \<Rightarrow> api_failure + str" where
  "source_host lib headers =
     bindR (header_text headers ''origin'') (\<lambda>origin.
     bindR (reject (url_parse lib origin)) (\<lambda>url.
     if scheme url \<noteq> lit ''https'' \<or> path url \<noteq> lit ''/'' \<or> query url \<noteq> None \<or> fragment url \<noteq> None
     then Inl failure_invalid
     else
     bindR (reject (host_str url)) (\<lambda>host.
     if \<not> List.member site_hosts host then Inl failure_invalid else Inr host)))"

section \<open>Digests\<close>

definition canonical_digest :: "(u8 list \<Rightarrow> u8 list) \<Rightarrow> u8 list option \<Rightarrow> api_failure + str" where
  "canonical_digest sha256 serialized =
     bindR (reject serialized) (\<lambda>bytes. Inr (lower_hex (sha256 bytes)))"

fun remove_key :: "str \<Rightarrow> json \<Rightarrow> json option" where
  "remove_key key (JObject members) = Some (JObject (filter (\<lambda>(k, v). k \<noteq> key) members))"
| "remove_key key _ = None"

definition canonical_digest_without_turnstile :: "services \<Rightarrow> json option \<Rightarrow> api_failure + str" where
  "canonical_digest_without_turnstile sv to_value =
     bindR (reject to_value) (\<lambda>value.
     bindR (reject (remove_key (lit ''turnstileToken'') value)) (\<lambda>object.
     canonical_digest (sv_sha256 sv) (sv_json_to_vec sv object)))"

section \<open>Who is asking\<close>

definition authenticate_or_verify_public ::
  "app_state \<Rightarrow> header_map \<Rightarrow> str option \<Rightarrow> api_failure + verified_subject option" where
  "authenticate_or_verify_public app headers proof_token =
     (let sv = app_services app in
      bindR (map_err failure_of_auth (optional_subject (sv_ask sv) (sv_decode_introspection sv)
         (app_auth app) headers)) (\<lambda>found.
      case found of
        Some subject \<Rightarrow> Inr (Some subject)
      | None \<Rightarrow>
          bindR (reject proof_token) (\<lambda>token.
          bindR (map_err failure_of_external (turnstile_verify (sv_siteverify sv)
             (sv_decode_turnstile sv) (app_turnstile app) token)) (\<lambda>_.
          Inr None))))"

text \<open>A context constructor never panics, so its errors are failures.\<close>

fun failure_of_context :: "data_error \<Rightarrow> api_failure" where
  "failure_of_context e = (case failure_of_data e of Failed f \<Rightarrow> f | Aborted \<Rightarrow> failure_invalid)"

definition submission_context_for ::
  "url_lib \<Rightarrow> uuid \<Rightarrow> verified_subject option \<Rightarrow> header_map \<Rightarrow> str \<Rightarrow> api_failure + submission_context" where
  "submission_context_for lib fresh subject headers payload_sha256 =
     bindR (idempotency_key headers) (\<lambda>key.
     bindR (source_host lib headers) (\<lambda>host.
     map_err failure_of_context
       (case subject of
          Some s \<Rightarrow> context_authenticated fresh s key payload_sha256 host
        | None \<Rightarrow> context_public fresh key payload_sha256 host)))"

section \<open>Finishing a submission\<close>

record submission_receipt =
  sr_submission_id :: uuid
  sr_kind :: stored_submission_kind
  sr_accepted_at :: timestamp
  sr_primary_stored :: bool
  sr_supabase_stored :: bool

record upload_intent_receipt =
  ur_upload_id :: uuid
  ur_kind :: upload_kind
  ur_upload_url :: url
  ur_expires_at :: timestamp
  ur_maximum_bytes :: u64
  ur_allowed_content_types :: "str list"

definition record_failure :: "stored_submission_kind \<Rightarrow> uuid \<Rightarrow> unit handler" where
  "record_failure kind i =
     bindA (caught (on_primary (record_mirror_failure kind i (lit ''supabase_unavailable'')))) (\<lambda>_.
     okA ())"

definition finish_submission ::
  "stored_submission_kind \<Rightarrow> submission_context \<Rightarrow> stored_submission \<Rightarrow> submission_receipt handler" where
  "finish_submission kind ctx primary =
     bindA (or_failure (mirror_unavailable (ss_id primary))
        (on_primary (mark_mirrored kind (ss_id primary) (ctx_payload_sha256 ctx)))) (\<lambda>_.
     okA \<lparr>sr_submission_id = ss_id primary, sr_kind = kind, sr_accepted_at = ss_accepted_at primary,
          sr_primary_stored = True, sr_supabase_stored = True\<rparr>)"

text \<open>\<open>matches!(mirrored, Ok(ref stored) if stored.id == primary.id)\<close>\<close>

definition mirrored_as :: "('r \<Rightarrow> uuid) \<Rightarrow> uuid \<Rightarrow> data_error + 'r \<Rightarrow> bool" where
  "mirrored_as id_of i mirrored = (case mirrored of Inr stored \<Rightarrow> id_of stored = i | Inl _ \<Rightarrow> False)"

section \<open>The handlers\<close>

record health_body =
  he_service :: string
  he_status :: string

definition health :: health_body where
  "health = \<lparr>he_service = ''hhm-api'', he_status = ''ok''\<rparr>"

text \<open>The two pings of \<open>try_join!\<close> run concurrently; this is the schedule that polls the primary first.\<close>

definition readiness :: "health_body handler" where
  "readiness =
     bindA (from_data (on_primary ping)) (\<lambda>_.
     bindA (from_data (on_supabase ping)) (\<lambda>_.
     okA \<lparr>he_service = ''hhm-api'', he_status = ''ready''\<rparr>))"

definition create_pre_interest ::
  "app_state \<Rightarrow> uuid \<Rightarrow> header_map \<Rightarrow> pre_interest_create \<Rightarrow> submission_receipt handler" where
  "create_pre_interest app fresh headers input =
     (let sv = app_services app; k = sv_contract sv in
      bindA (liftR (map_err (\<lambda>_. Failed failure_invalid) (pre_interest_validate k input))) (\<lambda>_.
      bindA (liftR (map_err Failed
         (authenticate_or_verify_public app headers (pi_turnstile_token input)))) (\<lambda>subject.
      bindA (liftR (map_err Failed (bindR (canonical_digest_without_turnstile sv
           (sv_pre_interest_to_value sv input)) (\<lambda>digest.
         submission_context_for (sv_url_lib sv) fresh subject headers digest)))) (\<lambda>ctx.
      bindA (from_data (on_primary (store_pre_interest k Primary ctx input))) (\<lambda>primary.
      let mirror_ctx = with_canonical_id ctx (ss_id primary) in
      bindA (caught (on_supabase (store_pre_interest k SupabaseMirror mirror_ctx input)))
        (\<lambda>mirrored.
      if \<not> mirrored_as ss_id (ss_id primary) mirrored
      then bindA (record_failure PreInterest (ss_id primary)) (\<lambda>_.
        failA (Failed (mirror_unavailable (ss_id primary))))
      else finish_submission PreInterest ctx primary))))))"

fun allowed_content_types :: "upload_kind \<Rightarrow> str list" where
  "allowed_content_types Resume =
     [lit ''application/pdf'',
      lit ''application/vnd.openxmlformats-officedocument.wordprocessingml.document'']"
| "allowed_content_types PhotoId =
     [lit ''application/pdf'', lit ''image/jpeg'', lit ''image/png'', lit ''image/heic'']"

definition create_upload_intent ::
  "app_state \<Rightarrow> uuid \<Rightarrow> header_map \<Rightarrow> upload_intent_create \<Rightarrow> upload_intent_receipt handler" where
  "create_upload_intent app fresh headers input =
     (let sv = app_services app; k = sv_contract sv; display = sv_uuid_display sv in
      bindA (liftR (map_err (\<lambda>_. Failed failure_invalid) (upload_intent_validate k input))) (\<lambda>_.
      bindA (liftR (map_err Failed
         (authenticate_or_verify_public app headers (ui_turnstile_token input)))) (\<lambda>subject.
      bindA (liftR (map_err Failed (bindR (canonical_digest_without_turnstile sv
           (sv_upload_intent_to_value sv input)) (\<lambda>digest.
         submission_context_for (sv_url_lib sv) fresh subject headers digest)))) (\<lambda>ctx.
      bindA (from_data (on_primary
         (store_upload_intent k display (sv_utc_now sv Primary) Primary ctx input))) (\<lambda>primary.
      let mirror_ctx = with_canonical_id ctx (su_id primary) in
      bindA (caught (on_supabase (store_upload_intent k display (sv_utc_now sv SupabaseMirror)
         SupabaseMirror mirror_ctx input))) (\<lambda>mirrored.
      if \<not> mirrored_as su_id (su_id primary) mirrored
      then bindA (record_failure Upload (su_id primary)) (\<lambda>_.
        failA (Failed (mirror_unavailable (su_id primary))))
      else
      bindA (or_failure (mirror_unavailable (su_id primary))
        (on_primary (mark_mirrored Upload (su_id primary) (ctx_payload_sha256 ctx)))) (\<lambda>_.
      bindA (liftR (map_err (\<lambda>e. Failed (failure_of_external e))
         (create_signed_upload_url (sv_url_lib sv) (sv_sign sv) (sv_decode_signed sv)
            (app_storage app) (su_object_key primary)))) (\<lambda>upload_url.
      okA \<lparr>ur_upload_id = su_id primary, ur_kind = ui_kind input, ur_upload_url = upload_url,
           ur_expires_at = su_expires_at primary, ur_maximum_bytes = contract_max_upload_bytes k,
           ur_allowed_content_types = allowed_content_types (ui_kind input)\<rparr>))))))))"

definition same_upload_identity :: "pending_upload \<Rightarrow> pending_upload \<Rightarrow> bool" where
  "same_upload_identity primary mirror \<longleftrightarrow>
     pu_id primary = pu_id mirror \<and>
     pu_object_key primary = pu_object_key mirror \<and>
     pu_expected_sha256 primary = pu_expected_sha256 mirror \<and>
     pu_content_type primary = pu_content_type mirror \<and>
     pu_size_bytes primary = pu_size_bytes mirror"

text \<open>The receipt says \<open>Verified\<close>; its one varying field is the identifier.\<close>

definition complete_upload ::
  "app_state \<Rightarrow> uuid \<Rightarrow> header_map \<Rightarrow> upload_complete_create \<Rightarrow> uuid handler" where
  "complete_upload app upload_id headers input =
     (let sv = app_services app; k = sv_contract sv in
      bindA (liftR (map_err (\<lambda>_. Failed failure_invalid) (upload_complete_validate k input))) (\<lambda>_.
      bindA (liftR (map_err Failed
         (authenticate_or_verify_public app headers (uc_turnstile_token input)))) (\<lambda>subject.
      bindA (from_data (on_primary (pending_upload upload_id subject))) (\<lambda>primary_upload.
      if uc_sha256 input \<noteq> pu_expected_sha256 primary_upload then failA (Failed failure_conflict)
      else
      bindA (from_data (on_supabase (pending_upload upload_id subject))) (\<lambda>mirror_upload.
      if \<not> same_upload_identity primary_upload mirror_upload then failA (Failed failure_conflict)
      else
      bindA (liftR (map_err (\<lambda>e. Failed (failure_of_external e))
         (verify_object (sv_url_lib sv) (sv_fetch sv) (sv_sha256 sv) (app_storage app)
            primary_upload))) (\<lambda>_.
      bindA (from_data (on_supabase (verify_upload upload_id subject (uc_sha256 input)))) (\<lambda>_.
      bindA (from_data (on_primary (verify_upload upload_id subject (uc_sha256 input)))) (\<lambda>_.
      okA upload_id))))))))"

definition create_application ::
  "app_state \<Rightarrow> uuid \<Rightarrow> header_map \<Rightarrow> application_create \<Rightarrow> submission_receipt handler" where
  "create_application app fresh headers input =
     (let sv = app_services app; k = sv_contract sv in
      bindA (liftR (map_err (\<lambda>_. Failed failure_invalid) (application_validate k input))) (\<lambda>_.
      bindA (liftR (map_err Failed
         (authenticate_or_verify_public app headers (ap_turnstile_token input)))) (\<lambda>subject.
      bindA (liftR (map_err Failed (bindR (canonical_digest_without_turnstile sv
           (sv_application_to_value sv input)) (\<lambda>digest.
         submission_context_for (sv_url_lib sv) fresh subject headers digest)))) (\<lambda>ctx.
      bindA (from_data (on_primary (store_application k Primary ctx input))) (\<lambda>primary.
      let mirror_ctx = with_canonical_id ctx (ss_id primary) in
      bindA (caught (on_supabase (store_application k SupabaseMirror mirror_ctx input)))
        (\<lambda>mirrored.
      if \<not> mirrored_as ss_id (ss_id primary) mirrored
      then bindA (record_failure Application (ss_id primary)) (\<lambda>_.
        failA (Failed (mirror_unavailable (ss_id primary))))
      else finish_submission Application ctx primary))))))"

definition create_referral ::
  "app_state \<Rightarrow> uuid \<Rightarrow> header_map \<Rightarrow> referral_create \<Rightarrow> submission_receipt handler" where
  "create_referral app fresh headers input =
     (let sv = app_services app; k = sv_contract sv in
      bindA (liftR (map_err (\<lambda>_. Failed failure_invalid) (referral_validate k input))) (\<lambda>_.
      bindA (liftR (map_err (\<lambda>e. Failed (failure_of_auth e))
         (required_subject (sv_ask sv) (sv_decode_introspection sv) (app_auth app) headers)))
        (\<lambda>subject.
      bindA (liftR (map_err Failed
         (bindR (idempotency_key headers) (\<lambda>key.
          bindR (canonical_digest (sv_sha256 sv) (sv_referral_to_vec sv input)) (\<lambda>digest.
          bindR (source_host (sv_url_lib sv) headers) (\<lambda>host.
          map_err failure_of_context (context_authenticated fresh subject key digest host))))))) (\<lambda>ctx.
      bindA (from_data (on_primary (store_referral k Primary ctx input))) (\<lambda>primary.
      let mirror_ctx = with_canonical_id ctx (ss_id primary) in
      bindA (caught (on_supabase (store_referral k SupabaseMirror mirror_ctx input)))
        (\<lambda>mirrored.
      if \<not> mirrored_as ss_id (ss_id primary) mirrored
      then bindA (record_failure Referral (ss_id primary)) (\<lambda>_.
        failA (Failed (mirror_unavailable (ss_id primary))))
      else finish_submission Referral ctx primary))))))"

section \<open>Allowed origins\<close>

text \<open>\<open>http::Uri\<close> and \<open>HeaderValue\<close> parsing belong to the package \<open>http\<close>.\<close>

record uri =
  uri_scheme :: "str option"
  uri_authority :: "str option"
  uri_path :: str
  uri_query :: "str option"

record cors_policy =
  cors_allow_origin :: "header_value list"
  cors_allow_methods :: "string list"
  cors_allow_headers :: "string list"

definition cors_origin ::
  "(str \<Rightarrow> uri option) \<Rightarrow> (str \<Rightarrow> header_value option) \<Rightarrow> str \<Rightarrow> unit + header_value" where
  "cors_origin parse_uri parse_header origin =
     (if origin = lit ''*'' then Inl ()
      else
      bindR (ok_or (parse_uri origin) ()) (\<lambda>uri.
      if uri_scheme uri \<noteq> Some (lit ''https'') \<or> uri_authority uri = None \<or>
         uri_path uri \<noteq> lit ''/'' \<or> uri_query uri \<noteq> None
      then Inl () else ok_or (parse_header origin) ()))"

fun cors_origins_loop ::
  "(str \<Rightarrow> unit + header_value) \<Rightarrow> str list \<Rightarrow> header_value list \<Rightarrow> unit + header_value list" where
  "cors_origins_loop check [] origins = Inr origins"
| "cors_origins_loop check (item # items) origins =
     bindR (check item) (\<lambda>header.
     cors_origins_loop check items
       (if List.member origins header then origins else origins @ [header]))"

definition cors_layer ::
  "(str \<Rightarrow> uri option) \<Rightarrow> (str \<Rightarrow> header_value option) \<Rightarrow> str \<Rightarrow> unit + cors_policy" where
  "cors_layer parse_uri parse_header raw =
     bindR (cors_origins_loop (cors_origin parse_uri parse_header) (split_csv raw) []) (\<lambda>origins.
     if origins = [] then Inl ()
     else Inr \<lparr>cors_allow_origin = origins, cors_allow_methods = [''GET'', ''POST''],
       cors_allow_headers = [''content-type'', ''authorization'', ''idempotency-key'']\<rparr>)"

text \<open>An origin the policy may allow: not the wildcard, and of what \<open>http::Uri\<close> reads from it the
  scheme is HTTPS, there is an authority, the path is the root's and there is no query. The
  parser drops a fragment, reads a missing path as the root's and keeps user information in the
  authority, so the check sees none of these.\<close>

definition accepted_origin :: "(str \<Rightarrow> uri option) \<Rightarrow> str \<Rightarrow> bool" where
  "accepted_origin parse_uri origin \<longleftrightarrow> origin \<noteq> lit ''*'' \<and>
     (\<exists>uri. parse_uri origin = Some uri \<and> uri_scheme uri = Some (lit ''https'') \<and>
        uri_authority uri \<noteq> None \<and> uri_path uri = lit ''/'' \<and> uri_query uri = None)"

lemma cors_origin_Inr [yields]:
  "cors_origin parse_uri parse_header origin = Inr h \<longleftrightarrow>
     accepted_origin parse_uri origin \<and> parse_header origin = Some h"
  by (auto simp: cors_origin_def accepted_origin_def yields)

lemma cors_origins_loop_Inr:
  "cors_origins_loop check items acc = Inr out \<Longrightarrow> distinct acc \<Longrightarrow>
     distinct out \<and> set out = set acc \<union> {h. \<exists>item \<in> set items. check item = Inr h} \<and>
     (\<forall>item \<in> set items. \<exists>h. check item = Inr h)"
proof (induction items arbitrary: acc)
  case (Cons item items)
  then obtain h where "check item = Inr h"
    and "cors_origins_loop check items (if h \<in> set acc then acc else acc @ [h]) = Inr out"
    by (auto simp: bindR_Inr_iff)
  with Cons.IH [OF this(2)] Cons.prems(2) show ?case by (auto split: if_splits)
qed simp

lemma cors_origins_loop_accepts:
  "\<forall>item \<in> set items. \<exists>h. check item = Inr h \<Longrightarrow> \<exists>out. cors_origins_loop check items acc = Inr out"
proof (induction items arbitrary: acc)
  case (Cons item items)
  then obtain h where "check item = Inr h" by auto
  with Cons show ?case by simp
qed simp

lemma cors_layer_Inr:
  assumes "cors_layer parse_uri parse_header raw = Inr policy"
  shows "cors_allow_origin policy \<noteq> []" and "distinct (cors_allow_origin policy)"
    and "set (cors_allow_origin policy)
      = {h. \<exists>origin \<in> set (split_csv raw). parse_header origin = Some h}"
    and "\<forall>origin \<in> set (split_csv raw). accepted_origin parse_uri origin \<and> parse_header origin \<noteq> None"
    and "cors_allow_methods policy = [''GET'', ''POST'']"
    and "cors_allow_headers policy = [''content-type'', ''authorization'', ''idempotency-key'']"
proof -
  from assms obtain origins where loop: "cors_origins_loop (cors_origin parse_uri parse_header)
      (split_csv raw) [] = Inr origins" and "origins \<noteq> []"
    and policy: "policy = \<lparr>cors_allow_origin = origins, cors_allow_methods = [''GET'', ''POST''],
      cors_allow_headers = [''content-type'', ''authorization'', ''idempotency-key'']\<rparr>"
    by (auto simp: cors_layer_def bindR_Inr_iff split: if_splits)
  with cors_origins_loop_Inr [OF loop]
  show "cors_allow_origin policy \<noteq> []" "distinct (cors_allow_origin policy)"
    "set (cors_allow_origin policy) = {h. \<exists>origin \<in> set (split_csv raw). parse_header origin = Some h}"
    "\<forall>origin \<in> set (split_csv raw). accepted_origin parse_uri origin \<and> parse_header origin \<noteq> None"
    "cors_allow_methods policy = [''GET'', ''POST'']"
    "cors_allow_headers policy = [''content-type'', ''authorization'', ''idempotency-key'']"
    by (auto simp: cors_origin_Inr)
qed

lemma cors_layer_accepts:
  assumes "split_csv raw \<noteq> []"
    and "\<forall>origin \<in> set (split_csv raw). accepted_origin parse_uri origin \<and> parse_header origin \<noteq> None"
  shows "\<exists>policy. cors_layer parse_uri parse_header raw = Inr policy"
proof -
  have check: "\<forall>origin \<in> set (split_csv raw). \<exists>h. cors_origin parse_uri parse_header origin = Inr h"
    using assms(2) by (auto simp: cors_origin_Inr)
  then obtain out where out: "cors_origins_loop (cors_origin parse_uri parse_header) (split_csv raw) [] = Inr out"
    using cors_origins_loop_accepts by blast
  from assms(1) obtain origin where "origin \<in> set (split_csv raw)" by (cases "split_csv raw") auto
  with check cors_origins_loop_Inr [OF out] have "out \<noteq> []" by fastforce
  with out show ?thesis by (simp add: cors_layer_def)
qed

lemma accepted_fragment:
  "parse_uri (base @ 35 # suffix) = parse_uri base \<Longrightarrow> accepted_origin parse_uri base \<Longrightarrow>
     accepted_origin parse_uri (base @ 35 # suffix)"
  by (auto simp: accepted_origin_def lit_def append_eq_Cons_conv)

end
