(* ===== verification/Dual_Write.thy ===== *)
theory Dual_Write imports Command_Contract Api begin

text \<open>
  The protocol the four submitting handlers share: store on the primary, store on the mirror
  under the primary's identifier, then mark the outbox entry; any failure of the mirror is
  recorded on the primary and reported as retryable. \<open>dual_write\<close> is that protocol, the
  \<open>*_eq\<close> lemmas show that each handler is it after its checks, and the lemmas of
  \<open>intake_command\<close> say what it guarantees for any storing command.
\<close>

section \<open>The protocol\<close>

definition dual_write ::
  "stored_submission_kind \<Rightarrow> ('r \<Rightarrow> uuid) \<Rightarrow> (persistence_target \<Rightarrow> submission_context \<Rightarrow> 'r db)
    \<Rightarrow> submission_context \<Rightarrow> 'r handler" where
  "dual_write kind id_of cmd ctx =
     bindA (from_data (on_primary (cmd Primary ctx))) (\<lambda>primary.
     bindA (caught (on_supabase (cmd SupabaseMirror (with_canonical_id ctx (id_of primary)))))
       (\<lambda>mirrored.
     if \<not> mirrored_as id_of (id_of primary) mirrored
     then bindA (record_failure kind (id_of primary)) (\<lambda>_.
       failA (Failed (mirror_unavailable (id_of primary))))
     else
     bindA (or_failure (mirror_unavailable (id_of primary))
       (on_primary (mark_mirrored kind (id_of primary) (ctx_payload_sha256 ctx)))) (\<lambda>_.
     okA primary)))"

text \<open>Everything a handler checks before the first round trip to a database.\<close>

definition admit_public ::
  "app_state \<Rightarrow> uuid \<Rightarrow> header_map \<Rightarrow> validation_error + unit \<Rightarrow> str option \<Rightarrow> json option
    \<Rightarrow> api_failure + submission_context" where
  "admit_public app fresh headers validated proof_token to_value =
     bindR (map_err (\<lambda>_. failure_invalid) validated) (\<lambda>_.
     bindR (authenticate_or_verify_public app headers proof_token) (\<lambda>subject.
     bindR (canonical_digest_without_turnstile (app_services app) to_value) (\<lambda>digest.
     submission_context_for (sv_url_lib (app_services app)) fresh subject headers digest)))"

definition admit_referral ::
  "app_state \<Rightarrow> uuid \<Rightarrow> header_map \<Rightarrow> referral_create \<Rightarrow> api_failure + submission_context" where
  "admit_referral app fresh headers input =
     (let sv = app_services app in
      bindR (map_err (\<lambda>_. failure_invalid) (referral_validate (sv_contract sv) input)) (\<lambda>_.
      bindR (map_err failure_of_auth
        (required_subject (sv_ask sv) (sv_decode_introspection sv) (app_auth app) headers)) (\<lambda>subject.
      bindR (idempotency_key headers) (\<lambda>key.
      bindR (canonical_digest (sv_sha256 sv) (sv_referral_to_vec sv input)) (\<lambda>digest.
      bindR (source_host (sv_url_lib sv) headers) (\<lambda>host.
      map_err failure_of_context (context_authenticated fresh subject key digest host)))))))"

definition receipt_of :: "stored_submission_kind \<Rightarrow> stored_submission \<Rightarrow> submission_receipt" where
  "receipt_of kind primary =
     \<lparr>sr_submission_id = ss_id primary, sr_kind = kind, sr_accepted_at = ss_accepted_at primary,
      sr_primary_stored = True, sr_supabase_stored = True\<rparr>"

section \<open>The handlers are the protocol\<close>

lemma bindA_liftR_chain:
  "bindA (liftR (map_err g r)) (\<lambda>a. bindA (liftR (map_err g (f a))) h) =
   bindA (liftR (map_err g (bindR r f))) h"
  by (cases r) (simp_all add: bindA_liftR_fun failA_def fun_eq_iff)

lemma bindA_failA [simp]: "bindA (failA e) f = failA e"
  by (rule ext) simp

lemma if_bindA: "bindA (if b then m else n) f = (if b then bindA m f else bindA n f)"
  by simp

lemmas handler_eq = bindA_assoc_fun bindA_okA_fun if_bindA Let_def

lemma map_err_const: "map_err (\<lambda>_. Failed f) r = map_err Failed (map_err (\<lambda>_. f) r)"
  "map_err (\<lambda>e. Failed (failure_of_auth e)) ra = map_err Failed (map_err failure_of_auth ra)"
  "map_err (\<lambda>e. Failed (failure_of_external e)) rx = map_err Failed (map_err failure_of_external rx)"
  by (cases r; cases ra; cases rx; simp)+

lemma create_pre_interest_eq:
  "create_pre_interest app fresh headers input =
     bindA (liftR (map_err Failed (admit_public app fresh headers
        (pre_interest_validate (sv_contract (app_services app)) input) (pi_turnstile_token input)
        (sv_pre_interest_to_value (app_services app) input)))) (\<lambda>ctx.
     bindA (dual_write PreInterest ss_id
        (\<lambda>target ctx. store_pre_interest (sv_contract (app_services app)) target ctx input) ctx)
       (\<lambda>primary. okA (receipt_of PreInterest primary)))"
  unfolding create_pre_interest_def dual_write_def admit_public_def finish_submission_def
    receipt_of_def map_err_const handler_eq bindA_failA
  by (simp add: bindA_liftR_chain)

lemma create_application_eq:
  "create_application app fresh headers input =
     bindA (liftR (map_err Failed (admit_public app fresh headers
        (application_validate (sv_contract (app_services app)) input) (ap_turnstile_token input)
        (sv_application_to_value (app_services app) input)))) (\<lambda>ctx.
     bindA (dual_write Application ss_id
        (\<lambda>target ctx. store_application (sv_contract (app_services app)) target ctx input) ctx)
       (\<lambda>primary. okA (receipt_of Application primary)))"
  unfolding create_application_def dual_write_def admit_public_def finish_submission_def
    receipt_of_def map_err_const handler_eq bindA_failA
  by (simp add: bindA_liftR_chain)

lemma create_referral_eq:
  "create_referral app fresh headers input =
     bindA (liftR (map_err Failed (admit_referral app fresh headers input))) (\<lambda>ctx.
     bindA (dual_write Referral ss_id
        (\<lambda>target ctx. store_referral (sv_contract (app_services app)) target ctx input) ctx)
       (\<lambda>primary. okA (receipt_of Referral primary)))"
  unfolding create_referral_def dual_write_def admit_referral_def finish_submission_def
    receipt_of_def map_err_const handler_eq bindA_failA
  by (simp add: bindA_liftR_chain)

definition store_intent ::
  "services \<Rightarrow> upload_intent_create \<Rightarrow> persistence_target \<Rightarrow> submission_context \<Rightarrow> stored_upload db" where
  "store_intent sv input target ctx =
     store_upload_intent (sv_contract sv) (sv_uuid_display sv) (sv_utc_now sv target) target ctx input"

lemma create_upload_intent_eq:
  "create_upload_intent app fresh headers input =
     bindA (liftR (map_err Failed (admit_public app fresh headers
        (upload_intent_validate (sv_contract (app_services app)) input) (ui_turnstile_token input)
        (sv_upload_intent_to_value (app_services app) input)))) (\<lambda>ctx.
     bindA (dual_write Upload su_id (store_intent (app_services app) input) ctx) (\<lambda>primary.
     bindA (liftR (map_err Failed (map_err failure_of_external
         (create_signed_upload_url (sv_url_lib (app_services app)) (sv_sign (app_services app))
            (sv_decode_signed (app_services app)) (app_storage app) (su_object_key primary)))))
       (\<lambda>upload_url.
     okA \<lparr>ur_upload_id = su_id primary, ur_kind = ui_kind input, ur_upload_url = upload_url,
          ur_expires_at = su_expires_at primary, ur_maximum_bytes = contract_max_upload_bytes (sv_contract (app_services app)),
          ur_allowed_content_types = allowed_content_types (ui_kind input)\<rparr>)))"
  unfolding create_upload_intent_def dual_write_def admit_public_def store_intent_def
    map_err_const handler_eq bindA_failA
  by (simp add: bindA_liftR_chain)

end
