(* ===== verification/Dual_Correct.thy ===== *)
theory Dual_Correct imports Dual_Write begin

text \<open>
  What the dual-write protocol guarantees, for every storing command that meets the contract
  \<open>intake_command\<close>, every state of the two databases and every behaviour of the environment.
\<close>

section \<open>What marking and recording leave\<close>

text \<open>The submission is marked on the primary: its row (uploads have no mirror column) and its
  outbox entry say \<open>mirrored\<close>, and the entry carries no error.\<close>

definition marked :: "stored_submission_kind \<Rightarrow> uuid \<Rightarrow> str \<Rightarrow> store \<Rightarrow> bool" where
  "marked kind i digest st \<longleftrightarrow>
     (kind \<noteq> Upload \<longrightarrow> (\<exists>r \<in> set (st (table_name kind)).
        r C_id = SUuid i \<and> r C_payload_sha256 = SText digest \<and>
        r C_mirror_status = SText (lit ''mirrored''))) \<and>
     (\<exists>e \<in> set (st Hhm_submission_outbox).
        e (Ob C_submission_kind) = SText (database_value kind) \<and>
        e (Ob C_submission_id) = SUuid i \<and> e C_payload_sha256 = SText digest \<and>
        e C_mirror_status = SText (lit ''mirrored'') \<and> e (Ob C_last_error_code) = SNull)"

lemma update_table_hits:
  assumes "matching t p st = 1"
  obtains r where "p r" "f r \<in> set (update_table t p f st t)"
proof -
  from assms have "filter p (st t) \<noteq> []" by (auto simp: matching_def)
  then obtain r where "r \<in> set (st t)" "p r" by (auto simp: filter_empty_conv)
  with that [of r] show ?thesis by (force simp: update_table_def)
qed

lemma mark_mirrored_marks:
  assumes "mark_mirrored kind i digest s = (Inr u, t)"
  shows "marked kind i digest (committed t)"
proof -
  from marking.ok_effect [OF assms] obtain now where
    sp: "mark_mirrored_spec kind i digest now (schema_defaults s now) (committed s) = (Inr u, committed t)"
    by blast
  let ?p = "\<lambda>r. submission_row i now r \<and> sql_eq (r C_payload_sha256) (SText digest)"
  let ?f = "\<lambda>r. r(C_mirror_status := SText (lit ''mirrored''))"
  let ?q = "\<lambda>r. outbox_entry kind i now r \<and> sql_eq (r C_payload_sha256) (SText digest)"
  let ?g = "\<lambda>r. r(C_mirror_status := SText (lit ''mirrored''), Ob C_last_error_code := SNull)"
  let ?st = "if kind = Upload then committed s else update_table (table_name kind) ?p ?f (committed s)"
  from sp have t: "committed t = update_table Hhm_submission_outbox ?q ?g ?st"
    and rows: "kind \<noteq> Upload \<Longrightarrow> matching (table_name kind) ?p (committed s) = 1"
    and ent: "matching Hhm_submission_outbox ?q (committed s) = 1"
    by (auto simp: mark_mirrored_spec_def two_updates_def split: if_splits)
  from ent have "matching Hhm_submission_outbox ?q ?st = 1" by (cases "kind = Upload") simp_all
  then obtain e where "?q e"
    and e: "?g e \<in> set (update_table Hhm_submission_outbox ?q ?g ?st Hhm_submission_outbox)"
    by (rule update_table_hits [where f = ?g])
  then have "\<exists>e \<in> set (committed t Hhm_submission_outbox).
        e (Ob C_submission_kind) = SText (database_value kind) \<and>
        e (Ob C_submission_id) = SUuid i \<and> e C_payload_sha256 = SText digest \<and>
        e C_mirror_status = SText (lit ''mirrored'') \<and> e (Ob C_last_error_code) = SNull"
    unfolding t by (intro bexI [OF _ e]) (simp add: outbox_entry_def sql_eq_def)
  moreover have "\<exists>r \<in> set (committed t (table_name kind)).
        r C_id = SUuid i \<and> r C_payload_sha256 = SText digest \<and>
        r C_mirror_status = SText (lit ''mirrored'')" if "kind \<noteq> Upload"
  proof -
    from rows [OF that] obtain r where "?p r"
      and "?f r \<in> set (update_table (table_name kind) ?p ?f (committed s) (table_name kind))"
      by (rule update_table_hits [where f = ?f])
    moreover from this that have r: "?f r \<in> set (committed t (table_name kind))"
      by (simp add: t)
    ultimately show ?thesis
      by (intro bexI [OF _ r]) (simp add: submission_row_def sql_eq_def)
  qed
  ultimately show ?thesis by (simp add: marked_def)
qed

lemma marking_keeps:
  assumes run: "mark_mirrored kind i digest s = (r, t)" and ok: "primary_ok (committed s)"
  shows "primary_ok (committed t)" and "identities k (committed t) = identities k (committed s)"
proof -
  from marking.all_or_nothing [OF run] obtain now where "committed t = committed s \<or>
     committed t = snd (mark_mirrored_spec kind i digest now (schema_defaults s now) (committed s))"
    by blast
  then show "primary_ok (committed t)" and "identities k (committed t) = identities k (committed s)"
    using ok mark_mirrored_spec_keeps [OF prod.collapse [symmetric] ok] by metis+
qed

lemma recording_keeps:
  assumes run: "record_mirror_failure kind i code s = (r, t)" and ok: "primary_ok (committed s)"
  shows "primary_ok (committed t)" and "identities k (committed t) = identities k (committed s)"
proof -
  from recording.all_or_nothing [OF run] obtain now where "committed t = committed s \<or>
     committed t = snd (record_failure_spec kind i code now (schema_defaults s now) (committed s))"
    by blast
  then show "primary_ok (committed t)" and "identities k (committed t) = identities k (committed s)"
    using ok record_failure_spec_keeps [OF prod.collapse [symmetric] ok] by metis+
qed

lemma two_updates_error: "two_updates kind p f q g st = (Inl e, st') \<Longrightarrow> e = Invariant"
  by (auto simp: two_updates_def split: if_splits)

lemma no_panic [simp]:
  "mark_mirrored kind i digest s \<noteq> (Inl Panicked, t)"
  "record_mirror_failure kind i code s \<noteq> (Inl Panicked, t)"
proof -
  show "mark_mirrored kind i digest s \<noteq> (Inl Panicked, t)"
  proof
    assume "mark_mirrored kind i digest s = (Inl Panicked, t)"
    from marking.error_effect [OF this] obtain now where
      "mark_mirrored_spec kind i digest now (schema_defaults s now) (committed s)
         = (Inl Panicked, committed t)" by auto
    then show False unfolding mark_mirrored_spec_def by (auto dest: two_updates_error)
  qed
  show "record_mirror_failure kind i code s \<noteq> (Inl Panicked, t)"
  proof
    assume "record_mirror_failure kind i code s = (Inl Panicked, t)"
    from recording.error_effect [OF this] obtain now where
      "record_failure_spec kind i code now (schema_defaults s now) (committed s)
         = (Inl Panicked, committed t)" by auto
    then show False
      unfolding record_failure_spec_def by (auto dest: two_updates_error split: if_split_asm)
  qed
qed

section \<open>The five ways a dual write ends\<close>

lemma dual_write_cases:
  assumes run: "dual_write kind id_of cmd ctx w = (r, w')"
  obtains
    (primary_failed) e where "cmd Primary ctx (w_primary w) = (Inl e, w_primary w')"
      "r = Inl (failure_of_data e)" "w_supabase w' = w_supabase w"
  | (mirror_panicked) x where "cmd Primary ctx (w_primary w) = (Inr x, w_primary w')"
      "cmd SupabaseMirror (with_canonical_id ctx (id_of x)) (w_supabase w)
         = (Inl Panicked, w_supabase w')" "r = Inl Aborted"
  | (mirror_failed) x s m f where "cmd Primary ctx (w_primary w) = (Inr x, s)"
      "cmd SupabaseMirror (with_canonical_id ctx (id_of x)) (w_supabase w) = (m, w_supabase w')"
      "\<not> mirrored_as id_of (id_of x) m" "m \<noteq> Inl Panicked"
      "record_mirror_failure kind (id_of x) (lit ''supabase_unavailable'') s = (f, w_primary w')"
      "r = Inl (Failed (mirror_unavailable (id_of x)))"
  | (unmarked) x s y e where "cmd Primary ctx (w_primary w) = (Inr x, s)"
      "cmd SupabaseMirror (with_canonical_id ctx (id_of x)) (w_supabase w) = (Inr y, w_supabase w')"
      "id_of y = id_of x"
      "mark_mirrored kind (id_of x) (ctx_payload_sha256 ctx) s = (Inl e, w_primary w')"
      "r = Inl (Failed (mirror_unavailable (id_of x)))"
  | (complete) x s y u where "cmd Primary ctx (w_primary w) = (Inr x, s)"
      "cmd SupabaseMirror (with_canonical_id ctx (id_of x)) (w_supabase w) = (Inr y, w_supabase w')"
      "id_of y = id_of x"
      "mark_mirrored kind (id_of x) (ctx_payload_sha256 ctx) s = (Inr u, w_primary w')"
      "r = Inr x"
proof -
  obtain r1 s where p: "cmd Primary ctx (w_primary w) = (r1, s)"
    by (cases "cmd Primary ctx (w_primary w)")
  show ?thesis
  proof (cases r1)
    case (Inl e)
    with p run show ?thesis
      by (intro primary_failed [of e])
        (auto simp: dual_write_def bindA_def from_data_def map_errA_def on_primary_def)
  next
    case (Inr x)
    let ?mctx = "with_canonical_id ctx (id_of x)"
    obtain m s2 where m: "cmd SupabaseMirror ?mctx (w_supabase w) = (m, s2)"
      by (cases "cmd SupabaseMirror ?mctx (w_supabase w)")
    note step = dual_write_def bindA_def from_data_def map_errA_def on_primary_def
      on_supabase_def caught_def p Inr m
    consider "m = Inl Panicked" | "m \<noteq> Inl Panicked" "\<not> mirrored_as id_of (id_of x) m"
      | y where "m = Inr y" "id_of y = id_of x"
      by (cases m) (auto simp: mirrored_as_def)
    then show ?thesis
    proof cases
      case 1
      with run p m Inr show ?thesis by (intro mirror_panicked [of x]) (auto simp: step)
    next
      case 2
      have caught: "caught (on_supabase (cmd SupabaseMirror ?mctx)) (w\<lparr>w_primary := s\<rparr>) =
          (Inr m, w\<lparr>w_primary := s, w_supabase := s2\<rparr>)"
        using 2 m by (auto simp: caught_def on_supabase_def split: sum.splits data_error.splits)
      obtain f s3 where f: "record_mirror_failure kind (id_of x) (lit ''supabase_unavailable'') s = (f, s3)"
        by (cases "record_mirror_failure kind (id_of x) (lit ''supabase_unavailable'') s")
      then have "f \<noteq> Inl Panicked" using no_panic(2) by auto
      then have rec: "record_failure kind (id_of x) (w\<lparr>w_primary := s, w_supabase := s2\<rparr>) =
          (Inr (), w\<lparr>w_primary := s3, w_supabase := s2\<rparr>)"
        using f by (auto simp: record_failure_def bindA_def caught_def on_primary_def
            split: sum.splits data_error.splits)
      have "r = Inl (Failed (mirror_unavailable (id_of x)))"
        and "w' = w\<lparr>w_primary := s3, w_supabase := s2\<rparr>"
        using run 2 rec caught
        by (simp_all add: dual_write_def bindA_def from_data_def map_errA_def on_primary_def p Inr)
      with 2 p Inr m f show ?thesis by (intro mirror_failed [of x s m f]) simp_all
    next
      case 3
      obtain f s3 where f: "mark_mirrored kind (id_of x) (ctx_payload_sha256 ctx) s = (f, s3)"
        by (cases "mark_mirrored kind (id_of x) (ctx_payload_sha256 ctx) s")
      then have np: "f \<noteq> Inl Panicked" using no_panic(1) by auto
      note step = step or_failure_def f mirrored_as_def 3
      show ?thesis
      proof (cases f)
        case (Inl e)
        with np run have "r = Inl (Failed (mirror_unavailable (id_of x)))"
          and "w' = w\<lparr>w_primary := s3, w_supabase := s2\<rparr>"
          by (auto simp: step)
        with 3 p Inr m f Inl show ?thesis
          using \<open>r1 = Inr x\<close> by (intro unmarked [of x s y e]) simp_all
      next
        case (Inr u)
        with run have "r = Inr x" and "w' = w\<lparr>w_primary := s3, w_supabase := s2\<rparr>"
          by (auto simp: step)
        with 3 p m f Inr show ?thesis
          using \<open>r1 = Inr x\<close> by (intro complete [of x s y u]) simp_all
      qed
    qed
  qed
qed


section \<open>Invariants of the pair\<close>

lemma consistent_step:
  assumes "consistent p m" and "primary_ok p'" and "\<And>k. identities k p' = identities k p"
  shows "consistent p' m"
  using assms by (simp add: consistent_def mirror_within_def)

lemma marking_consistent:
  assumes "mark_mirrored kind i digest s = (r, t)" and "consistent (committed s) m"
  shows "consistent (committed t) m" and "remembers (committed s) (committed t)"
  using assms marking_keeps [OF assms(1)] consistent_step [OF assms(2)]
  by (auto simp: consistent_def remembers_def)

lemma recording_consistent:
  assumes "record_mirror_failure kind i code s = (r, t)" and "consistent (committed s) m"
  shows "consistent (committed t) m" and "remembers (committed s) (committed t)"
  using assms recording_keeps [OF assms(1)] consistent_step [OF assms(2)]
  by (auto simp: consistent_def remembers_def)

lemma consistent_wf:
  "consistent p m \<Longrightarrow> wf_rows p \<and> keys_unique p \<and> ids_unique p \<and> store_ok p \<and> primary_ok p"
  "consistent p m \<Longrightarrow> wf_rows m \<and> keys_unique m \<and> store_ok m"
  by (simp_all add: consistent_def primary_ok_def store_ok_def)

text \<open>The pair of a world, with a schema whose new outbox entries have no failed attempt.\<close>

definition pair_ok :: "world \<Rightarrow> bool" where
  "pair_ok w \<longleftrightarrow>
     consistent (committed (w_primary w)) (committed (w_supabase w)) \<and>
     (\<forall>now. good_defaults (schema_defaults (w_primary w) now))"

definition world_remembers :: "world \<Rightarrow> world \<Rightarrow> bool" where
  "world_remembers w w' \<longleftrightarrow>
     remembers (committed (w_primary w)) (committed (w_primary w')) \<and>
     remembers (committed (w_supabase w)) (committed (w_supabase w'))"

text \<open>A submission is on both databases, under one identifier, key and digest.\<close>

definition in_both :: "stored_submission_kind \<Rightarrow> uuid \<Rightarrow> str \<Rightarrow> str \<Rightarrow> world \<Rightarrow> bool" where
  "in_both kind i key digest w \<longleftrightarrow>
     holds kind i key digest (committed (w_primary w)) \<and>
     holds kind i key digest (committed (w_supabase w))"

lemma world_remembers_trans:
  "world_remembers a b \<Longrightarrow> world_remembers b c \<Longrightarrow> world_remembers a c"
  by (auto simp: world_remembers_def intro: remembers_trans)

lemma world_remembers_refl [simp]: "world_remembers w w"
  by (simp add: world_remembers_def)

lemma in_both_remembered:
  "in_both kind i key digest w \<Longrightarrow> world_remembers w w' \<Longrightarrow> in_both kind i key digest w'"
  by (auto simp: in_both_def world_remembers_def intro: remembers_holds)

context intake_command begin

abbreviation id_of :: "'r \<Rightarrow> uuid" where
  "id_of x \<equiv> ss_id (view x)"

abbreviation dual :: "submission_context \<Rightarrow> 'r handler" where
  "dual ctx \<equiv> dual_write kind id_of cmd ctx"

lemma primary_step:
  assumes "cmd Primary ctx s = (r, t)" and "consistent (committed s) m"
    and "fresh_id kind (ctx_canonical_id ctx) (committed s)"
    and "\<And>now. good_defaults (schema_defaults s now)"
  shows "consistent (committed t) m" and "remembers (committed s) (committed t)"
    and "schema_defaults t = schema_defaults s"
    and "r = Inr x \<Longrightarrow>
      holds kind (id_of x) (ctx_idempotency_key ctx) (ctx_payload_sha256 ctx) (committed t)"
  using keeps_consistent_primary [OF assms] effect_remembers [OF assms(1)]
    stored.frame(1) [OF assms(1)] result(1) assms consistent_wf [OF assms(2)] by auto

lemma mirror_step:
  assumes run: "cmd SupabaseMirror (with_canonical_id ctx i) s = (r, t)"
    and ok: "consistent p (committed s)"
    and held: "holds kind i (ctx_idempotency_key ctx) (ctx_payload_sha256 ctx) p"
  shows "consistent p (committed t)" and "remembers (committed s) (committed t)"
    and "r = Inr y \<Longrightarrow>
      holds kind (id_of y) (ctx_idempotency_key ctx) (ctx_payload_sha256 ctx) (committed t)"
  using keeps_consistent_mirror [OF run ok] held effect_remembers [OF run]
    result(1) [of SupabaseMirror "with_canonical_id ctx i" s y t] run consistent_wf(2) [OF ok]
  by auto

lemma dual_keeps:
  assumes run: "dual ctx w = (r, w')" and ok: "pair_ok w"
    and fresh: "fresh_id kind (ctx_canonical_id ctx) (committed (w_primary w))"
  shows "pair_ok w' \<and> world_remembers w w'"
proof -
  have con: "consistent (committed (w_primary w)) (committed (w_supabase w))"
    and d: "good_defaults (schema_defaults (w_primary w) now)" for now
    using ok by (simp_all add: pair_ok_def)
  have frame: "schema_defaults (w_primary w') = schema_defaults (w_primary w)"
    using run
    by (cases rule: dual_write_cases)
      (auto dest!: stored.frame(1) marking.frame(1) recording.frame(1))
  note primary = primary_step [OF _ con fresh d]
  show ?thesis
    using run
  proof (cases rule: dual_write_cases)
    case (primary_failed e)
    with primary [of "Inl e" "w_primary w'"] frame d show ?thesis
      by (simp add: pair_ok_def world_remembers_def)
  next
    case (mirror_panicked x)
    note p = primary [OF mirror_panicked(1)]
    from mirror_step [OF mirror_panicked(2) p(1)] p frame d show ?thesis
      by (simp add: pair_ok_def world_remembers_def)
  next
    case (mirror_failed x s m f)
    note p = primary [OF mirror_failed(1)]
    note m = mirror_step [OF mirror_failed(2) p(1) p(4) [OF refl]]
    from recording_consistent [OF mirror_failed(5) m(1)] m p frame d show ?thesis
      by (auto simp: pair_ok_def world_remembers_def intro: remembers_trans)
  next
    case (unmarked x s y e)
    note p = primary [OF unmarked(1)]
    note m = mirror_step [OF unmarked(2) p(1) p(4) [OF refl]]
    from marking_consistent [OF unmarked(4) m(1)] m p frame d show ?thesis
      by (auto simp: pair_ok_def world_remembers_def intro: remembers_trans)
  next
    case (complete x s y u)
    note p = primary [OF complete(1)]
    note m = mirror_step [OF complete(2) p(1) p(4) [OF refl]]
    from marking_consistent [OF complete(4) m(1)] m p frame d show ?thesis
      by (auto simp: pair_ok_def world_remembers_def intro: remembers_trans)
  qed
qed

text \<open>A dual write that succeeds has stored the submission on both sides and marked it.\<close>

lemma dual_success:
  assumes run: "dual ctx w = (Inr x, w')"
    and pok: "pair_ok w" and fresh: "fresh_id kind (ctx_canonical_id ctx) (committed (w_primary w))"
  shows "in_both kind (id_of x) (ctx_idempotency_key ctx) (ctx_payload_sha256 ctx) w'"
    and "marked kind (id_of x) (ctx_payload_sha256 ctx) (committed (w_primary w'))"
proof -
  have con: "consistent (committed (w_primary w)) (committed (w_supabase w))"
    and d: "good_defaults (schema_defaults (w_primary w) now)" for now
    using pok by (simp_all add: pair_ok_def)
  from run obtain s y u where c: "cmd Primary ctx (w_primary w) = (Inr x, s)"
      "cmd SupabaseMirror (with_canonical_id ctx (id_of x)) (w_supabase w) = (Inr y, w_supabase w')"
      "id_of y = id_of x"
      "mark_mirrored kind (id_of x) (ctx_payload_sha256 ctx) s = (Inr u, w_primary w')"
    by (cases rule: dual_write_cases) auto
  note p = primary_step [OF c(1) con fresh d]
  note m = mirror_step [OF c(2) p(1) p(4) [OF refl]]
  from marking_consistent(2) [OF c(4) m(1)] p(4) m(3) c(3)
  show "in_both kind (id_of x) (ctx_idempotency_key ctx) (ctx_payload_sha256 ctx) w'"
    by (auto simp: in_both_def intro: remembers_holds)
  show "marked kind (id_of x) (ctx_payload_sha256 ctx) (committed (w_primary w'))"
    by (rule mark_mirrored_marks [OF c(4)])
qed

text \<open>A success under a key that was bound reports the submission it was bound to.\<close>

lemma dual_replay:
  assumes run: "dual ctx w = (Inr x, w')" and ok: "pair_ok w"
    and held: "holds kind i (ctx_idempotency_key ctx) digest (committed (w_primary w))"
  shows "id_of x = i \<and> digest = ctx_payload_sha256 ctx"
proof -
  from run obtain s where c: "cmd Primary ctx (w_primary w) = (Inr x, s)"
    by (cases rule: dual_write_cases) auto
  from ok have "wf_rows (committed (w_primary w))" "keys_unique (committed (w_primary w))"
    using consistent_wf by (auto simp: pair_ok_def)
  from replay [OF c this held] show ?thesis by simp
qed

text \<open>A key bound to another payload is refused, and nothing changes on either side.\<close>

lemma dual_conflict:
  assumes run: "dual ctx w = (r, w')" and ok: "pair_ok w"
    and held: "holds kind i (ctx_idempotency_key ctx) digest (committed (w_primary w))"
    and other: "digest \<noteq> ctx_payload_sha256 ctx"
  shows "(\<exists>e. r = Inl e) \<and> committed (w_primary w') = committed (w_primary w) \<and>
    w_supabase w' = w_supabase w"
proof -
  have wf: "wf_rows (committed (w_primary w))" "keys_unique (committed (w_primary w))"
    using ok consistent_wf by (auto simp: pair_ok_def)
  note c = conflict [OF wf held other]
  from run show ?thesis
    by (cases rule: dual_write_cases) (auto dest: c)
qed

text \<open>A failure that names a submission means the primary has kept it for a retry.\<close>

lemma failure_of_data_silent: "failure_of_data e = Failed f \<Longrightarrow> af_submission_id f = None"
  by (cases e) (auto simp: failure_invalid_def failure_conflict_def persistence_unavailable_def
      api_failure_new_def)

lemma dual_retained:
  assumes run: "dual ctx w = (Inl (Failed f), w')" and named: "af_submission_id f = Some i"
    and ok: "pair_ok w" and fresh: "fresh_id kind (ctx_canonical_id ctx) (committed (w_primary w))"
  shows "f = mirror_unavailable i"
    and "holds kind i (ctx_idempotency_key ctx) (ctx_payload_sha256 ctx) (committed (w_primary w'))"
proof -
  have con: "consistent (committed (w_primary w)) (committed (w_supabase w))"
    and d: "good_defaults (schema_defaults (w_primary w) now)" for now
    using ok by (simp_all add: pair_ok_def)
  have un: "af_submission_id (mirror_unavailable j) = Some j" for j
    by (simp add: mirror_unavailable_def api_failure_new_def)
  note primary = primary_step [OF _ con fresh d]
  have "f = mirror_unavailable i \<and>
     holds kind i (ctx_idempotency_key ctx) (ctx_payload_sha256 ctx) (committed (w_primary w'))"
    using run
  proof (cases rule: dual_write_cases)
    case (primary_failed e)
    then show ?thesis using named failure_of_data_silent [of e f] by simp
  next
    case (mirror_failed x s m f')
    note p = primary [OF mirror_failed(1)]
    from recording_consistent(2) [OF mirror_failed(5) p(1)] p(4) [OF refl] mirror_failed(6) named un
    show ?thesis by (auto intro: remembers_holds)
  next
    case (unmarked x s y e)
    note p = primary [OF unmarked(1)]
    from marking_consistent(2) [OF unmarked(4) p(1)] p(4) [OF refl] unmarked(5) named un
    show ?thesis by (auto intro: remembers_holds)
  qed simp_all
  then show "f = mirror_unavailable i"
    and "holds kind i (ctx_idempotency_key ctx) (ctx_payload_sha256 ctx) (committed (w_primary w'))"
    by simp_all
qed

text \<open>Any other failure comes from the primary, before the mirror is touched. Unless it is the
  ambiguous \<open>persistence_unavailable\<close>, nothing was stored.\<close>

lemma dual_silent:
  assumes run: "dual ctx w = (Inl (Failed f), w')" and silent: "af_submission_id f = None"
    and wf: "wf_rows (committed (w_primary w))"
  shows "w_supabase w' = w_supabase w"
    and "f \<noteq> persistence_unavailable \<Longrightarrow> committed (w_primary w') = committed (w_primary w)"
proof -
  have un: "af_submission_id (mirror_unavailable j) = Some j" for j
    by (simp add: mirror_unavailable_def api_failure_new_def)
  from run silent un obtain e where e: "cmd Primary ctx (w_primary w) = (Inl e, w_primary w')"
      "failure_of_data e = Failed f" "w_supabase w' = w_supabase w"
    by (cases rule: dual_write_cases) auto
  show "w_supabase w' = w_supabase w" by (rule e(3))
  show "committed (w_primary w') = committed (w_primary w)" if "f \<noteq> persistence_unavailable"
  proof -
    from that e(2) have "e \<noteq> Database" by auto
    from stored.error_effect [OF e(1) this] obtain now where
      "spec Primary ctx now (schema_defaults (w_primary w) now) (committed (w_primary w))
         = (Inl e, committed (w_primary w'))" by blast
    from this wf show ?thesis by (cases rule: spec_cases) auto
  qed
qed

section \<open>Progress\<close>

lemma quiet_store:
  assumes quiet: "answers s = []" and ok: "store_ok (committed s)"
    and plan: "plan target ctx (clock s) (committed s) = Inr cvs"
    and rdb: "readable kind (set_cols cvs (schema_defaults s (clock s) (table_name kind)))"
    and same: "\<And>i digest. holds kind i (ctx_idempotency_key ctx) digest (committed s) \<Longrightarrow>
      digest = ctx_payload_sha256 ctx"
  shows "\<exists>x t. cmd target ctx s = (Inr x, t) \<and> answers t = [] \<and>
    (\<forall>i digest. holds kind i (ctx_idempotency_key ctx) digest (committed s) \<longrightarrow> id_of x = i) \<and>
    ((\<nexists>i digest. holds kind i (ctx_idempotency_key ctx) digest (committed s)) \<longrightarrow>
       id_of x = ctx_canonical_id ctx)"
proof (cases "\<exists>i digest. holds kind i (ctx_idempotency_key ctx) digest (committed s)")
  case True
  then obtain i where held: "holds kind i (ctx_idempotency_key ctx) (ctx_payload_sha256 ctx) (committed s)"
    using same by blast
  have "keys_unique (committed s)" using ok by (simp add: store_ok_def)
  with held have "j = i" if "holds kind j (ctx_idempotency_key ctx) digest (committed s)" for j digest
    using key_determines that by blast
  with undisturbed_replay [OF quiet ok plan held] True show ?thesis by metis
next
  case False
  obtain r t where run: "cmd target ctx s = (r, t)" by (cases "cmd target ctx s")
  note q = stored.undisturbed [OF quiet run]
  have wf: "wf_rows (committed s)" using ok by (simp add: store_ok_def)
  let ?new = "set_cols cvs (schema_defaults s (clock s) (table_name kind))"
  have none: "List.find (by_key (ctx_idempotency_key ctx) (clock s)) (committed s (table_name kind)) = None"
  proof (rule ccontr)
    assume "\<not> ?thesis"
    then obtain row where "List.find (by_key (ctx_idempotency_key ctx) (clock s))
        (committed s (table_name kind)) = Some row" by blast
    from find_key_Some [OF wf this] False show False by (auto simp: holds_def)
  qed
  have "?new C_id = SUuid (ctx_canonical_id ctx)" by (rule binds_identity_cols(1) [OF binds [OF plan]])
  with reads_identityD(2) [OF reads, of ?new False] rdb obtain x where x: "rd ?new False = Inr x"
    by (cases "rd ?new False") auto
  with q(1) plan none have "r = Inr x"
    by (simp add: command_spec_def submit_spec_def Let_def)
  moreover have "id_of x = ctx_canonical_id ctx"
    using reads_identityD(1) [OF reads x] \<open>?new C_id = _\<close> by simp
  ultimately show ?thesis using run q(2) False by blast
qed

end

lemma quiet_mark:
  assumes quiet: "answers s = []" and ok: "primary_ok (committed s)"
    and held: "holds kind i key digest (committed s)"
  obtains t where "mark_mirrored kind i digest s = (Inr (), t)" "answers t = []"
proof -
  obtain r t where run: "mark_mirrored kind i digest s = (r, t)" by (cases "mark_mirrored kind i digest s")
  note q = marking.undisturbed [OF quiet run]
  from q(1) mark_mirrored_spec_ok [OF ok held] have "r = Inr ()" by (metis fst_conv)
  with run q(2) that show ?thesis by blast
qed

lemma dual_write_complete:
  assumes "cmd Primary ctx (w_primary w) = (Inr x, s)"
    and "cmd SupabaseMirror (with_canonical_id ctx (id_of x)) (w_supabase w) = (Inr y, m)"
    and "id_of y = id_of x"
    and "mark_mirrored kind (id_of x) (ctx_payload_sha256 ctx) s = (Inr u, t)"
  shows "dual_write kind id_of cmd ctx w = (Inr x, w\<lparr>w_primary := t, w_supabase := m\<rparr>)"
  using assms
  by (simp add: dual_write_def bindA_def from_data_def map_errA_def on_primary_def on_supabase_def
      caught_def or_failure_def mirrored_as_def)

context intake_command begin

text \<open>
  On an undisturbed pair the dual write succeeds, whatever an earlier attempt left behind: nothing,
  the primary's row only, or both rows. The key must not be bound to another payload, and both
  plans must accept.
\<close>

lemma dual_completes:
  assumes quiet: "answers (w_primary w) = []" "answers (w_supabase w) = []" and ok: "pair_ok w"
    and fresh: "fresh_id kind (ctx_canonical_id ctx) (committed (w_primary w))"
    and same: "\<And>i digest. holds kind i (ctx_idempotency_key ctx) digest (committed (w_primary w)) \<Longrightarrow>
      digest = ctx_payload_sha256 ctx"
    and plan: "plan Primary ctx (clock (w_primary w)) (committed (w_primary w)) = Inr cvs"
    and rdb: "readable kind (set_cols cvs
      (schema_defaults (w_primary w) (clock (w_primary w)) (table_name kind)))"
    and mplan: "\<And>i. \<exists>cvs. plan SupabaseMirror (with_canonical_id ctx i) (clock (w_supabase w))
        (committed (w_supabase w)) = Inr cvs \<and>
      readable kind (set_cols cvs
        (schema_defaults (w_supabase w) (clock (w_supabase w)) (table_name kind)))"
  obtains x w' where "dual ctx w = (Inr x, w')" "answers (w_primary w') = []"
    "answers (w_supabase w') = []"
proof -
  have con: "consistent (committed (w_primary w)) (committed (w_supabase w))"
    and d: "good_defaults (schema_defaults (w_primary w) now)" for now
    using ok by (simp_all add: pair_ok_def)
  let ?key = "ctx_idempotency_key ctx" and ?digest = "ctx_payload_sha256 ctx"
  have "store_ok (committed (w_primary w))" using consistent_wf(1) [OF con] by simp
  note pstore = quiet_store [OF quiet(1) this plan rdb]
  obtain x s where p: "cmd Primary ctx (w_primary w) = (Inr x, s)" "answers s = []"
      "\<And>i digest. holds kind i ?key digest (committed (w_primary w)) \<Longrightarrow> id_of x = i"
    using pstore same by blast
  note ps = primary_step [OF p(1) con fresh d]
  have held: "holds kind (id_of x) ?key ?digest (committed s)" by (rule ps(4)) simp
  have within: "i = id_of x \<and> digest = ?digest"
    if "holds kind i ?key digest (committed (w_supabase w))" for i digest
  proof -
    from that ps(1) have "holds kind i ?key digest (committed s)"
      by (auto simp: consistent_def mirror_within_def holds_identities_list)
    with held consistent_wf(1) [OF ps(1)] key_determines show ?thesis by metis
  qed
  obtain mcvs where mp: "plan SupabaseMirror (with_canonical_id ctx (id_of x)) (clock (w_supabase w))
        (committed (w_supabase w)) = Inr mcvs"
      "readable kind (set_cols mcvs
        (schema_defaults (w_supabase w) (clock (w_supabase w)) (table_name kind)))"
    using mplan by blast
  have "store_ok (committed (w_supabase w))" using consistent_wf(2) [OF con] by simp
  note store = quiet_store [OF quiet(2) this mp, unfolded with_canonical_id_simps]
  obtain y m where m: "cmd SupabaseMirror (with_canonical_id ctx (id_of x)) (w_supabase w) = (Inr y, m)"
      "answers m = []"
      "\<And>i digest. holds kind i ?key digest (committed (w_supabase w)) \<Longrightarrow> id_of y = i"
      "(\<nexists>i digest. holds kind i ?key digest (committed (w_supabase w))) \<Longrightarrow> id_of y = id_of x"
    using store within by blast
  have same_id: "id_of y = id_of x" using m(3,4) within by metis
  obtain t where mk: "mark_mirrored kind (id_of x) ?digest s = (Inr (), t)" "answers t = []"
    using quiet_mark [OF p(2) _ held] consistent_wf(1) [OF ps(1)] by metis
  from dual_write_complete [OF p(1) m(1) same_id mk(1)] mk(2) m(2) that show ?thesis by simp
qed

text \<open>A handler aborts only when a plan panics.\<close>

lemma dual_aborted:
  assumes "dual ctx w = (Inl Aborted, w')"
    and "wf_rows (committed (w_primary w))" and "wf_rows (committed (w_supabase w))"
  shows "\<exists>target i now st. plan target (if target = Primary then ctx else with_canonical_id ctx i) now st
    = Inl Panicked"
proof -
  have panic: "\<exists>now st. plan target ctx now st = Inl Panicked"
    if run: "cmd target ctx s = (Inl Panicked, t)" and wf: "wf_rows (committed s)" for target ctx s t
  proof -
    from stored.error_effect [OF run] obtain now where
      sp: "spec target ctx now (schema_defaults s now) (committed s) = (Inl Panicked, committed t)" by auto
    show ?thesis
    proof (cases "plan target ctx now (committed s)")
      case (Inl e)
      with sp show ?thesis by (auto simp: command_spec_def)
    next
      case (Inr cvs)
      with sp have "submit_spec kind rd view target ctx cvs now (schema_defaults s now) (committed s)
          = (Inl Panicked, committed t)" by (simp add: command_spec_def)
      from this wf binds [OF Inr] reads show ?thesis
        by (cases rule: submit_spec_cases)
          (auto split: if_splits dest: reads_identityD(2) [OF reads] reads_identityD(2) [OF reads, OF sym])
    qed
  qed
  have only: "e = Panicked" if "failure_of_data e = Aborted" for e
    using that by (cases e) auto
  from assms(1) show ?thesis
  proof (cases rule: dual_write_cases)
    case (primary_failed e)
    with only panic [OF _ assms(2)] show ?thesis
      by (metis Inl_inject)
  next
    case (mirror_panicked x)
    with panic [OF mirror_panicked(2) assms(3)] show ?thesis
      by (metis persistence_target.distinct(1))
  qed simp_all
qed

end

end
