(* ===== verification/Service.thy ===== *)
theory Service imports Dual_Correct begin

text \<open>
  The service as a whole: one operation per route, the uniform shape of the four submitting
  routes, and completing an upload.
\<close>

section \<open>Requests\<close>

datatype request =
    PreInterestRequest pre_interest_create
  | UploadRequest upload_intent_create
  | CompleteRequest uuid upload_complete_create
  | ApplicationRequest application_create
  | ReferralRequest referral_create
  | HealthRequest
  | ReadyRequest

datatype response =
    Created submission_receipt
  | IntentCreated upload_intent_receipt
  | UploadVerified uuid
  | Healthy health_body

text \<open>The handlers as the router binds them.\<close>

fun respond :: "app_state \<Rightarrow> uuid \<Rightarrow> header_map \<Rightarrow> request \<Rightarrow> response handler" where
  "respond app fresh headers (PreInterestRequest input) =
     bindA (create_pre_interest app fresh headers input) (\<lambda>r. okA (Created r))"
| "respond app fresh headers (UploadRequest input) =
     bindA (create_upload_intent app fresh headers input) (\<lambda>r. okA (IntentCreated r))"
| "respond app fresh headers (CompleteRequest upload_id input) =
     bindA (complete_upload app upload_id headers input) (\<lambda>i. okA (UploadVerified i))"
| "respond app fresh headers (ApplicationRequest input) =
     bindA (create_application app fresh headers input) (\<lambda>r. okA (Created r))"
| "respond app fresh headers (ReferralRequest input) =
     bindA (create_referral app fresh headers input) (\<lambda>r. okA (Created r))"
| "respond app fresh headers HealthRequest = okA (Healthy health)"
| "respond app fresh headers ReadyRequest = bindA readiness (\<lambda>r. okA (Healthy r))"

fun kind_of :: "request \<Rightarrow> stored_submission_kind option" where
  "kind_of (PreInterestRequest _) = Some PreInterest"
| "kind_of (UploadRequest _) = Some Upload"
| "kind_of (ApplicationRequest _) = Some Application"
| "kind_of (ReferralRequest _) = Some Referral"
| "kind_of _ = None"

fun response_id :: "response \<Rightarrow> uuid option" where
  "response_id (Created r) = Some (sr_submission_id r)"
| "response_id (IntentCreated r) = Some (ur_upload_id r)"
| "response_id (UploadVerified i) = Some i"
| "response_id (Healthy _) = None"

section \<open>Admission\<close>

text \<open>The digest a submitting request binds its key to.\<close>

fun request_digest :: "services \<Rightarrow> request \<Rightarrow> api_failure + str" where
  "request_digest sv (PreInterestRequest input) =
     canonical_digest_without_turnstile sv (sv_pre_interest_to_value sv input)"
| "request_digest sv (UploadRequest input) =
     canonical_digest_without_turnstile sv (sv_upload_intent_to_value sv input)"
| "request_digest sv (ApplicationRequest input) =
     canonical_digest_without_turnstile sv (sv_application_to_value sv input)"
| "request_digest sv (ReferralRequest input) =
     canonical_digest (sv_sha256 sv) (sv_referral_to_vec sv input)"
| "request_digest sv _ = Inl failure_invalid"

fun admission :: "app_state \<Rightarrow> uuid \<Rightarrow> header_map \<Rightarrow> request \<Rightarrow> api_failure + submission_context" where
  "admission app fresh headers (PreInterestRequest input) =
     admit_public app fresh headers (pre_interest_validate (sv_contract (app_services app)) input)
       (pi_turnstile_token input) (sv_pre_interest_to_value (app_services app) input)"
| "admission app fresh headers (UploadRequest input) =
     admit_public app fresh headers (upload_intent_validate (sv_contract (app_services app)) input)
       (ui_turnstile_token input) (sv_upload_intent_to_value (app_services app) input)"
| "admission app fresh headers (ApplicationRequest input) =
     admit_public app fresh headers (application_validate (sv_contract (app_services app)) input)
       (ap_turnstile_token input) (sv_application_to_value (app_services app) input)"
| "admission app fresh headers (ReferralRequest input) = admit_referral app fresh headers input"
| "admission app fresh headers _ = Inl failure_invalid"

lemma reject_Inr_iff [yields]: "reject r = Inr a \<longleftrightarrow> r = Some a"
  by (simp add: reject_def yields)

lemma header_text_Inr [yields]: "header_text h name = Inr v \<longleftrightarrow> h name = Some (HText v)"
proof -
  have "header_to_str a = Some v \<longleftrightarrow> a = HText v" for a by (cases a) auto
  then show ?thesis by (auto simp: header_text_def yields)
qed

lemma idempotency_key_Inr:
  "idempotency_key h = Inr key \<Longrightarrow> h ''idempotency-key'' = Some (HText key)"
  unfolding idempotency_key_def by (elim bindRE guardRE) (auto simp: yields)

lemma source_host_Inr: "source_host lib h = Inr host \<Longrightarrow> host \<in> set site_hosts"
  unfolding source_host_def
  by (elim bindRE guardRE) (auto simp: yields split: if_splits)

lemma submission_context_for_Inr:
  assumes "submission_context_for lib fresh subject h digest = Inr ctx"
  shows "wf_context ctx \<and> ctx_canonical_id ctx = fresh \<and> ctx_subject ctx = subject \<and>
    ctx_payload_sha256 ctx = digest \<and> h ''idempotency-key'' = Some (HText (ctx_idempotency_key ctx))"
  using assms
  by (auto simp: submission_context_for_def yields context_authenticated_def context_public_def
      dest: idempotency_key_Inr split: option.splits)

lemma admit_public_Inr:
  assumes "admit_public app fresh h validated token value = Inr ctx"
  shows "wf_context ctx \<and> ctx_canonical_id ctx = fresh \<and> validated = Inr () \<and>
    h ''idempotency-key'' = Some (HText (ctx_idempotency_key ctx)) \<and>
    canonical_digest_without_turnstile (app_services app) value = Inr (ctx_payload_sha256 ctx) \<and>
    authenticate_or_verify_public app h token = Inr (ctx_subject ctx)"
  using assms unfolding admit_public_def
  by (elim bindRE) (auto simp: map_err_Inr_iff dest!: submission_context_for_Inr)

lemma admit_referral_Inr:
  assumes "admit_referral app fresh h input = Inr ctx"
  shows "wf_context ctx \<and> ctx_canonical_id ctx = fresh \<and>
    referral_validate (sv_contract (app_services app)) input = Inr () \<and>
    h ''idempotency-key'' = Some (HText (ctx_idempotency_key ctx)) \<and>
    canonical_digest (sv_sha256 (app_services app)) (sv_referral_to_vec (app_services app) input)
      = Inr (ctx_payload_sha256 ctx) \<and>
    (\<exists>s. ctx_subject ctx = Some s \<and> required_subject (sv_ask (app_services app))
      (sv_decode_introspection (app_services app)) (app_auth app) h = Inr s)"
  using assms unfolding admit_referral_def Let_def
  by (elim bindRE)
    (auto simp: map_err_Inr_iff context_authenticated_def context_new_Inr_iff dest!: idempotency_key_Inr)

lemma admission_Inr:
  assumes "admission app fresh h req = Inr ctx"
  shows "wf_context ctx" and "ctx_canonical_id ctx = fresh"
    and "h ''idempotency-key'' = Some (HText (ctx_idempotency_key ctx))"
    and "request_digest (app_services app) req = Inr (ctx_payload_sha256 ctx)"
  using assms by (cases req; auto dest!: admit_public_Inr admit_referral_Inr)+

section \<open>The submitting routes share one shape\<close>

fun submit :: "app_state \<Rightarrow> request \<Rightarrow> submission_context \<Rightarrow> stored_submission handler" where
  "submit app (PreInterestRequest input) ctx = dual_write PreInterest ss_id
     (\<lambda>target ctx. store_pre_interest (sv_contract (app_services app)) target ctx input) ctx"
| "submit app (UploadRequest input) ctx =
     bindA (dual_write Upload su_id (store_intent (app_services app) input) ctx)
       (\<lambda>u. okA (upload_view u))"
| "submit app (ApplicationRequest input) ctx = dual_write Application ss_id
     (\<lambda>target ctx. store_application (sv_contract (app_services app)) target ctx input) ctx"
| "submit app (ReferralRequest input) ctx = dual_write Referral ss_id
     (\<lambda>target ctx. store_referral (sv_contract (app_services app)) target ctx input) ctx"
| "submit app _ ctx = failA Aborted"

lemma su_id_view: "su_id = (\<lambda>x. ss_id (upload_view x))"
  by (simp add: upload_view_def fun_eq_iff)

lemma store_intent_fun:
  "store_intent sv input = (\<lambda>target ctx. store_upload_intent (sv_contract sv) (sv_uuid_display sv)
     (sv_utc_now sv target) target ctx input)"
  by (intro ext) (simp add: store_intent_def)

lemma okA_pair: "okA a = Pair (Inr a)" "bindA (Pair (Inr a)) f = f a"
  by (rule ext, simp add: bindA_def)+

lemma bindA_okA_cases:
  assumes "bindA m (\<lambda>a. okA (f a)) w = (r, w')"
  obtains e where "m w = (Inl e, w')" "r = Inl e" | a where "m w = (Inr a, w')" "r = Inr (f a)"
  using assms by (auto simp: bindA_def split: prod.splits sum.splits)

lemma respond_cases:
  assumes run: "respond app fresh h req w = (r, w')" and kind: "kind_of req = Some kind"
  obtains
    (rejected) f where "admission app fresh h req = Inl f" "r = Inl (Failed f)" "w' = w"
  | (failed) ctx e where "admission app fresh h req = Inr ctx"
      "submit app req ctx w = (Inl e, w')" "r = Inl e"
  | (stored) ctx x where "admission app fresh h req = Inr ctx"
      "submit app req ctx w = (Inr x, w')"
      "(\<exists>resp. r = Inr resp \<and> response_id resp = Some (ss_id x)) \<or>
       kind = Upload \<and> r = Inl (Failed (failure_of_external Unavailable))"
proof (cases "admission app fresh h req")
  case (Inl f)
  with run kind have "r = Inl (Failed f)" "w' = w"
    by (cases req; auto simp: create_pre_interest_eq create_upload_intent_eq create_application_eq
        create_referral_eq bindA_assoc_fun)+
  with Inl show ?thesis by (rule rejected)
next
  case (Inr ctx)
  note eqs = create_pre_interest_eq create_upload_intent_eq create_application_eq
    create_referral_eq bindA_assoc_fun bindA_okA_fun
  have simple: ?thesis
    if "bindA (submit app req ctx) (\<lambda>x. okA (Created (receipt_of kind x))) w = (r, w')"
    using that
  proof (cases rule: bindA_okA_cases)
    case (1 e)
    with Inr show ?thesis by (intro failed [of ctx e])
  next
    case (2 x)
    with Inr show ?thesis by (intro stored [of ctx x]) (simp_all add: receipt_of_def)
  qed
  show ?thesis
  proof (cases req)
    case (UploadRequest input)
    let ?d = "dual_write Upload su_id (store_intent (app_services app) input) ctx w"
    obtain d w1 where d: "?d = (d, w1)" by (cases ?d)
    show ?thesis
    proof (cases d)
      case e: (Inl e)
      with run d Inr UploadRequest have "submit app req ctx w = (Inl e, w') \<and> r = Inl e"
        by (auto simp: eqs bindA_def)
      with Inr show ?thesis by (intro failed [of ctx e]) simp_all
    next
      case u: (Inr u)
      let ?url = "create_signed_upload_url (sv_url_lib (app_services app)) (sv_sign (app_services app))
          (sv_decode_signed (app_services app)) (app_storage app) (su_object_key u)"
      from run d u Inr UploadRequest have "submit app req ctx w = (Inr (upload_view u), w')"
        "(\<exists>resp. r = Inr resp \<and> response_id resp = Some (su_id u)) \<or>
         r = Inl (Failed (failure_of_external Unavailable))"
        by (cases ?url; use create_signed_upload_url_Inl in \<open>fastforce simp: eqs bindA_def\<close>)+
      with Inr UploadRequest kind show ?thesis
        by (intro stored [of ctx "upload_view u"]) (simp_all add: upload_view_def)
    qed
  qed (use run kind Inr in \<open>auto simp: eqs okA_pair intro!: simple\<close>)
qed


text \<open>The dual write of the upload route, seen through \<open>upload_view\<close>.\<close>

lemma submit_upload:
  assumes "submit app (UploadRequest input) ctx w = (d, w')"
  obtains e where "uploads.dual (sv_contract (app_services app)) (sv_uuid_display (app_services app))
      (sv_utc_now (app_services app)) input ctx w = (Inl e, w')" "d = Inl e"
  | u where "uploads.dual (sv_contract (app_services app)) (sv_uuid_display (app_services app))
      (sv_utc_now (app_services app)) input ctx w = (Inr u, w')" "d = Inr (upload_view u)"
  using assms unfolding submit.simps su_id_view store_intent_fun
  by (elim bindA_okA_cases)

lemma submit_keeps:
  assumes "submit app req ctx w = (d, w')" and "kind_of req = Some kind" and "pair_ok w"
    and "fresh_id kind (ctx_canonical_id ctx) (committed (w_primary w))"
  shows "pair_ok w' \<and> world_remembers w w'"
proof (cases req)
  case (UploadRequest input)
  from assms(1) [unfolded UploadRequest] show ?thesis
    by (rule submit_upload) (use UploadRequest assms(2-) uploads.dual_keeps in \<open>auto\<close>)
qed (use assms pre_interests.dual_keeps applications.dual_keeps referrals.dual_keeps in \<open>auto\<close>)

lemma submit_success:
  assumes "submit app req ctx w = (Inr x, w')" and "kind_of req = Some kind" and "pair_ok w"
    and "fresh_id kind (ctx_canonical_id ctx) (committed (w_primary w))"
  shows "in_both kind (ss_id x) (ctx_idempotency_key ctx) (ctx_payload_sha256 ctx) w'"
    and "marked kind (ss_id x) (ctx_payload_sha256 ctx) (committed (w_primary w'))"
proof -
  have "in_both kind (ss_id x) (ctx_idempotency_key ctx) (ctx_payload_sha256 ctx) w' \<and>
    marked kind (ss_id x) (ctx_payload_sha256 ctx) (committed (w_primary w'))"
  proof (cases req)
    case (UploadRequest input)
    from assms(1) [unfolded UploadRequest] show ?thesis
      by (rule submit_upload) (use UploadRequest assms(2-) uploads.dual_success in \<open>auto\<close>)
  qed (use assms pre_interests.dual_success applications.dual_success referrals.dual_success
      in \<open>auto\<close>)
  then show "in_both kind (ss_id x) (ctx_idempotency_key ctx) (ctx_payload_sha256 ctx) w'"
    and "marked kind (ss_id x) (ctx_payload_sha256 ctx) (committed (w_primary w'))" by simp_all
qed

lemma submit_replay:
  assumes "submit app req ctx w = (Inr x, w')" and "kind_of req = Some kind" and "pair_ok w"
    and "holds kind i (ctx_idempotency_key ctx) digest (committed (w_primary w))"
  shows "ss_id x = i \<and> digest = ctx_payload_sha256 ctx"
proof (cases req)
  case (UploadRequest input)
  from assms(1) [unfolded UploadRequest] show ?thesis
    by (rule submit_upload) (use UploadRequest assms(2-) in \<open>auto dest: uploads.dual_replay\<close>)
qed (use assms in \<open>auto dest: pre_interests.dual_replay applications.dual_replay
    referrals.dual_replay\<close>)

lemma submit_conflict:
  assumes "submit app req ctx w = (d, w')" and "kind_of req = Some kind" and "pair_ok w"
    and "holds kind i (ctx_idempotency_key ctx) digest (committed (w_primary w))"
    and "digest \<noteq> ctx_payload_sha256 ctx"
  shows "(\<exists>e. d = Inl e) \<and> committed (w_primary w') = committed (w_primary w) \<and>
    w_supabase w' = w_supabase w"
proof (cases req)
  case (UploadRequest input)
  from assms(1) [unfolded UploadRequest] show ?thesis
    by (rule submit_upload) (use UploadRequest assms(2-) in \<open>auto dest: uploads.dual_conflict\<close>)
qed (use assms in \<open>auto dest: pre_interests.dual_conflict applications.dual_conflict
    referrals.dual_conflict\<close>)

lemma submit_retained:
  assumes "submit app req ctx w = (Inl (Failed f), w')" and "kind_of req = Some kind"
    and "af_submission_id f = Some i" and "pair_ok w"
    and "fresh_id kind (ctx_canonical_id ctx) (committed (w_primary w))"
  shows "f = mirror_unavailable i \<and>
    holds kind i (ctx_idempotency_key ctx) (ctx_payload_sha256 ctx) (committed (w_primary w'))"
proof (cases req)
  case (UploadRequest input)
  from assms(1) [unfolded UploadRequest] show ?thesis
    by (rule submit_upload) (use UploadRequest assms(2-) uploads.dual_retained in \<open>auto\<close>)
qed (use assms pre_interests.dual_retained applications.dual_retained referrals.dual_retained
    in \<open>auto\<close>)

lemma submit_silent:
  assumes "submit app req ctx w = (Inl (Failed f), w')" and "kind_of req = Some kind"
    and "af_submission_id f = None" and "pair_ok w"
  shows "w_supabase w' = w_supabase w \<and>
    (f \<noteq> persistence_unavailable \<longrightarrow> committed (w_primary w') = committed (w_primary w))"
proof -
  have wf: "wf_rows (committed (w_primary w))"
    using assms(4) consistent_wf by (auto simp: pair_ok_def)
  show ?thesis
  proof (cases req)
    case (UploadRequest input)
    from assms(1) [unfolded UploadRequest] show ?thesis
      by (rule submit_upload) (use UploadRequest assms(2-) wf uploads.dual_silent in \<open>auto\<close>)
  qed (use assms wf pre_interests.dual_silent applications.dual_silent referrals.dual_silent
      in \<open>auto\<close>)
qed


text \<open>A submission refused for good, that is with any status but 503, has changed neither database.\<close>

lemma submit_definite:
  assumes run: "submit app req ctx w = (Inl (Failed f), w')" and kind: "kind_of req = Some kind"
    and ok: "pair_ok w" and fresh: "fresh_id kind (ctx_canonical_id ctx) (committed (w_primary w))"
    and status: "af_status f \<noteq> 503"
  shows "committed (w_primary w') = committed (w_primary w) \<and> w_supabase w' = w_supabase w"
proof (cases "af_submission_id f")
  case None
  from status have "f \<noteq> persistence_unavailable"
    by (auto simp: persistence_unavailable_def api_failure_new_def)
  with submit_silent [OF run kind None ok] show ?thesis by blast
next
  case (Some i)
  from submit_retained [OF run kind Some ok fresh] have "f = mirror_unavailable i" by blast
  with status show ?thesis by (simp add: mirror_unavailable_def api_failure_new_def)
qed

section \<open>Completing an upload\<close>

definition upload_verified :: "uuid \<Rightarrow> str \<Rightarrow> store \<Rightarrow> bool" where
  "upload_verified i sha st \<longleftrightarrow> (\<exists>r \<in> set (st Hhm_intake_uploads).
     r C_id = SUuid i \<and> r (Up C_content_sha256) = SText sha \<and>
     r (Up C_status) = SText (lit ''verified''))"

text \<open>The row behind a pending upload: it belongs to the subject, is open and has not expired.\<close>

definition pending_row ::
  "uuid \<Rightarrow> verified_subject option \<Rightarrow> pending_upload \<Rightarrow> timestamp \<Rightarrow> store \<Rightarrow> bool" where
  "pending_row i subject pu now st \<longleftrightarrow> pu_id pu = i \<and> (\<exists>r \<in> set (st Hhm_intake_uploads).
     r C_id = SUuid i \<and>
     not_distinct (r C_applicant_subject) (sql_opt SText (map_option as_str subject)) \<and>
     time_after (r (Up C_expires_at)) now \<and> r (Up C_expires_at) = STime (pu_expires_at pu) \<and>
     sql_in (r (Up C_status)) open_statuses \<and>
     r (Up C_object_key) = SText (pu_object_key pu) \<and>
     r (Up C_content_sha256) = SText (pu_expected_sha256 pu) \<and>
     r (Up C_content_type) = SText (pu_content_type pu) \<and>
     (\<exists>size_bytes. r (Up C_size_bytes) = SInt size_bytes \<and>
        u64_of_i64 size_bytes = Some (pu_size_bytes pu)))"

lemma pending_upload_frame:
  assumes "pending_upload i subject s = (r, t)"
  shows "committed t = committed s" and "schema_defaults t = schema_defaults s"
    and "r = Inr pu \<Longrightarrow> \<exists>now \<ge> clock s. pending_row i subject pu now (committed s)"
proof -
  show "committed t = committed s"
    by (rule pending.all_or_nothing [OF assms]) (simp add: pending_upload_spec_def)
  show "schema_defaults t = schema_defaults s" by (rule pending.frame(1) [OF assms])
  assume r: "r = Inr pu"
  obtain now where now: "clock s \<le> now" and "pending_upload_spec i subject now (schema_defaults s now)
      (committed s) = (Inr pu, committed t)"
    using pending.ok_effect assms unfolding r by blast
  then obtain row where "List.find (owned_open_upload i subject now) (committed s Hhm_intake_uploads)
      = Some row" "pending_from_row (Some row) = Inr pu"
    by (auto simp: pending_upload_spec_def pending_from_row_def yields)
  then have "pending_row i subject pu now (committed s)"
    by (auto simp: pending_row_def pending_from_row_def owned_open_upload_def sql_eq_def yields
        dest!: find_SomeD intro!: bexI [of _ row])
  with now show "\<exists>now \<ge> clock s. pending_row i subject pu now (committed s)" by blast
qed

lemma verify_upload_effect:
  assumes "verify_upload i subject sha s = (r, t)"
  shows "schema_defaults t = schema_defaults s"
    and "identities k (committed t) = identities k (committed s)"
    and "store_ok (committed s) \<Longrightarrow> store_ok (committed t)"
    and "primary_ok (committed s) \<Longrightarrow> primary_ok (committed t)"
    and "r = Inr u \<Longrightarrow> upload_verified i sha (committed t)"
proof -
  show "schema_defaults t = schema_defaults s" by (rule verifying.frame(1) [OF assms])
  obtain now where now: "committed t = committed s \<or>
      committed t = snd (verify_upload_spec i subject sha now (schema_defaults s now) (committed s))"
    using verifying.all_or_nothing [OF assms] by blast
  note keeps = verify_upload_spec_keeps [OF prod.collapse [symmetric]]
  show "identities k (committed t) = identities k (committed s)" using now keeps(1) by metis
  show "store_ok (committed t)" if "store_ok (committed s)" using now keeps(2) that by metis
  show "primary_ok (committed t)" if "primary_ok (committed s)" using now keeps(3) that by metis
  assume r: "r = Inr u"
  obtain now where "verify_upload_spec i subject sha now (schema_defaults s now) (committed s)
      = (Inr u, committed t)"
    using verifying.ok_effect assms unfolding r by blast
  then have t: "committed t = update_table Hhm_intake_uploads (upload_match i subject sha now)
      (mark_verified now) (committed s)"
    and one: "matching Hhm_intake_uploads (upload_match i subject sha now) (committed s) = 1"
    by (auto simp: verify_upload_spec_def yields split: if_splits)
  from one obtain row where "upload_match i subject sha now row"
    and row: "mark_verified now row \<in> set (update_table Hhm_intake_uploads
        (upload_match i subject sha now) (mark_verified now) (committed s) Hhm_intake_uploads)"
    by (rule update_table_hits [where f = "mark_verified now"])
  then show "upload_verified i sha (committed t)"
    unfolding upload_verified_def t
    by (intro bexI [OF _ row])
      (simp add: upload_match_def owned_open_upload_def sql_eq_def mark_verified_def)
qed

lemma upload_verified_other:
  assumes "verify_upload i subject sha s = (r, t)" and "upload_verified j sha' (committed s)"
  shows "upload_verified j sha' (committed t)"
proof -
  obtain now where "committed t = committed s \<or>
      committed t = snd (verify_upload_spec i subject sha now (schema_defaults s now) (committed s))"
    using verifying.all_or_nothing [OF assms(1)] by blast
  then have "committed t = committed s \<or> committed t = update_table Hhm_intake_uploads
      (upload_match i subject sha now) (mark_verified now) (committed s)"
    by (auto simp: verify_upload_spec_def)
  moreover have "upload_verified j sha' (update_table Hhm_intake_uploads p (mark_verified now) st)"
    if "upload_verified j sha' st" for p st
  proof -
    from that obtain r where r: "r \<in> set (st Hhm_intake_uploads)" "r C_id = SUuid j"
        "r (Up C_content_sha256) = SText sha'" "r (Up C_status) = SText (lit ''verified'')"
      by (auto simp: upload_verified_def)
    let ?r = "if p r then mark_verified now r else r"
    have "?r \<in> set (update_table Hhm_intake_uploads p (mark_verified now) st Hhm_intake_uploads)"
      using r(1) by (auto simp: update_table_def)
    then show ?thesis
      unfolding upload_verified_def by (rule bexI [rotated]) (use r in \<open>simp add: mark_verified_def\<close>)
  qed
  ultimately show ?thesis using assms(2) by auto
qed

text \<open>What each way of ending means: before the object is verified nothing changes; a success
  means the object was checked against the primary's declaration and both rows are verified.\<close>

lemma on_primary_iff [yields]:
  "on_primary m w = (r, w') \<longleftrightarrow> (\<exists>s. m (w_primary w) = (r, s) \<and> w' = w\<lparr>w_primary := s\<rparr>)"
  "on_supabase m w = (r, w') \<longleftrightarrow> (\<exists>s. m (w_supabase w) = (r, s) \<and> w' = w\<lparr>w_supabase := s\<rparr>)"
  by (auto simp: on_primary_def on_supabase_def split: prod.splits)

lemma from_data_Inr [yields]: "from_data m w = (Inr a, w') \<longleftrightarrow> m w = (Inr a, w')"
  by (simp add: from_data_def map_errA_Inr_iff)

lemma liftR_iff [yields]: "liftR x w = (r, w') \<longleftrightarrow> r = x \<and> w' = w"
  by auto

lemma complete_upload_Inr:
  assumes run: "complete_upload app i h input w = (Inr j, w')"
  obtains subject pu mu where "j = i"
    "upload_complete_validate (sv_contract (app_services app)) input = Inr ()"
    "authenticate_or_verify_public app h (uc_turnstile_token input) = Inr subject"
    "\<exists>now \<ge> clock (w_primary w). pending_row i subject pu now (committed (w_primary w))"
    "\<exists>now \<ge> clock (w_supabase w). pending_row i subject mu now (committed (w_supabase w))"
    "mu = pu\<lparr>pu_expires_at := pu_expires_at mu\<rparr>"
    "pu_expected_sha256 pu = uc_sha256 input"
    "verify_object (sv_url_lib (app_services app)) (sv_fetch (app_services app))
       (sv_sha256 (app_services app)) (app_storage app) pu = Inr ()"
    "upload_verified i (uc_sha256 input) (committed (w_primary w'))"
    "upload_verified i (uc_sha256 input) (committed (w_supabase w'))"
proof -
  from run obtain subject pu s1 mu s2 s3 s4 where steps:
    "upload_complete_validate (sv_contract (app_services app)) input = Inr ()"
    "authenticate_or_verify_public app h (uc_turnstile_token input) = Inr subject"
    "pending_upload i subject (w_primary w) = (Inr pu, s1)" "uc_sha256 input = pu_expected_sha256 pu"
    "pending_upload i subject (w_supabase w) = (Inr mu, s2)" "same_upload_identity pu mu"
    "verify_object (sv_url_lib (app_services app)) (sv_fetch (app_services app))
       (sv_sha256 (app_services app)) (app_storage app) pu = Inr ()"
    "verify_upload i subject (uc_sha256 input) s2 = (Inr (), s3)"
    "verify_upload i subject (uc_sha256 input) s1 = (Inr (), s4)"
    "j = i" "w' = w\<lparr>w_primary := s4, w_supabase := s3\<rparr>"
    unfolding complete_upload_def Let_def
    by (auto simp: yields split: if_splits)
  show ?thesis
  proof (rule that)
    show "\<exists>now \<ge> clock (w_primary w). pending_row i subject pu now (committed (w_primary w))"
      by (rule pending_upload_frame(3) [OF steps(3) refl])
    show "\<exists>now \<ge> clock (w_supabase w). pending_row i subject mu now (committed (w_supabase w))"
      by (rule pending_upload_frame(3) [OF steps(5) refl])
    show "mu = pu\<lparr>pu_expires_at := pu_expires_at mu\<rparr>"
      using steps(6) by (cases pu; cases mu) (simp add: same_upload_identity_def)
    show "upload_verified i (uc_sha256 input) (committed (w_primary w'))"
      using verify_upload_effect(5) [OF steps(9) refl] steps(11) by simp
    show "upload_verified i (uc_sha256 input) (committed (w_supabase w'))"
      using verify_upload_effect(5) [OF steps(8) refl] steps(11) by simp
  qed (use steps in simp_all)
qed

end
