(* ===== verification/Runs.thy ===== *)
theory Runs imports Service begin

text \<open>
  What one request keeps of the two databases, whatever its route and outcome, and what the log
  of answered requests is held to.
\<close>

section \<open>One request\<close>

text \<open>\<open>kept w0 w\<close>: the pair is consistent and nothing of \<open>w0\<close> is forgotten.\<close>

definition kept :: "world \<Rightarrow> world \<Rightarrow> bool" where
  "kept w0 w \<longleftrightarrow> pair_ok w \<and> world_remembers w0 w"

lemma kept_on_primary:
  assumes "\<And>s r t m'. m s = (r, t) \<Longrightarrow> consistent (committed s) m' \<Longrightarrow>
    consistent (committed t) m' \<and> remembers (committed s) (committed t) \<and>
    schema_defaults t = schema_defaults s"
  shows "preserves (kept w0) (on_primary m)"
proof (rule preservesI)
  fix w assume w: "kept w0 w"
  obtain r t where run: "m (w_primary w) = (r, t)" by (cases "m (w_primary w)")
  from w have "consistent (committed (w_primary w)) (committed (w_supabase w))"
    by (simp add: kept_def pair_ok_def)
  from assms [OF run this] w run show "kept w0 (snd (on_primary m w))"
    by (auto simp: kept_def pair_ok_def on_primary_def world_remembers_def intro: remembers_trans)
qed

lemma kept_on_supabase:
  assumes "\<And>s r t p. m s = (r, t) \<Longrightarrow> consistent p (committed s) \<Longrightarrow>
    consistent p (committed t) \<and> remembers (committed s) (committed t)"
  shows "preserves (kept w0) (on_supabase m)"
proof (rule preservesI)
  fix w assume w: "kept w0 w"
  obtain r t where run: "m (w_supabase w) = (r, t)" by (cases "m (w_supabase w)")
  from w have "consistent (committed (w_primary w)) (committed (w_supabase w))"
    by (simp add: kept_def pair_ok_def)
  from assms [OF run this] w run show "kept w0 (snd (on_supabase m w))"
    by (auto simp: kept_def pair_ok_def on_supabase_def world_remembers_def intro: remembers_trans)
qed

lemma kept_pending [preserve]:
  "preserves (kept w0) (on_primary (pending_upload i subject))"
  "preserves (kept w0) (on_supabase (pending_upload i subject))"
  by (rule kept_on_primary; simp add: pending_upload_frame)
    (rule kept_on_supabase; simp add: pending_upload_frame)

lemma ping_frame: "ping s = (r, t) \<Longrightarrow> committed t = committed s \<and> schema_defaults t = schema_defaults s"
  using pinging.frame(1) by (auto elim!: pinging.all_or_nothing)

lemma kept_ping [preserve]:
  "preserves (kept w0) (on_primary ping)" "preserves (kept w0) (on_supabase ping)"
  by (rule kept_on_primary; simp add: ping_frame)
    (rule kept_on_supabase; simp add: ping_frame)

lemma kept_verify [preserve]:
  "preserves (kept w0) (on_primary (verify_upload i subject sha))"
  "preserves (kept w0) (on_supabase (verify_upload i subject sha))"
proof -
  note v = verify_upload_effect
  show "preserves (kept w0) (on_primary (verify_upload i subject sha))"
    by (rule kept_on_primary)
      (auto simp: consistent_def mirror_within_def remembers_def v(1,2) dest: v(4))
  show "preserves (kept w0) (on_supabase (verify_upload i subject sha))"
    by (rule kept_on_supabase)
      (auto simp: consistent_def mirror_within_def remembers_def v(2) dest: v(3))
qed

lemma preserves_from_data [preserve]: "preserves P m \<Longrightarrow> preserves P (from_data m)"
  unfolding from_data_def by (rule preserves_map_errA)

lemma kept_complete: "preserves (kept w0) (complete_upload app i h input)"
  unfolding complete_upload_def Let_def by (intro preserve)

lemma kept_readiness: "preserves (kept w0) readiness"
  unfolding readiness_def by (intro preserve)

lemma respond_keeps:
  assumes run: "respond app fresh h req w = (r, w')" and ok: "pair_ok w"
    and fresh: "\<And>kind. kind_of req = Some kind \<Longrightarrow> fresh_id kind fresh (committed (w_primary w))"
  shows "pair_ok w' \<and> world_remembers w w'"
proof (cases "kind_of req")
  case (Some kind)
  from run Some show ?thesis
  proof (cases rule: respond_cases)
    case (rejected f)
    with ok show ?thesis by simp
  next
    case (failed ctx e)
    with submit_keeps [OF failed(2) Some ok] fresh [OF Some] admission_Inr(2) show ?thesis by auto
  next
    case (stored ctx x)
    with submit_keeps [OF stored(2) Some ok] fresh [OF Some] admission_Inr(2) show ?thesis by auto
  qed
next
  case None
  have "preserves (kept w) (respond app fresh h req)"
    using None kept_complete kept_readiness
    by (cases req) (auto intro!: preserves_bindA)
  from preserves_result [OF this _ run] ok show ?thesis by (simp add: kept_def)
qed

section \<open>The log\<close>

record log_entry =
  le_headers :: header_map
  le_request :: request
  le_result :: "api_error + response"
  le_app :: app_state

definition le_services :: "log_entry \<Rightarrow> services" where
  "le_services e = app_services (le_app e)"

type_synonym run_state = "world \<times> log_entry list"

text \<open>The environment may do anything between two requests but write to the tables or change
  the schema: time passes, connections break or recover.\<close>

definition same_tables :: "world \<Rightarrow> world \<Rightarrow> bool" where
  "same_tables w w' \<longleftrightarrow>
     committed (w_primary w') = committed (w_primary w) \<and>
     committed (w_supabase w') = committed (w_supabase w) \<and>
     schema_defaults (w_primary w') = schema_defaults (w_primary w) \<and>
     schema_defaults (w_supabase w') = schema_defaults (w_supabase w)"

text \<open>An acknowledged submission: the receipt names it, the headers its key, the request its
  digest.\<close>

definition acknowledged :: "log_entry \<Rightarrow> stored_submission_kind \<Rightarrow> uuid \<Rightarrow> str \<Rightarrow> str \<Rightarrow> bool" where
  "acknowledged e kind i key digest \<longleftrightarrow>
     kind_of (le_request e) = Some kind \<and>
     (\<exists>resp. le_result e = Inr resp \<and> response_id resp = Some i) \<and>
     le_headers e ''idempotency-key'' = Some (HText key) \<and>
     request_digest (le_services e) (le_request e) = Inr digest"

lemma respond_acknowledged:
  assumes run: "respond app fresh h req w = (Inr resp, w')" and kind: "kind_of req = Some kind"
    and ok: "pair_ok w" and fresh: "fresh_id kind fresh (committed (w_primary w))"
  obtains i key digest where "response_id resp = Some i"
    "h ''idempotency-key'' = Some (HText key)" "request_digest (app_services app) req = Inr digest"
    "in_both kind i key digest w'" "marked kind i digest (committed (w_primary w'))"
  using run kind
proof (cases rule: respond_cases)
  case (stored ctx x)
  with submit_success [OF stored(2) kind ok] fresh admission_Inr [OF stored(1)] that show ?thesis
    by auto
qed simp_all

definition log_sound :: "run_state \<Rightarrow> bool" where
  "log_sound st \<longleftrightarrow> (case st of (w, hist) \<Rightarrow>
     pair_ok w \<and>
     (\<forall>e \<in> set hist. \<forall>kind i key digest. acknowledged e kind i key digest \<longrightarrow>
        in_both kind i key digest w))"

end
