(* ===== verification/Progress.thy ===== *)
theory Progress imports Runs begin

text \<open>
  When a submission must succeed: on two databases the environment leaves alone, an admitted
  request under a free key, or under a key bound to the same payload, is stored on both sides,
  whatever an earlier attempt left behind.
\<close>

definition undisturbed :: "world \<Rightarrow> bool" where
  "undisturbed w \<longleftrightarrow> answers (w_primary w) = [] \<and> answers (w_supabase w) = []"

text \<open>The schema stamps new rows with their creation time.\<close>

definition stamps_rows :: "(table \<Rightarrow> row) \<Rightarrow> bool" where
  "stamps_rows d \<longleftrightarrow>
     (\<exists>t. d Hhm_pre_interests C_created_at = STime t) \<and>
     (\<exists>t. d Hhm_referrals C_created_at = STime t) \<and>
     (\<exists>t. d Hhm_applications C_submitted_at = STime t)"

definition schema_stamps :: "world \<Rightarrow> bool" where
  "schema_stamps w \<longleftrightarrow> (\<forall>now. stamps_rows (schema_defaults (w_primary w) now) \<and>
     stamps_rows (schema_defaults (w_supabase w) now))"

definition uploads_in_place :: "submission_context \<Rightarrow> application_create \<Rightarrow> session \<Rightarrow> bool" where
  "uploads_in_place ctx input s \<longleftrightarrow>
     length (filter (verified_upload_for ctx input (clock s)) (committed s Hhm_intake_uploads)) = 2"

text \<open>What a request needs beside its admission.\<close>

fun prerequisites :: "request \<Rightarrow> submission_context \<Rightarrow> world \<Rightarrow> bool" where
  "prerequisites (UploadRequest input) ctx w \<longleftrightarrow>
     i64_of_u64 (ui_size_bytes input) \<noteq> None \<and> byte_prefix 16 (ui_sha256 input) \<noteq> None"
| "prerequisites (ApplicationRequest input) ctx w \<longleftrightarrow>
     i16_try_from (ap_preferred_room_occupancy input) \<noteq> None \<and>
     uploads_in_place ctx input (w_primary w) \<and> uploads_in_place ctx input (w_supabase w)"
| "prerequisites _ ctx w \<longleftrightarrow> True"

lemma created_readable:
  "stamps_rows d \<Longrightarrow> readable PreInterest (set_cols
     (zip pre_interest_columns (pre_interest_values target ctx pinput)) (d (table_name PreInterest)))"
  "stamps_rows d \<Longrightarrow> readable Referral (set_cols
     (zip referral_columns (referral_values target ctx rinput subject)) (d (table_name Referral)))"
  "stamps_rows d \<Longrightarrow> readable Application (set_cols
     (zip application_columns (application_values target ctx ainput occupancy))
     (d (table_name Application)))"
  "readable Upload (set_cols (zip upload_columns (upload_values ctx uinput key sz expires)) r)"
  by (simp_all add: stamps_rows_def pre_interest_columns_def pre_interest_values_def
      referral_columns_def referral_values_def application_columns_def application_values_def
      upload_columns_def upload_values_def)

lemma verified_upload_for_canonical [simp]:
  "verified_upload_for (with_canonical_id ctx i) input now = verified_upload_for ctx input now"
  by (rule ext) (simp add: verified_upload_for_def)

text \<open>A plan that accepts, on either side and under any identifier.\<close>

lemma plan_pre_interest_ok:
  assumes "pre_interest_validate k input = Inr ()" and "stamps_rows d"
  shows "\<exists>cvs. plan_pre_interest k input target ctx now st = Inr cvs \<and>
    readable PreInterest (set_cols cvs (d (table_name PreInterest)))"
  using assms created_readable(1) by (simp add: plan_pre_interest_def del: readable.simps)

lemma plan_referral_ok:
  assumes "referral_validate k input = Inr ()" and "ctx_subject ctx = Some s" and "stamps_rows d"
  shows "\<exists>cvs. plan_referral k input target ctx now st = Inr cvs \<and>
    readable Referral (set_cols cvs (d (table_name Referral)))"
  using assms created_readable(2)
  by (simp add: plan_referral_def require_subject_def context_subject_def del: readable.simps)

lemma plan_application_ok:
  assumes "application_validate k input = Inr ()"
    and "i16_try_from (ap_preferred_room_occupancy input) \<noteq> None"
    and "length (filter (verified_upload_for ctx input now) (st Hhm_intake_uploads)) = 2"
    and "stamps_rows d"
  shows "\<exists>cvs. plan_application k input target ctx now st = Inr cvs \<and>
    readable Application (set_cols cvs (d (table_name Application)))"
  using assms created_readable(3) by (auto simp: plan_application_def simp del: readable.simps)

lemma plan_upload_ok:
  assumes "upload_intent_validate k input = Inr ()"
    and "i64_of_u64 (ui_size_bytes input) \<noteq> None" and "byte_prefix 16 (ui_sha256 input) \<noteq> None"
  shows "\<exists>cvs. plan_upload k display utc input target ctx now st = Inr cvs \<and>
    readable Upload (set_cols cvs (d (table_name Upload)))"
  using assms created_readable(4)
  by (auto simp: plan_upload_def upload_object_key_def simp del: readable.simps)

lemma submit_completes:
  assumes adm: "admission app fresh h req = Inr ctx" and kind: "kind_of req = Some kind"
    and quiet: "undisturbed w" and ok: "pair_ok w" and schema: "schema_stamps w"
    and fresh: "fresh_id kind fresh (committed (w_primary w))"
    and pre: "prerequisites req ctx w"
    and same: "\<And>i digest. holds kind i (ctx_idempotency_key ctx) digest (committed (w_primary w)) \<Longrightarrow>
      digest = ctx_payload_sha256 ctx"
  shows "\<exists>x w'. submit app req ctx w = (Inr x, w')"
proof -
  let ?k = "sv_contract (app_services app)"
  have q: "answers (w_primary w) = []" "answers (w_supabase w) = []"
    using quiet by (simp_all add: undisturbed_def)
  have d: "stamps_rows (schema_defaults (w_primary w) now)"
      "stamps_rows (schema_defaults (w_supabase w) now)" for now
    using schema by (simp_all add: schema_stamps_def)
  have fr: "fresh_id kind (ctx_canonical_id ctx) (committed (w_primary w))"
    using fresh admission_Inr(2) [OF adm] by simp
  show ?thesis
  proof (cases req)
    case (PreInterestRequest input)
    with adm have v: "pre_interest_validate ?k input = Inr ()" by (auto dest: admit_public_Inr)
    obtain cvs where p: "plan_pre_interest ?k input Primary ctx (clock (w_primary w))
        (committed (w_primary w)) = Inr cvs" "readable PreInterest (set_cols cvs
        (schema_defaults (w_primary w) (clock (w_primary w)) (table_name PreInterest)))"
      using plan_pre_interest_ok [OF v d(1)] by blast
    show ?thesis
      by (rule pre_interests.dual_completes [OF q ok _ _ p plan_pre_interest_ok [OF v d(2)]])
        (use PreInterestRequest kind fr same in auto)
  next
    case (ReferralRequest input)
    with adm obtain s where v: "referral_validate ?k input = Inr ()" and s: "ctx_subject ctx = Some s"
      by (auto dest: admit_referral_Inr)
    obtain cvs where p: "plan_referral ?k input Primary ctx (clock (w_primary w))
        (committed (w_primary w)) = Inr cvs" "readable Referral (set_cols cvs
        (schema_defaults (w_primary w) (clock (w_primary w)) (table_name Referral)))"
      using plan_referral_ok [OF v s d(1)] by blast
    have m: "\<exists>cvs. plan_referral ?k input SupabaseMirror (with_canonical_id ctx i)
        (clock (w_supabase w)) (committed (w_supabase w)) = Inr cvs \<and> readable Referral (set_cols cvs
        (schema_defaults (w_supabase w) (clock (w_supabase w)) (table_name Referral)))" for i
      by (rule plan_referral_ok [OF v _ d(2)]) (simp add: s)
    show ?thesis
      by (rule referrals.dual_completes [OF q ok _ _ p m]) (use ReferralRequest kind fr same in auto)
  next
    case (ApplicationRequest input)
    with adm have v: "application_validate ?k input = Inr ()" by (auto dest: admit_public_Inr)
    have o: "i16_try_from (ap_preferred_room_occupancy input) \<noteq> None"
      and up: "length (filter (verified_upload_for ctx input (clock (w_primary w)))
        (committed (w_primary w) Hhm_intake_uploads)) = 2"
      and um: "length (filter (verified_upload_for ctx input (clock (w_supabase w)))
        (committed (w_supabase w) Hhm_intake_uploads)) = 2"
      using pre ApplicationRequest by (simp_all add: uploads_in_place_def)
    obtain cvs where p: "plan_application ?k input Primary ctx (clock (w_primary w))
        (committed (w_primary w)) = Inr cvs" "readable Application (set_cols cvs
        (schema_defaults (w_primary w) (clock (w_primary w)) (table_name Application)))"
      using plan_application_ok [where st = "committed (w_primary w)", OF v o up d(1)] by blast
    have m: "\<exists>cvs. plan_application ?k input SupabaseMirror (with_canonical_id ctx i)
        (clock (w_supabase w)) (committed (w_supabase w)) = Inr cvs \<and>
        readable Application (set_cols cvs
        (schema_defaults (w_supabase w) (clock (w_supabase w)) (table_name Application)))" for i
      by (rule plan_application_ok [OF v o _ d(2)]) (simp add: um)
    show ?thesis
      by (rule applications.dual_completes [OF q ok _ _ p m])
        (use ApplicationRequest kind fr same in auto)
  next
    case (UploadRequest input)
    with adm have v: "upload_intent_validate ?k input = Inr ()" by (auto dest: admit_public_Inr)
    have sz: "i64_of_u64 (ui_size_bytes input) \<noteq> None" "byte_prefix 16 (ui_sha256 input) \<noteq> None"
      using pre UploadRequest by simp_all
    obtain cvs where p: "plan_upload ?k (sv_uuid_display (app_services app))
        (sv_utc_now (app_services app)) input Primary ctx (clock (w_primary w))
        (committed (w_primary w)) = Inr cvs" "readable Upload (set_cols cvs
        (schema_defaults (w_primary w) (clock (w_primary w)) (table_name Upload)))"
      using plan_upload_ok [OF v sz] by blast
    have m: "\<exists>cvs. plan_upload ?k (sv_uuid_display (app_services app))
        (sv_utc_now (app_services app)) input SupabaseMirror (with_canonical_id ctx i)
        (clock (w_supabase w)) (committed (w_supabase w)) = Inr cvs \<and>
        readable Upload (set_cols cvs
        (schema_defaults (w_supabase w) (clock (w_supabase w)) (table_name Upload)))" for i
      by (rule plan_upload_ok [OF v sz])
    have "\<exists>u w'. uploads.dual ?k (sv_uuid_display (app_services app))
        (sv_utc_now (app_services app)) input ctx w = (Inr u, w')"
      by (rule uploads.dual_completes [OF q ok _ _ p m])
        (use UploadRequest kind fr same in auto)
    then show ?thesis
      by (auto simp: UploadRequest su_id_view store_intent_fun bindA_ok)
  qed (use kind in simp_all)
qed

lemma respond_completes:
  assumes "admission app fresh h req = Inr ctx" and kind: "kind_of req = Some kind"
    and "undisturbed w" and "pair_ok w" and "schema_stamps w"
    and "fresh_id kind fresh (committed (w_primary w))" and "prerequisites req ctx w"
    and "\<And>i digest. holds kind i (ctx_idempotency_key ctx) digest (committed (w_primary w)) \<Longrightarrow>
      digest = ctx_payload_sha256 ctx"
    and run: "respond app fresh h req w = (r, w')"
  shows "(\<exists>resp. r = Inr resp) \<or> kind = Upload \<and> r = Inl (Failed (failure_of_external Unavailable))"
  using run kind
proof (cases rule: respond_cases)
  case (failed ctx' e)
  with submit_completes [OF assms(1-7)] assms(8) assms(1) show ?thesis by force
qed (use assms(1) in auto)

lemma respond_completes_stored:
  assumes adm: "admission app fresh h req = Inr ctx" and kind: "kind_of req = Some kind"
    and "undisturbed w" and ok: "pair_ok w" and "schema_stamps w"
    and fresh: "fresh_id kind fresh (committed (w_primary w))" and "prerequisites req ctx w"
    and "\<And>i digest. holds kind i (ctx_idempotency_key ctx) digest (committed (w_primary w)) \<Longrightarrow>
      digest = ctx_payload_sha256 ctx"
    and run: "respond app fresh h req w = (r, w')"
  shows "\<exists>i. in_both kind i (ctx_idempotency_key ctx) (ctx_payload_sha256 ctx) w' \<and>
    marked kind i (ctx_payload_sha256 ctx) (committed (w_primary w')) \<and>
    ((\<exists>resp. r = Inr resp \<and> response_id resp = Some i) \<or>
     kind = Upload \<and> r = Inl (Failed (failure_of_external Unavailable)))"
  using run kind
proof (cases rule: respond_cases)
  case (failed ctx' e)
  with submit_completes [OF assms(1-7)] assms(8) adm show ?thesis by force
next
  case (stored ctx' x)
  have new: "fresh_id kind (ctx_canonical_id ctx) (committed (w_primary w))"
    using fresh admission_Inr(2) [OF adm] by simp
  have "ctx' = ctx" using stored(1) adm by simp
  with submit_success [OF _ kind ok new] stored(2,3) show ?thesis by blast
qed (use adm in auto)

section \<open>Asking again\<close>

text \<open>No request changes the schema, so the databases a request leaves behind can take the next.\<close>

definition same_schema :: "world \<Rightarrow> world \<Rightarrow> bool" where
  "same_schema w w' \<longleftrightarrow>
     schema_defaults (w_primary w') = schema_defaults (w_primary w) \<and>
     schema_defaults (w_supabase w') = schema_defaults (w_supabase w)"

context intake_command begin

lemma dual_schema: "dual ctx w = (r, w') \<Longrightarrow> same_schema w w'"
  by (erule dual_write_cases)
    (auto simp: same_schema_def dest!: stored.frame(1) marking.frame(1) recording.frame(1))

end

lemma submit_schema:
  assumes "submit app req ctx w = (d, w')" and "kind_of req = Some kind"
  shows "same_schema w w'"
proof (cases req)
  case (UploadRequest input)
  from assms(1) [unfolded UploadRequest] show ?thesis
    by (rule submit_upload) (auto dest: uploads.dual_schema)
qed (use assms in \<open>auto dest: pre_interests.dual_schema applications.dual_schema
      referrals.dual_schema\<close>)

lemma respond_schema:
  assumes "respond app fresh h req w = (r, w')" and "kind_of req = Some kind"
  shows "same_schema w w'"
  using assms
proof (cases rule: respond_cases)
  case rejected
  then show ?thesis by (simp add: same_schema_def)
qed (auto dest: submit_schema [OF _ assms(2)])

definition calm :: "world \<Rightarrow> world" where
  "calm w = w\<lparr>w_primary := (w_primary w)\<lparr>answers := []\<rparr>, w_supabase := (w_supabase w)\<lparr>answers := []\<rparr>\<rparr>"

lemma calm_facts:
  "undisturbed (calm w)" "same_tables w (calm w)" "pair_ok (calm w) \<longleftrightarrow> pair_ok w"
  "schema_stamps (calm w) \<longleftrightarrow> schema_stamps w"
  "committed (w_primary (calm w)) = committed (w_primary w)"
  by (simp_all add: calm_def undisturbed_def same_tables_def pair_ok_def schema_stamps_def)

lemma schema_stamps_same: "same_schema w w' \<Longrightarrow> schema_stamps w \<Longrightarrow> schema_stamps w'"
  by (simp add: same_schema_def schema_stamps_def)

end
