(* ===== verification/Interleaving.thy ===== *)
theory Interleaving imports Runs begin

text \<open>
  Requests under way at the same time. A request is a \<open>task\<close>: either it has its answer, or it waits
  for one command on one of the databases and goes on with the command's result. Each command
  is one transaction and takes effect at its commit, so the commands of different requests
  interleave one by one, in any order; a request may also be dropped half way, when its client
  goes away. \<open>alone_task_of\<close> shows that a task run without interruption is the handler of \<open>Service\<close>.
  The argument is one of rely and guarantee: what the other requests may do to the tables, and
  what each step of a request promises to the others.
\<close>

section \<open>Requests as tasks\<close>

datatype task =
    Answered "api_error + response"
  | Ask_Primary "session \<Rightarrow> task \<times> session"
  | Ask_Supabase "session \<Rightarrow> task \<times> session"

definition ask_primary :: "'a db \<Rightarrow> (data_error + 'a \<Rightarrow> task) \<Rightarrow> task" where
  "ask_primary m k = Ask_Primary (\<lambda>s. case m s of (r, t) \<Rightarrow> (k r, t))"

definition ask_supabase :: "'a db \<Rightarrow> (data_error + 'a \<Rightarrow> task) \<Rightarrow> task" where
  "ask_supabase m k = Ask_Supabase (\<lambda>s. case m s of (r, t) \<Rightarrow> (k r, t))"

text \<open>The question-mark operator after a command: its error is the answer.\<close>

definition or_answer :: "(data_error \<Rightarrow> api_error) \<Rightarrow> ('a \<Rightarrow> task) \<Rightarrow> data_error + 'a \<Rightarrow> task" where
  "or_answer g k r = (case r of Inl e \<Rightarrow> Answered (Inl (g e)) | Inr a \<Rightarrow> k a)"

definition unfinished :: "uuid \<Rightarrow> data_error \<Rightarrow> api_error" where
  "unfinished i e = (if e = Panicked then Aborted else Failed (mirror_unavailable i))"

text \<open>The protocol in three tasks: what follows the mirror's result, the mirror, the primary.\<close>

definition outcome_task ::
  "stored_submission_kind \<Rightarrow> ('r \<Rightarrow> uuid) \<Rightarrow> submission_context \<Rightarrow> ('r \<Rightarrow> task) \<Rightarrow> 'r
    \<Rightarrow> data_error + 'r \<Rightarrow> task" where
  "outcome_task kind id_of ctx finish x mirrored =
     (if mirrored = Inl Panicked then Answered (Inl Aborted)
      else if \<not> mirrored_as id_of (id_of x) mirrored
      then ask_primary (record_mirror_failure kind (id_of x) (lit ''supabase_unavailable'')) (\<lambda>recorded.
        Answered (Inl (if recorded = Inl Panicked then Aborted
          else Failed (mirror_unavailable (id_of x)))))
      else ask_primary (mark_mirrored kind (id_of x) (ctx_payload_sha256 ctx))
        (or_answer (unfinished (id_of x)) (\<lambda>_. finish x)))"

definition mirror_task ::
  "stored_submission_kind \<Rightarrow> ('r \<Rightarrow> uuid) \<Rightarrow> (persistence_target \<Rightarrow> submission_context \<Rightarrow> 'r db)
    \<Rightarrow> submission_context \<Rightarrow> ('r \<Rightarrow> task) \<Rightarrow> 'r \<Rightarrow> task" where
  "mirror_task kind id_of cmd ctx finish x =
     ask_supabase (cmd SupabaseMirror (with_canonical_id ctx (id_of x)))
       (outcome_task kind id_of ctx finish x)"

definition dual_task ::
  "stored_submission_kind \<Rightarrow> ('r \<Rightarrow> uuid) \<Rightarrow> (persistence_target \<Rightarrow> submission_context \<Rightarrow> 'r db)
    \<Rightarrow> submission_context \<Rightarrow> ('r \<Rightarrow> task) \<Rightarrow> task" where
  "dual_task kind id_of cmd ctx finish =
     ask_primary (cmd Primary ctx) (or_answer failure_of_data (mirror_task kind id_of cmd ctx finish))"

definition complete_task ::
  "app_state \<Rightarrow> uuid \<Rightarrow> header_map \<Rightarrow> upload_complete_create \<Rightarrow> task" where
  "complete_task app upload_id headers input =
     (let sv = app_services app;
          checked = (\<lambda>subject.
            ask_primary (pending_upload upload_id subject) (or_answer failure_of_data (\<lambda>primary_upload.
            if uc_sha256 input \<noteq> pu_expected_sha256 primary_upload
            then Answered (Inl (Failed failure_conflict))
            else
            ask_supabase (pending_upload upload_id subject) (or_answer failure_of_data (\<lambda>mirror_upload.
            if \<not> same_upload_identity primary_upload mirror_upload
            then Answered (Inl (Failed failure_conflict))
            else case verify_object (sv_url_lib sv) (sv_fetch sv) (sv_sha256 sv) (app_storage app)
                primary_upload of
              Inl e \<Rightarrow> Answered (Inl (Failed (failure_of_external e)))
            | Inr _ \<Rightarrow>
                ask_supabase (verify_upload upload_id subject (uc_sha256 input))
                  (or_answer failure_of_data (\<lambda>_.
                ask_primary (verify_upload upload_id subject (uc_sha256 input))
                  (or_answer failure_of_data (\<lambda>_.
                Answered (Inr (UploadVerified upload_id))))))))))) in
      case upload_complete_validate (sv_contract sv) input of
        Inl _ \<Rightarrow> Answered (Inl (Failed failure_invalid))
      | Inr _ \<Rightarrow>
          (case authenticate_or_verify_public app headers (uc_turnstile_token input) of
             Inl f \<Rightarrow> Answered (Inl (Failed f))
           | Inr subject \<Rightarrow> checked subject))"

definition ready_task :: task where
  "ready_task =
     ask_primary ping (or_answer failure_of_data (\<lambda>_.
     ask_supabase ping (or_answer failure_of_data (\<lambda>_.
     Answered (Inr (Healthy \<lparr>he_service = ''hhm-api'', he_status = ''ready''\<rparr>))))))"

text \<open>The last step of an upload intent, after both databases have it.\<close>

definition sign_answer :: "app_state \<Rightarrow> upload_intent_create \<Rightarrow> stored_upload \<Rightarrow> api_error + response" where
  "sign_answer app input primary =
     (let sv = app_services app in
      map_err (\<lambda>e. Failed (failure_of_external e))
        (bindR (create_signed_upload_url (sv_url_lib sv) (sv_sign sv) (sv_decode_signed sv)
           (app_storage app) (su_object_key primary)) (\<lambda>upload_url.
         Inr (IntentCreated \<lparr>ur_upload_id = su_id primary, ur_kind = ui_kind input,
           ur_upload_url = upload_url, ur_expires_at = su_expires_at primary,
           ur_maximum_bytes = contract_max_upload_bytes (sv_contract sv),
           ur_allowed_content_types = allowed_content_types (ui_kind input)\<rparr>))))"

definition admitted_task :: "api_failure + submission_context \<Rightarrow> (submission_context \<Rightarrow> task) \<Rightarrow> task" where
  "admitted_task adm k = (case adm of Inl f \<Rightarrow> Answered (Inl (Failed f)) | Inr ctx \<Rightarrow> k ctx)"

fun task_of :: "app_state \<Rightarrow> uuid \<Rightarrow> header_map \<Rightarrow> request \<Rightarrow> task" where
  "task_of app fresh h (PreInterestRequest input) =
     admitted_task (admission app fresh h (PreInterestRequest input)) (\<lambda>ctx.
     dual_task PreInterest ss_id
       (\<lambda>target ctx. store_pre_interest (sv_contract (app_services app)) target ctx input) ctx
       (\<lambda>x. Answered (Inr (Created (receipt_of PreInterest x)))))"
| "task_of app fresh h (UploadRequest input) =
     admitted_task (admission app fresh h (UploadRequest input)) (\<lambda>ctx.
     dual_task Upload su_id (store_intent (app_services app) input) ctx
       (\<lambda>x. Answered (sign_answer app input x)))"
| "task_of app fresh h (CompleteRequest upload_id input) = complete_task app upload_id h input"
| "task_of app fresh h (ApplicationRequest input) =
     admitted_task (admission app fresh h (ApplicationRequest input)) (\<lambda>ctx.
     dual_task Application ss_id
       (\<lambda>target ctx. store_application (sv_contract (app_services app)) target ctx input) ctx
       (\<lambda>x. Answered (Inr (Created (receipt_of Application x)))))"
| "task_of app fresh h (ReferralRequest input) =
     admitted_task (admission app fresh h (ReferralRequest input)) (\<lambda>ctx.
     dual_task Referral ss_id
       (\<lambda>target ctx. store_referral (sv_contract (app_services app)) target ctx input) ctx
       (\<lambda>x. Answered (Inr (Created (receipt_of Referral x)))))"
| "task_of app fresh h HealthRequest = Answered (Inr (Healthy health))"
| "task_of app fresh h ReadyRequest = ready_task"

section \<open>A task alone is the handler\<close>

primrec alone :: "task \<Rightarrow> world \<Rightarrow> (api_error + response) \<times> world" where
  "alone (Answered r) w = (r, w)"
| "alone (Ask_Primary f) w =
     (case (map_prod alone id \<circ> f) (w_primary w) of (rest, s) \<Rightarrow> rest (w\<lparr>w_primary := s\<rparr>))"
| "alone (Ask_Supabase f) w =
     (case (map_prod alone id \<circ> f) (w_supabase w) of (rest, s) \<Rightarrow> rest (w\<lparr>w_supabase := s\<rparr>))"

lemma alone_ask [simp]:
  "alone (ask_primary m k) w = (case on_primary m w of (r, w') \<Rightarrow> alone (k r) w')"
  "alone (ask_supabase m k) w = (case on_supabase m w of (r, w') \<Rightarrow> alone (k r) w')"
  by (simp_all add: ask_primary_def ask_supabase_def on_primary_def on_supabase_def split: prod.splits)

lemma alone_or_answer [simp]:
  "alone (or_answer g k r) w = (case r of Inl e \<Rightarrow> (Inl (g e), w) | Inr a \<Rightarrow> alone (k a) w)"
  by (simp add: or_answer_def split: sum.splits)

lemma alone_dual:
  "alone (dual_task kind id_of cmd ctx finish) w = (case dual_write kind id_of cmd ctx w of
     (Inl e, w') \<Rightarrow> (Inl e, w') | (Inr x, w') \<Rightarrow> alone (finish x) w')"
  by (auto simp: dual_task_def mirror_task_def outcome_task_def dual_write_def bindA_def from_data_def map_errA_def caught_def
      record_failure_def or_failure_def unfinished_def mirrored_as_def map_err_def
      split: prod.splits sum.splits data_error.splits)

lemma alone_admitted [simp]:
  "alone (admitted_task adm k) w = (case adm of
     Inl f \<Rightarrow> (Inl (Failed f), w) | Inr ctx \<Rightarrow> alone (k ctx) w)"
  by (simp add: admitted_task_def split: sum.splits)

lemma alone_complete:
  "alone (complete_task app i h input) w =
     bindA (complete_upload app i h input) (\<lambda>j. okA (UploadVerified j)) w"
  by (simp add: complete_task_def complete_upload_def Let_def bindA_def from_data_def map_errA_def
      map_err_def split: prod.splits sum.splits)

lemma alone_ready: "alone ready_task w = bindA readiness (\<lambda>r. okA (Healthy r)) w"
  by (simp add: ready_task_def readiness_def bindA_def from_data_def map_errA_def map_err_def
      split: prod.splits sum.splits)

lemma alone_task_of: "alone (task_of app fresh h req) w = respond app fresh h req w"
  by (cases req) (simp_all add: alone_complete alone_ready alone_dual create_pre_interest_eq
      create_upload_intent_eq create_application_eq create_referral_eq bindA_def map_err_def
      sign_answer_def Let_def split: prod.splits sum.splits)

section \<open>Rely and guarantee\<close>

text \<open>What a request with the fresh identifier \<open>i\<close> may rely on while others run, and what each of its
  own steps guarantees to them.\<close>

definition others_run :: "uuid \<Rightarrow> world \<Rightarrow> world \<Rightarrow> bool" where
  "others_run i w w' \<longleftrightarrow> pair_ok w' \<and> world_remembers w w' \<and>
     (\<forall>kind. fresh_id kind i (committed (w_primary w)) \<longrightarrow> fresh_id kind i (committed (w_primary w')))"

definition own_step :: "uuid \<Rightarrow> world \<Rightarrow> world \<Rightarrow> bool" where
  "own_step i w w' \<longleftrightarrow> pair_ok w' \<and> world_remembers w w' \<and>
     (\<forall>kind j. j \<noteq> i \<longrightarrow> fresh_id kind j (committed (w_primary w)) \<longrightarrow>
        fresh_id kind j (committed (w_primary w')))"

lemma own_step_others: "own_step i w w' \<Longrightarrow> j \<noteq> i \<Longrightarrow> others_run j w w'"
  by (simp add: own_step_def others_run_def)

lemma others_run_trans: "others_run i w w' \<Longrightarrow> others_run i w' w'' \<Longrightarrow> others_run i w w''"
  by (auto simp: others_run_def intro: world_remembers_trans)

lemma others_run_same_tables: "pair_ok w \<Longrightarrow> same_tables w w' \<Longrightarrow> others_run i w w'"
  by (simp add: others_run_def same_tables_def pair_ok_def world_remembers_def)

text \<open>A task is safe from a world on when each of its steps, from any world the others may have led
  to, keeps the guarantee and leaves a safe task, and its answer is then sound.\<close>

inductive safe_task :: "uuid \<Rightarrow> (world \<Rightarrow> api_error + response \<Rightarrow> bool) \<Rightarrow> world \<Rightarrow> task \<Rightarrow> bool"
  for i sound where
  answered: "(\<And>w'. others_run i w w' \<Longrightarrow> sound w' r) \<Longrightarrow> safe_task i sound w (Answered r)"
| primary: "(\<And>w' t s. others_run i w w' \<Longrightarrow> f (w_primary w') = (t, s) \<Longrightarrow>
      own_step i w' (w'\<lparr>w_primary := s\<rparr>) \<and> safe_task i sound (w'\<lparr>w_primary := s\<rparr>) t) \<Longrightarrow>
    safe_task i sound w (Ask_Primary f)"
| supabase: "(\<And>w' t s. others_run i w w' \<Longrightarrow> f (w_supabase w') = (t, s) \<Longrightarrow>
      own_step i w' (w'\<lparr>w_supabase := s\<rparr>) \<and> safe_task i sound (w'\<lparr>w_supabase := s\<rparr>) t) \<Longrightarrow>
    safe_task i sound w (Ask_Supabase f)"

inductive_cases safe_answeredE: "safe_task i sound w (Answered r)"
inductive_cases safe_primaryE: "safe_task i sound w (Ask_Primary f)"
inductive_cases safe_supabaseE: "safe_task i sound w (Ask_Supabase f)"

lemma safe_task_stable:
  assumes "safe_task i sound w t" and "others_run i w w'"
  shows "safe_task i sound w' t"
proof (cases t)
  case (Answered r)
  with assms show ?thesis
    by (auto elim!: safe_answeredE intro!: safe_task.answered dest: others_run_trans)
next
  case (Ask_Primary f)
  have more: "others_run i w v" if "others_run i w' v" for v
    by (rule others_run_trans [OF assms(2) that])
  from assms(1) Ask_Primary more show ?thesis
    by (auto elim!: safe_primaryE intro!: safe_task.primary)
next
  case (Ask_Supabase f)
  have more: "others_run i w v" if "others_run i w' v" for v
    by (rule others_run_trans [OF assms(2) that])
  from assms(1) Ask_Supabase more show ?thesis
    by (auto elim!: safe_supabaseE intro!: safe_task.supabase)
qed

lemma safe_ask_primary:
  assumes "\<And>w' r s. others_run i w w' \<Longrightarrow> m (w_primary w') = (r, s) \<Longrightarrow>
    own_step i w' (w'\<lparr>w_primary := s\<rparr>) \<and> safe_task i sound (w'\<lparr>w_primary := s\<rparr>) (k r)"
  shows "safe_task i sound w (ask_primary m k)"
  unfolding ask_primary_def
  by (rule safe_task.primary) (use assms in \<open>auto split: prod.splits\<close>)

lemma safe_ask_supabase:
  assumes "\<And>w' r s. others_run i w w' \<Longrightarrow> m (w_supabase w') = (r, s) \<Longrightarrow>
    own_step i w' (w'\<lparr>w_supabase := s\<rparr>) \<and> safe_task i sound (w'\<lparr>w_supabase := s\<rparr>) (k r)"
  shows "safe_task i sound w (ask_supabase m k)"
  unfolding ask_supabase_def
  by (rule safe_task.supabase) (use assms in \<open>auto split: prod.splits\<close>)

section \<open>The steps of the handlers\<close>

text \<open>A command on the primary that adds no identifier but its own, and one on the mirror.\<close>

lemma primary_own_step:
  assumes "pair_ok w" and "consistent (committed s) (committed (w_supabase w))"
    and "remembers (committed (w_primary w)) (committed s)"
    and "schema_defaults s = schema_defaults (w_primary w)"
    and "\<And>kind j. j \<noteq> i \<Longrightarrow> fresh_id kind j (committed (w_primary w)) \<Longrightarrow> fresh_id kind j (committed s)"
  shows "own_step i w (w\<lparr>w_primary := s\<rparr>)"
  using assms by (simp add: own_step_def pair_ok_def world_remembers_def)

lemma supabase_own_step:
  assumes "pair_ok w" and "consistent (committed (w_primary w)) (committed s)"
    and "remembers (committed (w_supabase w)) (committed s)"
  shows "own_step i w (w\<lparr>w_supabase := s\<rparr>)"
  using assms by (simp add: own_step_def pair_ok_def world_remembers_def)

lemma same_identities_fresh:
  "(\<And>k. identities k st' = identities k st) \<Longrightarrow> fresh_id kind j st \<Longrightarrow> fresh_id kind j st'"
  by (simp add: fresh_id_def)

lemma marking_own_step:
  assumes "mark_mirrored kind j digest (w_primary w) = (r, s)" and "pair_ok w"
  shows "own_step i w (w\<lparr>w_primary := s\<rparr>)"
proof -
  have ok: "consistent (committed (w_primary w)) (committed (w_supabase w))"
    using assms(2) by (simp add: pair_ok_def)
  show ?thesis
    using marking_consistent [OF assms(1) ok] marking.frame(1) [OF assms(1)]
      marking_keeps(2) [OF assms(1)] consistent_wf [OF ok]
    by (auto intro!: primary_own_step assms(2) intro: same_identities_fresh [rotated])
qed

lemma recording_own_step:
  assumes "record_mirror_failure kind j code (w_primary w) = (r, s)" and "pair_ok w"
  shows "own_step i w (w\<lparr>w_primary := s\<rparr>)"
proof -
  have ok: "consistent (committed (w_primary w)) (committed (w_supabase w))"
    using assms(2) by (simp add: pair_ok_def)
  show ?thesis
    using recording_consistent [OF assms(1) ok] recording.frame(1) [OF assms(1)]
      recording_keeps(2) [OF assms(1)] consistent_wf [OF ok]
    by (auto intro!: primary_own_step assms(2) intro: same_identities_fresh [rotated])
qed

text \<open>A command any request may run at any time.\<close>

definition harmless_primary :: "'a db \<Rightarrow> bool" where
  "harmless_primary m \<longleftrightarrow> (\<forall>i w r s. pair_ok w \<longrightarrow> m (w_primary w) = (r, s) \<longrightarrow>
     own_step i w (w\<lparr>w_primary := s\<rparr>))"

definition harmless_supabase :: "'a db \<Rightarrow> bool" where
  "harmless_supabase m \<longleftrightarrow> (\<forall>i w r s. pair_ok w \<longrightarrow> m (w_supabase w) = (r, s) \<longrightarrow>
     own_step i w (w\<lparr>w_supabase := s\<rparr>))"

named_theorems harmless

lemma harmless_reads [harmless]:
  "harmless_primary (pending_upload j subject)" "harmless_supabase (pending_upload j subject)"
  "harmless_primary ping" "harmless_supabase ping"
  by (auto simp: harmless_primary_def harmless_supabase_def own_step_def pair_ok_def
      world_remembers_def pending_upload_frame dest: ping_frame)

lemma harmless_verifying [harmless]:
  "harmless_primary (verify_upload j subject sha)" "harmless_supabase (verify_upload j subject sha)"
  by (auto simp: harmless_primary_def harmless_supabase_def own_step_def pair_ok_def
      world_remembers_def consistent_def mirror_within_def remembers_def fresh_id_def
      verify_upload_effect(1,2) dest: verify_upload_effect(3,4))

lemma safe_harmless [harmless]:
  "harmless_primary m \<Longrightarrow> (\<And>v r. safe_task i sound v (k r)) \<Longrightarrow> safe_task i sound w (ask_primary m k)"
  "harmless_supabase n \<Longrightarrow> (\<And>v r. safe_task i sound v (k' r)) \<Longrightarrow> safe_task i sound w (ask_supabase n k')"
  by (auto simp: harmless_primary_def harmless_supabase_def others_run_def
      intro!: safe_ask_primary safe_ask_supabase)

lemma safe_or_answer:
  assumes "\<And>e. r = Inl e \<Longrightarrow> safe_task i sound w (Answered (Inl (g e)))"
    and "\<And>a. r = Inr a \<Longrightarrow> safe_task i sound w (k a)"
  shows "safe_task i sound w (or_answer g k r)"
  using assms by (simp add: or_answer_def split: sum.splits)

lemma safe_answered_any: "(\<And>w'. sound w' r) \<Longrightarrow> safe_task i sound w (Answered r)"
  by (rule safe_task.answered)

context intake_command begin

lemma primary_own:
  assumes run: "cmd Primary ctx (w_primary w) = (r, s)" and ok: "pair_ok w"
    and fresh: "fresh_id kind (ctx_canonical_id ctx) (committed (w_primary w))"
  shows "own_step (ctx_canonical_id ctx) w (w\<lparr>w_primary := s\<rparr>)"
    and "r = Inr x \<Longrightarrow>
      holds kind (id_of x) (ctx_idempotency_key ctx) (ctx_payload_sha256 ctx) (committed s)"
proof -
  have con: "consistent (committed (w_primary w)) (committed (w_supabase w))"
    and d: "\<And>now. good_defaults (schema_defaults (w_primary w) now)"
    using ok by (auto simp: pair_ok_def)
  note step = primary_step [OF run con fresh d]
  have "wf_rows (committed (w_primary w))" using consistent_wf(1) [OF con] by simp
  then have "fresh_id k j (committed s)"
    if "j \<noteq> ctx_canonical_id ctx" "fresh_id k j (committed (w_primary w))" for k j
    by (rule effect [OF run]) (use that in \<open>auto simp: fresh_id_def appended_def\<close>)
  with step show "own_step (ctx_canonical_id ctx) w (w\<lparr>w_primary := s\<rparr>)"
    by (intro primary_own_step ok) auto
  show "r = Inr x \<Longrightarrow>
      holds kind (id_of x) (ctx_idempotency_key ctx) (ctx_payload_sha256 ctx) (committed s)"
    by (rule step(4))
qed

lemma outcome_safe:
  assumes ok: "pair_ok w" and failed: "\<forall>w' e. sound w' (Inl e)"
    and kept: "holds kind (id_of x) (ctx_idempotency_key ctx) (ctx_payload_sha256 ctx)
      (committed (w_primary w))"
    and mirrored: "\<And>y. m = Inr y \<Longrightarrow>
      holds kind (id_of y) (ctx_idempotency_key ctx) (ctx_payload_sha256 ctx) (committed (w_supabase w))"
    and finish: "\<And>w'. in_both kind (id_of x) (ctx_idempotency_key ctx) (ctx_payload_sha256 ctx) w' \<Longrightarrow>
      safe_task i sound w' (finish x)"
  shows "safe_task i sound w (outcome_task kind id_of ctx finish x m)"
proof -
  have refused: "safe_task i sound v (Answered (Inl e))" for v e
    using failed by (blast intro: safe_answered_any)
  have recorded: "safe_task i sound w (ask_primary (record_mirror_failure kind (id_of x)
      (lit ''supabase_unavailable'')) (\<lambda>recorded. Answered (Inl (if recorded = Inl Panicked then Aborted
       else Failed (mirror_unavailable (id_of x))))))"
    by (rule safe_ask_primary) (auto simp: others_run_def intro: recording_own_step refused)
  have mark: "safe_task i sound w (ask_primary (mark_mirrored kind (id_of x) (ctx_payload_sha256 ctx))
      (or_answer (unfinished (id_of x)) (\<lambda>_. finish x)))" if "mirrored_as id_of (id_of x) m"
  proof (rule safe_ask_primary)
    fix w' f u
    assume others: "others_run i w w'"
      and marking: "mark_mirrored kind (id_of x) (ctx_payload_sha256 ctx) (w_primary w') = (f, u)"
    have own: "own_step i w' (w'\<lparr>w_primary := u\<rparr>)"
      using others by (intro marking_own_step [OF marking]) (simp add: others_run_def)
    from that obtain y where "m = Inr y" "id_of y = id_of x"
      by (cases m) (auto simp: mirrored_as_def)
    with kept mirrored have "in_both kind (id_of x) (ctx_idempotency_key ctx) (ctx_payload_sha256 ctx) w"
      by (auto simp: in_both_def)
    moreover have "world_remembers w (w'\<lparr>w_primary := u\<rparr>)"
      using others own by (auto simp: others_run_def own_step_def intro: world_remembers_trans)
    ultimately have "in_both kind (id_of x) (ctx_idempotency_key ctx) (ctx_payload_sha256 ctx)
        (w'\<lparr>w_primary := u\<rparr>)"
      by (rule in_both_remembered)
    with own show "own_step i w' (w'\<lparr>w_primary := u\<rparr>) \<and>
        safe_task i sound (w'\<lparr>w_primary := u\<rparr>) (or_answer (unfinished (id_of x)) (\<lambda>_. finish x) f)"
      by (blast intro: safe_or_answer refused finish)
  qed
  from recorded mark refused show ?thesis by (simp add: outcome_task_def)
qed

lemma mirror_safe:
  assumes failed: "\<forall>w' e. sound w' (Inl e)"
    and kept: "holds kind (id_of x) (ctx_idempotency_key ctx) (ctx_payload_sha256 ctx)
      (committed (w_primary w))"
    and finish: "\<And>w'. in_both kind (id_of x) (ctx_idempotency_key ctx) (ctx_payload_sha256 ctx) w' \<Longrightarrow>
      safe_task i sound w' (finish x)"
  shows "safe_task i sound w (mirror_task kind id_of cmd ctx finish x)"
  unfolding mirror_task_def
proof (rule safe_ask_supabase)
  fix w' m t
  assume others: "others_run i w w'"
    and run: "cmd SupabaseMirror (with_canonical_id ctx (id_of x)) (w_supabase w') = (m, t)"
  have ok: "pair_ok w'" using others by (simp add: others_run_def)
  then have con: "consistent (committed (w_primary w')) (committed (w_supabase w'))"
    by (simp add: pair_ok_def)
  have still: "holds kind (id_of x) (ctx_idempotency_key ctx) (ctx_payload_sha256 ctx)
      (committed (w_primary w'))"
    using kept others by (auto simp: others_run_def world_remembers_def intro: remembers_holds)
  note step = mirror_step [OF run con still]
  have own: "own_step i w' (w'\<lparr>w_supabase := t\<rparr>)" by (rule supabase_own_step [OF ok step(1,2)])
  have "safe_task i sound (w'\<lparr>w_supabase := t\<rparr>) (outcome_task kind id_of ctx finish x m)"
    by (rule outcome_safe [OF _ failed]) (use own still step(3) finish in \<open>auto simp: own_step_def\<close>)
  with own show "own_step i w' (w'\<lparr>w_supabase := t\<rparr>) \<and>
      safe_task i sound (w'\<lparr>w_supabase := t\<rparr>) (outcome_task kind id_of ctx finish x m)" by blast
qed

lemma dual_task_safe:
  assumes fresh: "fresh_id kind (ctx_canonical_id ctx) (committed (w_primary w))"
    and failed: "\<forall>w' e. sound w' (Inl e)"
    and finish: "\<And>x w'. in_both kind (id_of x) (ctx_idempotency_key ctx) (ctx_payload_sha256 ctx) w' \<Longrightarrow>
      safe_task (ctx_canonical_id ctx) sound w' (finish x)"
  shows "safe_task (ctx_canonical_id ctx) sound w (dual_task kind id_of cmd ctx finish)"
  unfolding dual_task_def
proof (rule safe_ask_primary)
  let ?i = "ctx_canonical_id ctx"
  fix w' r s
  assume others: "others_run ?i w w'" and run: "cmd Primary ctx (w_primary w') = (r, s)"
  have ok: "pair_ok w'" and unused: "fresh_id kind ?i (committed (w_primary w'))"
    using others fresh by (auto simp: others_run_def)
  note own = primary_own [OF run ok unused]
  have "safe_task ?i sound (w'\<lparr>w_primary := s\<rparr>) (mirror_task kind id_of cmd ctx finish x)"
    if "r = Inr x" for x
    by (rule mirror_safe [OF failed _ finish]) (simp_all add: own(2) [OF that])
  moreover have "safe_task ?i sound v (Answered (Inl e))" for v e
    using failed by (blast intro: safe_answered_any)
  ultimately show "own_step ?i w' (w'\<lparr>w_primary := s\<rparr>) \<and> safe_task ?i sound (w'\<lparr>w_primary := s\<rparr>)
      (or_answer failure_of_data (mirror_task kind id_of cmd ctx finish) r)"
    using own(1) by (blast intro: safe_or_answer)
qed

lemma admitted_safe:
  assumes failed: "\<forall>w' e. sound w' (Inl e)" and fresh: "fresh_id kind i (committed (w_primary w))"
    and own: "\<And>ctx. adm = Inr ctx \<Longrightarrow> ctx_canonical_id ctx = i"
    and finish: "\<And>ctx x w'. adm = Inr ctx \<Longrightarrow>
      in_both kind (id_of x) (ctx_idempotency_key ctx) (ctx_payload_sha256 ctx) w' \<Longrightarrow>
      safe_task i sound w' (finish x)"
  shows "safe_task i sound w (admitted_task adm (\<lambda>ctx. dual_task kind id_of cmd ctx finish))"
proof (cases adm)
  case (Inl f)
  with failed show ?thesis by (auto simp: admitted_task_def intro: safe_answered_any)
next
  case (Inr ctx)
  with dual_task_safe [of ctx w sound finish] own [OF Inr] finish [OF Inr] fresh failed
  show ?thesis by (simp add: admitted_task_def)
qed

end

section \<open>Requests under way\<close>

record client_task =
  ct_headers :: header_map
  ct_request :: request
  ct_app :: app_state
  ct_fresh :: uuid
  ct_task :: task

definition entry_of :: "client_task \<Rightarrow> api_error + response \<Rightarrow> log_entry" where
  "entry_of ct r = \<lparr>le_headers = ct_headers ct, le_request = ct_request ct, le_result = r,
     le_app = ct_app ct\<rparr>"

definition sound_answer :: "client_task \<Rightarrow> world \<Rightarrow> api_error + response \<Rightarrow> bool" where
  "sound_answer ct w r \<longleftrightarrow> (\<forall>kind i key digest. acknowledged (entry_of ct r) kind i key digest \<longrightarrow>
     in_both kind i key digest w)"

definition client_task_of :: "app_state \<Rightarrow> uuid \<Rightarrow> header_map \<Rightarrow> request \<Rightarrow> client_task" where
  "client_task_of app fresh h req = \<lparr>ct_headers = h, ct_request = req, ct_app = app,
     ct_fresh = fresh, ct_task = task_of app fresh h req\<rparr>"

lemma client_task_of_simps [simp]:
  "ct_headers (client_task_of app fresh h req) = h" "ct_request (client_task_of app fresh h req) = req"
  "ct_app (client_task_of app fresh h req) = app"
  "ct_fresh (client_task_of app fresh h req) = fresh"
  "ct_task (client_task_of app fresh h req) = task_of app fresh h req"
  by (simp_all add: client_task_of_def)

lemma sound_refusal [simp]: "sound_answer ct w (Inl e)"
  by (simp add: sound_answer_def acknowledged_def entry_of_def)

lemma sound_without_kind: "kind_of (ct_request ct) = None \<Longrightarrow> sound_answer ct w r"
  by (simp add: sound_answer_def acknowledged_def entry_of_def)

lemma sound_other_task [simp]: "sound_answer (ct\<lparr>ct_task := t\<rparr>) = sound_answer ct"
  by (simp add: sound_answer_def entry_of_def fun_eq_iff)

text \<open>The answer of a submitting request whose submission is on both databases.\<close>

lemma safe_receipt:
  assumes "in_both kind i key digest w" and "\<forall>resp. r = Inr resp \<longrightarrow> response_id resp = Some i"
    and "kind_of (ct_request ct) = Some kind" and "ct_headers ct ''idempotency-key'' = Some (HText key)"
    and "request_digest (app_services (ct_app ct)) (ct_request ct) = Inr digest"
  shows "safe_task j (sound_answer ct) w (Answered r)"
proof (rule safe_task.answered)
  fix w' assume "others_run j w w'"
  then have "in_both kind i key digest w'"
    using assms(1) in_both_remembered by (auto simp: others_run_def)
  with assms(2-) show "sound_answer ct w' r"
    by (auto simp: sound_answer_def acknowledged_def entry_of_def le_services_def)
qed

lemma safe_branches [harmless]:
  "(\<And>v e. safe_task i sound v (Answered (Inl e))) \<Longrightarrow> (\<And>a. safe_task i sound w (k a)) \<Longrightarrow>
     safe_task i sound w (or_answer g k r)"
  "safe_task i sound w t \<Longrightarrow> safe_task i sound w t' \<Longrightarrow> safe_task i sound w (if b then t else t')"
  "(\<And>x. safe_task i sound w (f x)) \<Longrightarrow> (\<And>y. safe_task i sound w (g' y)) \<Longrightarrow>
     safe_task i sound w (case z of Inl x \<Rightarrow> f x | Inr y \<Rightarrow> g' y)"
  by (auto intro: safe_or_answer split: sum.splits)

lemma other_routes_safe:
  assumes "\<And>w' r. sound w' r"
  shows "safe_task i sound w (complete_task app upload_id h input)" "safe_task i sound w ready_task"
proof -
  have answer: "safe_task i sound v (Answered r)" for v r by (rule safe_answered_any) (rule assms)
  show "safe_task i sound w (complete_task app upload_id h input)" "safe_task i sound w ready_task"
    unfolding complete_task_def ready_task_def Let_def by (intro harmless answer)+
qed

lemma sign_answer_names: "sign_answer app input x = Inr resp \<Longrightarrow> response_id resp = Some (su_id x)"
  by (auto simp: sign_answer_def Let_def map_err_Inr_iff bindR_Inr_iff)

lemma task_of_safe:
  assumes fresh: "\<And>kind. fresh_id kind fresh (committed (w_primary w))"
  shows "safe_task fresh (sound_answer (client_task_of app fresh h req)) w (task_of app fresh h req)"
proof -
  let ?ct = "client_task_of app fresh h req" and ?sv = "app_services app"
  have failed: "\<forall>w' e. sound_answer ?ct w' (Inl e)" by simp
  have ctx: "ctx_canonical_id ctx = fresh" "h ''idempotency-key'' = Some (HText (ctx_idempotency_key ctx))"
    "request_digest ?sv req = Inr (ctx_payload_sha256 ctx)" if "admission app fresh h req = Inr ctx" for ctx
    using admission_Inr(2-4) [OF that] by auto
  have receipt: "safe_task fresh (sound_answer ?ct) w' (Answered r)"
    if "admission app fresh h req = Inr ctx" "kind_of req = Some kind"
      "in_both kind i (ctx_idempotency_key ctx) (ctx_payload_sha256 ctx) w'"
      "\<forall>resp. r = Inr resp \<longrightarrow> response_id resp = Some i" for ctx kind i w' r
    using ctx [OF that(1)] that(2) by (intro safe_receipt [OF that(3,4)]) simp_all
  show ?thesis
  proof (cases "kind_of req")
    case None
    then have "\<And>w' r. sound_answer ?ct w' r" by (simp add: sound_without_kind)
    with None other_routes_safe safe_answered_any show ?thesis by (cases req) auto
  next
    case (Some kind)
    show ?thesis
    proof (cases req)
      case (PreInterestRequest input)
      show ?thesis unfolding PreInterestRequest task_of.simps
        by (rule pre_interests.admitted_safe)
          (use fresh receipt ctx(1) in \<open>auto simp: PreInterestRequest receipt_of_def\<close>)
    next
      case (UploadRequest input)
      show ?thesis unfolding UploadRequest task_of.simps su_id_view store_intent_fun
        by (rule uploads.admitted_safe)
          (use fresh receipt ctx(1) sign_answer_names in
            \<open>auto simp: UploadRequest upload_view_def\<close>)
    next
      case (ApplicationRequest input)
      show ?thesis unfolding ApplicationRequest task_of.simps
        by (rule applications.admitted_safe)
          (use fresh receipt ctx(1) in \<open>auto simp: ApplicationRequest receipt_of_def\<close>)
    next
      case (ReferralRequest input)
      show ?thesis unfolding ReferralRequest task_of.simps
        by (rule referrals.admitted_safe)
          (use fresh receipt ctx(1) in \<open>auto simp: ReferralRequest receipt_of_def\<close>)
    qed (use Some in simp_all)
  qed
qed

section \<open>Interleaved runs\<close>

type_synonym live_state = "world \<times> client_task list \<times> log_entry list"

text \<open>Who takes a step: a request arrives, the service works on one, a client goes away, or the
  surroundings change. A new request draws an identifier nobody uses.\<close>

datatype actor = Arrives | Works | Drops | Surroundings

inductive live_step :: "actor \<Rightarrow> live_state \<Rightarrow> live_state \<Rightarrow> bool" where
  arrive: "(\<And>kind. fresh_id kind fresh (committed (w_primary w))) \<Longrightarrow>
     fresh \<notin> ct_fresh ` set tasks \<Longrightarrow>
     live_step Arrives (w, tasks, hist) (w, tasks @ [client_task_of app fresh h req], hist)"
| on_primary: "ct_task ct = Ask_Primary f \<Longrightarrow> f (w_primary w) = (t, s) \<Longrightarrow>
     live_step Works (w, front @ ct # rest, hist)
       (w\<lparr>w_primary := s\<rparr>, front @ ct\<lparr>ct_task := t\<rparr> # rest, hist)"
| on_supabase: "ct_task ct = Ask_Supabase f \<Longrightarrow> f (w_supabase w) = (t, s) \<Longrightarrow>
     live_step Works (w, front @ ct # rest, hist)
       (w\<lparr>w_supabase := s\<rparr>, front @ ct\<lparr>ct_task := t\<rparr> # rest, hist)"
| reply: "ct_task ct = Answered r \<Longrightarrow>
     live_step Works (w, front @ ct # rest, hist) (w, front @ rest, hist @ [entry_of ct r])"
| dropped: "live_step Drops (w, front @ ct # rest, hist) (w, front @ rest, hist)"
| environment: "same_tables w w' \<Longrightarrow> live_step Surroundings (w, tasks, hist) (w', tasks, hist)"

inductive live_reachable :: "world \<Rightarrow> live_state \<Rightarrow> bool" for w0 where
  start: "live_reachable w0 (w0, [], [])"
| step: "live_reachable w0 st \<Longrightarrow> live_step actor st st' \<Longrightarrow> live_reachable w0 st'"

definition live_sound :: "live_state \<Rightarrow> bool" where
  "live_sound st \<longleftrightarrow> (case st of (w, tasks, hist) \<Rightarrow>
     log_sound (w, hist) \<and> distinct (map ct_fresh tasks) \<and>
     (\<forall>ct \<in> set tasks. safe_task (ct_fresh ct) (sound_answer ct) w (ct_task ct)))"

lemma log_sound_moves:
  "log_sound (w, hist) \<Longrightarrow> pair_ok w' \<Longrightarrow> world_remembers w w' \<Longrightarrow> log_sound (w', hist)"
  by (simp add: log_sound_def) (blast intro: in_both_remembered)

text \<open>One request steps, the others stay safe.\<close>

lemma live_sound_moves:
  assumes sound: "live_sound (w, front @ ct # rest, hist)" and own: "own_step (ct_fresh ct) w w'"
    and safe: "safe_task (ct_fresh ct) (sound_answer ct) w' t"
  shows "live_sound (w', front @ ct\<lparr>ct_task := t\<rparr> # rest, hist)"
proof -
  have "safe_task (ct_fresh other) (sound_answer other) w' (ct_task other)"
    if "other \<in> set front \<union> set rest" for other
  proof -
    have "ct_fresh ct \<notin> ct_fresh ` (set front \<union> set rest)"
      using sound by (auto simp: live_sound_def)
    with that have "ct_fresh other \<noteq> ct_fresh ct" by (metis imageI)
    with own have "others_run (ct_fresh other) w w'" by (rule own_step_others)
    moreover have "safe_task (ct_fresh other) (sound_answer other) w (ct_task other)"
      using sound that by (auto simp: live_sound_def)
    ultimately show ?thesis by (rule safe_task_stable [rotated])
  qed
  with sound own safe log_sound_moves show ?thesis
    by (auto simp: live_sound_def own_step_def)
qed

lemma live_sound_leaves:
  assumes "live_sound (w, front @ ct # rest, hist)" and "log_sound (w, hist')"
  shows "live_sound (w, front @ rest, hist')"
  using assms by (auto simp: live_sound_def)

lemma others_run_refl: "pair_ok w \<Longrightarrow> others_run i w w"
  by (simp add: others_run_def)

lemma live_step_sound:
  assumes "live_step actor st st'" and "live_sound st"
  shows "live_sound st'"
  using assms
proof (cases rule: live_step.cases)
  case (arrive fresh w tasks hist app h req)
  from task_of_safe [OF arrive(4)] assms(2) arrive(2,3,5) show ?thesis
    by (auto simp: live_sound_def)
next
  case (on_primary ct f w t s front rest hist)
  have pair: "pair_ok w" and safe: "safe_task (ct_fresh ct) (sound_answer ct) w (Ask_Primary f)"
    using assms(2) on_primary by (auto simp: live_sound_def log_sound_def)
  from safe others_run_refl [OF pair] on_primary(5)
  have "own_step (ct_fresh ct) w (w\<lparr>w_primary := s\<rparr>)"
    "safe_task (ct_fresh ct) (sound_answer ct) (w\<lparr>w_primary := s\<rparr>) t"
    by (auto elim!: safe_primaryE)
  with live_sound_moves assms(2) on_primary(2,3) show ?thesis by blast
next
  case (on_supabase ct f w t s front rest hist)
  have pair: "pair_ok w" and safe: "safe_task (ct_fresh ct) (sound_answer ct) w (Ask_Supabase f)"
    using assms(2) on_supabase by (auto simp: live_sound_def log_sound_def)
  from safe others_run_refl [OF pair] on_supabase(5)
  have "own_step (ct_fresh ct) w (w\<lparr>w_supabase := s\<rparr>)"
    "safe_task (ct_fresh ct) (sound_answer ct) (w\<lparr>w_supabase := s\<rparr>) t"
    by (auto elim!: safe_supabaseE)
  with live_sound_moves assms(2) on_supabase(2,3) show ?thesis by blast
next
  case (reply ct r w front rest hist)
  have log: "log_sound (w, hist)" and safe: "safe_task (ct_fresh ct) (sound_answer ct) w (Answered r)"
    using assms(2) reply by (auto simp: live_sound_def)
  from log have pair: "pair_ok w" by (simp add: log_sound_def)
  from safe others_run_refl [OF pair] have "sound_answer ct w r" by (auto elim!: safe_answeredE)
  with log have "log_sound (w, hist @ [entry_of ct r])"
    by (auto simp: log_sound_def sound_answer_def)
  with live_sound_leaves assms(2) reply(2,3) show ?thesis by blast
next
  case (dropped w front ct rest hist)
  with live_sound_leaves assms(2) show ?thesis by (auto simp: live_sound_def)
next
  case (environment w w' tasks hist)
  have pair: "pair_ok w" using assms(2) environment by (simp add: live_sound_def log_sound_def)
  have run: "others_run i w w'" for i by (rule others_run_same_tables [OF pair environment(4)])
  then have "log_sound (w', hist)"
    using assms(2) environment(2) log_sound_moves
    by (auto simp: live_sound_def others_run_def)
  with run assms(2) environment(2,3) safe_task_stable show ?thesis
    by (fastforce simp: live_sound_def)
qed

lemma live_reachable_sound: "live_reachable w0 st \<Longrightarrow> pair_ok w0 \<Longrightarrow> live_sound st"
proof (induction rule: live_reachable.induct)
  case start
  then show ?case by (simp add: live_sound_def log_sound_def)
next
  case (step st actor st')
  then show ?case by (blast intro: live_step_sound)
qed

section \<open>Requests one after the other\<close>

text \<open>A request that runs to its answer without interruption is a run of its own.\<close>

lemma live_alone:
  assumes "live_reachable w0 (w, [ct], hist)" and "alone (ct_task ct) w = (r, w')"
  shows "live_reachable w0 (w', [], hist @ [entry_of ct r])"
  using assms
proof (induction "ct_task ct" arbitrary: ct w)
  case (Answered a)
  then have "r = a" "w' = w" by (metis alone.simps(1) prod.inject)+
  with Answered live_step.reply [of ct a w "[]" "[]" hist] show ?case
    by (auto intro: live_reachable.step)
next
  case (Ask_Primary f)
  obtain t s where f: "f (w_primary w) = (t, s)" by (cases "f (w_primary w)")
  let ?ct = "ct\<lparr>ct_task := t\<rparr>"
  have "live_reachable w0 (w\<lparr>w_primary := s\<rparr>, [?ct], hist)"
    using live_step.on_primary [OF Ask_Primary(2) [symmetric] f, of "[]" "[]" hist] Ask_Primary(3)
    by (auto intro: live_reachable.step)
  moreover have "alone t (w\<lparr>w_primary := s\<rparr>) = (r, w')"
    using Ask_Primary(4) f by (simp add: Ask_Primary(2) [symmetric])
  ultimately have "live_reachable w0 (w', [], hist @ [entry_of ?ct r])"
    using Ask_Primary(1) [of "(t, s)" ?ct "w\<lparr>w_primary := s\<rparr>"]
      range_eqI [of "(t, s)" f "w_primary w"] f by simp
  then show ?case by (simp add: entry_of_def)
next
  case (Ask_Supabase f)
  obtain t s where f: "f (w_supabase w) = (t, s)" by (cases "f (w_supabase w)")
  let ?ct = "ct\<lparr>ct_task := t\<rparr>"
  have "live_reachable w0 (w\<lparr>w_supabase := s\<rparr>, [?ct], hist)"
    using live_step.on_supabase [OF Ask_Supabase(2) [symmetric] f, of "[]" "[]" hist] Ask_Supabase(3)
    by (auto intro: live_reachable.step)
  moreover have "alone t (w\<lparr>w_supabase := s\<rparr>) = (r, w')"
    using Ask_Supabase(4) f by (simp add: Ask_Supabase(2) [symmetric])
  ultimately have "live_reachable w0 (w', [], hist @ [entry_of ?ct r])"
    using Ask_Supabase(1) [of "(t, s)" ?ct "w\<lparr>w_supabase := s\<rparr>"]
      range_eqI [of "(t, s)" f "w_supabase w"] f by simp
  then show ?case by (simp add: entry_of_def)
qed

lemma live_respond:
  assumes "live_reachable w0 (w, [], hist)" and "respond app fresh h req w = (r, w')"
    and "\<And>kind. fresh_id kind fresh (committed (w_primary w))"
  shows "live_reachable w0 (w', [], hist @ [\<lparr>le_headers = h, le_request = req, le_result = r,
    le_app = app\<rparr>])"
proof -
  let ?ct = "client_task_of app fresh h req"
  have "live_reachable w0 (w, [?ct], hist)"
    using live_step.arrive [OF assms(3), of "[]" hist app h req] assms(1)
    by (auto intro: live_reachable.step)
  moreover have "alone (ct_task ?ct) w = (r, w')" using assms(2) by (simp add: alone_task_of)
  ultimately show ?thesis using live_alone [of w0 w ?ct hist r w'] by (simp add: entry_of_def)
qed

end
