(* ===== verification/Termination.thy ===== *)
theory Termination imports Interleaving begin

text \<open>
  Every request comes to its answer. A request asks the databases for at most four commands,
  whatever they answer, and never waits for another request; so a run of the service does a
  bounded number of steps per request that arrives, and a request under way can always go on.
\<close>

section \<open>How many commands a request needs\<close>

inductive ends_in :: "nat \<Rightarrow> task \<Rightarrow> bool" where
  answered: "ends_in n (Answered r)"
| primary: "(\<And>s. ends_in n (fst (f s))) \<Longrightarrow> ends_in (Suc n) (Ask_Primary f)"
| supabase: "(\<And>s. ends_in n (fst (f s))) \<Longrightarrow> ends_in (Suc n) (Ask_Supabase f)"

inductive_cases ends_in_primaryE: "ends_in n (Ask_Primary f)"
inductive_cases ends_in_supabaseE: "ends_in n (Ask_Supabase f)"

lemma ends_in_ask:
  "(\<And>r. ends_in n (k r)) \<Longrightarrow> ends_in (Suc n) (ask_primary m k)"
  "(\<And>r. ends_in n (k r)) \<Longrightarrow> ends_in (Suc n) (ask_supabase m k)"
  unfolding ask_primary_def ask_supabase_def
  by (auto intro!: ends_in.primary ends_in.supabase split: prod.split)

lemma ends_in_branches:
  "(\<And>x. ends_in n (f x)) \<Longrightarrow> (\<And>y. ends_in n (g y)) \<Longrightarrow>
     ends_in n (case z of Inl x \<Rightarrow> f x | Inr y \<Rightarrow> g y)"
  "ends_in n t \<Longrightarrow> ends_in n t' \<Longrightarrow> ends_in n (if b then t else t')"
  "(\<And>a. ends_in n (k a)) \<Longrightarrow> ends_in n (or_answer h k r)"
  "(\<And>ctx. ends_in n (k' ctx)) \<Longrightarrow> ends_in n (admitted_task adm k')"
  by (simp_all add: or_answer_def admitted_task_def ends_in.answered split: sum.split)

lemmas ends_in_intros = ends_in.answered ends_in_ask ends_in_branches

lemma ends_in_more: "ends_in n t \<Longrightarrow> n \<le> m \<Longrightarrow> ends_in m t"
proof (induction arbitrary: m rule: ends_in.induct)
  case (answered n r)
  show ?case by (rule ends_in.answered)
next
  case (primary n f)
  then obtain k where "m = Suc k" "n \<le> k" by (cases m) auto
  with primary show ?case by (auto intro: ends_in.primary)
next
  case (supabase n f)
  then obtain k where "m = Suc k" "n \<le> k" by (cases m) auto
  with supabase show ?case by (auto intro: ends_in.supabase)
qed

text \<open>Three commands for a submission that finishes with an answer, four for an upload's completion,
  two for the readiness probe.\<close>

lemma dual_task_ends:
  "(\<And>x. ends_in 0 (finish x)) \<Longrightarrow> ends_in (Suc (Suc (Suc 0))) (dual_task kind id_of cmd ctx finish)"
  unfolding dual_task_def mirror_task_def outcome_task_def by (intro ends_in_intros)

lemma complete_task_ends: "ends_in (Suc (Suc (Suc (Suc 0)))) (complete_task app upload_id h input)"
  unfolding complete_task_def Let_def by (intro ends_in_intros)

lemma ready_task_ends: "ends_in (Suc (Suc 0)) ready_task"
  unfolding ready_task_def by (intro ends_in_intros)

lemma admitted_task_ends:
  "(\<And>ctx. ends_in n (k ctx)) \<Longrightarrow> n \<le> m \<Longrightarrow> ends_in m (admitted_task adm k)"
  by (rule ends_in_more [where n = n]) (intro ends_in_intros)

lemma task_of_ends: "ends_in 4 (task_of app fresh h req)"
  by (cases req)
    (auto intro!: ends_in.answered admitted_task_ends dual_task_ends ends_in_more [OF ready_task_ends]
      ends_in_more [OF complete_task_ends])

section \<open>Runs with their actors\<close>

inductive live_run :: "live_state \<Rightarrow> actor list \<Rightarrow> live_state \<Rightarrow> bool" for st0 where
  nothing: "live_run st0 [] st0"
| more: "live_run st0 actors st \<Longrightarrow> live_step actor st st' \<Longrightarrow> live_run st0 (actors @ [actor]) st'"

lemma live_run_reachable: "live_run (w0, [], []) actors st \<Longrightarrow> live_reachable w0 st"
  by (induction rule: live_run.induct) (auto intro: live_reachable.intros)

text \<open>What the requests under way may still need: the commands left, and the answer itself.\<close>

definition needs_at_most :: "nat list \<Rightarrow> client_task list \<Rightarrow> bool" where
  "needs_at_most ns tasks \<longleftrightarrow> list_all2 (\<lambda>n ct. ends_in n (ct_task ct)) ns tasks"

lemma needs_splitE:
  assumes "needs_at_most ns (front @ ct # rest)"
  obtains before n after where "ns = before @ n # after" "needs_at_most before front"
    "ends_in n (ct_task ct)" "needs_at_most after rest"
  using assms by (auto simp: needs_at_most_def list_all2_append2 list_all2_Cons2)

lemma needs_split:
  "needs_at_most before front \<Longrightarrow> ends_in n (ct_task ct) \<Longrightarrow> needs_at_most after rest \<Longrightarrow>
     needs_at_most (before @ n # after) (front @ ct # rest)"
  "needs_at_most before front \<Longrightarrow> needs_at_most after rest \<Longrightarrow> needs_at_most (before @ after) (front @ rest)"
  by (auto simp: needs_at_most_def list_all2_appendI)

text \<open>An arrival brings at most five steps of work, each step of work uses one up.\<close>

definition work_left :: "nat list \<Rightarrow> nat" where
  "work_left ns = sum_list (map Suc ns)"

lemma live_step_work:
  assumes "live_step actor st st'" and "needs_at_most ns (fst (snd st))"
  shows "\<exists>ns'. needs_at_most ns' (fst (snd st')) \<and>
    (if actor = Works then 1 else 0) + work_left ns' \<le> (if actor = Arrives then 5 else 0) + work_left ns"
  using assms
proof (induction rule: live_step.induct)
  case (arrive fresh w tasks hist app h req)
  then have "needs_at_most (ns @ [4]) (tasks @ [client_task_of app fresh h req])"
    using task_of_ends by (auto simp: needs_at_most_def intro!: list_all2_appendI)
  then show ?case by (intro exI [of _ "ns @ [4]"]) (simp add: work_left_def)
next
  case (on_primary ct f w t s front rest hist)
  from on_primary.prems obtain before n after where ns: "ns = before @ n # after"
    "needs_at_most before front" "ends_in n (ct_task ct)" "needs_at_most after rest"
    by (auto elim: needs_splitE)
  from ns(3) obtain m where m: "n = Suc m" "ends_in m (fst (f (w_primary w)))"
    unfolding on_primary.hyps(1) by (auto elim!: ends_in_primaryE)
  then have "ends_in m (ct_task (ct\<lparr>ct_task := t\<rparr>))" by (simp add: on_primary.hyps(2))
  with needs_split(1) [OF ns(2) this ns(4)] show ?case
    by (intro exI [of _ "before @ m # after"]) (simp add: ns(1) m(1) work_left_def)
next
  case (on_supabase ct f w t s front rest hist)
  from on_supabase.prems obtain before n after where ns: "ns = before @ n # after"
    "needs_at_most before front" "ends_in n (ct_task ct)" "needs_at_most after rest"
    by (auto elim: needs_splitE)
  from ns(3) obtain m where m: "n = Suc m" "ends_in m (fst (f (w_supabase w)))"
    unfolding on_supabase.hyps(1) by (auto elim!: ends_in_supabaseE)
  then have "ends_in m (ct_task (ct\<lparr>ct_task := t\<rparr>))" by (simp add: on_supabase.hyps(2))
  with needs_split(1) [OF ns(2) this ns(4)] show ?case
    by (intro exI [of _ "before @ m # after"]) (simp add: ns(1) m(1) work_left_def)
next
  case (reply ct r w front rest hist)
  then obtain before n after where "ns = before @ n # after" "needs_at_most before front"
    "needs_at_most after rest" by (auto elim: needs_splitE)
  with needs_split(2) show ?case
    by (intro exI [of _ "before @ after"]) (simp add: work_left_def)
next
  case (dropped w front ct rest hist)
  then obtain before n after where "ns = before @ n # after" "needs_at_most before front"
    "needs_at_most after rest" by (auto elim: needs_splitE)
  with needs_split(2) show ?case
    by (intro exI [of _ "before @ after"]) (simp add: work_left_def)
qed auto

lemma live_run_work:
  assumes "live_run (w0, [], []) actors st"
  shows "\<exists>ns. needs_at_most ns (fst (snd st)) \<and>
    count_list actors Works + work_left ns \<le> 5 * count_list actors Arrives"
  using assms
proof (induction rule: live_run.induct)
  case nothing
  then show ?case by (auto simp: needs_at_most_def work_left_def)
next
  case (more actors st actor st')
  then obtain ns where ns: "needs_at_most ns (fst (snd st))"
    "count_list actors Works + work_left ns \<le> 5 * count_list actors Arrives" by blast
  from live_step_work [OF more(2) ns(1)] obtain ns' where "needs_at_most ns' (fst (snd st'))"
    "(if actor = Works then 1 else 0) + work_left ns' \<le> (if actor = Arrives then 5 else 0) + work_left ns"
    by blast
  with ns(2) show ?case by (intro exI [of _ ns']) (auto split: if_splits)
qed

lemma work_left_length: "needs_at_most ns tasks \<Longrightarrow> length tasks \<le> work_left ns"
  unfolding needs_at_most_def
proof (induction rule: list_all2_induct)
  case (Cons n ns ct tasks)
  then show ?case by (simp add: work_left_def)
qed (simp add: work_left_def)

lemma live_run_bounded:
  assumes "live_run (w0, [], []) actors (w, tasks, hist)"
  shows "count_list actors Works + length tasks \<le> 5 * count_list actors Arrives"
proof -
  from live_run_work [OF assms] obtain ns where "needs_at_most ns tasks"
    "count_list actors Works + work_left ns \<le> 5 * count_list actors Arrives" by auto
  with work_left_length show ?thesis by fastforce
qed

text \<open>A request under way never waits for another one: with at most four commands of its own and its
  answer it can leave at any time.\<close>

lemma live_run_trans: "live_run st' actors' st'' \<Longrightarrow> live_run st actors st' \<Longrightarrow> live_run st (actors @ actors') st''"
proof (induction rule: live_run.induct)
  case nothing
  then show ?case by simp
next
  case (more actors' st1 actor st2)
  then show ?case using live_run.more by (fastforce simp flip: append_assoc)
qed

lemma live_run_first:
  "live_step actor st st' \<Longrightarrow> live_run st' actors st'' \<Longrightarrow> live_run st (actor # actors) st''"
  using live_run_trans [of st' actors st'' st "[actor]"] live_run.more [OF live_run.nothing, of actor st st']
  by simp

lemma ends_in_answers:
  assumes "ends_in n t" and "ct_task ct = t"
  shows "\<exists>actors r w'. live_run (w, front @ ct # rest, hist) actors (w', front @ rest, hist @ [entry_of ct r]) \<and>
    set actors \<subseteq> {Works} \<and> length actors \<le> Suc n"
  using assms
proof (induction arbitrary: ct w rule: ends_in.induct)
  case (answered n r)
  from live_step.reply [OF answered] show ?case
    using live_run_first [OF _ live_run.nothing] by (intro exI [of _ "[Works]"]) fastforce
next
  case (primary n f)
  obtain u s where f: "f (w_primary w) = (u, s)" by (cases "f (w_primary w)")
  let ?ct = "ct\<lparr>ct_task := u\<rparr>"
  from primary.IH [where ct = ?ct and w = "w\<lparr>w_primary := s\<rparr>" and s = "w_primary w"] f obtain actors r w'
    where run: "live_run (w\<lparr>w_primary := s\<rparr>, front @ ?ct # rest, hist) actors
        (w', front @ rest, hist @ [entry_of ?ct r])"
      and only: "set actors \<subseteq> {Works}" "length actors \<le> Suc n" by auto
  from live_run_first [OF live_step.on_primary [OF primary.prems f] run] only show ?case
    by (intro exI [of _ "Works # actors"]) (auto simp: entry_of_def)
next
  case (supabase n f)
  obtain u s where f: "f (w_supabase w) = (u, s)" by (cases "f (w_supabase w)")
  let ?ct = "ct\<lparr>ct_task := u\<rparr>"
  from supabase.IH [where ct = ?ct and w = "w\<lparr>w_supabase := s\<rparr>" and s = "w_supabase w"] f obtain actors r w'
    where run: "live_run (w\<lparr>w_supabase := s\<rparr>, front @ ?ct # rest, hist) actors
        (w', front @ rest, hist @ [entry_of ?ct r])"
      and only: "set actors \<subseteq> {Works}" "length actors \<le> Suc n" by auto
  from live_run_first [OF live_step.on_supabase [OF supabase.prems f] run] only show ?case
    by (intro exI [of _ "Works # actors"]) (auto simp: entry_of_def)
qed

text \<open>Four commands are enough for every request a run ever has under way.\<close>

lemma live_step_ends:
  assumes "live_step actor st st'" and "\<forall>ct \<in> set (fst (snd st)). ends_in 4 (ct_task ct)"
  shows "\<forall>ct \<in> set (fst (snd st')). ends_in 4 (ct_task ct)"
  using assms
proof (induction rule: live_step.induct)
  case (arrive fresh w tasks hist app h req)
  then show ?case using task_of_ends by auto
next
  case (on_primary ct f w t s front rest hist)
  then have "ends_in 4 (Ask_Primary f)" by auto
  then have "ends_in 3 (fst (f (w_primary w)))"
    by (rule ends_in_primaryE) (simp add: numeral_eq_Suc)
  with on_primary.hyps(2) have "ends_in 4 t" by (auto intro: ends_in_more)
  with on_primary show ?case by auto
next
  case (on_supabase ct f w t s front rest hist)
  then have "ends_in 4 (Ask_Supabase f)" by auto
  then have "ends_in 3 (fst (f (w_supabase w)))"
    by (rule ends_in_supabaseE) (simp add: numeral_eq_Suc)
  with on_supabase.hyps(2) have "ends_in 4 t" by (auto intro: ends_in_more)
  with on_supabase show ?case by auto
qed auto

lemma live_run_ends:
  assumes "live_run (w0, [], []) actors st"
  shows "\<forall>ct \<in> set (fst (snd st)). ends_in 4 (ct_task ct)"
  using assms
proof (induction rule: live_run.induct)
  case (more actors st actor st')
  show ?case by (rule live_step_ends [OF more(2) more(3)])
qed simp

lemma live_run_answers:
  assumes "live_run (w0, [], []) actors (w, front @ ct # rest, hist)"
  shows "\<exists>own r w'. live_run (w, front @ ct # rest, hist) own (w', front @ rest, hist @ [entry_of ct r]) \<and>
    set own \<subseteq> {Works} \<and> length own \<le> 5"
  using live_run_ends [OF assms] ends_in_answers [of 4 "ct_task ct" ct w front rest hist] by simp

end
