(* ===== verification/Upheld.thy ===== *)
theory Upheld imports Termination begin

text \<open>
  Invariants of interleaved runs that a request's own steps keep under what the others guarantee.
  A task upholds \<open>P\<close> when, from every world with \<open>P\<close> the others may have led to, its next step
  leads to a world with \<open>P\<close> and a task that upholds it, and its answer is a good one. A run whose
  arrivals uphold \<open>P\<close> and whose surroundings keep it has \<open>P\<close> throughout, and only good answers.
\<close>

section \<open>Commands and tasks\<close>

definition keeps_primary :: "(world \<Rightarrow> bool) \<Rightarrow> 'a db \<Rightarrow> bool" where
  "keeps_primary P m \<longleftrightarrow> (\<forall>w r s. pair_ok w \<longrightarrow> P w \<longrightarrow> m (w_primary w) = (r, s) \<longrightarrow>
     P (w\<lparr>w_primary := s\<rparr>))"

definition keeps_supabase :: "(world \<Rightarrow> bool) \<Rightarrow> 'a db \<Rightarrow> bool" where
  "keeps_supabase P m \<longleftrightarrow> (\<forall>w r s. pair_ok w \<longrightarrow> P w \<longrightarrow> m (w_supabase w) = (r, s) \<longrightarrow>
     P (w\<lparr>w_supabase := s\<rparr>))"

lemma keepsD:
  "keeps_primary P m \<Longrightarrow> pair_ok w \<Longrightarrow> P w \<Longrightarrow> m (w_primary w) = (r, s) \<Longrightarrow> P (w\<lparr>w_primary := s\<rparr>)"
  "keeps_supabase P n \<Longrightarrow> pair_ok w \<Longrightarrow> P w \<Longrightarrow> n (w_supabase w) = (r', s) \<Longrightarrow> P (w\<lparr>w_supabase := s\<rparr>)"
  by (simp_all add: keeps_primary_def keeps_supabase_def)

inductive upholds :: "(world \<Rightarrow> bool) \<Rightarrow> uuid \<Rightarrow> (api_error + response \<Rightarrow> bool) \<Rightarrow> world \<Rightarrow> task \<Rightarrow> bool"
  for P i good where
  answered: "good r \<Longrightarrow> upholds P i good w (Answered r)"
| primary: "(\<And>w' t s. others_run i w w' \<Longrightarrow> P w' \<Longrightarrow> f (w_primary w') = (t, s) \<Longrightarrow>
      P (w'\<lparr>w_primary := s\<rparr>) \<and> upholds P i good (w'\<lparr>w_primary := s\<rparr>) t) \<Longrightarrow>
    upholds P i good w (Ask_Primary f)"
| supabase: "(\<And>w' t s. others_run i w w' \<Longrightarrow> P w' \<Longrightarrow> f (w_supabase w') = (t, s) \<Longrightarrow>
      P (w'\<lparr>w_supabase := s\<rparr>) \<and> upholds P i good (w'\<lparr>w_supabase := s\<rparr>) t) \<Longrightarrow>
    upholds P i good w (Ask_Supabase f)"

inductive_cases upholds_answeredE: "upholds P i good w (Answered r)"
inductive_cases upholds_primaryE: "upholds P i good w (Ask_Primary f)"
inductive_cases upholds_supabaseE: "upholds P i good w (Ask_Supabase f)"

lemma upholds_stable:
  assumes "upholds P i good w t" and "others_run i w w'"
  shows "upholds P i good w' t"
proof -
  have more: "others_run i w v" if "others_run i w' v" for v
    by (rule others_run_trans [OF assms(2) that])
  from assms(1) more show ?thesis
    by (cases t) (auto elim!: upholds_answeredE upholds_primaryE upholds_supabaseE
        intro!: upholds.intros)
qed

lemma upholds_mono: "upholds P i good w t \<Longrightarrow> (\<And>r. good r \<Longrightarrow> good' r) \<Longrightarrow> upholds P i good' w t"
  by (induction rule: upholds.induct) (auto intro: upholds.intros)

lemma upholds_ask:
  "(\<And>w' r s. others_run i w w' \<Longrightarrow> pair_ok w' \<Longrightarrow> P w' \<Longrightarrow> m (w_primary w') = (r, s) \<Longrightarrow>
      P (w'\<lparr>w_primary := s\<rparr>) \<and> upholds P i good (w'\<lparr>w_primary := s\<rparr>) (k r)) \<Longrightarrow>
    upholds P i good w (ask_primary m k)"
  "(\<And>w' r s. others_run i w w' \<Longrightarrow> pair_ok w' \<Longrightarrow> P w' \<Longrightarrow> m (w_supabase w') = (r, s) \<Longrightarrow>
      P (w'\<lparr>w_supabase := s\<rparr>) \<and> upholds P i good (w'\<lparr>w_supabase := s\<rparr>) (k r)) \<Longrightarrow>
    upholds P i good w (ask_supabase m k)"
  unfolding ask_primary_def ask_supabase_def
  by (auto simp: others_run_def intro!: upholds.primary upholds.supabase split: prod.splits)

text \<open>A task whose commands keep \<open>P\<close>, whatever they return.\<close>

named_theorems keeping

lemma upholds_keeping [keeping]:
  "keeps_primary P m \<Longrightarrow> (\<And>v r. upholds P i good v (k r)) \<Longrightarrow> upholds P i good w (ask_primary m k)"
  "keeps_supabase P n \<Longrightarrow> (\<And>v r. upholds P i good v (k' r)) \<Longrightarrow> upholds P i good w (ask_supabase n k')"
  by (auto intro!: upholds_ask dest: keepsD)

lemma upholds_branches [keeping]:
  "(\<And>v x. upholds P i good v (f x)) \<Longrightarrow> (\<And>v y. upholds P i good v (g y)) \<Longrightarrow>
     upholds P i good w (case z of Inl x \<Rightarrow> f x | Inr y \<Rightarrow> g y)"
  "upholds P i good w t \<Longrightarrow> upholds P i good w t' \<Longrightarrow> upholds P i good w (if b then t else t')"
  "(\<And>e. good (Inl (h e))) \<Longrightarrow> (\<And>v a. upholds P i good v (k a)) \<Longrightarrow> upholds P i good w (or_answer h k r)"
  by (auto simp: or_answer_def intro: upholds.answered split: sum.split)

lemma upholds_any_answer [keeping]: "upholds P i (\<lambda>_. True) w (Answered r)"
  by (rule upholds.answered) simp

lemma other_routes_upheld:
  assumes "\<And>j subject. keeps_primary P (pending_upload j subject)"
    and "\<And>j subject. keeps_supabase P (pending_upload j subject)"
    and "\<And>j subject sha. keeps_primary P (verify_upload j subject sha)"
    and "\<And>j subject sha. keeps_supabase P (verify_upload j subject sha)"
    and "keeps_primary P ping" and "keeps_supabase P ping"
  shows "upholds P i (\<lambda>_. True) w (complete_task app upload_id h input)"
    and "upholds P i (\<lambda>_. True) w ready_task"
  unfolding complete_task_def ready_task_def Let_def by (intro keeping TrueI assms)+

section \<open>The protocol\<close>

context intake_command begin

lemma outcome_upheld:
  assumes failed: "\<And>e. good (Inl e)"
    and kept: "holds kind (id_of x) (ctx_idempotency_key ctx) (ctx_payload_sha256 ctx)
      (committed (w_primary w))"
    and mirrored: "\<And>y. m = Inr y \<Longrightarrow>
      holds kind (id_of y) (ctx_idempotency_key ctx) (ctx_payload_sha256 ctx) (committed (w_supabase w))"
    and mark: "\<And>v r s. pair_ok v \<Longrightarrow> P v \<Longrightarrow>
      in_both kind (id_of x) (ctx_idempotency_key ctx) (ctx_payload_sha256 ctx) v \<Longrightarrow>
      mark_mirrored kind (id_of x) (ctx_payload_sha256 ctx) (w_primary v) = (r, s) \<Longrightarrow>
      P (v\<lparr>w_primary := s\<rparr>)"
    and recorded: "keeps_primary P (record_mirror_failure kind (id_of x) (lit ''supabase_unavailable''))"
    and finish: "\<And>v. upholds P i good v (finish x)"
  shows "upholds P i good w (outcome_task kind id_of ctx finish x m)"
proof -
  have refused: "upholds P i good v (Answered (Inl e))" for v e
    by (rule upholds.answered) (rule failed)
  have "upholds P i good w (ask_primary (mark_mirrored kind (id_of x) (ctx_payload_sha256 ctx))
      (or_answer (unfinished (id_of x)) (\<lambda>_. finish x)))" if "mirrored_as id_of (id_of x) m"
  proof (rule upholds_ask(1))
    fix w' f u
    assume others: "others_run i w w'" and now: "pair_ok w'" "P w'"
      and run: "mark_mirrored kind (id_of x) (ctx_payload_sha256 ctx) (w_primary w') = (f, u)"
    from that obtain y where "m = Inr y" "id_of y = id_of x" by (cases m) (auto simp: mirrored_as_def)
    with kept mirrored have "in_both kind (id_of x) (ctx_idempotency_key ctx) (ctx_payload_sha256 ctx) w"
      by (auto simp: in_both_def)
    then have "in_both kind (id_of x) (ctx_idempotency_key ctx) (ctx_payload_sha256 ctx) w'"
      using others in_both_remembered by (auto simp: others_run_def)
    with mark [OF now _ run] show "P (w'\<lparr>w_primary := u\<rparr>) \<and>
        upholds P i good (w'\<lparr>w_primary := u\<rparr>) (or_answer (unfinished (id_of x)) (\<lambda>_. finish x) f)"
      by (auto simp: or_answer_def intro: refused finish split: sum.split)
  qed
  with refused recorded show ?thesis
    by (auto simp: outcome_task_def intro!: upholds_keeping(1) split del: if_split split: if_splits)
qed

lemma dual_upheld:
  assumes fresh: "fresh_id kind (ctx_canonical_id ctx) (committed (w_primary w))"
    and failed: "\<And>e. good (Inl e)"
    and store: "keeps_primary P (cmd Primary ctx)"
    and mirror: "\<And>i. keeps_supabase P (cmd SupabaseMirror (with_canonical_id ctx i))"
    and mark: "\<And>i v r s. pair_ok v \<Longrightarrow> P v \<Longrightarrow>
      in_both kind i (ctx_idempotency_key ctx) (ctx_payload_sha256 ctx) v \<Longrightarrow>
      mark_mirrored kind i (ctx_payload_sha256 ctx) (w_primary v) = (r, s) \<Longrightarrow> P (v\<lparr>w_primary := s\<rparr>)"
    and recorded: "\<And>i. keeps_primary P (record_mirror_failure kind i (lit ''supabase_unavailable''))"
    and finish: "\<And>v x. upholds P (ctx_canonical_id ctx) good v (finish x)"
  shows "upholds P (ctx_canonical_id ctx) good w (dual_task kind id_of cmd ctx finish)"
  unfolding dual_task_def
proof (rule upholds_ask(1))
  let ?i = "ctx_canonical_id ctx"
  fix w' r s
  assume others: "others_run ?i w w'" and ok: "pair_ok w'" and now: "P w'"
    and run: "cmd Primary ctx (w_primary w') = (r, s)"
  have unused: "fresh_id kind ?i (committed (w_primary w'))"
    using others fresh by (auto simp: others_run_def)
  note own = primary_own [OF run ok unused]
  have "upholds P ?i good (w'\<lparr>w_primary := s\<rparr>) (mirror_task kind id_of cmd ctx finish x)" if "r = Inr x" for x
    unfolding mirror_task_def
  proof (rule upholds_ask(2))
    fix v m t
    assume others: "others_run ?i (w'\<lparr>w_primary := s\<rparr>) v" and ok: "pair_ok v" and now: "P v"
      and run: "cmd SupabaseMirror (with_canonical_id ctx (id_of x)) (w_supabase v) = (m, t)"
    have con: "consistent (committed (w_primary v)) (committed (w_supabase v))"
      using ok by (simp add: pair_ok_def)
    have still: "holds kind (id_of x) (ctx_idempotency_key ctx) (ctx_payload_sha256 ctx)
        (committed (w_primary v))"
      using own(2) [OF that] others by (auto simp: others_run_def world_remembers_def intro: remembers_holds)
    note step = mirror_step [OF run con still]
    have "upholds P ?i good (v\<lparr>w_supabase := t\<rparr>) (outcome_task kind id_of ctx finish x m)"
      by (rule outcome_upheld) (use failed still step(3) mark recorded finish in auto)
    with keepsD(2) [OF mirror ok now run] show "P (v\<lparr>w_supabase := t\<rparr>) \<and>
        upholds P ?i good (v\<lparr>w_supabase := t\<rparr>) (outcome_task kind id_of ctx finish x m)" by blast
  qed
  with keepsD(1) [OF store ok now run] show "P (w'\<lparr>w_primary := s\<rparr>) \<and>
      upholds P ?i good (w'\<lparr>w_primary := s\<rparr>) (or_answer failure_of_data (mirror_task kind id_of cmd ctx finish) r)"
    by (auto simp: or_answer_def intro: upholds.answered failed split: sum.split)
qed

end

section \<open>Runs\<close>

definition upheld_state :: "(world \<Rightarrow> bool) \<Rightarrow> (log_entry \<Rightarrow> bool) \<Rightarrow> live_state \<Rightarrow> bool" where
  "upheld_state P good st \<longleftrightarrow> (case st of (w, tasks, hist) \<Rightarrow>
     P w \<and> (\<forall>e \<in> set hist. good e) \<and>
     (\<forall>ct \<in> set tasks. upholds P (ct_fresh ct) (\<lambda>r. good (entry_of ct r)) w (ct_task ct)))"

lemma upheld_stateD:
  assumes "upheld_state P good (w, tasks, hist)"
  shows "P w" and "e \<in> set hist \<Longrightarrow> good e"
    and "ct \<in> set tasks \<Longrightarrow> upholds P (ct_fresh ct) (\<lambda>r. good (entry_of ct r)) w (ct_task ct)"
  using assms by (auto simp: upheld_state_def)

text \<open>One request steps: by the safety of its step the others still uphold \<open>P\<close>.\<close>

lemma upheld_state_moves:
  assumes upheld: "upheld_state P good (w, front @ ct # rest, hist)"
    and apart: "ct_fresh ct \<notin> ct_fresh ` (set front \<union> set rest)"
    and own: "own_step (ct_fresh ct) w w'"
    and after: "P w' \<and> upholds P (ct_fresh ct) (\<lambda>r. good (entry_of ct r)) w' t"
  shows "upheld_state P good (w', front @ ct\<lparr>ct_task := t\<rparr> # rest, hist)"
proof -
  have "upholds P (ct_fresh other) (\<lambda>r. good (entry_of other r)) w' (ct_task other)"
    if "other \<in> set front \<union> set rest" for other
  proof -
    from apart that have "ct_fresh other \<noteq> ct_fresh ct" by (metis imageI)
    with own have "others_run (ct_fresh other) w w'" by (rule own_step_others)
    moreover have "upholds P (ct_fresh other) (\<lambda>r. good (entry_of other r)) w (ct_task other)"
      using upheld_stateD(3) [OF upheld] that by auto
    ultimately show ?thesis by (rule upholds_stable [rotated])
  qed
  with upheld after show ?thesis by (auto simp: upheld_state_def entry_of_def)
qed

lemma live_sound_at:
  assumes "live_sound (w, front @ ct # rest, hist)"
  shows "pair_ok w" and "ct_fresh ct \<notin> ct_fresh ` (set front \<union> set rest)"
    and "safe_task (ct_fresh ct) (sound_answer ct) w (ct_task ct)"
  using assms by (auto simp: live_sound_def log_sound_def)

lemma live_step_upheld:
  assumes step: "live_step actor st st'" and sound: "live_sound st" and upheld: "upheld_state P good st"
    and arrives: "\<And>w tasks hist app fresh h req. actor = Arrives \<Longrightarrow> P w \<Longrightarrow>
      st' = (w, tasks @ [client_task_of app fresh h req], hist) \<Longrightarrow>
      (\<And>kind. fresh_id kind fresh (committed (w_primary w))) \<Longrightarrow>
      upholds P fresh (\<lambda>r. good (entry_of (client_task_of app fresh h req) r)) w (task_of app fresh h req)"
    and surroundings: "\<And>w w'. actor = Surroundings \<Longrightarrow> fst st' = w' \<Longrightarrow> same_tables w w' \<Longrightarrow> P w \<Longrightarrow> P w'"
  shows "upheld_state P good st'"
  using step
proof (cases rule: live_step.cases)
  case (arrive fresh w tasks hist app h req)
  have now: "upheld_state P good (w, tasks, hist)" using upheld arrive(2) by simp
  from arrives [OF arrive(1) upheld_stateD(1) [OF now] arrive(3,4)] now arrive(3) show ?thesis
    by (auto simp: upheld_state_def)
next
  case (on_primary ct f w t s front rest hist)
  have now: "upheld_state P good (w, front @ ct # rest, hist)" using upheld on_primary(2) by simp
  note at = live_sound_at [OF sound [unfolded on_primary(2)], unfolded on_primary(4)]
  from at(3) others_run_refl [OF at(1)] on_primary(5)
  have own: "own_step (ct_fresh ct) w (w\<lparr>w_primary := s\<rparr>)" by (auto elim!: safe_primaryE)
  have "upholds P (ct_fresh ct) (\<lambda>r. good (entry_of ct r)) w (Ask_Primary f)"
    using upheld_stateD(3) [OF now, of ct] on_primary(4) by simp
  with others_run_refl [OF at(1)] upheld_stateD(1) [OF now] on_primary(5)
  have "P (w\<lparr>w_primary := s\<rparr>) \<and> upholds P (ct_fresh ct) (\<lambda>r. good (entry_of ct r)) (w\<lparr>w_primary := s\<rparr>) t"
    by (auto elim!: upholds_primaryE)
  from upheld_state_moves [OF now at(2) own this] show ?thesis by (simp add: on_primary(3))
next
  case (on_supabase ct f w t s front rest hist)
  have now: "upheld_state P good (w, front @ ct # rest, hist)" using upheld on_supabase(2) by simp
  note at = live_sound_at [OF sound [unfolded on_supabase(2)], unfolded on_supabase(4)]
  from at(3) others_run_refl [OF at(1)] on_supabase(5)
  have own: "own_step (ct_fresh ct) w (w\<lparr>w_supabase := s\<rparr>)" by (auto elim!: safe_supabaseE)
  have "upholds P (ct_fresh ct) (\<lambda>r. good (entry_of ct r)) w (Ask_Supabase f)"
    using upheld_stateD(3) [OF now, of ct] on_supabase(4) by simp
  with others_run_refl [OF at(1)] upheld_stateD(1) [OF now] on_supabase(5)
  have "P (w\<lparr>w_supabase := s\<rparr>) \<and> upholds P (ct_fresh ct) (\<lambda>r. good (entry_of ct r)) (w\<lparr>w_supabase := s\<rparr>) t"
    by (auto elim!: upholds_supabaseE)
  from upheld_state_moves [OF now at(2) own this] show ?thesis by (simp add: on_supabase(3))
next
  case (reply ct r w front rest hist)
  have now: "upheld_state P good (w, front @ ct # rest, hist)" using upheld reply(2) by simp
  have "good (entry_of ct r)"
    using upheld_stateD(3) [OF now, of ct] reply(4) by (auto elim: upholds_answeredE)
  with now reply(3) show ?thesis by (auto simp: upheld_state_def)
next
  case (dropped w front ct rest hist)
  with upheld show ?thesis by (auto simp: upheld_state_def)
next
  case (environment w w' tasks hist)
  have now: "upheld_state P good (w, tasks, hist)" using upheld environment(2) by simp
  have pair: "pair_ok w" using sound environment by (simp add: live_sound_def log_sound_def)
  have "P w'" by (rule surroundings [OF environment(1) _ environment(4) upheld_stateD(1) [OF now]])
      (simp add: environment(3))
  moreover have "upholds P (ct_fresh ct) (\<lambda>r. good (entry_of ct r)) w' (ct_task ct)" if "ct \<in> set tasks" for ct
    by (rule upholds_stable [OF upheld_stateD(3) [OF now that] others_run_same_tables [OF pair environment(4)]])
  ultimately show ?thesis using now environment(3) by (auto simp: upheld_state_def)
qed

end
