(* ===== verification/Calm_Runs.thy ===== *)
theory Calm_Runs imports Progress Upheld begin

text \<open>
  What concurrency alone can do to a submission: nothing. In runs whose network never fails and
  whose clients never use a key for another payload, every admitted notice, referral and upload
  intent gets its receipt, however many requests are under way and however their commands
  interleave. An application also needs its uploads, which expire, so it is not part of this.
\<close>

section \<open>Calm worlds\<close>

text \<open>\<open>bound kind key\<close> is the digest the clients use a key for.\<close>

type_synonym binding = "stored_submission_kind \<Rightarrow> str \<Rightarrow> str"

definition agreed :: "binding \<Rightarrow> store \<Rightarrow> bool" where
  "agreed bound st \<longleftrightarrow> (\<forall>kind i key digest. holds kind i key digest st \<longrightarrow> digest = bound kind key)"

definition calm_world :: "binding \<Rightarrow> world \<Rightarrow> bool" where
  "calm_world bound w \<longleftrightarrow> undisturbed w \<and> schema_stamps w \<and> agreed bound (committed (w_primary w))"

lemma calm_worldD:
  assumes "calm_world bound w"
  shows "answers (w_primary w) = []" and "answers (w_supabase w) = []"
    and "stamps_rows (schema_defaults (w_primary w) now)" "stamps_rows (schema_defaults (w_supabase w) now)"
    and "holds kind i key digest (committed (w_primary w)) \<Longrightarrow> digest = bound kind key"
  using assms by (auto simp: calm_world_def undisturbed_def schema_stamps_def agreed_def)

text \<open>A command leaves a calm world calm.\<close>

named_theorems settled

lemma same_identities_agreed:
  "(\<And>k. identities k st' = identities k st) \<Longrightarrow> agreed bound st \<Longrightarrow> agreed bound st'"
  by (simp add: agreed_def holds_identities_list)

lemma settled_updates [settled]:
  "keeps_primary (calm_world bound) (mark_mirrored kind j digest)"
  "keeps_primary (calm_world bound) (record_mirror_failure kind j code)"
proof -
  have sound: "primary_ok (committed (w_primary w))" if "pair_ok w" for w
    using that by (simp add: pair_ok_def consistent_def)
  show "keeps_primary (calm_world bound) (mark_mirrored kind j digest)"
    unfolding keeps_primary_def
  proof (intro allI impI)
    fix w r s
    assume ok: "pair_ok w" and calm: "calm_world bound w"
      and run: "mark_mirrored kind j digest (w_primary w) = (r, s)"
    from marking_keeps(2) [OF run sound [OF ok]] marking.undisturbed [OF calm_worldD(1) [OF calm] run] calm
    show "calm_world bound (w\<lparr>w_primary := s\<rparr>)"
      by (auto simp: calm_world_def undisturbed_def schema_stamps_def intro: same_identities_agreed)
  qed
  show "keeps_primary (calm_world bound) (record_mirror_failure kind j code)"
    unfolding keeps_primary_def
  proof (intro allI impI)
    fix w r s
    assume ok: "pair_ok w" and calm: "calm_world bound w"
      and run: "record_mirror_failure kind j code (w_primary w) = (r, s)"
    from recording_keeps(2) [OF run sound [OF ok]] recording.undisturbed [OF calm_worldD(1) [OF calm] run] calm
    show "calm_world bound (w\<lparr>w_primary := s\<rparr>)"
      by (auto simp: calm_world_def undisturbed_def schema_stamps_def intro: same_identities_agreed)
  qed
qed

lemma settled_reads [settled]:
  "keeps_primary (calm_world bound) (pending_upload j subject)"
  "keeps_supabase (calm_world bound) (pending_upload j subject)"
  "keeps_primary (calm_world bound) ping" "keeps_supabase (calm_world bound) ping"
  by (auto simp: keeps_primary_def keeps_supabase_def calm_world_def undisturbed_def schema_stamps_def
      pending_upload_frame dest: ping_frame pending.undisturbed(2) pinging.undisturbed(2))

lemma settled_verifying [settled]:
  "keeps_primary (calm_world bound) (verify_upload j subject sha)"
  "keeps_supabase (calm_world bound) (verify_upload j subject sha)"
  by (auto simp: keeps_primary_def keeps_supabase_def calm_world_def undisturbed_def schema_stamps_def
      verify_upload_effect(1) dest: verifying.undisturbed(2)
      intro: same_identities_agreed verify_upload_effect(2))

section \<open>The protocol in a calm run\<close>

context intake_command begin

lemma settled_command:
  assumes own: "ctx_payload_sha256 ctx = bound kind (ctx_idempotency_key ctx)"
  shows "keeps_primary (calm_world bound) (cmd target ctx)" and "keeps_supabase (calm_world bound) (cmd target ctx)"
proof -
  have keeps: "agreed bound (committed t)"
    if "cmd target ctx s = (r, t)" "wf_rows (committed s)" "agreed bound (committed s)" for s r t
    using that(1,2)
  proof (rule effect)
    fix now assume "appended kind target ctx (schema_defaults s now) (committed s) (committed t)"
    with that(3) own show ?thesis
      by (auto simp: agreed_def appended_def holds_identities_list split: if_splits)
  qed (use that(3) in simp)
  show "keeps_primary (calm_world bound) (cmd target ctx)"
    unfolding keeps_primary_def
  proof (intro allI impI)
    fix w r s
    assume ok: "pair_ok w" and calm: "calm_world bound w" and run: "cmd target ctx (w_primary w) = (r, s)"
    have "wf_rows (committed (w_primary w))" using ok consistent_wf by (auto simp: pair_ok_def)
    from keeps [OF run this] stored.undisturbed [OF calm_worldD(1) [OF calm] run] calm
    show "calm_world bound (w\<lparr>w_primary := s\<rparr>)"
      by (auto simp: calm_world_def undisturbed_def schema_stamps_def)
  qed
  show "keeps_supabase (calm_world bound) (cmd target ctx)"
    unfolding keeps_supabase_def
  proof (intro allI impI)
    fix w r s
    assume calm: "calm_world bound w" and run: "cmd target ctx (w_supabase w) = (r, s)"
    from stored.undisturbed(2,4) [OF calm_worldD(2) [OF calm] run] calm
    show "calm_world bound (w\<lparr>w_supabase := s\<rparr>)"
      by (simp add: calm_world_def undisturbed_def schema_stamps_def)
  qed
qed

lemma calm_dual:
  assumes own: "ctx_payload_sha256 ctx = bound kind (ctx_idempotency_key ctx)"
    and fresh: "fresh_id kind (ctx_canonical_id ctx) (committed (w_primary w))"
    and finish: "\<And>v x. upholds (calm_world bound) (ctx_canonical_id ctx) (\<lambda>_. True) v (finish x)"
  shows "upholds (calm_world bound) (ctx_canonical_id ctx) (\<lambda>_. True) w (dual_task kind id_of cmd ctx finish)"
proof (rule dual_upheld [OF fresh])
  show "keeps_supabase (calm_world bound) (cmd SupabaseMirror (with_canonical_id ctx i))" for i
    by (rule settled_command) (simp add: own)
  show "calm_world bound (v\<lparr>w_primary := s\<rparr>)"
    if "pair_ok v" "calm_world bound v" "mark_mirrored kind i (ctx_payload_sha256 ctx) (w_primary v) = (r, s)"
    for i v r s
    by (rule keepsD(1) [OF settled_updates(1) that])
qed (simp_all add: settled_updates settled_command own finish)

text \<open>The steps of the protocol succeed one by one; \<open>plan\<close> accepts the input at all times.\<close>

lemma mark_served:
  assumes held: "holds kind i key digest (committed (w_primary w))"
    and finish: "\<And>w'. upholds (calm_world bound) j good w' t"
  shows "upholds (calm_world bound) j good w (ask_primary (mark_mirrored kind i digest) (or_answer g (\<lambda>_. t)))"
proof (rule upholds_ask(1))
  fix w' r s
  assume others: "others_run j w w'" and ok: "pair_ok w'" and calm: "calm_world bound w'"
    and run: "mark_mirrored kind i digest (w_primary w') = (r, s)"
  have "primary_ok (committed (w_primary w'))"
    using others by (simp add: others_run_def pair_ok_def consistent_def)
  moreover have "holds kind i key digest (committed (w_primary w'))"
    using held others by (auto simp: others_run_def world_remembers_def intro: remembers_holds)
  ultimately obtain u where "mark_mirrored kind i digest (w_primary w') = (Inr (), u)"
    by (rule quiet_mark [OF calm_worldD(1) [OF calm]])
  with run have "r = Inr ()" by simp
  with finish keepsD(1) [OF settled_updates(1) ok calm run] show "calm_world bound (w'\<lparr>w_primary := s\<rparr>) \<and>
      upholds (calm_world bound) j good (w'\<lparr>w_primary := s\<rparr>) (or_answer g (\<lambda>_. t) r)"
    by (simp add: or_answer_def)
qed

lemma mirror_served:
  assumes plan: "\<And>i now st d. (\<And>now. stamps_rows (d now)) \<Longrightarrow>
      \<exists>cvs. plan SupabaseMirror (with_canonical_id ctx i) now st = Inr cvs \<and>
        readable kind (set_cols cvs (d now (table_name kind)))"
    and own: "ctx_payload_sha256 ctx = bound kind (ctx_idempotency_key ctx)"
    and held: "holds kind (id_of x) (ctx_idempotency_key ctx) (ctx_payload_sha256 ctx)
      (committed (w_primary w))"
    and finish: "\<And>w'. upholds (calm_world bound) j good w' (finish x)"
  shows "upholds (calm_world bound) j good w (mirror_task kind id_of cmd ctx finish x)"
  unfolding mirror_task_def
proof (rule upholds_ask(2))
  let ?key = "ctx_idempotency_key ctx" and ?digest = "ctx_payload_sha256 ctx"
  fix w' m t
  assume others: "others_run j w w'" and ok: "pair_ok w'" and calm: "calm_world bound w'"
    and run: "cmd SupabaseMirror (with_canonical_id ctx (id_of x)) (w_supabase w') = (m, t)"
  have con: "consistent (committed (w_primary w')) (committed (w_supabase w'))"
    using others by (simp add: others_run_def pair_ok_def)
  have still: "holds kind (id_of x) ?key ?digest (committed (w_primary w'))"
    using held others by (auto simp: others_run_def world_remembers_def intro: remembers_holds)
  have within: "i = id_of x \<and> digest = ?digest"
    if "holds kind i ?key digest (committed (w_supabase w'))" for i digest
  proof -
    from that con have "holds kind i ?key digest (committed (w_primary w'))"
      by (auto simp: consistent_def mirror_within_def holds_identities_list)
    with still consistent_wf(1) [OF con] key_determines show ?thesis by metis
  qed
  obtain cvs where p: "plan SupabaseMirror (with_canonical_id ctx (id_of x)) (clock (w_supabase w'))
        (committed (w_supabase w')) = Inr cvs"
      "readable kind (set_cols cvs
        (schema_defaults (w_supabase w') (clock (w_supabase w')) (table_name kind)))"
    using plan calm_worldD(4) [OF calm] by blast
  have "store_ok (committed (w_supabase w'))" using consistent_wf(2) [OF con] by simp
  from quiet_store [OF calm_worldD(2) [OF calm] this p, unfolded with_canonical_id_simps] within
  obtain y u where y: "cmd SupabaseMirror (with_canonical_id ctx (id_of x)) (w_supabase w') = (Inr y, u)"
      "\<forall>i digest. holds kind i ?key digest (committed (w_supabase w')) \<longrightarrow> id_of y = i"
      "(\<nexists>i digest. holds kind i ?key digest (committed (w_supabase w'))) \<longrightarrow> id_of y = id_of x"
    by meson
  then have y1: "m = Inr y" using run by simp
  have "id_of y = id_of x"
  proof (cases "\<exists>i digest. holds kind i ?key digest (committed (w_supabase w'))")
    case True
    with y(2) within show ?thesis by metis
  qed (use y(3) in blast)
  then have good: "m \<noteq> Inl Panicked" "mirrored_as id_of (id_of x) m"
    by (simp_all add: y1 mirrored_as_def)
  have "upholds (calm_world bound) j good (w'\<lparr>w_supabase := t\<rparr>) (ask_primary (mark_mirrored kind (id_of x) ?digest)
      (or_answer (unfinished (id_of x)) (\<lambda>_. finish x)))"
    by (rule mark_served [where key = ?key]) (simp_all add: still finish)
  moreover have "keeps_supabase (calm_world bound) (cmd SupabaseMirror (with_canonical_id ctx (id_of x)))"
    by (rule settled_command) (simp add: own)
  from keepsD(2) [OF this ok calm run] have "calm_world bound (w'\<lparr>w_supabase := t\<rparr>)" .
  ultimately show "calm_world bound (w'\<lparr>w_supabase := t\<rparr>) \<and>
      upholds (calm_world bound) j good (w'\<lparr>w_supabase := t\<rparr>) (outcome_task kind id_of ctx finish x m)"
    using good by (simp add: outcome_task_def)
qed

lemma dual_served:
  assumes plan: "\<And>target i now st d. (\<And>now. stamps_rows (d now)) \<Longrightarrow>
      \<exists>cvs. plan target (with_canonical_id ctx i) now st = Inr cvs \<and>
        readable kind (set_cols cvs (d now (table_name kind)))"
    and own: "ctx_payload_sha256 ctx = bound kind (ctx_idempotency_key ctx)"
    and fresh: "fresh_id kind (ctx_canonical_id ctx) (committed (w_primary w))"
    and finish: "\<And>x w'. upholds (calm_world bound) (ctx_canonical_id ctx) good w' (finish x)"
  shows "upholds (calm_world bound) (ctx_canonical_id ctx) good w (dual_task kind id_of cmd ctx finish)"
  unfolding dual_task_def
proof (rule upholds_ask(1))
  let ?i = "ctx_canonical_id ctx"
  fix w' r s
  assume others: "others_run ?i w w'" and ok: "pair_ok w'" and calm: "calm_world bound w'"
    and run: "cmd Primary ctx (w_primary w') = (r, s)"
  have unused: "fresh_id kind ?i (committed (w_primary w'))"
    using others fresh by (auto simp: others_run_def)
  have same: "with_canonical_id ctx ?i = ctx" by (simp add: with_canonical_id_def)
  obtain cvs where p: "plan Primary ctx (clock (w_primary w')) (committed (w_primary w')) = Inr cvs"
      "readable kind (set_cols cvs (schema_defaults (w_primary w') (clock (w_primary w')) (table_name kind)))"
    using plan [of "schema_defaults (w_primary w')" Primary ?i, unfolded same] calm_worldD(3) [OF calm] by blast
  have "store_ok (committed (w_primary w'))"
    using ok consistent_wf(1) by (auto simp: pair_ok_def)
  from quiet_store [OF calm_worldD(1) [OF calm] this p] calm_worldD(5) [OF calm] own run
  obtain x where x: "r = Inr x" by auto
  have "upholds (calm_world bound) ?i good (w'\<lparr>w_primary := s\<rparr>) (mirror_task kind id_of cmd ctx finish x)"
  proof (rule mirror_served)
    show "\<exists>cvs. plan SupabaseMirror (with_canonical_id ctx i) now st = Inr cvs \<and>
        readable kind (set_cols cvs (d now (table_name kind)))"
      if "\<And>now. stamps_rows (d now)" for i now st d
      by (rule plan) (rule that)
  qed (use primary_own(2) [OF run ok unused x] finish own in auto)
  with keepsD(1) [OF settled_command(1) [where bound = bound and ctx = ctx, OF own] ok calm run]
  show "calm_world bound (w'\<lparr>w_primary := s\<rparr>) \<and> upholds (calm_world bound) ?i good (w'\<lparr>w_primary := s\<rparr>)
      (or_answer failure_of_data (mirror_task kind id_of cmd ctx finish) r)"
    by (simp add: x or_answer_def)
qed

end

section \<open>Requests in a calm run\<close>

text \<open>A client keeps to the binding when its key is used for this payload only.\<close>

definition keeps_to :: "binding \<Rightarrow> app_state \<Rightarrow> header_map \<Rightarrow> request \<Rightarrow> bool" where
  "keeps_to bound app h req \<longleftrightarrow> (\<forall>kind key digest. kind_of req = Some kind \<longrightarrow>
     h ''idempotency-key'' = Some (HText key) \<longrightarrow> request_digest (app_services app) req = Inr digest \<longrightarrow>
     digest = bound kind key)"

lemma keeps_to_admitted:
  assumes "keeps_to bound app h req" and "admission app fresh h req = Inr ctx" and "kind_of req = Some kind"
  shows "ctx_payload_sha256 ctx = bound kind (ctx_idempotency_key ctx)"
  using assms(1,3) admission_Inr(3,4) [OF assms(2)] by (auto simp: keeps_to_def)

context intake_command begin

lemma calm_admitted:
  assumes keeps: "keeps_to bound app h req" and kind: "kind_of req = Some kind"
    and fresh: "fresh_id kind i (committed (w_primary w))"
    and finish: "\<And>v x. upholds (calm_world bound) i (\<lambda>_. True) v (finish x)"
  shows "upholds (calm_world bound) i (\<lambda>_. True) w
    (admitted_task (admission app i h req) (\<lambda>ctx. dual_task kind id_of cmd ctx finish))"
proof (cases "admission app i h req")
  case (Inl f)
  then show ?thesis by (simp add: admitted_task_def upholds_any_answer)
next
  case (Inr ctx)
  have own: "ctx_payload_sha256 ctx = bound kind (ctx_idempotency_key ctx)"
    by (rule keeps_to_admitted [OF keeps Inr kind])
  have id: "ctx_canonical_id ctx = i" by (rule admission_Inr(2) [OF Inr])
  have "upholds (calm_world bound) (ctx_canonical_id ctx) (\<lambda>_. True) w (dual_task kind id_of cmd ctx finish)"
    by (rule calm_dual [where bound = bound and ctx = ctx, OF own]) (simp_all add: id fresh finish)
  with id Inr show ?thesis by (simp add: admitted_task_def)
qed

end

lemma task_of_calm:
  assumes own: "keeps_to bound app h req" and fresh: "\<And>kind. fresh_id kind fresh (committed (w_primary w))"
  shows "upholds (calm_world bound) fresh (\<lambda>_. True) w (task_of app fresh h req)"
proof (cases "kind_of req")
  case None
  then show ?thesis
    using other_routes_upheld [of "calm_world bound"] settled by (cases req) (auto intro: upholds_any_answer)
next
  case (Some kind)
  show ?thesis
  proof (cases req)
    case (PreInterestRequest input)
    show ?thesis using own unfolding PreInterestRequest task_of.simps
      by (rule pre_interests.calm_admitted [OF _ _ fresh upholds_any_answer]) simp
  next
    case (UploadRequest input)
    show ?thesis using own unfolding UploadRequest task_of.simps su_id_view store_intent_fun
      by (rule uploads.calm_admitted [OF _ _ fresh upholds_any_answer]) simp
  next
    case (ApplicationRequest input)
    show ?thesis using own unfolding ApplicationRequest task_of.simps
      by (rule applications.calm_admitted [OF _ _ fresh upholds_any_answer]) simp
  next
    case (ReferralRequest input)
    show ?thesis using own unfolding ReferralRequest task_of.simps
      by (rule referrals.calm_admitted [OF _ _ fresh upholds_any_answer]) simp
  qed (use Some in simp_all)
qed

text \<open>The identifier a request draws has no part in its admission.\<close>

lemma context_fresh:
  "context_new i subject key digest host = Inr ctx \<Longrightarrow>
     context_new j subject key digest host = Inr (with_canonical_id ctx j)"
  by (auto simp: context_new_def with_canonical_id_def Let_def split: if_splits)

lemma admission_fresh:
  assumes "admission app i h req = Inr ctx"
  shows "admission app j h req = Inr (with_canonical_id ctx j)"
  using assms
  by (cases req) (auto simp: admit_public_def admit_referral_def submission_context_for_def Let_def
      context_public_def context_authenticated_def bindR_Inr_iff map_err_Inr_iff context_fresh
      split: option.splits)

text \<open>What a calm run owes a request: an application may still lack its uploads, an upload intent its
  address.\<close>

definition well_answered :: "app_state \<Rightarrow> header_map \<Rightarrow> request \<Rightarrow> api_error + response \<Rightarrow> bool" where
  "well_answered app h req r \<longleftrightarrow> (\<forall>kind i ctx w. kind_of req = Some kind \<longrightarrow> kind \<noteq> Application \<longrightarrow>
     admission app i h req = Inr ctx \<longrightarrow> prerequisites req ctx w \<longrightarrow>
     (\<exists>resp. r = Inr resp) \<or> kind = Upload \<and> r = Inl (Failed (failure_of_external Unavailable)))"

lemma sign_answer_cases:
  "(\<exists>resp. sign_answer app input x = Inr resp) \<or>
   sign_answer app input x = Inl (Failed (failure_of_external Unavailable))"
  by (cases "create_signed_upload_url (sv_url_lib (app_services app)) (sv_sign (app_services app))
      (sv_decode_signed (app_services app)) (app_storage app) (su_object_key x)")
    (use create_signed_upload_url_Inl in \<open>fastforce simp: sign_answer_def Let_def bindR_def map_err_def\<close>)+

lemma task_of_served:
  assumes own: "keeps_to bound app h req" and fresh: "\<And>kind. fresh_id kind fresh (committed (w_primary w))"
  shows "upholds (calm_world bound) fresh (well_answered app h req) w (task_of app fresh h req)"
proof (cases "\<exists>kind ctx. kind_of req = Some kind \<and> kind \<noteq> Application \<and>
    admission app fresh h req = Inr ctx \<and> prerequisites req ctx w")
  case False
  have "well_answered app h req r" for r
    unfolding well_answered_def
  proof (intro allI impI)
    fix kind i ctx v
    assume kind: "kind_of req = Some kind" "kind \<noteq> Application" and "admission app i h req = Inr ctx"
      and "prerequisites req ctx v"
    from admission_fresh [OF this(3), of fresh] this(4) kind False show "(\<exists>resp. r = Inr resp) \<or>
        kind = Upload \<and> r = Inl (Failed (failure_of_external Unavailable))"
      by (cases req) auto
  qed
  then show ?thesis by (rule upholds_mono [OF task_of_calm [OF own fresh]])
next
  case True
  then obtain kind ctx where kind: "kind_of req = Some kind" "kind \<noteq> Application"
    and adm: "admission app fresh h req = Inr ctx" and pre: "prerequisites req ctx w" by blast
  note payload = keeps_to_admitted [OF own adm kind(1)]
  have id: "ctx_canonical_id ctx = fresh" by (rule admission_Inr(2) [OF adm])
  have receipt: "upholds (calm_world bound) fresh (well_answered app h req) v (Answered (Inr resp))" for v resp
    by (rule upholds.answered) (simp add: well_answered_def)
  show ?thesis
  proof (cases req)
    case (PreInterestRequest input)
    have v: "pre_interest_validate (sv_contract (app_services app)) input = Inr ()"
      using adm PreInterestRequest by (auto dest: admit_public_Inr)
    have "upholds (calm_world bound) (ctx_canonical_id ctx) (well_answered app h req) w
      (dual_task PreInterest ss_id
       (\<lambda>target ctx. store_pre_interest (sv_contract (app_services app)) target ctx input) ctx
       (\<lambda>x. Answered (Inr (Created (receipt_of PreInterest x)))))"
      by (rule pre_interests.dual_served)
        (use plan_pre_interest_ok [OF v] payload kind fresh receipt id PreInterestRequest in auto)
    with PreInterestRequest adm id show ?thesis by (simp add: admitted_task_def)
  next
    case (ReferralRequest input)
    then obtain s where v: "referral_validate (sv_contract (app_services app)) input = Inr ()"
        "ctx_subject ctx = Some s"
      using adm by (auto dest: admit_referral_Inr)
    have "upholds (calm_world bound) (ctx_canonical_id ctx) (well_answered app h req) w
      (dual_task Referral ss_id
       (\<lambda>target ctx. store_referral (sv_contract (app_services app)) target ctx input) ctx
       (\<lambda>x. Answered (Inr (Created (receipt_of Referral x)))))"
      by (rule referrals.dual_served)
        (use plan_referral_ok [OF v(1)] v(2) payload kind fresh receipt id ReferralRequest in auto)
    with ReferralRequest adm id show ?thesis by (simp add: admitted_task_def)
  next
    case (UploadRequest input)
    have v: "upload_intent_validate (sv_contract (app_services app)) input = Inr ()"
        "i64_of_u64 (ui_size_bytes input) \<noteq> None" "byte_prefix 16 (ui_sha256 input) \<noteq> None"
      using adm pre UploadRequest by (auto dest: admit_public_Inr)
    have signed: "upholds (calm_world bound) fresh (well_answered app h req) v (Answered (sign_answer app input x))" for v x
      by (rule upholds.answered) (use sign_answer_cases [of app input x] UploadRequest in
        \<open>auto simp: well_answered_def\<close>)
    have "upholds (calm_world bound) (ctx_canonical_id ctx) (well_answered app h req) w
      (dual_task Upload su_id (store_intent (app_services app) input) ctx
       (\<lambda>x. Answered (sign_answer app input x)))"
      unfolding su_id_view store_intent_fun
      by (rule uploads.dual_served)
        (use plan_upload_ok [OF v] payload kind fresh signed id UploadRequest in auto)
    with UploadRequest adm id show ?thesis by (simp add: admitted_task_def)
  qed (use kind in simp_all)
qed

section \<open>Calm runs\<close>

text \<open>Nothing around the databases disturbs them, and new clients keep to the binding. Requests may
  still be dropped, and time may pass.\<close>

definition orderly :: "binding \<Rightarrow> actor \<Rightarrow> live_state \<Rightarrow> bool" where
  "orderly bound actor st \<longleftrightarrow> (case st of (w, tasks, hist) \<Rightarrow>
     (actor = Surroundings \<longrightarrow> undisturbed w) \<and>
     (actor = Arrives \<longrightarrow> (\<forall>ct \<in> set tasks. keeps_to bound (ct_app ct) (ct_headers ct) (ct_request ct))))"

lemma orderly_otherwise: "actor \<noteq> Surroundings \<Longrightarrow> actor \<noteq> Arrives \<Longrightarrow> orderly bound actor st"
  by (simp add: orderly_def split: prod.split)

inductive calm_run :: "binding \<Rightarrow> world \<Rightarrow> live_state \<Rightarrow> bool" for bound w0 where
  start: "calm_run bound w0 (w0, [], [])"
| step: "calm_run bound w0 st \<Longrightarrow> live_step actor st st' \<Longrightarrow> orderly bound actor st' \<Longrightarrow> calm_run bound w0 st'"

lemma calm_run_reachable: "calm_run bound w0 st \<Longrightarrow> live_reachable w0 st"
  by (induction rule: calm_run.induct) (auto intro: live_reachable.intros)

definition good_entry :: "log_entry \<Rightarrow> bool" where
  "good_entry e \<longleftrightarrow> well_answered (le_app e) (le_headers e) (le_request e) (le_result e)"

lemma calm_environment:
  assumes "same_tables w w'" and "undisturbed w'" and "calm_world bound w"
  shows "calm_world bound w'"
  using assms by (simp add: same_tables_def calm_world_def schema_stamps_def)

lemma calm_run_state:
  assumes "calm_run bound w0 st" and "pair_ok w0" and "calm_world bound w0"
  shows "upheld_state (calm_world bound) good_entry st"
  using assms(1)
proof (induction rule: calm_run.induct)
  case start
  with assms(3) show ?case by (simp add: upheld_state_def)
next
  case (step st actor st')
  have "live_sound st" by (rule live_reachable_sound [OF calm_run_reachable [OF step(1)] assms(2)])
  with step(2) show ?case
  proof (rule live_step_upheld [OF _ _ step(4)])
    fix w tasks hist app fresh h req
    assume "actor = Arrives" and st': "st' = (w, tasks @ [client_task_of app fresh h req], hist)"
      and fresh: "\<And>kind. fresh_id kind fresh (committed (w_primary w))"
    then have "keeps_to bound app h req" using step(3) by (simp add: orderly_def)
    from task_of_served [OF this fresh]
    show "upholds (calm_world bound) fresh (\<lambda>r. good_entry (entry_of (client_task_of app fresh h req) r)) w
        (task_of app fresh h req)" by (simp add: good_entry_def entry_of_def)
  next
    fix w w'
    assume "actor = Surroundings" and "fst st' = w'" and "same_tables w w'" and "calm_world bound w"
    with step(3) calm_environment show "calm_world bound w'" by (auto simp: orderly_def)
  qed
qed

text \<open>The service's own work keeps a calm run calm.\<close>

lemma calm_run_works:
  assumes "live_run st own st'" and "calm_run bound w0 st" and "set own \<subseteq> {Works}"
  shows "calm_run bound w0 st'"
  using assms
proof (induction rule: live_run.induct)
  case (more actors st1 actor st2)
  then have "calm_run bound w0 st1" "actor = Works" by simp_all
  with more(2) show ?case by (auto intro: calm_run.step orderly_otherwise)
qed simp

end
