(* ===== verification/Marks.thy ===== *)
theory Marks imports Upheld begin

text \<open>
  The mirrored mark is true. Whatever the primary's outbox carries as mirrored, both databases
  hold, at every moment of every interleaved run: no order of the commands of several requests,
  no dropped request and no mood of the network lets a mark get ahead of the mirror.
\<close>

section \<open>True marks\<close>

definition outbox_mirrored :: "stored_submission_kind \<Rightarrow> uuid \<Rightarrow> str \<Rightarrow> store \<Rightarrow> bool" where
  "outbox_mirrored kind i digest st \<longleftrightarrow> (\<exists>e \<in> set (st Hhm_submission_outbox).
     e (Ob C_submission_kind) = SText (database_value kind) \<and> e (Ob C_submission_id) = SUuid i \<and>
     e C_payload_sha256 = SText digest \<and> e C_mirror_status = SText (lit ''mirrored''))"

lemma marked_outbox: "marked kind i digest st \<Longrightarrow> outbox_mirrored kind i digest st"
  by (auto simp: marked_def outbox_mirrored_def)

text \<open>The schema gives no new entry the mark.\<close>

definition marks_true :: "world \<Rightarrow> bool" where
  "marks_true w \<longleftrightarrow>
     (\<forall>kind i digest. outbox_mirrored kind i digest (committed (w_primary w)) \<longrightarrow>
        (\<exists>key. in_both kind i key digest w)) \<and>
     (\<forall>now. schema_defaults (w_primary w) now Hhm_submission_outbox C_mirror_status
        \<noteq> SText (lit ''mirrored''))"

lemma marks_true_primary:
  assumes "marks_true w" and "remembers (committed (w_primary w)) (committed s)"
    and "schema_defaults s = schema_defaults (w_primary w)"
    and "\<And>kind i digest. outbox_mirrored kind i digest (committed s) \<Longrightarrow>
      outbox_mirrored kind i digest (committed (w_primary w)) \<or> (\<exists>key. in_both kind i key digest w)"
  shows "marks_true (w\<lparr>w_primary := s\<rparr>)"
proof -
  have "in_both kind i key digest (w\<lparr>w_primary := s\<rparr>)" if "in_both kind i key digest w" for kind i key digest
    using that by (rule in_both_remembered) (simp add: world_remembers_def assms(2) remembers_refl)
  with assms(1,3,4) show ?thesis by (simp add: marks_true_def) blast
qed

lemma marks_true_supabase:
  assumes "marks_true w" and "remembers (committed (w_supabase w)) (committed s)"
  shows "marks_true (w\<lparr>w_supabase := s\<rparr>)"
proof -
  have "in_both kind i key digest (w\<lparr>w_supabase := s\<rparr>)" if "in_both kind i key digest w" for kind i key digest
    using that by (rule in_both_remembered) (simp add: world_remembers_def assms(2) remembers_refl)
  with assms(1) show ?thesis by (simp add: marks_true_def) blast
qed

section \<open>What the commands do to marks\<close>

named_theorems honest

lemma same_outbox:
  "st' Hhm_submission_outbox = st Hhm_submission_outbox \<Longrightarrow>
     outbox_mirrored kind i digest st' = outbox_mirrored kind i digest st"
  by (simp add: outbox_mirrored_def)

lemma updated_outbox:
  assumes "outbox_mirrored kind i digest (update_table Hhm_submission_outbox q g st)"
  shows "outbox_mirrored kind i digest st \<or> (\<exists>e. q e \<and> (g e) (Ob C_submission_kind) = SText (database_value kind) \<and>
    (g e) (Ob C_submission_id) = SUuid i \<and> (g e) C_payload_sha256 = SText digest \<and>
    (g e) C_mirror_status = SText (lit ''mirrored''))"
  using assms by (fastforce simp: outbox_mirrored_def update_table_def split: if_splits)

lemma two_updates_outbox:
  assumes "outbox_mirrored kind i digest (snd (two_updates k p f q g st))"
  shows "outbox_mirrored kind i digest st \<or> (\<exists>e. q e \<and> (g e) (Ob C_submission_kind) = SText (database_value kind) \<and>
    (g e) (Ob C_submission_id) = SUuid i \<and> (g e) C_payload_sha256 = SText digest \<and>
    (g e) C_mirror_status = SText (lit ''mirrored''))"
proof (cases "snd (two_updates k p f q g st) = st")
  case False
  then have "snd (two_updates k p f q g st) = update_table Hhm_submission_outbox q g
      (if k = Upload then st else update_table (table_name k) p f st)"
    by (auto simp: two_updates_def split: if_splits)
  moreover have "outbox_mirrored kind i digest (if k = Upload then st else update_table (table_name k) p f st)
      = outbox_mirrored kind i digest st"
    by (rule same_outbox) (cases k; simp add: update_table_def)
  ultimately show ?thesis using assms updated_outbox by metis
qed (use assms in simp)

lemma marking_outbox:
  assumes "mark_mirrored k j payload s = (r, t)" and "outbox_mirrored kind i digest (committed t)"
  shows "outbox_mirrored kind i digest (committed s) \<or> kind = k \<and> i = j \<and> digest = payload"
proof -
  have kinds: "database_value kind = database_value k \<Longrightarrow> kind = k" by (cases kind; cases k) simp_all
  from marking.all_or_nothing [OF assms(1)] obtain now where "committed t = committed s \<or>
      committed t = snd (mark_mirrored_spec k j payload now (schema_defaults s now) (committed s))"
    by blast
  with assms(2) consider "outbox_mirrored kind i digest (committed s)"
    | e where "outbox_entry k j now e" "e C_payload_sha256 = SText payload"
        "e (Ob C_submission_kind) = SText (database_value kind)" "e (Ob C_submission_id) = SUuid i"
        "e C_payload_sha256 = SText digest"
    unfolding mark_mirrored_spec_def by (auto dest!: two_updates_outbox simp: sql_eq_def)
  then show ?thesis
  proof cases
    case (2 e)
    then have "database_value kind = database_value k" "i = j" "digest = payload"
      by (auto simp: outbox_entry_def sql_eq_def)
    with kinds show ?thesis by blast
  qed blast
qed

lemma recording_outbox:
  assumes "record_mirror_failure k j code s = (r, t)" and "outbox_mirrored kind i digest (committed t)"
  shows "outbox_mirrored kind i digest (committed s)"
proof -
  have status: "record_attempt code now e C_mirror_status \<noteq> SText (lit ''mirrored'')"
    if "attempts_below (e (Ob C_attempts)) 100" for now e
    using that by (cases "e (Ob C_attempts)") (simp_all add: record_attempt_def)
  from recording.all_or_nothing [OF assms(1)] obtain now where "committed t = committed s \<or>
      committed t = snd (record_failure_spec k j code now (schema_defaults s now) (committed s))"
    by blast
  with assms(2) status show ?thesis
    by (auto simp: record_failure_spec_def dest!: two_updates_outbox split: if_splits)
qed

lemma verifying_outbox:
  assumes "verify_upload j subject sha s = (r, t)"
  shows "outbox_mirrored kind i digest (committed t) = outbox_mirrored kind i digest (committed s)"
proof -
  from verifying.all_or_nothing [OF assms] obtain now where "committed t = committed s \<or>
      committed t = snd (verify_upload_spec j subject sha now (schema_defaults s now) (committed s))"
    by blast
  then have "committed t Hhm_submission_outbox = committed s Hhm_submission_outbox"
    by (auto simp: verify_upload_spec_def update_table_def split: if_splits)
  then show ?thesis by (rule same_outbox)
qed

lemma same_identities_remembers: "(\<And>k. identities k st' = identities k st) \<Longrightarrow> remembers st st'"
  by (simp add: remembers_def)

lemma pair_sound: "pair_ok w \<Longrightarrow> primary_ok (committed (w_primary w))"
  by (simp add: pair_ok_def consistent_def)

lemma honest_commands [honest]:
  "keeps_primary marks_true (record_mirror_failure kind j code)"
  "keeps_primary marks_true (pending_upload j subject)" "keeps_supabase marks_true (pending_upload j subject)"
  "keeps_primary marks_true ping" "keeps_supabase marks_true ping"
  "keeps_primary marks_true (verify_upload j subject sha)"
  "keeps_supabase marks_true (verify_upload j subject sha)"
  by (auto simp: keeps_primary_def keeps_supabase_def pending_upload_frame verifying_outbox
      verify_upload_effect(1) pair_sound
      intro!: marks_true_primary marks_true_supabase same_identities_remembers
      dest: ping_frame recording_outbox recording_keeps(2) recording.frame(1) verify_upload_effect(2))

lemma marking_honest:
  assumes "pair_ok w" and "marks_true w" and "in_both kind j key payload w"
    and run: "mark_mirrored kind j payload (w_primary w) = (r, s)"
  shows "marks_true (w\<lparr>w_primary := s\<rparr>)"
proof (rule marks_true_primary [OF assms(2)])
  show "remembers (committed (w_primary w)) (committed s)"
    using marking_keeps(2) [OF run pair_sound [OF assms(1)]] by (rule same_identities_remembers)
  show "schema_defaults s = schema_defaults (w_primary w)" by (rule marking.frame(1) [OF run])
qed (use marking_outbox [OF run] assms(3) in blast)

section \<open>Every request keeps the marks true\<close>

context intake_command begin

lemma store_honest: "keeps_primary marks_true (cmd Primary ctx)"
  unfolding keeps_primary_def
proof (intro allI impI)
  fix w r s
  assume ok: "pair_ok w" and true: "marks_true w" and run: "cmd Primary ctx (w_primary w) = (r, s)"
  have wf: "wf_rows (committed (w_primary w))" using ok consistent_wf(1) by (auto simp: pair_ok_def)
  show "marks_true (w\<lparr>w_primary := s\<rparr>)"
  proof (rule marks_true_primary [OF true])
    show "remembers (committed (w_primary w)) (committed s)" by (rule effect_remembers [OF run wf])
    show "schema_defaults s = schema_defaults (w_primary w)" by (rule stored.frame(1) [OF run])
    fix k i digest assume mark: "outbox_mirrored k i digest (committed s)"
    from run wf have "outbox_mirrored k i digest (committed (w_primary w))"
    proof (rule effect)
      fix now
      assume "appended kind Primary ctx (schema_defaults (w_primary w) now)
        (committed (w_primary w)) (committed s)"
      with mark true show ?thesis by (fastforce simp: appended_def outbox_mirrored_def marks_true_def)
    qed (use mark in simp)
    then show "outbox_mirrored k i digest (committed (w_primary w)) \<or> (\<exists>key. in_both k i key digest w)" ..
  qed
qed

lemma mirror_honest: "keeps_supabase marks_true (cmd SupabaseMirror ctx)"
  unfolding keeps_supabase_def
proof (intro allI impI)
  fix w r s
  assume ok: "pair_ok w" and true: "marks_true w" and run: "cmd SupabaseMirror ctx (w_supabase w) = (r, s)"
  have "wf_rows (committed (w_supabase w))" using ok consistent_wf(2) by (auto simp: pair_ok_def)
  from marks_true_supabase [OF true effect_remembers [OF run this]] show "marks_true (w\<lparr>w_supabase := s\<rparr>)" .
qed

lemma admitted_honest:
  assumes fresh: "fresh_id kind i (committed (w_primary w))"
    and finish: "\<And>v x. upholds marks_true i (\<lambda>_. True) v (finish x)"
  shows "upholds marks_true i (\<lambda>_. True) w
    (admitted_task (admission app i h req) (\<lambda>ctx. dual_task kind id_of cmd ctx finish))"
proof (cases "admission app i h req")
  case (Inl f)
  then show ?thesis by (simp add: admitted_task_def upholds_any_answer)
next
  case (Inr ctx)
  have id: "ctx_canonical_id ctx = i" by (rule admission_Inr(2) [OF Inr])
  have "upholds marks_true (ctx_canonical_id ctx) (\<lambda>_. True) w (dual_task kind id_of cmd ctx finish)"
    by (rule dual_upheld) (simp_all add: id fresh finish store_honest mirror_honest honest_commands marking_honest)
  with id Inr show ?thesis by (simp add: admitted_task_def)
qed

end

lemma task_of_honest:
  assumes fresh: "\<And>kind. fresh_id kind fresh (committed (w_primary w))"
  shows "upholds marks_true fresh (\<lambda>_. True) w (task_of app fresh h req)"
proof (cases req)
  case (PreInterestRequest input)
  show ?thesis unfolding PreInterestRequest task_of.simps
    by (rule pre_interests.admitted_honest [OF fresh upholds_any_answer])
next
  case (UploadRequest input)
  show ?thesis unfolding UploadRequest task_of.simps su_id_view store_intent_fun
    by (rule uploads.admitted_honest [OF fresh upholds_any_answer])
next
  case (ApplicationRequest input)
  show ?thesis unfolding ApplicationRequest task_of.simps
    by (rule applications.admitted_honest [OF fresh upholds_any_answer])
next
  case (ReferralRequest input)
  show ?thesis unfolding ReferralRequest task_of.simps
    by (rule referrals.admitted_honest [OF fresh upholds_any_answer])
qed (use other_routes_upheld [of marks_true] honest in \<open>auto intro: upholds_any_answer\<close>)

section \<open>Runs\<close>

lemma marks_true_environment: "same_tables w w' \<Longrightarrow> marks_true w \<Longrightarrow> marks_true w'"
  by (simp add: same_tables_def marks_true_def in_both_def)

lemma live_reachable_marks:
  assumes "live_reachable w0 st" and "pair_ok w0" and "marks_true w0"
  shows "upheld_state marks_true (\<lambda>_. True) st"
  using assms(1)
proof (induction rule: live_reachable.induct)
  case start
  with assms(3) show ?case by (simp add: upheld_state_def)
next
  case (step st actor st')
  show ?case
    by (rule live_step_upheld [OF step(2) live_reachable_sound [OF step(1) assms(2)] step(3)])
      (auto intro: task_of_honest marks_true_environment)
qed

end
