(* ===== verification/Streaming.thy ===== *)
theory Streaming imports Auth External begin

text \<open>
  The two reading loops on a body whose end is not known: \<open>bounded_response\<close> of \<open>src/auth.rs\<close> and
  the loop of \<open>verify_object\<close> of \<open>src/external.rs\<close>. A peer decides what arrives and for how long,
  so a body is here a \<open>source\<close>, which may never end, and a loop that does not return has the
  value \<open>None\<close>. The loops of \<open>Auth\<close> and \<open>External\<close> are these loops on a body that ends.
\<close>

section \<open>Bodies that may never end\<close>

text \<open>\<open>source n\<close> is what \<open>stream.next().await\<close> gives the n-th time; \<open>None\<close> is the end of the body.\<close>

type_synonym source = "nat \<Rightarrow> chunk option"

definition later :: "source \<Rightarrow> source" where
  "later source = (\<lambda>n. source (Suc n))"

partial_function (option) read_source ::
  "'e \<Rightarrow> ('s \<Rightarrow> u8 list \<Rightarrow> 'e + 's) \<Rightarrow> 's \<Rightarrow> source \<Rightarrow> ('e + 's) option" where
  "read_source lost step s source =
     (case source 0 of
        None \<Rightarrow> Some (Inr s)
      | Some (Inl _) \<Rightarrow> Some (Inl lost)
      | Some (Inr bs) \<Rightarrow>
          (case step s bs of Inl e \<Rightarrow> Some (Inl e) | Inr s' \<Rightarrow> read_source lost step s' (later source)))"

text \<open>What the first \<open>n\<close> chunks carry, if they all arrive.\<close>

primrec arrived :: "nat \<Rightarrow> source \<Rightarrow> u8 list option" where
  "arrived 0 source = Some []"
| "arrived (Suc n) source =
     (case source 0 of Some (Inr bs) \<Rightarrow> map_option (\<lambda>rest. bs @ rest) (arrived n (later source)) | _ \<Rightarrow> None)"

text \<open>A body that ends after the given chunks.\<close>

definition finite_source :: "chunk list \<Rightarrow> source" where
  "finite_source cs n = (if n < length cs then Some (cs ! n) else None)"

lemma finite_source_simps [simp]:
  "finite_source [] 0 = None" "finite_source (c # cs) 0 = Some c"
  "later (finite_source (c # cs)) = finite_source cs"
  by (simp_all add: finite_source_def later_def fun_eq_iff)

lemma read_finite_source: "read_source lost step s (finite_source cs) = Some (stream lost step s cs)"
proof (induction cs arbitrary: s)
  case Nil
  show ?case by (subst read_source.simps) simp
next
  case (Cons c cs)
  then show ?case
    by (subst read_source.simps) (auto simp: bindR_def split: sum.splits)
qed

text \<open>A peer that keeps sending without ever exceeding the limit.\<close>

definition goes_on_within :: "nat \<Rightarrow> source \<Rightarrow> bool" where
  "goes_on_within limit source \<longleftrightarrow>
     (\<forall>n. \<exists>body. arrived n source = Some body \<and> length body \<le> limit)"

lemma goes_on_step:
  "goes_on_within limit source \<longleftrightarrow>
     (\<exists>bs. source 0 = Some (Inr bs) \<and> length bs \<le> limit \<and> goes_on_within (limit - length bs) (later source))"
proof
  assume on: "goes_on_within limit source"
  then have "\<exists>body. arrived (Suc 0) source = Some body \<and> length body \<le> limit"
    unfolding goes_on_within_def by (rule spec)
  then obtain bs where bs: "source 0 = Some (Inr bs)" "length bs \<le> limit"
    by (auto split: option.splits sum.splits)
  have "\<exists>body. arrived n (later source) = Some body \<and> length body \<le> limit - length bs" for n
  proof -
    from on have "\<exists>body. arrived (Suc n) source = Some body \<and> length body \<le> limit"
      unfolding goes_on_within_def by (rule spec)
    with bs show ?thesis by fastforce
  qed
  with bs show "\<exists>bs. source 0 = Some (Inr bs) \<and> length bs \<le> limit \<and>
      goes_on_within (limit - length bs) (later source)"
    by (auto simp: goes_on_within_def)
next
  assume "\<exists>bs. source 0 = Some (Inr bs) \<and> length bs \<le> limit \<and>
    goes_on_within (limit - length bs) (later source)"
  then obtain bs where bs: "source 0 = Some (Inr bs)" "length bs \<le> limit"
    "\<And>n. \<exists>body. arrived n (later source) = Some body \<and> length body \<le> limit - length bs"
    unfolding goes_on_within_def by blast
  have "\<exists>body. arrived n source = Some body \<and> length body \<le> limit" for n
  proof (cases n)
    case (Suc m)
    with bs(1,2) bs(3) [of m] show ?thesis by auto
  qed simp
  then show "goes_on_within limit source" by (simp add: goes_on_within_def)
qed

lemma arrived_grows:
  "(\<And>n bs. source n = Some (Inr bs) \<Longrightarrow> bs \<noteq> []) \<Longrightarrow> arrived n source = Some body \<Longrightarrow> n \<le> length body"
proof (induction n arbitrary: source body)
  case (Suc n)
  from Suc.prems(2) obtain bs rest where "source 0 = Some (Inr bs)" "body = bs @ rest"
    "arrived n (later source) = Some rest"
    by (auto split: option.splits sum.splits)
  moreover from this Suc.prems(1) have "bs \<noteq> []" by blast
  moreover have "n \<le> length rest"
    using Suc.IH [of "later source" rest] Suc.prems(1) calculation by (simp add: later_def)
  ultimately show ?case by (cases bs) auto
qed simp

lemma goes_on_later: "goes_on_within limit source \<Longrightarrow> goes_on_within limit (later source)"
  unfolding goes_on_step [of limit source]
  by (auto simp: goes_on_within_def intro: order.trans [OF _ diff_le_self])

text \<open>Such a peer never stops sending empty chunks.\<close>

lemma goes_on_empty_chunk:
  assumes "goes_on_within limit source"
  shows "\<exists>n. source n = Some (Inr [])"
proof (rule ccontr)
  assume "\<nexists>n. source n = Some (Inr [])"
  then have "\<And>n bs. source n = Some (Inr bs) \<Longrightarrow> bs \<noteq> []" by blast
  moreover from assms obtain body where "arrived (Suc limit) source = Some body" "length body \<le> limit"
    unfolding goes_on_within_def by blast
  ultimately show False using arrived_grows [of source "Suc limit" body] by simp
qed

lemma goes_on_empty_chunks:
  "goes_on_within limit source \<Longrightarrow> \<exists>i \<ge> k. source i = Some (Inr [])"
proof (induction k arbitrary: source)
  case 0
  then show ?case using goes_on_empty_chunk by auto
next
  case (Suc k)
  from Suc.IH [OF goes_on_later [OF Suc.prems]] obtain i where "k \<le> i" "later source i = Some (Inr [])"
    by blast
  then show ?case by (intro exI [of _ "Suc i"]) (simp add: later_def)
qed

section \<open>When a bounded loop returns\<close>

context bounded_stream
begin

lemma read_returns_not_on:
  "read_source l st s source = Some r \<Longrightarrow> l = lost \<Longrightarrow> st = step \<Longrightarrow> good s \<Longrightarrow>
     length (seen s) \<le> limit \<Longrightarrow> \<not> goes_on_within (limit - length (seen s)) source"
proof (induction rule: read_source.raw_induct [rotated 1, consumes 1, case_names chunk])
  case (chunk read l st s source r)
  show ?case
  proof
    assume "goes_on_within (limit - length (seen s)) source"
    then obtain bs where bs: "source 0 = Some (Inr bs)" "length bs \<le> limit - length (seen s)"
      and on: "goes_on_within (limit - length (seen s) - length bs) (later source)"
      unfolding goes_on_step [of _ source] by blast
    from bs(2) chunk(6) have fits: "length (seen s) + length bs \<le> limit" by simp
    from step_ok [OF chunk(5) this] obtain s' where s': "step s bs = Inr s'" "good s'" "seen s' = seen s @ bs"
      by blast
    with chunk(2-4) bs(1) have "read lost step s' (later source) = Some r" by simp
    from chunk(1) [OF this refl refl s'(2)] fits s'(3) on show False by (simp add: diff_diff_add)
  qed
qed

lemma read_stuck_goes_on:
  assumes "good s" and "length (seen s) \<le> limit" and "read_source lost step s source = None"
  shows "\<exists>body. arrived n source = Some body \<and> length (seen s) + length body \<le> limit"
  using assms
proof (induction n arbitrary: s source)
  case (Suc n)
  from Suc.prems(3) obtain bs s' where bs: "source 0 = Some (Inr bs)" "step s bs = Inr s'"
    and next_read: "read_source lost step s' (later source) = None"
    by (subst (asm) read_source.simps) (auto split: option.splits sum.splits)
  have fits: "length (seen s) + length bs \<le> limit"
    using step_refuses [OF Suc.prems(1), of bs] bs(2) by fastforce
  from step_ok [OF Suc.prems(1) this] bs(2) have "good s'" "seen s' = seen s @ bs" by auto
  with Suc.IH [of s' "later source"] next_read fits bs(1) show ?case by auto
qed simp

lemma read_returns_iff:
  assumes "good s" and "length (seen s) \<le> limit"
  shows "read_source lost step s source = None \<longleftrightarrow> goes_on_within (limit - length (seen s)) source"
proof
  assume "read_source lost step s source = None"
  from read_stuck_goes_on [OF assms this] show "goes_on_within (limit - length (seen s)) source"
    by (fastforce simp: goes_on_within_def)
next
  assume "goes_on_within (limit - length (seen s)) source"
  with read_returns_not_on [OF _ refl refl assms] show "read_source lost step s source = None"
    by (cases "read_source lost step s source") auto
qed

end

section \<open>The two loops\<close>

definition bounded_read :: "source \<Rightarrow> (auth_error + u8 list) option" where
  "bounded_read source = read_source AuthUnavailable absorb [] source"

definition object_read :: "u64 \<Rightarrow> source \<Rightarrow> (external_error + u64 \<times> u8 list) option" where
  "object_read expected_size source = read_source Unavailable (observe expected_size) (0, []) source"

lemma bounded_read_finite:
  "bounded_read (finite_source (reply_chunks reply)) = Some (bounded_response reply)"
  by (simp add: bounded_read_def bounded_response_def read_finite_source)

lemma object_read_finite:
  "object_read n (finite_source cs) = Some (stream Unavailable (observe n) (0, []) cs)"
  by (simp add: object_read_def read_finite_source)

lemma bounded_read_returns: "bounded_read source = None \<longleftrightarrow> goes_on_within MAX_RESPONSE_BYTES source"
  using body.read_returns_iff [of "[]" source] by (simp add: bounded_read_def)

lemma object_read_returns: "object_read n source = None \<longleftrightarrow> goes_on_within (object_limit n) source"
  using object_stream.read_returns_iff [of "(0, [])" n source]
  by (simp add: object_read_def size_in_step_def)

end
