(* ===== verification/Example.thy ===== *)
theory Example imports Progress begin

text \<open>
  One concrete deployment: two empty databases, remote services that answer, and one request
  of each kind. The witnesses of the properties evaluate the handlers on it.
\<close>

definition example_url :: url where
  "example_url = \<lparr>scheme = lit ''https'', username = [], password = None,
     host_str = Some (lit ''hhaus.org''), path = lit ''/'', query = None, fragment = None\<rparr>"

definition example_signed_url :: url where
  "example_signed_url = example_url\<lparr>path := lit ''/storage/v1/object/upload/sign/x'',
     query := Some (lit ''token=t'')\<rparr>"

definition example_lib :: url_lib where
  "example_lib = \<lparr>url_parse = (\<lambda>s. if s = lit ''signed'' then Some example_signed_url else Some example_url),
     url_join = (\<lambda>u s. if s = lit ''object/signed'' then Some example_signed_url else Some u),
     url_query_pairs = (\<lambda>u. if query u = None then [] else [(lit ''token'', lit ''t'')]),
     url_segments_mut = (\<lambda>_. True), url_pop_if_empty = (\<lambda>u. u), url_extend = (\<lambda>segs u. u)\<rparr>"

definition example_reply :: "chunk list \<Rightarrow> http_reply" where
  "example_reply cs = \<lparr>reply_status = 200, reply_content_type = Some (HText (lit ''application/pdf'')),
     reply_content_length = None, reply_chunks = cs\<rparr>"

definition example_subject_reply :: introspection where
  "example_subject_reply = \<lparr>in_active = True, in_sub = Some (lit ''user-1''),
     in_aud = Some (lit ''hhm-api''), in_scope = Some (lit ''openid hhm:intake:write'')\<rparr>"

definition example_digest_bytes :: "u8 list" where
  "example_digest_bytes = replicate 32 171"

definition example_digest :: str where
  "example_digest = lower_hex example_digest_bytes"

definition example_contract :: contract where
  "example_contract = \<lparr>pre_interest_validate = (\<lambda>_. Inr ()), upload_intent_validate = (\<lambda>_. Inr ()),
     upload_complete_validate = (\<lambda>_. Inr ()), application_validate = (\<lambda>_. Inr ()),
     referral_validate = (\<lambda>_. Inr ()), contract_max_upload_bytes = 10 * 1024 * 1024\<rparr>"

definition example_services :: services where
  "example_services = \<lparr>sv_contract = example_contract, sv_uuid_display = (\<lambda>_. lit ''id-1''),
     sv_url_lib = example_lib,
     sv_ask = (\<lambda>_. Some (example_reply [Inr [1], Inr [2]])),
     sv_decode_introspection = (\<lambda>_. Some example_subject_reply),
     sv_siteverify = (\<lambda>_ _. Some (example_reply [])),
     sv_decode_turnstile = (\<lambda>_. Some \<lparr>tr_success = True, tr_hostname = lit ''hhaus.org'',
       tr_action = lit ''intake''\<rparr>),
     sv_sign = (\<lambda>_ _. Some (example_reply [])),
     sv_decode_signed = (\<lambda>_. Some (lit ''/object/signed'')),
     sv_fetch = (\<lambda>_ _. Some (example_reply [Inr [1, 2], Inr [3]])),
     sv_sha256 = (\<lambda>_. example_digest_bytes),
     sv_utc_now = (\<lambda>_. 0),
     sv_pre_interest_to_value = (\<lambda>_. Some (JObject [(lit ''turnstileToken'', JNull)])),
     sv_upload_intent_to_value = (\<lambda>_. Some (JObject [])),
     sv_application_to_value = (\<lambda>_. Some (JObject [])),
     sv_json_to_vec = (\<lambda>_. Some []), sv_referral_to_vec = (\<lambda>_. Some [])\<rparr>"

definition example_app :: app_state where
  "example_app = \<lparr>app_auth = \<lparr>au_endpoint = example_url, au_service_credential = lit ''secret'',
       au_audience = lit ''hhm-api''\<rparr>,
     app_turnstile = \<lparr>tv_secret = lit ''secret'', tv_expected_action = lit ''intake''\<rparr>,
     app_storage = \<lparr>sb_project_url = example_url, sb_service_role_key = lit ''secret''\<rparr>,
     app_services = example_services\<rparr>"

definition example_key :: str where
  "example_key = lit ''0123456789abcdef''"

text \<open>A public request, and the same with a bearer credential.\<close>

definition public_headers :: header_map where
  "public_headers = [''idempotency-key'' \<mapsto> HText example_key, ''origin'' \<mapsto> HText (lit ''https://hhaus.org'')]"

definition bearer_headers :: header_map where
  "bearer_headers = public_headers(''authorization'' \<mapsto> HText (lit ''Bearer opaque''))"

definition example_pre_interest :: pre_interest_create where
  "example_pre_interest = \<lparr>pi_email = lit ''a@b.c'', pi_linkedin_url = lit ''l'',
     pi_entrepreneurship_idea = lit ''idea'', pi_stay_preference = ThreeMonths,
     pi_privacy_notice_version = lit ''v1'', pi_turnstile_token = Some (lit ''proof'')\<rparr>"

definition example_upload :: upload_intent_create where
  "example_upload = \<lparr>ui_kind = Resume, ui_sha256 = example_digest,
     ui_content_type = lit ''application/pdf'', ui_size_bytes = 3, ui_turnstile_token = Some (lit ''proof'')\<rparr>"

definition example_complete :: upload_complete_create where
  "example_complete = \<lparr>uc_sha256 = example_digest, uc_turnstile_token = Some (lit ''proof'')\<rparr>"

definition example_referral :: referral_create where
  "example_referral = \<lparr>rf_referee_name = lit ''n'', rf_referee_email = lit ''e'',
     rf_referee_linkedin_url = lit ''l'', rf_relationship = lit ''r'', rf_rationale = lit ''why'',
     rf_stay_preference = None, rf_nominee_consent_confirmed = True\<rparr>"

definition example_defaults :: "timestamp \<Rightarrow> table \<Rightarrow> row" where
  "example_defaults now t = (\<lambda>_. SNull)(C_created_at := STime now, C_submitted_at := STime now,
     Ob C_attempts := SInt 0, C_mirror_status := SText (lit ''pending''))"

definition example_session :: "(answer \<times> nat) list \<Rightarrow> session" where
  "example_session as = \<lparr>committed = (\<lambda>_. []), working = (\<lambda>_. []), clock = 1000, tx_time = 0,
     answers = as, schema_defaults = example_defaults\<rparr>"

definition quiet_world :: world where
  "quiet_world = \<lparr>w_primary = example_session [], w_supabase = example_session []\<rparr>"


section \<open>The requests are admitted\<close>

definition example_subject :: verified_subject where
  "example_subject = VerifiedSubject (lit ''user-1'')"

definition example_context :: "uuid \<Rightarrow> verified_subject option \<Rightarrow> submission_context" where
  "example_context i subject = \<lparr>ctx_canonical_id = i, ctx_subject = subject,
     ctx_idempotency_key = example_key, ctx_payload_sha256 = example_digest,
     ctx_source_host = lit ''hhaus.org''\<rparr>"

lemmas text_eval = lit_def ascii_class_defs token_byte_def is_control_def is_whitespace_def
  str_len_def str_bytes_def encode_utf8_def

lemma example_context_simps:
  "ctx_canonical_id (example_context i subject) = i"
  "ctx_subject (example_context i subject) = subject"
  "ctx_idempotency_key (example_context i subject) = example_key"
  "ctx_payload_sha256 (example_context i subject) = example_digest"
  by (simp_all add: example_context_def)

lemma example_digest_facts:
  "length example_digest = 64" "list_all is_lower_hexdigit example_digest"
  by (simp_all add: example_digest_def example_digest_bytes_def lower_hex_facts)

lemma example_site: "url_parse example_lib (lit ''https://hhaus.org'') = Some example_url"
  "host_str example_url = Some (lit ''hhaus.org'')" "scheme example_url = lit ''https''"
  "path example_url = lit ''/''" "query example_url = None" "fragment example_url = None"
  by (simp_all add: example_lib_def example_url_def)

lemma example_key_facts: "length example_key = 16" "list_all token_byte example_key"
  by (simp_all add: example_key_def text_eval)

lemma example_headers_key:
  assumes "h \<in> {public_headers, bearer_headers}"
  shows "idempotency_key h = Inr example_key"
proof -
  have "str_len example_key = 16"
    using token.len [OF example_key_facts(2)] example_key_facts(1) by simp
  moreover have "\<not> list_ex is_whitespace example_key" "\<not> list_ex is_control example_key"
    by (simp_all add: example_key_def text_eval)
  moreover have "header_text h ''idempotency-key'' = Inr example_key"
    using assms by (auto simp: header_text_Inr public_headers_def bearer_headers_def)
  ultimately show ?thesis by (simp add: idempotency_key_def)
qed

lemma example_headers_host:
  assumes "h \<in> {public_headers, bearer_headers}"
  shows "source_host example_lib h = Inr (lit ''hhaus.org'')"
proof -
  have "header_text h ''origin'' = Inr (lit ''https://hhaus.org'')"
    using assms by (auto simp: header_text_Inr public_headers_def bearer_headers_def)
  then show ?thesis by (simp add: source_host_def example_site reject_def site_hosts_def)
qed

lemma example_context_wf:
  "wf_context (example_context i subject)"
  "to_ascii_lowercase (lit ''hhaus.org'') = lit ''hhaus.org''"
  using example_digest_facts example_key_facts
  by (simp_all add: wf_context_def example_context_def context_hosts_def to_ascii_lowercase_def
      ascii_lower_def is_ascii_uppercase_def lit_def)

lemma example_submission_context:
  assumes "h \<in> {public_headers, bearer_headers}"
  shows "submission_context_for example_lib i subject h example_digest
    = Inr (example_context i subject)"
  using example_headers_key [OF assms] example_headers_host [OF assms]
    example_context_wf(1) [of i subject] example_context_wf(2)
  by (cases subject)
    (simp_all add: submission_context_for_def context_public_def context_authenticated_def
      map_err_Inr_iff context_new_Inr_iff example_context_def)

lemma example_turnstile:
  "turnstile_verify (sv_siteverify example_services) (sv_decode_turnstile example_services)
     (app_turnstile example_app) (lit ''proof'') = Inr ()"
  by (simp add: turnstile_verify_Inr example_services_def example_app_def example_reply_def
      response_json_def site_hosts_def is_success_def text_eval)

lemma example_public:
  "authenticate_or_verify_public example_app public_headers (Some (lit ''proof'')) = Inr None"
proof -
  have "optional_subject ask decode self public_headers = Inr None" for ask decode self
    by (simp add: optional_subject_None public_headers_def)
  then show ?thesis
    using example_turnstile
    by (simp add: authenticate_or_verify_public_def reject_def example_app_def)
qed

lemma example_required:
  "required_subject (sv_ask example_services) (sv_decode_introspection example_services)
     (app_auth example_app) bearer_headers = Inr example_subject"
proof -
  have "bearer_headers ''authorization'' = Some (HText (lit ''Bearer opaque''))"
    by (simp add: bearer_headers_def)
  moreover have "bearer_text (lit ''Bearer opaque'') (lit ''opaque'')"
  proof -
    have "lit ''Bearer opaque'' = lit ''Bearer'' @ 32 # lit ''opaque''" by (simp add: lit_def)
    moreover have "to_ascii_lowercase (lit ''Bearer'') = lit ''bearer''"
      by (simp add: lit_def to_ascii_lowercase_def ascii_lower_def is_ascii_uppercase_def)
    ultimately show ?thesis
      unfolding bearer_text_def by (auto simp: MAX_CREDENTIAL_BYTES_def text_eval)
  qed
  moreover have "auth_verify (sv_ask example_services) (sv_decode_introspection example_services)
     (app_auth example_app) (lit ''opaque'') = Inr example_subject"
  proof -
    have "lit ''hhm:intake:write'' \<in> set (split_ascii_whitespace (lit ''openid hhm:intake:write''))"
      by (simp add: split_ascii_whitespace_def is_ascii_whitespace_def lit_def)
    moreover have "wf_subject example_subject"
      by (simp add: wf_subject_def example_subject_def text_eval)
    ultimately show ?thesis
      by (auto simp: auth_verify_Inr vouches_def example_services_def example_reply_def example_app_def
          is_success_def MAX_RESPONSE_BYTES_def example_subject_reply_def example_subject_def)
  qed
  ultimately show ?thesis by (auto simp: required_subject_Inr)
qed

text \<open>The digest every request of the example binds: the services hash to one constant.\<close>

lemma example_request_digest:
  "canonical_digest_without_turnstile example_services (sv_pre_interest_to_value example_services pinput)
     = Inr example_digest"
  "canonical_digest_without_turnstile example_services (sv_upload_intent_to_value example_services uinput)
     = Inr example_digest"
  "canonical_digest (sv_sha256 example_services) (sv_referral_to_vec example_services rinput)
     = Inr example_digest"
  by (simp_all add: canonical_digest_without_turnstile_def canonical_digest_def reject_def
      example_services_def example_digest_def)

lemma example_app_services [simp]:
  "app_services example_app = example_services" "sv_url_lib example_services = example_lib"
  "sv_contract example_services = example_contract"
  by (simp_all add: example_app_def example_services_def)

lemma example_valid [simp]:
  "pre_interest_validate example_contract a = Inr ()"
  "upload_intent_validate example_contract b = Inr ()"
  "upload_complete_validate example_contract c = Inr ()"
  "referral_validate example_contract e = Inr ()"
  by (simp_all add: example_contract_def)

lemma example_admissions:
  "admission example_app i public_headers (PreInterestRequest example_pre_interest)
     = Inr (example_context i None)"
  "admission example_app i public_headers (UploadRequest example_upload)
     = Inr (example_context i None)"
  "admission example_app i bearer_headers (ReferralRequest example_referral)
     = Inr (example_context i (Some example_subject))"
  using example_request_digest example_submission_context example_public example_required
    example_headers_key [of bearer_headers] example_headers_host [of bearer_headers]
    example_context_wf(1) [of i "Some example_subject"] example_context_wf(2)
  by (simp_all add: admit_public_def admit_referral_def example_pre_interest_def example_upload_def
      map_err_Inr_iff context_authenticated_def context_new_Inr_iff example_context_def)

section \<open>The two empty databases\<close>

lemma quiet_world_facts:
  "undisturbed quiet_world" "pair_ok quiet_world" "schema_stamps quiet_world"
  "fresh_id kind i (committed (w_primary quiet_world))"
  "\<not> holds kind i key digest (committed (w_primary quiet_world))"
  by (simp_all add: undisturbed_def quiet_world_def example_session_def pair_ok_def consistent_def
      primary_ok_def store_ok_def wf_rows_def keys_unique_def ids_unique_def rows_readable_def
      outbox_in_step_def attempts_sound_def mirror_within_def identities_def entries_def
      good_defaults_def example_defaults_def schema_stamps_def stamps_rows_def fresh_id_def
      holds_def)


lemma example_accepted:
  assumes "admission example_app 7 h req = Inr (example_context 7 subject)"
    and "kind_of req = Some kind" and "kind \<noteq> Upload" and "prerequisites req (example_context 7 subject) quiet_world"
  shows "\<exists>resp w'. respond example_app 7 h req quiet_world = (Inr resp, w')"
proof -
  obtain r w' where run: "respond example_app 7 h req quiet_world = (r, w')"
    by (cases "respond example_app 7 h req quiet_world")
  from respond_completes [OF assms(1,2) quiet_world_facts(1-4) assms(4) _ run] assms(3) run
  show ?thesis by (auto simp: quiet_world_facts(5))
qed

lemma example_pre_interest_accepted:
  "\<exists>resp w'. respond example_app 7 public_headers (PreInterestRequest example_pre_interest) quiet_world
     = (Inr resp, w')"
  by (rule example_accepted [OF example_admissions(1) kind_of.simps(1)]) simp_all

lemma example_referral_accepted:
  "\<exists>resp w'. respond example_app 7 bearer_headers (ReferralRequest example_referral) quiet_world
     = (Inr resp, w')"
  by (rule example_accepted [OF example_admissions(3) kind_of.simps(4)]) simp_all

section \<open>Databases that already hold a submission\<close>

definition stored_row :: row where
  "stored_row = (example_defaults 900 Hhm_pre_interests)(C_id := SUuid 5,
     C_idempotency_key := SText example_key, C_payload_sha256 := SText example_digest,
     C_mirror_status := SText (lit ''mirrored''))"

definition stored_entry :: row where
  "stored_entry = (example_defaults 900 Hhm_submission_outbox)(
     Ob C_submission_kind := SText (database_value PreInterest), Ob C_submission_id := SUuid 5,
     C_payload_sha256 := SText example_digest, C_mirror_status := SText (lit ''mirrored''))"

definition stored_world :: world where
  "stored_world = quiet_world\<lparr>
     w_primary := (example_session [])\<lparr>committed := (\<lambda>_. [])(Hhm_pre_interests := [stored_row],
       Hhm_submission_outbox := [stored_entry])\<rparr>,
     w_supabase := (example_session [])\<lparr>committed := (\<lambda>_. [])(Hhm_pre_interests := [stored_row])\<rparr>\<rparr>"

lemma all_kinds: "(\<forall>kind. P kind) \<longleftrightarrow> P PreInterest \<and> P Upload \<and> P Application \<and> P Referral"
  by (metis stored_submission_kind.exhaust)

lemma stored_world_facts:
  "undisturbed stored_world" "schema_stamps stored_world" "pair_ok stored_world"
  "fresh_id kind 7 (committed (w_primary stored_world))"
  "holds PreInterest 5 example_key example_digest (committed (w_primary stored_world))"
  "holds PreInterest i example_key digest (committed (w_primary stored_world)) \<Longrightarrow>
     digest = example_digest"
proof -
  show "undisturbed stored_world" "schema_stamps stored_world"
    by (simp_all add: undisturbed_def stored_world_def quiet_world_def example_session_def
        schema_stamps_def stamps_rows_def example_defaults_def)
  have rows: "identities PreInterest (committed (w_primary stored_world))
      = [(SUuid 5, SText example_key, SText example_digest)]"
    "identities PreInterest (committed (w_supabase stored_world))
      = [(SUuid 5, SText example_key, SText example_digest)]"
    "kind \<noteq> PreInterest \<Longrightarrow> identities kind (committed (w_primary stored_world)) = []"
    "kind \<noteq> PreInterest \<Longrightarrow> identities kind (committed (w_supabase stored_world)) = []"
    "entries PreInterest (committed (w_primary stored_world)) = [(SUuid 5, SText example_digest)]"
    "kind \<noteq> PreInterest \<Longrightarrow> entries kind (committed (w_primary stored_world)) = []" for kind
    by (cases kind; simp add: identities_def identity_def entries_def stored_world_def
        quiet_world_def example_session_def stored_row_def stored_entry_def lit_def)+
  have read: "rows_readable (committed (w_primary stored_world))"
    "rows_readable (committed (w_supabase stored_world))"
    by (simp_all add: rows_readable_def all_kinds stored_world_def quiet_world_def
        example_session_def stored_row_def example_defaults_def)
  have sound: "attempts_sound (committed (w_primary stored_world))"
    by (simp add: attempts_sound_def attempts_ok_def stored_world_def quiet_world_def
        example_session_def stored_entry_def example_defaults_def)
  show "pair_ok stored_world"
    using read sound
    by (simp add: pair_ok_def consistent_def primary_ok_def store_ok_def wf_rows_def keys_unique_def
        ids_unique_def outbox_in_step_def mirror_within_def all_kinds rows)
      (simp add: stored_world_def quiet_world_def example_session_def example_defaults_def
        good_defaults_def)
  show "fresh_id kind 7 (committed (w_primary stored_world))"
    by (cases "kind = PreInterest") (simp_all add: fresh_id_def rows)
  show "holds PreInterest 5 example_key example_digest (committed (w_primary stored_world))"
    by (simp add: holds_identities_list rows)
  show "holds PreInterest i example_key digest (committed (w_primary stored_world)) \<Longrightarrow>
     digest = example_digest"
    by (simp add: holds_identities_list rows)
qed

lemma fresh_exists: "\<exists>j. \<forall>kind. fresh_id kind j st"
proof -
  let ?used = "\<Union>kind \<in> {PreInterest, Upload, Application, Referral}.
    (\<lambda>v. case v of SUuid j \<Rightarrow> j | _ \<Rightarrow> 0) ` fst ` set (identities kind st)"
  have "finite ?used" by simp
  then obtain j where j: "j \<notin> ?used" using ex_new_if_finite [OF infinite_UNIV_nat] by blast
  have "fresh_id kind j st" for kind
  proof -
    have "kind \<in> {PreInterest, Upload, Application, Referral}" by (cases kind) simp_all
    with j have "j \<notin> (\<lambda>v. case v of SUuid j \<Rightarrow> j | _ \<Rightarrow> 0) ` fst ` set (identities kind st)" by blast
    then show ?thesis unfolding fresh_id_def by force
  qed
  then show ?thesis by blast
qed

lemma example_again:
  assumes "undisturbed w" and "pair_ok w" and "schema_stamps w"
    and held: "holds PreInterest 5 example_key example_digest (committed (w_primary w))"
    and fresh: "fresh_id PreInterest j (committed (w_primary w))"
  shows "\<exists>resp w'. respond example_app j public_headers (PreInterestRequest example_pre_interest) w
    = (Inr resp, w')"
proof -
  let ?req = "PreInterestRequest example_pre_interest"
  obtain r w' where run: "respond example_app j public_headers ?req w = (r, w')"
    by (cases "respond example_app j public_headers ?req w")
  have unique: "keys_unique (committed (w_primary w))"
    using assms(2) consistent_wf(1) by (auto simp: pair_ok_def)
  have same: "digest = ctx_payload_sha256 (example_context j None)"
    if "holds PreInterest i (ctx_idempotency_key (example_context j None)) digest
      (committed (w_primary w))" for i digest
    using key_determines [OF unique held, of i digest] that by (auto simp: example_context_simps)
  from respond_completes [OF example_admissions(1) _ assms(1-3) fresh _ same run] run
  show ?thesis by auto
qed

lemma example_replayed:
  "\<exists>resp w'. respond example_app 7 public_headers (PreInterestRequest example_pre_interest) stored_world
     = (Inr resp, w')"
  by (rule example_again [OF stored_world_facts(1,3,2,5,4)])

section \<open>A request whose payload differs, and a mirror that is down\<close>

definition other_digest_bytes :: "u8 list" where
  "other_digest_bytes = replicate 32 205"

definition other_app :: app_state where
  "other_app = example_app\<lparr>app_services := example_services\<lparr>sv_sha256 := (\<lambda>_. other_digest_bytes)\<rparr>\<rparr>"

lemma other_digest:
  "request_digest (app_services other_app) (PreInterestRequest example_pre_interest)
     = Inr (lower_hex other_digest_bytes)" "lower_hex other_digest_bytes \<noteq> example_digest"
  by (simp_all add: other_app_def canonical_digest_without_turnstile_def canonical_digest_def
      reject_def example_services_def example_digest_def example_digest_bytes_def
      other_digest_bytes_def hex.enc_eq_iff)

definition mirror_down :: world where
  "mirror_down = quiet_world\<lparr>w_supabase := example_session [(Refused, 0)]\<rparr>"

lemma mirror_down_facts:
  "pair_ok mirror_down" "fresh_id kind i (committed (w_primary mirror_down))"
  using quiet_world_facts(2) quiet_world_facts(4) [of kind i]
  by (simp_all add: mirror_down_def quiet_world_def pair_ok_def example_session_def)

lemma mirror_refused:
  assumes "answers s = (Refused, dt) # as" and "pre_interest_validate k input = Inr ()"
  shows "fst (store_pre_interest k target ctx input s) = Inl Database"
    and "committed (snd (store_pre_interest k target ctx input s)) = committed s"
  using assms by (simp_all add: store_pre_interest_def begin_tx_def trip_def bindA_def)

text \<open>A pre-interest request on a primary at rest beside a mirror whose command fails: the
  primary has it, the failure is recorded, the client is told to retry.\<close>

lemma pre_interest_outage:
  assumes ok: "pair_ok w" and stamps: "schema_stamps w"
    and quiet: "answers (w_primary w) = []"
    and fails: "\<And>i. fst (store_pre_interest example_contract SupabaseMirror
      (with_canonical_id (example_context 7 None) i) example_pre_interest (w_supabase w)) = Inl Database"
    and same: "\<And>i digest. holds PreInterest i example_key digest (committed (w_primary w)) \<Longrightarrow>
      digest = example_digest"
  obtains x s f u t where
    "store_pre_interest example_contract Primary (example_context 7 None) example_pre_interest
      (w_primary w) = (Inr x, s)" "answers s = []"
    "\<And>i digest. holds PreInterest i example_key digest (committed (w_primary w)) \<Longrightarrow> ss_id x = i"
    "(\<nexists>i digest. holds PreInterest i example_key digest (committed (w_primary w))) \<Longrightarrow> ss_id x = 7"
    "record_mirror_failure PreInterest (ss_id x) (lit ''supabase_unavailable'') s = (f, u)"
    "store_pre_interest example_contract SupabaseMirror (with_canonical_id (example_context 7 None)
      (ss_id x)) example_pre_interest (w_supabase w) = (Inl Database, t)"
    "respond example_app 7 public_headers (PreInterestRequest example_pre_interest) w
      = (Inl (Failed (mirror_unavailable (ss_id x))), w\<lparr>w_primary := u, w_supabase := t\<rparr>)"
proof -
  let ?ctx = "example_context 7 None"
  let ?cmd = "\<lambda>target ctx. store_pre_interest example_contract target ctx example_pre_interest"
  have key: "ctx_idempotency_key ?ctx = example_key" "ctx_canonical_id ?ctx = 7"
    "ctx_payload_sha256 ?ctx = example_digest"
    by (simp_all add: example_context_def)
  have stamped: "stamps_rows (schema_defaults (w_primary w) (clock (w_primary w)))"
    using stamps by (simp add: schema_stamps_def)
  obtain cvs where plan: "plan_pre_interest example_contract example_pre_interest Primary ?ctx
      (clock (w_primary w)) (committed (w_primary w)) = Inr cvs"
    "readable PreInterest (set_cols cvs (schema_defaults (w_primary w)
      (clock (w_primary w)) (table_name PreInterest)))"
    using plan_pre_interest_ok [OF example_valid(1) stamped] by blast
  have sound: "store_ok (committed (w_primary w))"
    using ok consistent_wf by (auto simp: pair_ok_def)
  obtain x s where x: "?cmd Primary ?ctx (w_primary w) = (Inr x, s)" "answers s = []"
      "\<And>i digest. holds PreInterest i example_key digest (committed (w_primary w)) \<Longrightarrow> ss_id x = i"
      "(\<nexists>i digest. holds PreInterest i example_key digest (committed (w_primary w))) \<Longrightarrow> ss_id x = 7"
    using pre_interests.quiet_store [OF quiet sound plan] same unfolding key by blast
  let ?i = "ss_id x"
  obtain t where t: "?cmd SupabaseMirror (with_canonical_id ?ctx ?i) (w_supabase w)
      = (Inl Database, t)"
    using fails [of ?i] by (metis prod.collapse)
  obtain f u where f: "record_mirror_failure PreInterest ?i (lit ''supabase_unavailable'') s = (f, u)"
    by (cases "record_mirror_failure PreInterest ?i (lit ''supabase_unavailable'') s")
  have "f \<noteq> Inl Panicked" using f by auto
  then have "dual_write PreInterest ss_id ?cmd ?ctx w = (Inl (Failed (mirror_unavailable ?i)),
      w\<lparr>w_primary := u, w_supabase := t\<rparr>)"
    using x t f
    by (cases f) (simp_all add: dual_write_def from_data_def on_primary_def on_supabase_def caught_def
        record_failure_def mirrored_as_def bindA_def map_errA_def split: data_error.splits)
  then have "create_pre_interest example_app 7 public_headers example_pre_interest w
      = (Inl (Failed (mirror_unavailable ?i)), w\<lparr>w_primary := u, w_supabase := t\<rparr>)"
    using example_admissions(1) by (simp add: create_pre_interest_eq bindA_def)
  then have "respond example_app 7 public_headers (PreInterestRequest example_pre_interest) w
      = (Inl (Failed (mirror_unavailable ?i)), w\<lparr>w_primary := u, w_supabase := t\<rparr>)"
    by (simp add: bindA_def)
  with x f t show ?thesis by (rule that)
qed

lemma example_mirror_down:
  "\<exists>w'. respond example_app 7 public_headers (PreInterestRequest example_pre_interest) mirror_down
     = (Inl (Failed (mirror_unavailable 7)), w')"
proof -
  have world: "schema_stamps mirror_down" "answers (w_primary mirror_down) = []"
    "fst (store_pre_interest example_contract SupabaseMirror ctx example_pre_interest
      (w_supabase mirror_down)) = Inl Database"
    "\<not> holds PreInterest i example_key digest (committed (w_primary mirror_down))" for i digest ctx
    using quiet_world_facts(3) quiet_world_facts(5) [of PreInterest i example_key digest]
    by (simp_all add: mirror_down_def quiet_world_def example_session_def schema_stamps_def
        mirror_refused(1) [where dt = 0 and as = "[]"])
  show ?thesis
    by (rule pre_interest_outage [OF mirror_down_facts(1) world(1-3)]) (use world(4) in auto)
qed

end
