(* ===== verification/Uploads.thy ===== *)
theory Uploads imports Progress begin

text \<open>
  What the commands do to the content of a row: an application is stored only beside two
  verified uploads of its applicant, each field of a payload lands in the column of its name,
  the object key of an intent is one the storage adapter accepts, and an intent reads back as it
  was stored.
\<close>

section \<open>Applications rest on verified uploads\<close>

definition owns_verified ::
  "submission_context \<Rightarrow> upload_kind \<Rightarrow> uuid \<Rightarrow> timestamp \<Rightarrow> store \<Rightarrow> bool" where
  "owns_verified ctx kind i now st \<longleftrightarrow> (\<exists>r \<in> set (st Hhm_intake_uploads).
     r C_id = SUuid i \<and> r (Up C_kind) = SText (upload_kind_label kind) \<and>
     r C_applicant_subject = sql_opt SText (context_subject ctx) \<and>
     r (Up C_status) = SText (lit ''verified'') \<and> time_after (r (Up C_expires_at)) now)"

lemma two_different:
  assumes "length (filter P xs) = 2" and "distinct (map f xs)"
  obtains x y where "x \<in> set xs" "y \<in> set xs" "P x" "P y" "f x \<noteq> f y"
proof -
  from assms(1) obtain x y where xy: "filter P xs = [x, y]"
    by (auto simp: length_Suc_conv numeral_2_eq_2)
  from distinct_map_filter [OF assms(2), of P] have "f x \<noteq> f y" by (simp add: xy)
  moreover have "{x, y} = set (filter P xs)" by (simp add: xy)
  ultimately show ?thesis using that [of x y] by auto
qed

lemma ids_unique_uploads:
  "ids_unique st \<Longrightarrow> distinct (map (\<lambda>r. r C_id) (st Hhm_intake_uploads))"
  unfolding ids_unique_def identities_def
  by (drule spec [where x = Upload]) (simp add: identity_def comp_def)

lemma two_verified_uploads:
  assumes two: "length (filter (verified_upload_for ctx input now) (st Hhm_intake_uploads)) = 2"
    and ids: "ids_unique st"
  shows "owns_verified ctx Resume (ap_resume_upload_id input) now st \<and>
    owns_verified ctx PhotoId (ap_photo_id_upload_id input) now st"
proof -
  from two_different [OF two ids_unique_uploads [OF ids]] obtain r q
    where "r \<in> set (st Hhm_intake_uploads)" "q \<in> set (st Hhm_intake_uploads)"
      "verified_upload_for ctx input now r" "verified_upload_for ctx input now q"
      "r C_id \<noteq> q C_id"
    by blast
  then show ?thesis
    unfolding owns_verified_def verified_upload_for_def sql_eq_def not_distinct_def
      upload_kind_label.simps
    by metis
qed

lemma store_application_requires:
  assumes run: "store_application k target ctx input s = (Inr x, t)"
    and ids: "ids_unique (committed s)"
  shows "\<exists>now \<ge> clock s. owns_verified ctx Resume (ap_resume_upload_id input) now (committed s) \<and>
    owns_verified ctx PhotoId (ap_photo_id_upload_id input) now (committed s)"
proof -
  from applications.planned [OF run] obtain now cvs where now: "clock s \<le> now"
    and "plan_application k input target ctx now (committed s) = Inr cvs" by blast
  then have "length (filter (verified_upload_for ctx input now) (committed s Hhm_intake_uploads)) = 2"
    by (auto simp: plan_application_def yields)
  from two_verified_uploads [OF this ids] now show ?thesis by blast
qed

lemma application_rests_on_uploads:
  assumes run: "submit app (ApplicationRequest input) ctx w = (Inr x, w')" and ok: "pair_ok w"
    and s: "s \<in> {w_primary w, w_supabase w}"
  shows "\<exists>now \<ge> clock s. owns_verified ctx Resume (ap_resume_upload_id input) now (committed s) \<and>
    owns_verified ctx PhotoId (ap_photo_id_upload_id input) now (committed s)"
  using run [simplified]
proof (cases rule: dual_write_cases)
  case (complete y s' z u)
  from ok have unique: "ids_unique (committed (w_primary w))" "ids_unique (committed (w_supabase w))"
    using mirror_ids_unique consistent_wf(1) by (auto simp: pair_ok_def)
  have same: "owns_verified (with_canonical_id ctx j) = owns_verified ctx" for j
    by (intro ext) (simp add: owns_verified_def)
  from store_application_requires [OF complete(1) unique(1)]
    store_application_requires [OF complete(2) unique(2), unfolded same] s
  show ?thesis by blast
qed simp_all

section \<open>Every field in its column\<close>

definition application_fields :: "persistence_target \<Rightarrow> submission_context \<Rightarrow> application_create \<Rightarrow> row \<Rightarrow> bool" where
  "application_fields target ctx input r \<longleftrightarrow>
     r C_id = SUuid (ctx_canonical_id ctx) \<and>
     r C_idempotency_key = SText (ctx_idempotency_key ctx) \<and>
     r C_payload_sha256 = SText (ctx_payload_sha256 ctx) \<and>
     r C_applicant_subject = sql_opt SText (context_subject ctx) \<and>
     r C_email = SText (trim (ap_email input)) \<and>
     r C_linkedin_url = SText (trim (ap_linkedin_url input)) \<and>
     r (Pr C_legal_name) = SText (trim (ap_legal_name input)) \<and>
     r (Pr C_date_of_birth) = SDate (ap_date_of_birth input) \<and>
     r (Pr C_nationality) = SText (trim (ap_nationality input)) \<and>
     r (Pr C_phone) = SText (trim (ap_phone input)) \<and>
     r (Pr C_current_city) = SText (trim (ap_current_city input)) \<and>
     r (Pr C_github_url) = sql_opt SText (ap_github_url input) \<and>
     r (Pr C_portfolio_url) = sql_opt SText (ap_portfolio_url input) \<and>
     r C_entrepreneurship_idea = SText (trim (ap_entrepreneurship_idea input)) \<and>
     r (Pr C_project_stage) = SText (project_stage_label (ap_project_stage input)) \<and>
     r C_stay_preference = SText (stay_preference_label (ap_stay_preference input)) \<and>
     r (Pr C_preferred_start_month) = SDate (ap_preferred_start_month input) \<and>
     r (Pr C_community_contribution) = SText (trim (ap_community_contribution input)) \<and>
     r (St C_accessibility_or_accommodation_notes)
       = sql_opt SText (ap_accessibility_or_accommodation_notes input) \<and>
     r (St C_allergy_notes) = sql_opt SText (ap_allergy_notes input) \<and>
     r (St C_noise_sensitivity) = SText (sensitivity_level_label (ap_noise_sensitivity input)) \<and>
     r (St C_light_sensitivity) = SText (sensitivity_level_label (ap_light_sensitivity input)) \<and>
     r (St C_room_preference_notes) = sql_opt SText (ap_room_preference_notes input) \<and>
     r (St C_roommate_preference) = SText (roommate_preference_label (ap_roommate_preference input)) \<and>
     r (St C_preferred_room_occupancy) = SInt (ap_preferred_room_occupancy input) \<and>
     r (St C_roommate_for_lower_cost) = SBool (ap_roommate_for_lower_cost input) \<and>
     r (St C_roommate_for_social_connection) = SBool (ap_roommate_for_social_connection input) \<and>
     r (St C_accommodation_data_consent) = SBool (ap_accommodation_data_consent input) \<and>
     r (St C_resume_upload_id) = SUuid (ap_resume_upload_id input) \<and>
     r (St C_photo_id_upload_id) = SUuid (ap_photo_id_upload_id input) \<and>
     r (St C_age_and_identity_attestation) = SBool (ap_age_and_identity_attestation input) \<and>
     r C_privacy_notice_version = SText (ap_privacy_notice_version input) \<and>
     r C_mirror_status = SText (mirror_status target)"

lemma application_columns_distinct:
  "distinct (map fst (zip application_columns (application_values target ctx input occupancy)))"
  by (simp add: application_columns_def application_values_def)

lemma application_fields_row:
  "application_fields target ctx input (set_cols (zip application_columns
     (application_values target ctx input (ap_preferred_room_occupancy input))) r)"
  unfolding application_fields_def
  by (intro conjI; rule set_cols_bound [OF application_columns_distinct])
    (simp_all add: application_columns_def application_values_def)

lemma store_application_row:
  assumes run: "store_application k target ctx input s = (Inr x, t)" and fresh: "\<not> ss_replayed x"
  shows "\<exists>r. committed t Hhm_applications = committed s Hhm_applications @ [r] \<and>
    application_fields target ctx input r"
proof -
  obtain now cvs
    where plan: "plan_application k input target ctx now (committed s) = Inr cvs"
      and row: "committed t Hhm_applications = committed s Hhm_applications
        @ [set_cols cvs (schema_defaults s now Hhm_applications)]"
    by (rule applications.planned [OF run]) (use fresh in simp)
  from plan have "cvs = zip application_columns
      (application_values target ctx input (ap_preferred_room_occupancy input))"
    by (auto simp: plan_application_def yields i16_try_from_def split: if_splits)
  with row application_fields_row show ?thesis by blast
qed

section \<open>Object keys\<close>

lemma object_key_segments:
  assumes "upload_object_key display ctx input = Some key"
    and sha: "valid_digest (ui_sha256 input)"
    and name: "display (ctx_canonical_id ctx) \<noteq> []"
      "list_all key_byte (display (ctx_canonical_id ctx))"
  shows "split_on 47 key = [lit ''intake'', upload_kind_label (ui_kind input),
    display (ctx_canonical_id ctx), take 16 (ui_sha256 input)]"
proof -
  let ?digest = "take 16 (ui_sha256 input)" and ?id = "display (ctx_canonical_id ctx)"
  from sha have hex: "list_all is_lower_hexdigit (ui_sha256 input)" and len: "length (ui_sha256 input) = 64"
    by (auto simp: valid_digest_def lower_hexdigit.bytes_iff lower_hexdigit.len)
  have "byte_prefix 16 (ui_sha256 input) = Some ?digest"
    using byte_prefix_ascii [OF lower_hexdigit.text_ascii [OF hex]] len by simp
  with assms(1) have key: "key = lit ''intake'' @ 47 # upload_kind_label (ui_kind input) @ 47 # ?id
      @ 47 # ?digest"
    by (auto simp: upload_object_key_def lit_def)
  have no_slash: "47 \<notin> set s" if "list_all p s" and "\<not> p 47" for p :: "nat \<Rightarrow> bool" and s
    using that by (auto simp: list_all_iff)
  have "47 \<notin> set ?id" "47 \<notin> set ?digest"
    using no_slash [OF name(2)] no_slash [OF hex] set_take_subset [of 16 "ui_sha256 input"]
    by (auto simp: key_byte_def is_lower_hexdigit_def ascii_class_defs)
  moreover have "47 \<notin> set (lit ''intake'')" "47 \<notin> set (upload_kind_label (ui_kind input))"
    by (cases "ui_kind input"; simp add: lit_def)+
  ultimately show ?thesis
    by (simp add: key split_on_append_delim split_on_no_delim)
qed

lemma key_byte_hex: "is_lower_hexdigit b \<Longrightarrow> key_byte b"
  by (auto simp: is_lower_hexdigit_def key_byte_def ascii_class_defs)

lemma generated_key_valid:
  assumes key: "upload_object_key display ctx input = Some key"
    and sha: "valid_digest (ui_sha256 input)"
    and name: "display (ctx_canonical_id ctx) \<noteq> []"
      "list_all key_byte (display (ctx_canonical_id ctx))" "length (display (ctx_canonical_id ctx)) \<le> 36"
  shows "validate_object_key key = Inr ()"
proof -
  from sha have hex: "list_all is_lower_hexdigit (ui_sha256 input)" and len: "length (ui_sha256 input) = 64"
    by (auto simp: valid_digest_def lower_hexdigit.bytes_iff lower_hexdigit.len)
  have digest: "take 16 (ui_sha256 input) \<noteq> []" "list_all key_byte (take 16 (ui_sha256 input))"
    using len hex key_byte_hex by (auto simp: list_all_iff dest: in_set_takeD)
  have words: "lit ''intake'' \<noteq> []" "list_all key_byte (lit ''intake'')"
    "upload_kind_label (ui_kind input) \<noteq> []" "list_all key_byte (upload_kind_label (ui_kind input))"
    by (cases "ui_kind input"; simp add: lit_def key_byte_def ascii_class_defs)+
  have bytes: "byte_prefix 16 (ui_sha256 input) = Some (take 16 (ui_sha256 input))"
    using byte_prefix_ascii [OF lower_hexdigit.text_ascii [OF hex]] len by simp
  have "str_len key \<le> 1024"
  proof -
    have "str_len (take 16 (ui_sha256 input)) \<le> 16"
      using object_key.len [OF digest(2)] by simp
    moreover have "str_len (display (ctx_canonical_id ctx)) \<le> 36"
      using object_key.len [OF name(2)] name(3) by simp
    moreover have "str_len (upload_kind_label (ui_kind input)) \<le> 8"
      using object_key.len [OF words(4)] by (cases "ui_kind input") (simp_all add: lit_def)
    moreover have "str_len (lit ''intake/'') = 7" "str_len (lit ''/'') = 1"
      by (simp_all add: lit_def encode_utf8_ascii)
    ultimately show ?thesis using key bytes by (auto simp: upload_object_key_def)
  qed
  then show ?thesis
    using object_key_segments [OF key sha name(1,2)] digest words name
    by (simp add: validate_object_key_Inr)
qed

section \<open>An intent reads back as it was stored\<close>

lemma find_unique:
  assumes "x \<in> set xs" and "P x" and "distinct (map f xs)" and "\<And>y. P y \<Longrightarrow> f y = f x"
  shows "List.find P xs = Some x"
proof (cases "List.find P xs")
  case None
  with assms(1,2) show ?thesis by (auto simp: find_None_iff)
next
  case (Some y)
  then have "y \<in> set xs" "P y" by (auto dest: find_SomeD)
  with assms have "y = x" by (metis map_inj_on_distinct)
  with Some show ?thesis by simp
qed

lemma upload_columns_distinct:
  "distinct (map fst (zip upload_columns (upload_values ctx input key sz expires)))"
  by (simp add: upload_columns_def upload_values_def)

lemma upload_row_cols:
  assumes new: "new = set_cols (zip upload_columns (upload_values ctx input key sz expires)) r"
  shows "new C_id = SUuid (ctx_canonical_id ctx)"
    "new C_applicant_subject = sql_opt SText (context_subject ctx)"
    "new (Up C_object_key) = SText key" "new (Up C_content_sha256) = SText (ui_sha256 input)"
    "new (Up C_content_type) = SText (ui_content_type input)" "new (Up C_size_bytes) = SInt sz"
    "new (Up C_status) = SText (lit ''pending'')" "new (Up C_expires_at) = STime expires"
  unfolding new
  by (rule set_cols_bound [OF upload_columns_distinct];
      simp add: upload_columns_def upload_values_def)+

lemma upload_intent_readable:
  assumes run: "store_upload_intent k display (utc target) target ctx input s = (Inr x, t)"
    and fresh: "\<not> su_replayed x" and ids: "ids_unique (committed t)"
    and quiet: "answers t = []" and early: "clock t < utc target + hours UPLOAD_LIFETIME_HOURS"
  shows "fst (pending_upload (su_id x) (ctx_subject ctx) t) =
    Inr \<lparr>pu_id = su_id x, pu_object_key = su_object_key x, pu_expected_sha256 = ui_sha256 input,
      pu_content_type = ui_content_type input, pu_size_bytes = ui_size_bytes input,
      pu_expires_at = su_expires_at x\<rparr>"
proof -
  obtain now cvs
    where plan: "plan_upload k display utc input target ctx now (committed s) = Inr cvs"
      and rows: "committed t Hhm_intake_uploads = committed s Hhm_intake_uploads
        @ [set_cols cvs (schema_defaults s now Hhm_intake_uploads)]"
      and read: "upload_from_row (set_cols cvs (schema_defaults s now Hhm_intake_uploads)) False = Inr x"
    by (rule uploads.planned [where utc = utc, OF run]) (use fresh in \<open>simp add: upload_view_def\<close>)
  define new where "new = set_cols cvs (schema_defaults s now Hhm_intake_uploads)"
  from plan obtain key sz where sz: "i64_of_u64 (ui_size_bytes input) = Some sz"
    and cvs: "cvs = zip upload_columns (upload_values ctx input key sz
      (utc target + hours UPLOAD_LIFETIME_HOURS))"
    by (auto simp: plan_upload_def yields)
  note cols = upload_row_cols [OF new_def [unfolded cvs]]
  from read cols have x: "su_id x = ctx_canonical_id ctx" "su_object_key x = key"
    "su_expires_at x = utc target + hours UPLOAD_LIFETIME_HOURS"
    by (auto simp: upload_from_row_def new_def [symmetric] bindR_Inr_iff read_Inr_iff)
  let ?owned = "owned_open_upload (su_id x) (ctx_subject ctx) (clock t)"
  have owned: "?owned new"
    using early by (simp add: owned_open_upload_def cols x sql_eq_def not_distinct_def
        context_subject_def sql_in_def open_statuses_def)
  have same: "r C_id = new C_id" if "?owned r" for r
    using that by (simp add: owned_open_upload_def cols x sql_eq_def)
  have "new \<in> set (committed t Hhm_intake_uploads)" by (simp only: rows new_def) simp
  then have found: "List.find ?owned (committed t Hhm_intake_uploads) = Some new"
    by (rule find_unique [where f = "\<lambda>r. r C_id"])
      (use owned ids_unique_uploads [OF ids] same in blast)+
  obtain r t' where pend: "pending_upload (su_id x) (ctx_subject ctx) t = (r, t')"
    by (cases "pending_upload (su_id x) (ctx_subject ctx) t")
  from pending.undisturbed(1) [OF quiet pend] found
  have "r = pending_from_row (Some new)" by (simp add: pending_upload_spec_def)
  with pend show ?thesis
    using u64_i64_roundtrip [OF sz] by (simp add: pending_from_row_def cols x read_uuid.simps read_string.simps
        read_timestamp.simps read_bigint.simps)
qed

end
