(* ===== verification/Example_Uploads.thy ===== *)
theory Example_Uploads imports Example Uploads begin

text \<open>
  Concrete databases with uploads in them: an open intent that can be completed, and the two
  verified documents an application needs. The witnesses of the upload properties run on them.
\<close>

section \<open>Databases that hold uploads\<close>

definition upload_entry :: "row \<Rightarrow> row" where
  "upload_entry r = (example_defaults 900 Hhm_submission_outbox)(
     Ob C_submission_kind := SText (database_value Upload), Ob C_submission_id := r C_id,
     C_payload_sha256 := r C_payload_sha256)"

definition uploads_world :: "row list \<Rightarrow> world" where
  "uploads_world rs = quiet_world\<lparr>
     w_primary := (example_session [])\<lparr>committed := (\<lambda>_. [])(Hhm_intake_uploads := rs,
       Hhm_submission_outbox := map upload_entry rs)\<rparr>,
     w_supabase := (example_session [])\<lparr>committed := (\<lambda>_. [])(Hhm_intake_uploads := rs)\<rparr>\<rparr>"

lemma uploads_world_tables:
  "identities Upload (committed (w_primary (uploads_world rs))) = map identity rs"
  "identities Upload (committed (w_supabase (uploads_world rs))) = map identity rs"
  "kind \<noteq> Upload \<Longrightarrow> identities kind (committed (w_primary (uploads_world rs))) = []"
  "kind \<noteq> Upload \<Longrightarrow> identities kind (committed (w_supabase (uploads_world rs))) = []"
  "kind \<noteq> Upload \<Longrightarrow> entries kind (committed (w_primary (uploads_world rs))) = []"
  by (cases kind; simp add: identities_def entries_def uploads_world_def upload_entry_def lit_def
      filter_empty_conv)+

lemma uploads_world_entries:
  "entries Upload (committed (w_primary (uploads_world rs)))
    = map (\<lambda>(i, key, digest). (i, digest)) (map identity rs)"
  by (induction rs) (simp_all add: entries_def uploads_world_def upload_entry_def identity_def)

lemma uploads_world_ok:
  assumes rows: "\<And>r. r \<in> set rs \<Longrightarrow> \<exists>i key digest. identity r = (SUuid i, SText key, SText digest)"
    and read: "\<And>r. r \<in> set rs \<Longrightarrow> readable Upload r"
    and ids: "distinct (map (\<lambda>r. r C_id) rs)" and keys: "distinct (map (\<lambda>r. r C_idempotency_key) rs)"
  shows "pair_ok (uploads_world rs)" "undisturbed (uploads_world rs)" "schema_stamps (uploads_world rs)"
proof -
  show "undisturbed (uploads_world rs)" "schema_stamps (uploads_world rs)"
    by (simp_all add: undisturbed_def uploads_world_def quiet_world_def example_session_def
        schema_stamps_def stamps_rows_def example_defaults_def)
  have tables: "rows_readable (committed (w_primary (uploads_world rs)))"
    "rows_readable (committed (w_supabase (uploads_world rs)))"
    using read by (simp_all add: rows_readable_def all_kinds uploads_world_def quiet_world_def
        example_session_def)
  have sound: "attempts_sound (committed (w_primary (uploads_world rs)))"
    by (auto simp: attempts_sound_def attempts_ok_def uploads_world_def quiet_world_def
        example_session_def upload_entry_def example_defaults_def)
  have fst: "map fst (map identity rs) = map (\<lambda>r. r C_id) rs"
    and snd: "map (fst \<circ> snd) (map identity rs) = map (\<lambda>r. r C_idempotency_key) rs"
    by (simp_all add: identity_def comp_def)
  have wf: "\<forall>v \<in> set (map identity rs). \<exists>i key digest. v = (SUuid i, SText key, SText digest)"
    using rows by auto
  show "pair_ok (uploads_world rs)"
    using tables sound wf ids keys
    by (simp add: pair_ok_def consistent_def primary_ok_def store_ok_def wf_rows_def keys_unique_def
        ids_unique_def outbox_in_step_def mirror_within_def all_kinds uploads_world_tables
        uploads_world_entries fst snd del: map_map list.set_map)
      (simp add: uploads_world_def quiet_world_def example_session_def example_defaults_def
        good_defaults_def)
qed

section \<open>An open intent\<close>

definition open_key :: str where
  "open_key = lit ''intake/resume/id-1/abab''"

definition open_upload :: row where
  "open_upload = set_cols (zip upload_columns (upload_values (example_context 9 None) example_upload
     open_key 3 8000000)) (example_defaults 900 Hhm_intake_uploads)"

lemmas open_upload_cols = upload_row_cols [OF open_upload_def]

definition upload_world :: world where
  "upload_world = uploads_world [open_upload]"

definition example_pending :: pending_upload where
  "example_pending = \<lparr>pu_id = 9, pu_object_key = open_key, pu_expected_sha256 = example_digest,
     pu_content_type = lit ''application/pdf'', pu_size_bytes = 3, pu_expires_at = 8000000\<rparr>"

lemma example_digest_valid: "valid_digest example_digest"
  using example_digest_facts
  by (simp add: valid_digest_def lower_hexdigit.bytes_iff lower_hexdigit.len)

lemma open_upload_owned: "now < 8000000 \<Longrightarrow> owned_open_upload 9 None now open_upload"
  by (simp add: owned_open_upload_def open_upload_cols sql_eq_def not_distinct_def sql_opt_def
      context_subject_def example_context_simps sql_in_def open_statuses_def)

lemma open_upload_reads: "pending_from_row (Some open_upload) = Inr example_pending"
  by (simp add: pending_from_row_def open_upload_cols read_uuid.simps read_string.simps
      read_timestamp.simps read_bigint.simps u64_of_i64_def example_pending_def
      example_context_simps example_upload_def)

lemma open_upload_found:
  assumes "answers s = []" and "committed s Hhm_intake_uploads = [open_upload]" and "clock s = 1000"
  shows "\<exists>t. pending_upload 9 None s = (Inr example_pending, t) \<and> answers t = [] \<and>
    committed t = committed s \<and> clock t = 1000"
    and "\<exists>t. verify_upload 9 None example_digest s = (Inr (), t)"
proof -
  obtain r t where run: "pending_upload 9 None s = (r, t)" by (cases "pending_upload 9 None s")
  from pending.undisturbed [OF assms(1) run] assms(2,3) open_upload_owned [of 1000]
  show "\<exists>t. pending_upload 9 None s = (Inr example_pending, t) \<and> answers t = [] \<and>
    committed t = committed s \<and> clock t = 1000"
    using run by (auto simp: pending_upload_spec_def open_upload_reads)
next
  obtain r t where run: "verify_upload 9 None example_digest s = (r, t)"
    by (cases "verify_upload 9 None example_digest s")
  have "matching Hhm_intake_uploads (upload_match 9 None example_digest 1000) (committed s) = 1"
    using open_upload_owned [of 1000]
    by (simp add: matching_def assms(2) upload_match_def sql_eq_def open_upload_cols example_upload_def)
  with verifying.undisturbed(1) [OF assms(1) run] example_digest_valid
  have "r = Inr ()" by (simp add: verify_upload_spec_def assms(3))
  with run show "\<exists>t. verify_upload 9 None example_digest s = (Inr (), t)" by blast
qed

lemma example_object:
  "verify_object example_lib (sv_fetch example_services) (sv_sha256 example_services)
     (app_storage example_app) example_pending = Inr ()"
proof -
  have key: "validate_object_key open_key = Inr ()"
    by (simp add: validate_object_key_def open_key_def starts_with_def bad_segment_def key_byte_def
        text_eval)
  have media: "media_type (Some (HText (lit ''application/pdf''))) = Some (lit ''application/pdf'')"
    by (simp add: media_type_def lit_def trim_def trim_start_def is_whitespace_def)
  show ?thesis
    by (auto simp: verify_object_Inr example_pending_def key stored_object_def example_lib_def
        example_services_def object_matches_def example_reply_def is_success_def media
        External.MAX_UPLOAD_BYTES_def example_digest_def)
qed

lemma example_completed:
  "\<exists>w'. complete_upload example_app 9 public_headers example_complete upload_world = (Inr 9, w')"
proof -
  let ?p = "w_primary upload_world" and ?m = "w_supabase upload_world"
  have start: "answers ?p = []" "committed ?p Hhm_intake_uploads = [open_upload]" "clock ?p = 1000"
    "answers ?m = []" "committed ?m Hhm_intake_uploads = [open_upload]" "clock ?m = 1000"
    by (simp_all add: upload_world_def uploads_world_def quiet_world_def example_session_def)
  obtain p1 where p1: "pending_upload 9 None ?p = (Inr example_pending, p1)" "answers p1 = []"
    "committed p1 = committed ?p" "clock p1 = 1000"
    using open_upload_found(1) [OF start(1-3)] by blast
  obtain m1 where m1: "pending_upload 9 None ?m = (Inr example_pending, m1)" "answers m1 = []"
    "committed m1 = committed ?m" "clock m1 = 1000"
    using open_upload_found(1) [OF start(4-6)] by blast
  obtain p2 where p2: "verify_upload 9 None example_digest p1 = (Inr (), p2)"
    using open_upload_found(2) [of p1] p1 start by auto
  obtain m2 where m2: "verify_upload 9 None example_digest m1 = (Inr (), m2)"
    using open_upload_found(2) [of m1] m1 start by auto
  have pending: "pu_expected_sha256 example_pending = example_digest"
    by (simp add: example_pending_def)
  show ?thesis
    using example_public example_object p1(1) p2 m1(1) m2
    by (simp add: complete_upload_def Let_def example_complete_def bindA_def from_data_def map_errA_def
        on_primary_def on_supabase_def pending same_upload_identity_def)
qed

lemma example_signed:
  "create_signed_upload_url example_lib (sv_sign example_services) (sv_decode_signed example_services)
     (app_storage example_app) open_key = Inr example_signed_url"
proof -
  have key: "validate_object_key open_key = Inr ()"
    by (simp add: validate_object_key_def open_key_def starts_with_def bad_segment_def key_byte_def
        text_eval)
  show ?thesis
    by (simp add: create_signed_upload_url_def key storage_base_def example_lib_def example_services_def
        example_reply_def is_success_def response_json_def relative_upload_def unwrap_or_def
        strip_prefix_def starts_with_def example_app_def example_signed_url_def example_url_def lit_def)
qed

lemma example_intent_stored:
  "\<exists>x t. store_upload_intent example_contract (\<lambda>_. lit ''id-1'') 0 Primary (example_context 9 None)
      example_upload (example_session []) = (Inr x, t) \<and>
    \<not> su_replayed x \<and> ids_unique (committed t) \<and> answers t = [] \<and> clock t = 1000"
proof -
  let ?s = "example_session []" and ?ctx = "example_context 9 None"
  have quiet: "answers ?s = []" "clock ?s = 1000" by (simp_all add: example_session_def)
  have wf: "wf_rows (committed ?s)" "store_ok (committed ?s)" "primary_ok (committed ?s)"
    using quiet_world_facts(2) consistent_wf by (auto simp: pair_ok_def quiet_world_def)
  have "byte_prefix 16 (ui_sha256 example_upload) = Some (take 16 example_digest)"
    using byte_prefix_ascii [OF lower_hexdigit.text_ascii [OF example_digest_facts(2)]]
      example_digest_facts(1) by (simp add: example_upload_def)
  moreover have "i64_of_u64 (ui_size_bytes example_upload) = Some 3"
    by (simp add: example_upload_def i64_of_u64_def)
  ultimately obtain cvs where plan: "plan_upload example_contract (\<lambda>_. lit ''id-1'') (\<lambda>_. 0) example_upload
      Primary ?ctx (clock ?s) (committed ?s) = Inr cvs"
    and read: "readable Upload (set_cols cvs (schema_defaults ?s (clock ?s) (table_name Upload)))"
    using plan_upload_ok [OF example_valid(2), where d = "schema_defaults ?s (clock ?s)"] by fastforce
  have none: "\<not> holds Upload i key digest (committed ?s)" for i key digest
    using quiet_world_facts(5) [of Upload i key digest] by (simp add: quiet_world_def)
  obtain x t where run: "store_upload_intent example_contract (\<lambda>_. lit ''id-1'') 0 Primary ?ctx example_upload ?s
      = (Inr x, t)" and t: "answers t = []"
    using uploads.quiet_store [where utc = "\<lambda>_. 0", OF quiet(1) wf(2) plan read] none by auto
  have new: "\<not> su_replayed x"
    using uploads.result(1,2) [where utc = "\<lambda>_. 0", OF run wf(1)] none
    by (auto simp: upload_view_def)
  have fresh: "fresh_id Upload (ctx_canonical_id ?ctx) (committed ?s)"
    using quiet_world_facts(4) by (simp add: quiet_world_def)
  obtain now where "appended Upload Primary ?ctx (schema_defaults ?s now) (committed ?s) (committed t)"
    using uploads.result(3) [where utc = "\<lambda>_. 0", OF run wf(1)] new by (auto simp: upload_view_def)
  from appended_keeps_primary_ok [OF this wf(3) fresh]
  have "ids_unique (committed t)"
    by (simp add: primary_ok_def good_defaults_def example_session_def example_defaults_def lit_def)
  moreover have "clock t = 1000"
    using uploads.stored.undisturbed(3) [where utc = "\<lambda>_. 0", OF quiet(1) run] quiet(2) by simp
  ultimately show ?thesis using run new t by blast
qed

section \<open>The documents of an application\<close>

definition document :: "uuid \<Rightarrow> upload_kind \<Rightarrow> row" where
  "document i kind = (example_defaults 900 Hhm_intake_uploads)(C_id := SUuid i,
     C_idempotency_key := SText [i], C_payload_sha256 := SText example_digest,
     Up C_kind := SText (upload_kind_label kind), Up C_status := SText (lit ''verified''),
     Up C_expires_at := STime 8000000, Up C_object_key := SText open_key)"

definition documents_world :: world where
  "documents_world = uploads_world [document 21 Resume, document 22 PhotoId]"

definition example_application :: application_create where
  "example_application = \<lparr>ap_email = lit ''a@b.c'', ap_linkedin_url = lit ''l'', ap_legal_name = lit ''n'',
     ap_date_of_birth = 0, ap_nationality = lit ''co'', ap_phone = lit ''1'', ap_current_city = lit ''m'',
     ap_github_url = None, ap_portfolio_url = None, ap_entrepreneurship_idea = lit ''idea'',
     ap_project_stage = Idea, ap_stay_preference = ThreeMonths, ap_preferred_start_month = 0,
     ap_community_contribution = lit ''c'', ap_accessibility_or_accommodation_notes = None,
     ap_allergy_notes = None, ap_noise_sensitivity = SensitivityLow,
     ap_light_sensitivity = SensitivityNone, ap_room_preference_notes = None,
     ap_roommate_preference = Flexible, ap_preferred_room_occupancy = 2,
     ap_roommate_for_lower_cost = True, ap_roommate_for_social_connection = False,
     ap_accommodation_data_consent = True, ap_resume_upload_id = 21, ap_photo_id_upload_id = 22,
     ap_age_and_identity_attestation = True, ap_privacy_notice_version = lit ''v1'',
     ap_turnstile_token = Some (lit ''proof'')\<rparr>"

lemma documents_world_facts:
  "pair_ok documents_world" "undisturbed documents_world" "schema_stamps documents_world"
  "fresh_id Application i (committed (w_primary documents_world))"
  "\<not> holds Application i key digest (committed (w_primary documents_world))"
proof -
  let ?rs = "[document 21 Resume, document 22 PhotoId]"
  have rows: "\<exists>i key digest. identity r = (SUuid i, SText key, SText digest)" "readable Upload r"
    if "r \<in> set ?rs" for r
    using that by (auto simp: document_def identity_def)
  have ids: "distinct (map (\<lambda>r. r C_id) ?rs)" and keys: "distinct (map (\<lambda>r. r C_idempotency_key) ?rs)"
    by (simp_all add: document_def)
  from uploads_world_ok [OF rows ids keys]
  show "pair_ok documents_world" "undisturbed documents_world" "schema_stamps documents_world"
    by (simp_all add: documents_world_def)
  show "fresh_id Application i (committed (w_primary documents_world))"
    "\<not> holds Application i key digest (committed (w_primary documents_world))"
    by (simp_all add: documents_world_def fresh_id_def uploads_world_tables holds_identities_list)
qed

lemma example_application_admitted:
  "admission example_app i public_headers (ApplicationRequest example_application)
     = Inr (example_context i None)"
proof -
  have digest: "canonical_digest_without_turnstile example_services (sv_application_to_value example_services a)
      = Inr example_digest" for a
    by (simp add: canonical_digest_without_turnstile_def canonical_digest_def reject_def
        example_services_def example_digest_def)
  have token: "ap_turnstile_token example_application = Some (lit ''proof'')"
    by (simp add: example_application_def)
  show ?thesis
    using digest example_submission_context example_public
    by (simp add: admit_public_def token) (simp add: example_contract_def)
qed

lemma example_documents_in_place:
  "s \<in> {w_primary documents_world, w_supabase documents_world} \<Longrightarrow>
     uploads_in_place (example_context 7 None) example_application s"
  "i16_try_from (ap_preferred_room_occupancy example_application) \<noteq> None"
  by (auto simp: uploads_in_place_def documents_world_def uploads_world_def quiet_world_def
      example_session_def verified_upload_for_def document_def example_application_def
      example_defaults_def not_distinct_def sql_eq_def context_subject_def example_context_simps
      sql_opt_def i16_try_from_def)

lemma example_application_accepted:
  "\<exists>resp w'. respond example_app 7 public_headers (ApplicationRequest example_application)
     documents_world = (Inr resp, w')"
proof -
  have pre: "prerequisites (ApplicationRequest example_application) (example_context 7 None) documents_world"
    using example_documents_in_place by simp
  obtain r w' where run: "respond example_app 7 public_headers (ApplicationRequest example_application)
      documents_world = (r, w')" by force
  from respond_completes [OF example_application_admitted _ documents_world_facts(2,1,3,4) pre _ run]
    documents_world_facts(5) run
  show ?thesis by auto
qed

lemma example_application_stored:
  "\<exists>x t. store_application example_contract Primary (example_context 7 None) example_application
     (w_primary documents_world) = (Inr x, t) \<and> \<not> ss_replayed x"
proof -
  let ?s = "w_primary documents_world" and ?ctx = "example_context 7 None"
  have quiet: "answers ?s = []" and stamps: "stamps_rows (schema_defaults ?s (clock ?s))"
    using documents_world_facts(2,3) by (simp_all add: undisturbed_def schema_stamps_def)
  have sound: "store_ok (committed ?s)" and wf: "wf_rows (committed ?s)"
    using documents_world_facts(1) consistent_wf by (auto simp: pair_ok_def)
  have none: "\<not> holds Application i (ctx_idempotency_key ?ctx) digest (committed ?s)" for i digest
    by (rule documents_world_facts(5))
  have verified: "length (filter (verified_upload_for ?ctx example_application (clock ?s))
      (committed ?s Hhm_intake_uploads)) = 2"
    using example_documents_in_place(1) [of ?s] by (simp add: uploads_in_place_def)
  have valid: "application_validate example_contract example_application = Inr ()"
    by (simp add: example_contract_def)
  obtain cvs where plan: "plan_application example_contract example_application Primary ?ctx (clock ?s)
      (committed ?s) = Inr cvs"
    "readable Application (set_cols cvs (schema_defaults ?s (clock ?s) (table_name Application)))"
    using plan_application_ok [where st = "committed ?s",
        OF valid example_documents_in_place(2) verified stamps] by blast
  obtain x t where run: "store_application example_contract Primary ?ctx example_application ?s = (Inr x, t)"
    using applications.quiet_store [OF quiet sound plan] none by blast
  have "\<not> ss_replayed x"
    using applications.result(1,2) [OF run wf] none by auto
  with run show ?thesis by blast
qed

section \<open>A conflicting payload\<close>

definition other_context :: submission_context where
  "other_context = (example_context 7 None)\<lparr>ctx_payload_sha256 := lower_hex other_digest_bytes\<rparr>"

lemma other_admitted:
  "admission other_app 7 public_headers (PreInterestRequest example_pre_interest) = Inr other_context"
proof -
  have services: "app_services other_app = example_services\<lparr>sv_sha256 := (\<lambda>_. other_digest_bytes)\<rparr>"
    by (simp add: other_app_def)
  have public: "authenticate_or_verify_public other_app public_headers (Some (lit ''proof'')) = Inr None"
    using example_public by (simp add: authenticate_or_verify_public_def other_app_def)
  have digest: "canonical_digest_without_turnstile (app_services other_app)
      (sv_pre_interest_to_value (app_services other_app) example_pre_interest)
    = Inr (lower_hex other_digest_bytes)"
    using other_digest(1) by simp
  have wf: "wf_context other_context"
    using example_context_wf(1) [of 7 None]
    by (simp add: wf_context_def other_context_def lower_hex_facts other_digest_bytes_def)
  have host: "source_host example_lib public_headers = Inr (lit ''hhaus.org'')"
    and key: "idempotency_key public_headers = Inr example_key"
    using example_headers_host example_headers_key by simp_all
  have "submission_context_for example_lib 7 None public_headers (lower_hex other_digest_bytes)
      = Inr other_context"
    using wf example_context_wf(2)
    by (simp add: submission_context_for_def host key context_public_def map_err_Inr_iff
        context_new_Inr_iff other_context_def example_context_def)
  with public digest show ?thesis
    by (simp add: admit_public_def services example_pre_interest_def)
qed

lemma example_conflict:
  "\<exists>w'. respond other_app 7 public_headers (PreInterestRequest example_pre_interest) stored_world
     = (Inl (Failed failure_conflict), w')"
proof -
  let ?s = "w_primary stored_world"
  obtain r t where run: "store_pre_interest example_contract Primary other_context example_pre_interest ?s
      = (r, t)" by force
  have quiet: "answers ?s = []" using stored_world_facts(1) by (simp add: undisturbed_def)
  have found: "List.find (by_key example_key now) (committed ?s Hhm_pre_interests) = Some stored_row" for now
    by (simp add: stored_world_def by_key_def stored_row_def sql_eq_def)
  have "require_same_payload stored_row (lower_hex other_digest_bytes) = Inl IdempotencyConflict"
    using other_digest(2) by (simp add: require_same_payload_def read_string.simps stored_row_def)
  with pre_interests.stored.undisturbed(1) [OF quiet run] found
  have "r = Inl IdempotencyConflict"
    by (simp add: command_spec_def plan_pre_interest_def submit_spec_def other_context_def
        example_context_simps)
  with run other_admitted have "create_pre_interest other_app 7 public_headers example_pre_interest stored_world
      = (Inl (Failed failure_conflict), stored_world\<lparr>w_primary := t\<rparr>)"
    by (simp add: create_pre_interest_eq bindA_def dual_write_def from_data_def map_errA_def
        on_primary_def other_app_def example_services_def)
  then show ?thesis by (simp add: bindA_def)
qed

end
