(* ===== verification/Failures.thy ===== *)
theory Failures imports Service begin

text \<open>
  The failures a client can see. Every handler reports one of five statuses; a failure is
  retryable exactly when its status is 503, and only such a failure names a submission.
\<close>

section \<open>What goes over the wire\<close>

text \<open>A failure is its status and, as JSON, its other fields (\<open>submissionId\<close> only when there is one);
  a handler that panicked has no response of its own.\<close>

record api_error_body =
  ae_code :: string
  ae_message :: string
  ae_retryable :: bool
  ae_submission_id :: "uuid option"

definition into_response :: "api_failure \<Rightarrow> nat \<times> api_error_body" where
  "into_response f = (af_status f, \<lparr>ae_code = af_code f, ae_message = af_message f,
     ae_retryable = af_retryable f, ae_submission_id = af_submission_id f\<rparr>)"

fun success_status :: "response \<Rightarrow> nat" where
  "success_status (Created _) = 201"
| "success_status (IntentCreated _) = 201"
| "success_status (UploadVerified _) = 200"
| "success_status (Healthy _) = 200"

lemma respond_success_status:
  "respond app fresh h req w = (Inr resp, w') \<Longrightarrow>
     success_status resp = (if kind_of req = None then 200 else 201)"
  by (cases req) (auto simp: yields)

section \<open>Well-reported failures\<close>

definition well_reported :: "api_failure \<Rightarrow> bool" where
  "well_reported f \<longleftrightarrow>
     List.member [401, 403, 409, 422, 503] (af_status f) \<and>
     (af_retryable f \<longleftrightarrow> af_status f = 503) \<and>
     (af_submission_id f = None \<or> f = mirror_unavailable (the (af_submission_id f)))"

definition reported :: "api_error \<Rightarrow> bool" where
  "reported e = (case e of Failed f \<Rightarrow> well_reported f | Aborted \<Rightarrow> True)"

section \<open>Which errors a computation may end in\<close>

definition errs :: "('e \<Rightarrow> bool) \<Rightarrow> 'e + 'a \<Rightarrow> bool" where
  "errs P r \<longleftrightarrow> (\<forall>e. r = Inl e \<longrightarrow> P e)"

definition fails_with :: "('e \<Rightarrow> bool) \<Rightarrow> ('s, 'e, 'a) action \<Rightarrow> bool" where
  "fails_with P m \<longleftrightarrow> (\<forall>s. errs P (fst (m s)))"

named_theorems failing

lemma errs_rules [failing]:
  "errs P (Inr a)" "P e \<Longrightarrow> errs P (Inl e)" "P e \<Longrightarrow> errs P (ok_or v e)" "P e \<Longrightarrow> errs P (ensure b e)"
  "errs P r \<Longrightarrow> (\<And>a. errs P (f a)) \<Longrightarrow> errs P (bindR r f)"
  "(\<And>x. P (g x)) \<Longrightarrow> errs P (map_err g q)"
  "(b \<Longrightarrow> errs P x) \<Longrightarrow> (\<not> b \<Longrightarrow> errs P y) \<Longrightarrow> errs P (if b then x else y)"
  by (auto simp: errs_def bindR_def ok_or_def ensure_def map_err_def
      split: sum.splits option.splits)

lemma errs_option [failing]:
  "errs P x \<Longrightarrow> (\<And>a. errs P (f a)) \<Longrightarrow> errs P (case v of None \<Rightarrow> x | Some a \<Rightarrow> f a)"
  by (cases v) auto

lemma fails_bind [failing]:
  "fails_with P m \<Longrightarrow> (\<And>a. fails_with P (f a)) \<Longrightarrow> fails_with P (bindA m f)"
  by (auto simp: fails_with_def errs_def bindA_def split: prod.splits sum.splits)
    (metis fst_conv)+

lemma fails_rules [failing]:
  "fails_with P (okA a)" "P e \<Longrightarrow> fails_with P (failA e)" "errs P r \<Longrightarrow> fails_with P (liftR r)"
  "(b \<Longrightarrow> fails_with P m) \<Longrightarrow> (\<not> b \<Longrightarrow> fails_with P n) \<Longrightarrow> fails_with P (if b then m else n)"
  by (auto simp: fails_with_def errs_def)

lemma errs_Failed [failing]:
  "errs well_reported r \<Longrightarrow> errs reported (map_err Failed r)"
  by (auto simp: errs_def map_err_def reported_def split: sum.splits)

section \<open>The failures of the source\<close>

lemma well_reported_failures [failing]:
  "well_reported failure_invalid" "well_reported failure_conflict"
  "well_reported (mirror_unavailable i)" "well_reported persistence_unavailable"
  by (simp_all add: well_reported_def failure_invalid_def failure_conflict_def
      mirror_unavailable_def persistence_unavailable_def api_failure_new_def)

lemma well_reported_of [failing]:
  "well_reported (failure_of_auth a)" "well_reported (failure_of_external x)"
  "reported (failure_of_data d)" "well_reported (failure_of_context d)"
proof -
  show auth: "well_reported (failure_of_auth a)" for a
    by (cases a) (simp_all add: well_reported_def api_failure_new_def)
  show "well_reported (failure_of_external x)"
    by (cases x) (simp_all add: well_reported_failures, simp_all add: well_reported_def api_failure_new_def)
  show data: "reported (failure_of_data d)" for d
    by (cases d) (simp_all add: reported_def well_reported_failures auth del: failure_of_auth.simps)
  show "well_reported (failure_of_context d)"
    using data [of d] by (cases "failure_of_data d") (simp_all add: reported_def well_reported_failures)
qed

lemma reported_Failed [failing]: "well_reported f \<Longrightarrow> reported (Failed f)"
  by (simp add: reported_def)

section \<open>Every request\<close>

lemma fails_from_data [failing]: "fails_with reported (from_data m)"
  by (auto simp: fails_with_def errs_def from_data_def map_errA_Inl_iff well_reported_of
      split: prod.splits sum.splits) (metis (no_types, lifting) fst_conv map_errA_def map_err_Inl_iff
      prod.collapse split_conv well_reported_of(3))

lemma fails_or_failure [failing]: "well_reported f \<Longrightarrow> fails_with reported (or_failure f m)"
  by (auto simp: fails_with_def errs_def or_failure_def map_errA_def map_err_Inl_iff reported_def
      split: prod.splits)

lemma fails_caught [failing]: "fails_with reported (caught m)"
  by (auto simp: fails_with_def errs_def caught_def reported_def
      split: prod.splits sum.splits data_error.splits)

text \<open>What holds of the failures an admission is built from holds of every failed admission.\<close>

locale admission_failures =
  fixes P :: "api_failure \<Rightarrow> bool"
  assumes invalid: "P failure_invalid" and auth: "P (failure_of_auth a)"
    and external: "P (failure_of_external x)" and context_failure: "P (failure_of_context d)"
begin

lemmas base = invalid auth external context_failure

lemma reject: "errs P (reject v)"
  unfolding reject_def by (intro failing base)

lemma parts:
  "errs P (canonical_digest sha b)" "errs P (canonical_digest_without_turnstile sv v)"
  "errs P (idempotency_key h)" "errs P (source_host lib h)"
  "errs P (authenticate_or_verify_public app h token)"
  unfolding canonical_digest_def canonical_digest_without_turnstile_def idempotency_key_def
    source_host_def header_text_def authenticate_or_verify_public_def Let_def
  by (intro failing base reject)+

lemma submission_context: "errs P (submission_context_for lib fresh subject h digest)"
  unfolding submission_context_for_def by (intro failing base parts)

lemma admit:
  "errs P (admit_public app fresh h validated token value)" "errs P (admit_referral app fresh h input)"
  unfolding admit_public_def admit_referral_def Let_def
  by (intro failing base parts submission_context)+

lemma admitted: "errs P (admission app fresh h req)"
  by (cases req) (simp_all add: admit, simp_all add: errs_def invalid)

end

interpretation shapes: admission_failures well_reported
  by unfold_locales (rule well_reported_failures well_reported_of)+

lemma failure_of_data_unnamed: "failure_of_data d = Failed f \<Longrightarrow> af_submission_id f = None"
  by (rule pre_interests.failure_of_data_silent)

interpretation names: admission_failures "\<lambda>f. af_submission_id f = None"
proof unfold_locales
  show "af_submission_id (failure_of_external x) = None" for x
    by (cases x) (simp_all add: failure_invalid_def failure_conflict_def api_failure_new_def)
  show "af_submission_id (failure_of_context d) = None" for d
    by (cases "failure_of_data d")
      (simp_all add: failure_of_data_unnamed failure_invalid_def api_failure_new_def)
  show "af_submission_id (failure_of_auth a) = None" for a
    by (cases a) (simp_all add: api_failure_new_def)
qed (simp add: failure_invalid_def api_failure_new_def)

lemmas admission_reports [failing] = shapes.admit shapes.parts shapes.reject

lemma admission_names_nothing:
  "admission app fresh h req = Inl f \<Longrightarrow> af_submission_id f = None"
  using names.admitted [of app fresh h req] by (simp add: errs_def)

lemma fails_dual_write [failing]: "fails_with reported (dual_write kind id_of cmd ctx)"
  unfolding dual_write_def record_failure_def by (intro failing)

lemma respond_reported: "fails_with reported (respond app fresh h req)"
proof (cases req)
  case (CompleteRequest i input)
  have signed: "map_err (\<lambda>_. Failed failure_invalid) r = map_err Failed (map_err (\<lambda>_. failure_invalid) r)"
    "map_err (\<lambda>e. Failed (failure_of_external e)) x = map_err Failed (map_err failure_of_external x)"
    for r :: "validation_error + unit" and x :: "external_error + unit"
    by (cases r; cases x; simp)+
  show ?thesis
    unfolding CompleteRequest respond.simps complete_upload_def Let_def signed by (intro failing)
qed (simp only: respond.simps create_pre_interest_eq create_upload_intent_eq
    create_application_eq create_referral_eq readiness_def, intro failing)+

section \<open>Panics\<close>

lemma reads_never_panic [simp]:
  "pending_upload i subject s \<noteq> (Inl Panicked, t)" "verify_upload i subject sha s \<noteq> (Inl Panicked, t)"
  "ping s \<noteq> (Inl Panicked, t)"
proof -
  have pend: "pending_from_row found \<noteq> Inl Panicked" for found
    by (auto simp: pending_from_row_def bindR_def ok_or_def split: sum.splits option.splits
        dest!: read_Inl)
  show "pending_upload i subject s \<noteq> (Inl Panicked, t)"
    using pending.error_effect [of i subject s Panicked t] pend by (fastforce simp: pending_upload_spec_def)
  show "verify_upload i subject sha s \<noteq> (Inl Panicked, t)"
    using verifying.error_effect [of i subject sha s Panicked t]
    by (fastforce simp: verify_upload_spec_def ensure_def split: if_splits)
  show "ping s \<noteq> (Inl Panicked, t)"
    using pinging.error_effect [of s Panicked t] by fastforce
qed

text \<open>A storing command that panics is an upload intent whose digest has no 16-byte prefix.\<close>

lemma plans_panic:
  "plan_pre_interest k a target ctx now st \<noteq> Inl Panicked"
  "plan_referral k b target ctx now st \<noteq> Inl Panicked"
  "plan_application k c target ctx now st \<noteq> Inl Panicked"
  "plan_upload k display utc u target ctx now st = Inl Panicked \<Longrightarrow> byte_prefix 16 (ui_sha256 u) = None"
  by (auto simp: plan_pre_interest_def plan_referral_def plan_application_def plan_upload_def
      upload_object_key_def require_subject_def bindR_def map_err_def ok_or_def ensure_def
      split: sum.splits option.splits if_splits)

lemma submit_aborted:
  assumes run: "submit app req ctx w = (Inl Aborted, w')" and kind: "kind_of req = Some kind"
    and ok: "pair_ok w"
  obtains input where "req = UploadRequest input" "byte_prefix 16 (ui_sha256 input) = None"
proof -
  from ok have wf: "wf_rows (committed (w_primary w))" "wf_rows (committed (w_supabase w))"
    using consistent_wf by (auto simp: pair_ok_def)
  show ?thesis
  proof (cases req)
    case (PreInterestRequest input)
    with run pre_interests.dual_aborted [OF _ wf] plans_panic(1) show ?thesis by fastforce
  next
    case (UploadRequest input)
    from run [unfolded UploadRequest] show ?thesis
    proof (cases rule: submit_upload)
      case (1 e)
      with uploads.dual_aborted [OF _ wf] plans_panic(4) UploadRequest that show ?thesis by fastforce
    qed simp
  next
    case (ApplicationRequest input)
    with run applications.dual_aborted [OF _ wf] plans_panic(3) show ?thesis by fastforce
  next
    case (ReferralRequest input)
    with run referrals.dual_aborted [OF _ wf] plans_panic(2) show ?thesis by fastforce
  qed (use kind in auto)
qed

lemma quiet_reads_abort:
  "from_data (on_primary (pending_upload i subject)) w \<noteq> (Inl Aborted, w')"
  "from_data (on_supabase (pending_upload i subject)) w \<noteq> (Inl Aborted, w')"
  "from_data (on_primary (verify_upload i subject sha)) w \<noteq> (Inl Aborted, w')"
  "from_data (on_supabase (verify_upload i subject sha)) w \<noteq> (Inl Aborted, w')"
  "from_data (on_primary ping) w \<noteq> (Inl Aborted, w')" "from_data (on_supabase ping) w \<noteq> (Inl Aborted, w')"
proof -
  have only: "Aborted = failure_of_data e \<longleftrightarrow> e = Panicked" for e by (cases e) auto
  show "from_data (on_primary (pending_upload i subject)) w \<noteq> (Inl Aborted, w')"
    "from_data (on_supabase (pending_upload i subject)) w \<noteq> (Inl Aborted, w')"
    "from_data (on_primary (verify_upload i subject sha)) w \<noteq> (Inl Aborted, w')"
    "from_data (on_supabase (verify_upload i subject sha)) w \<noteq> (Inl Aborted, w')"
    "from_data (on_primary ping) w \<noteq> (Inl Aborted, w')"
    "from_data (on_supabase ping) w \<noteq> (Inl Aborted, w')"
    by (auto simp: from_data_def map_errA_Inl_iff only on_primary_iff)
qed

lemma never_aborted:
  "complete_upload app i h input w \<noteq> (Inl Aborted, w')" "readiness w \<noteq> (Inl Aborted, w')"
  by (auto simp: complete_upload_def readiness_def Let_def bindA_Inl_iff quiet_reads_abort map_err_Inl_iff
      liftR_iff split: if_splits)

lemma respond_aborted:
  assumes run: "respond app fresh h req w = (Inl Aborted, w')" and ok: "pair_ok w"
  obtains input where "req = UploadRequest input" "byte_prefix 16 (ui_sha256 input) = None"
    "upload_intent_validate (sv_contract (app_services app)) input = Inr ()"
proof (cases "kind_of req")
  case None
  with run never_aborted show ?thesis
    by (cases req) (auto simp: bindA_Inl_iff)
next
  case (Some kind)
  from run Some show ?thesis
  proof (cases rule: respond_cases)
    case (failed ctx e)
    then have "submit app req ctx w = (Inl Aborted, w')" by simp
    then show ?thesis
    proof (rule submit_aborted [OF _ Some ok])
      fix input assume req: "req = UploadRequest input" and cut: "byte_prefix 16 (ui_sha256 input) = None"
      with failed(1) admit_public_Inr that show ?thesis by (metis admission.simps(2))
    qed
  qed auto
qed

end
