(* ===== verification/Outages.thy ===== *)
theory Outages imports Example_Uploads Failures begin

text \<open>
  Behaviour at the edges of the two-database protocol, on concrete databases and in general: a
  replay whose mirror call fails, a mirror commit whose acknowledgement is lost, and a replayed
  application whose uploads have expired meanwhile.
\<close>

section \<open>Recording a failure takes the mirrored mark away\<close>

lemma supabase_unavailable_valid: "valid_error_code (lit ''supabase_unavailable'')"
  by (simp add: valid_error_code_def error_code_byte_def text_eval)

lemma only_match:
  assumes "matching t (\<lambda>r. A r \<and> B r) st = 1" and "matching t A st = 1"
    and "e \<in> set (st t)" and "A e"
  shows "B e"
proof -
  from assms(2) obtain y where y: "filter A (st t) = [y]"
    by (auto simp: matching_def length_Suc_conv)
  have "e \<in> set (filter A (st t))" using assms(3,4) by simp
  with y have "e = y" by simp
  have "filter (\<lambda>r. A r \<and> B r) (st t) = filter B (filter A (st t))"
    by (simp add: conj_commute)
  with assms(1) y \<open>e = y\<close> show ?thesis by (auto simp: matching_def split: if_splits)
qed

lemma recorded_not_marked:
  assumes quiet: "answers s = []" and ok: "primary_ok (committed s)"
    and run: "record_mirror_failure kind i (lit ''supabase_unavailable'') s = (Inr (), t)"
    and held: "holds kind i key digest (committed s)"
  shows "\<not> marked kind i digest (committed t)"
proof
  assume marked: "marked kind i digest (committed t)"
  let ?f = "\<lambda>r :: row. r(C_mirror_status := SText (lit ''retryable_failure''))"
  let ?g = "record_attempt (lit ''supabase_unavailable'') (clock s)"
  let ?q = "\<lambda>r. outbox_entry kind i (clock s) r \<and> attempts_below (r (Ob C_attempts)) 100"
  let ?st = "if kind = Upload then committed s
    else update_table (table_name kind) (submission_row i (clock s)) ?f (committed s)"
  from recording.undisturbed(1) [OF quiet run]
  have two: "two_updates kind (submission_row i (clock s)) ?f ?q ?g (committed s) = (Inr (), committed t)"
    by (simp add: record_failure_spec_def supabase_unavailable_valid)
  then have once: "matching Hhm_submission_outbox ?q (committed s) = 1"
    and t: "committed t = update_table Hhm_submission_outbox ?q ?g ?st"
    by (auto simp: two_updates_def split: if_splits)
  from marked obtain e where e: "e \<in> set (committed t Hhm_submission_outbox)"
    "e (Ob C_submission_kind) = SText (database_value kind)" "e (Ob C_submission_id) = SUuid i"
    "e C_payload_sha256 = SText digest" "e C_mirror_status = SText (lit ''mirrored'')"
    by (auto simp: marked_def)
  have outbox: "committed t Hhm_submission_outbox
      = map (\<lambda>r. if ?q r then ?g r else r) (committed s Hhm_submission_outbox)"
    unfolding t by (cases "kind = Upload") (simp_all add: update_table_def)
  from e(1) obtain e0 where e0: "e0 \<in> set (committed s Hhm_submission_outbox)"
    "e = (if ?q e0 then ?g e0 else e0)"
    unfolding outbox by force
  have same: "?g r (Ob C_submission_kind) = r (Ob C_submission_kind)"
    "?g r (Ob C_submission_id) = r (Ob C_submission_id)" "?g r C_payload_sha256 = r C_payload_sha256" for r
    by (auto simp: record_attempt_def split: sql_value.splits)
  have ours: "outbox_entry kind i (clock s) e0"
    using e(2,3) e0(2) same by (auto simp: outbox_entry_def sql_eq_def split: if_splits)
  have one: "matching Hhm_submission_outbox (outbox_entry kind i (clock s)) (committed s) = 1"
    using outbox_matches_once [OF ok held, where Q = "\<lambda>_. True"] by simp
  from only_match [OF once one e0(1) ours] ours have "?q e0" by blast
  then have "e = ?g e0" "attempts_below (e0 (Ob C_attempts)) 100" using e0(2) by auto
  with e(5) show False
    by (cases "e0 (Ob C_attempts)") (auto simp: record_attempt_def split: if_splits)
qed

lemma recording_succeeds:
  assumes quiet: "answers s = []" and ok: "primary_ok (committed s)"
    and held: "holds kind i key digest (committed s)" and code: "valid_error_code code"
    and low: "\<And>e. e \<in> set (committed s Hhm_submission_outbox) \<Longrightarrow>
      e (Ob C_submission_kind) = SText (database_value kind) \<Longrightarrow> e (Ob C_submission_id) = SUuid i \<Longrightarrow>
      attempts_below (e (Ob C_attempts)) 100"
  shows "\<exists>t. record_mirror_failure kind i code s = (Inr (), t)"
proof -
  obtain r t where run: "record_mirror_failure kind i code s = (r, t)"
    by (cases "record_mirror_failure kind i code s")
  have ids: "ids_unique (committed s)" using ok by (simp add: primary_ok_def)
  have "matching (table_name kind) (submission_row i (clock s)) (committed s) = 1"
    by (rule stored_row_matches_once [OF ids held, where Q = "\<lambda>_. True"])
      (auto simp: submission_row_def sql_eq_def)
  moreover have "matching Hhm_submission_outbox
      (\<lambda>r. outbox_entry kind i (clock s) r \<and> attempts_below (r (Ob C_attempts)) 100) (committed s) = 1"
    by (rule outbox_matches_once [OF ok held]) (rule low)
  ultimately have "r = Inr ()"
    using recording.undisturbed(1) [OF quiet run] code
    by (simp add: record_failure_spec_def two_updates_def)
  with run show ?thesis by blast
qed

text \<open>What a recorded failure did to the one outbox row of the submission: one more attempt of at
  most 100, the last one terminal, and a next attempt within a delay of at most 2048 seconds.
  The cap of 3600 seconds in the source is never reached, because the exponent is capped first.\<close>

lemma retry_delay_bounds: "0 \<le> a \<Longrightarrow> 1 \<le> retry_delay a \<and> retry_delay a \<le> 2048"
proof -
  assume "0 \<le> a"
  have "(2 :: nat) ^ nat (min a 11) \<le> 2 ^ 11" by (rule power_increasing) auto
  then show ?thesis by (simp add: retry_delay_def)
qed

lemma retry_delay_eq: "0 \<le> a \<Longrightarrow> retry_delay a = 2 ^ nat (min a 11)"
  using retry_delay_bounds [of a] by (simp add: retry_delay_def)

definition one_more_attempt :: "str \<Rightarrow> timestamp \<Rightarrow> row \<Rightarrow> row \<Rightarrow> bool" where
  "one_more_attempt code now e e' \<longleftrightarrow> (\<exists>a delay. e (Ob C_attempts) = SInt a \<and> 0 \<le> a \<and> a < 100 \<and>
     e' (Ob C_attempts) = SInt (a + 1) \<and>
     e' C_mirror_status = SText (if a + 1 = 100 then lit ''terminal_failure'' else lit ''retryable_failure'') \<and>
     delay = 2 ^ nat (min a 11) \<and> 1 \<le> delay \<and> delay \<le> 2048 \<and> e' (Ob C_next_attempt_at) = STime (now + 1000 * delay) \<and>
     e' (Ob C_last_error_code) = SText code)"

lemma record_attempt_effect:
  assumes "attempts_ok e" and "attempts_below (e (Ob C_attempts)) 100"
  shows "one_more_attempt code now e (record_attempt code now e)"
proof -
  from assms obtain a where a: "e (Ob C_attempts) = SInt a" "0 \<le> a" "a < 100"
    by (auto simp: attempts_ok_def)
  with retry_delay_bounds [OF a(2)] retry_delay_eq [OF a(2)] show ?thesis
    unfolding one_more_attempt_def record_attempt_def
    by (intro exI [of _ a] exI [of _ "retry_delay a"]) auto
qed

lemma recorded_attempt:
  assumes run: "record_mirror_failure kind i code s = (Inr (), t)" and ok: "primary_ok (committed s)"
  obtains now e where "clock s \<le> now" "now \<le> clock t"
    "filter (outbox_entry kind i now) (committed s Hhm_submission_outbox) \<noteq> []"
    "e \<in> set (committed s Hhm_submission_outbox)" "outbox_entry kind i now e"
    "one_more_attempt code now e (record_attempt code now e)"
    "record_attempt code now e \<in> set (committed t Hhm_submission_outbox)"
proof -
  from recording.ok_effect [OF run] obtain now where now: "clock s \<le> now" "now \<le> clock t"
    and spec: "record_failure_spec kind i code now (schema_defaults s now) (committed s) = (Inr (), committed t)"
    by blast
  let ?f = "\<lambda>r :: row. r(C_mirror_status := SText (lit ''retryable_failure''))"
  let ?q = "\<lambda>r. outbox_entry kind i now r \<and> attempts_below (r (Ob C_attempts)) 100"
  let ?g = "record_attempt code now"
  from spec have two: "two_updates kind (submission_row i now) ?f ?q ?g (committed s) = (Inr (), committed t)"
    by (auto simp: record_failure_spec_def split: if_splits)
  then have "matching Hhm_submission_outbox ?q (committed s) = 1"
    by (auto simp: two_updates_def split: if_splits)
  then obtain e where "filter ?q (committed s Hhm_submission_outbox) = [e]"
    by (auto simp: matching_def length_Suc_conv)
  then have "e \<in> set (filter ?q (committed s Hhm_submission_outbox))" by simp
  then have e: "e \<in> set (committed s Hhm_submission_outbox)" "outbox_entry kind i now e"
    "attempts_below (e (Ob C_attempts)) 100" by auto
  have "committed t Hhm_submission_outbox
      = map (\<lambda>r. if ?q r then ?g r else r) (committed s Hhm_submission_outbox)"
    using two by (cases "kind = Upload") (auto simp: two_updates_def update_table_def split: if_splits dest!: sym [of _ "committed t"])
  with e have stored: "?g e \<in> set (committed t Hhm_submission_outbox)" by force
  have "attempts_ok e" using ok e(1) by (simp add: primary_ok_def attempts_sound_def)
  from record_attempt_effect [OF this e(3)] have "one_more_attempt code now e (?g e)" .
  with now e stored show ?thesis using that by (metis filter_empty_conv)
qed

section \<open>A submission reported as unfinished is unmarked\<close>

context intake_command begin

lemma new_entry_low:
  assumes run: "cmd Primary ctx s = (r, t)" and wf: "wf_rows (committed s)"
    and d: "\<And>now. good_defaults (schema_defaults s now)"
    and low: "\<And>e. e \<in> set (committed s Hhm_submission_outbox) \<Longrightarrow> P e \<Longrightarrow>
      attempts_below (e (Ob C_attempts)) 100"
    and e: "e \<in> set (committed t Hhm_submission_outbox)" "P e"
  shows "attempts_below (e (Ob C_attempts)) 100"
  using run wf
proof (rule effect)
  fix now assume "appended kind Primary ctx (schema_defaults s now) (committed s) (committed t)"
  with e d [of now] low [OF _ e(2)] show ?thesis by (auto simp: appended_def good_defaults_def)
qed (use low e in simp)

lemma dual_unfinished:
  assumes run: "dual ctx w = (Inl (Failed (mirror_unavailable i)), w')" and ok: "pair_ok w"
    and fresh: "fresh_id kind (ctx_canonical_id ctx) (committed (w_primary w))"
    and quiet: "answers (w_primary w) = []"
    and low: "\<And>e. e \<in> set (committed (w_primary w) Hhm_submission_outbox) \<Longrightarrow>
      e (Ob C_submission_kind) = SText (database_value kind) \<Longrightarrow> e (Ob C_submission_id) = SUuid i \<Longrightarrow>
      attempts_below (e (Ob C_attempts)) 100"
  shows "\<not> marked kind i (ctx_payload_sha256 ctx) (committed (w_primary w'))"
proof -
  have con: "consistent (committed (w_primary w)) (committed (w_supabase w))"
    and d: "\<And>now. good_defaults (schema_defaults (w_primary w) now)"
    using ok by (auto simp: pair_ok_def)
  have named: "mirror_unavailable i = mirror_unavailable j \<Longrightarrow> j = i" for j
    by (simp add: mirror_unavailable_def api_failure_new_def)
  show ?thesis
    using run
  proof (cases rule: dual_write_cases)
    case (primary_failed e)
    then have "failure_of_data e = Failed (mirror_unavailable i)" by simp
    from failure_of_data_silent [OF this] show ?thesis
      by (simp add: mirror_unavailable_def api_failure_new_def)
  next
    case (mirror_failed x s m f)
    have x: "id_of x = i" using mirror_failed(6) named by simp
    note step = primary_step [OF mirror_failed(1) con fresh d]
    have held: "holds kind i (ctx_idempotency_key ctx) (ctx_payload_sha256 ctx) (committed s)"
      using step(4) x by blast
    have sound: "primary_ok (committed s)" using consistent_wf(1) [OF step(1)] by simp
    have still: "answers s = []" by (rule stored.undisturbed(2) [OF quiet mirror_failed(1)])
    have wf: "wf_rows (committed (w_primary w))" using consistent_wf(1) [OF con] by simp
    have "\<exists>v. record_mirror_failure kind i (lit ''supabase_unavailable'') s = (Inr (), v)"
      using new_entry_low [OF mirror_failed(1) wf d, where P = "\<lambda>e.
          e (Ob C_submission_kind) = SText (database_value kind) \<and> e (Ob C_submission_id) = SUuid i"] low
      by (intro recording_succeeds [OF still sound held supabase_unavailable_valid]) blast
    with mirror_failed(5) x have "record_mirror_failure kind i (lit ''supabase_unavailable'') s
        = (Inr (), w_primary w')" by auto
    from recorded_not_marked [OF still sound this held] show ?thesis .
  next
    case (unmarked x s y e)
    have x: "id_of x = i" using unmarked(5) named by simp
    note step = primary_step [OF unmarked(1) con fresh d]
    have held: "holds kind i (ctx_idempotency_key ctx) (ctx_payload_sha256 ctx) (committed s)"
      using step(4) x by blast
    have sound: "primary_ok (committed s)" using consistent_wf(1) [OF step(1)] by simp
    from quiet_mark [OF stored.undisturbed(2) [OF quiet unmarked(1)] sound held] unmarked(4) x
    show ?thesis by (metis Inl_Inr_False prod.inject)
  qed simp_all
qed

end

lemma submit_unfinished:
  assumes run: "submit app req ctx w = (Inl (Failed (mirror_unavailable i)), w')"
    and kind: "kind_of req = Some kind" and ok: "pair_ok w"
    and fresh: "fresh_id kind (ctx_canonical_id ctx) (committed (w_primary w))"
    and quiet: "answers (w_primary w) = []"
    and low: "\<And>e. e \<in> set (committed (w_primary w) Hhm_submission_outbox) \<Longrightarrow>
      e (Ob C_submission_kind) = SText (database_value kind) \<Longrightarrow> e (Ob C_submission_id) = SUuid i \<Longrightarrow>
      attempts_below (e (Ob C_attempts)) 100"
  shows "\<not> marked kind i (ctx_payload_sha256 ctx) (committed (w_primary w'))"
proof (cases req)
  case (PreInterestRequest input)
  then have k: "kind = PreInterest" using kind by simp
  from run [unfolded PreInterestRequest submit.simps] show ?thesis unfolding k
    by (rule pre_interests.dual_unfinished [OF _ ok fresh [unfolded k] quiet]) (rule low [unfolded k])
next
  case (ApplicationRequest input)
  then have k: "kind = Application" using kind by simp
  from run [unfolded ApplicationRequest submit.simps] show ?thesis unfolding k
    by (rule applications.dual_unfinished [OF _ ok fresh [unfolded k] quiet]) (rule low [unfolded k])
next
  case (ReferralRequest input)
  then have k: "kind = Referral" using kind by simp
  from run [unfolded ReferralRequest submit.simps] show ?thesis unfolding k
    by (rule referrals.dual_unfinished [OF _ ok fresh [unfolded k] quiet]) (rule low [unfolded k])
next
  case (UploadRequest input)
  then have k: "kind = Upload" using kind by simp
  from run [unfolded UploadRequest] obtain e where
    up: "uploads.dual (sv_contract (app_services app)) (sv_uuid_display (app_services app))
      (sv_utc_now (app_services app)) input ctx w = (Inl (Failed (mirror_unavailable i)), w')"
    by (rule submit_upload) simp_all
  show ?thesis unfolding k
    by (rule uploads.dual_unfinished [OF up ok fresh [unfolded k] quiet]) (rule low [unfolded k])
qed (use kind in simp_all)

lemma respond_unfinished:
  assumes run: "respond app fresh h req w = (Inl (Failed (mirror_unavailable i)), w')"
    and kind: "kind_of req = Some kind" and ok: "pair_ok w"
    and fresh: "fresh_id kind fresh (committed (w_primary w))" and quiet: "answers (w_primary w) = []"
    and low: "\<And>e. e \<in> set (committed (w_primary w) Hhm_submission_outbox) \<Longrightarrow>
      e (Ob C_submission_kind) = SText (database_value kind) \<Longrightarrow> e (Ob C_submission_id) = SUuid i \<Longrightarrow>
      attempts_below (e (Ob C_attempts)) 100"
  obtains key digest where "h ''idempotency-key'' = Some (HText key)"
    "request_digest (app_services app) req = Inr digest"
    "holds kind i key digest (committed (w_primary w'))"
    "\<not> marked kind i digest (committed (w_primary w'))" "world_remembers w w'"
proof -
  have named: "af_submission_id (mirror_unavailable i) = Some i"
    by (simp add: mirror_unavailable_def api_failure_new_def)
  from run kind show ?thesis
  proof (cases rule: respond_cases)
    case (rejected f)
    with admission_names_nothing [OF rejected(1)] named show ?thesis by simp
  next
    case (failed ctx e)
    then have sub: "submit app req ctx w = (Inl (Failed (mirror_unavailable i)), w')" by simp
    note adm = admission_Inr [OF failed(1)]
    have new: "fresh_id kind (ctx_canonical_id ctx) (committed (w_primary w))" using fresh adm by simp
    have "\<not> marked kind i (ctx_payload_sha256 ctx) (committed (w_primary w'))"
      by (rule submit_unfinished [OF sub kind ok new quiet]) (rule low)
    with submit_retained [OF sub kind named ok new] submit_keeps [OF sub kind ok new] adm
    show ?thesis by (intro that) simp_all
  next
    case (stored ctx x)
    with named show ?thesis by (auto simp: api_failure_new_def)
  qed
qed

section \<open>A replay while the mirror is down\<close>

definition outage_world :: world where
  "outage_world = stored_world\<lparr>w_supabase := (w_supabase stored_world)\<lparr>answers := [(Refused, 0)]\<rparr>\<rparr>"

lemma outage_world_facts:
  "pair_ok outage_world" "schema_stamps outage_world" "answers (w_primary outage_world) = []"
  "fst (store_pre_interest example_contract SupabaseMirror ctx example_pre_interest
      (w_supabase outage_world)) = Inl Database \<and>
    committed (snd (store_pre_interest example_contract SupabaseMirror ctx example_pre_interest
      (w_supabase outage_world))) = committed (w_supabase outage_world)"
  "holds PreInterest 5 example_key example_digest (committed (w_primary outage_world))"
  "holds PreInterest 5 example_key example_digest (committed (w_supabase outage_world))"
  "marked PreInterest 5 example_digest (committed (w_primary outage_world))"
  "e \<in> set (committed (w_primary outage_world) Hhm_submission_outbox) \<Longrightarrow>
     attempts_below (e (Ob C_attempts)) 100"
  using stored_world_facts(1,2,3,5)
  by (simp_all add: mirror_refused [where dt = 0 and as = "[]"] outage_world_def pair_ok_def schema_stamps_def undisturbed_def)
    (simp_all add: holds_def is_submission_def identity_def marked_def stored_world_def quiet_world_def
      example_session_def stored_row_def stored_entry_def example_defaults_def)

lemma replay_during_outage:
  "\<exists>w'. respond example_app 7 public_headers (PreInterestRequest example_pre_interest) outage_world
      = (Inl (Failed (mirror_unavailable 5)), w')"
proof (rule pre_interest_outage [OF outage_world_facts(1-3)])
  show "fst (store_pre_interest example_contract SupabaseMirror
      (with_canonical_id (example_context 7 None) i) example_pre_interest (w_supabase outage_world))
    = Inl Database" for i
    using outage_world_facts(4) [of "with_canonical_id (example_context 7 None) i"] by auto
next
  show "digest = example_digest"
    if "holds PreInterest i example_key digest (committed (w_primary outage_world))" for i digest
    using stored_world_facts(6) that by (simp add: outage_world_def)
next
  fix x s f u t
  assume "\<And>i digest. holds PreInterest i example_key digest (committed (w_primary outage_world)) \<Longrightarrow> ss_id x = i"
    and "respond example_app 7 public_headers (PreInterestRequest example_pre_interest) outage_world
      = (Inl (Failed (mirror_unavailable (ss_id x))),
         outage_world\<lparr>w_primary := u, w_supabase := t\<rparr>)"
  with outage_world_facts(5) show ?thesis by metis
qed

section \<open>A mirror commit whose acknowledgement is lost\<close>

definition lost_world :: world where
  "lost_world = quiet_world\<lparr>w_supabase :=
     example_session [(Done, 0), (Done, 0), (Unacknowledged, 0)]\<rparr>"

lemma lost_commit:
  fixes i
  defines "run \<equiv> store_pre_interest example_contract SupabaseMirror
    (with_canonical_id (example_context 7 None) i) example_pre_interest (w_supabase lost_world)"
  shows "fst run = Inl Database"
    and "holds PreInterest i example_key example_digest (committed (snd run))"
proof -
  let ?ctx = "with_canonical_id (example_context 7 None) i"
  let ?cvs = "zip pre_interest_columns (pre_interest_values SupabaseMirror ?ctx example_pre_interest)"
  let ?new = "set_cols ?cvs (example_defaults 1000 Hhm_pre_interests)"
  have binds: "binds_identity ?ctx ?cvs" by simp
  note cols = binds_identity_cols [OF binds]
  have stamp: "?new C_created_at = STime 1000"
    by (subst set_cols_other) (simp_all add: pre_interest_columns_def pre_interest_values_def
        example_defaults_def)
  have steps: "run = (Inl Database, (w_supabase lost_world)\<lparr>
      committed := (\<lambda>_. [])(Hhm_pre_interests := [?new]),
      working := (\<lambda>_. [])(Hhm_pre_interests := [?new]), tx_time := 1000, answers := []\<rparr>)"
    unfolding run_def store_pre_interest_def
    by (simp add: Let_def bindA_def begin_tx_def in_tx_def commit_tx_def trip_def lost_world_def
        example_session_def insert_or_replay_def projecting_def insert_or_nothing_def
        maybe_insert_outbox_def stored_from_row_def read_uuid.simps read_timestamp.simps cols stamp
        del: set_cols_simps)
  show "fst run = Inl Database" by (simp add: steps)
  show "holds PreInterest i example_key example_digest (committed (snd run))"
    by (simp add: steps holds_def is_submission_def identity_def cols example_context_simps)
qed

lemma lost_world_facts:
  "pair_ok lost_world" "schema_stamps lost_world" "answers (w_primary lost_world) = []"
  "\<not> holds kind i key digest (committed (w_primary lost_world))"
  "committed (w_primary lost_world) = (\<lambda>_. [])"
  using quiet_world_facts(2,3) quiet_world_facts(5) [of kind i key digest]
  by (simp_all add: lost_world_def quiet_world_def example_session_def pair_ok_def schema_stamps_def)

text \<open>The client is told to retry although both databases hold the submission, and the primary
  does not carry the mirrored mark.\<close>

lemma lost_acknowledgement:
  "\<exists>w'. respond example_app 7 public_headers (PreInterestRequest example_pre_interest) lost_world
      = (Inl (Failed (mirror_unavailable 7)), w') \<and>
    in_both PreInterest 7 example_key example_digest w'"
proof (rule pre_interest_outage [OF lost_world_facts(1-3)])
  show "fst (store_pre_interest example_contract SupabaseMirror
      (with_canonical_id (example_context 7 None) i) example_pre_interest (w_supabase lost_world))
    = Inl Database" for i
    by (rule lost_commit)
  show "digest = example_digest"
    if "holds PreInterest i example_key digest (committed (w_primary lost_world))" for i digest
    using lost_world_facts(4) that by blast
next
  fix x s f u t
  let ?s = "w_primary lost_world"
  assume store: "store_pre_interest example_contract Primary (example_context 7 None)
      example_pre_interest ?s = (Inr x, s)"
    and new: "(\<nexists>i digest. holds PreInterest i example_key digest (committed ?s)) \<Longrightarrow> ss_id x = 7"
    and record_run: "record_mirror_failure PreInterest (ss_id x) (lit ''supabase_unavailable'') s = (f, u)"
    and mirror_run: "store_pre_interest example_contract SupabaseMirror
      (with_canonical_id (example_context 7 None) (ss_id x)) example_pre_interest
      (w_supabase lost_world) = (Inl Database, t)"
    and run: "respond example_app 7 public_headers (PreInterestRequest example_pre_interest) lost_world
      = (Inl (Failed (mirror_unavailable (ss_id x))),
         lost_world\<lparr>w_primary := u, w_supabase := t\<rparr>)"
  have x: "ss_id x = 7" using new lost_world_facts(4) by blast
  have fresh: "fresh_id PreInterest (ctx_canonical_id (example_context 7 None)) (committed ?s)"
    by (simp add: lost_world_facts(5) fresh_id_def identities_def)
  have ok: "consistent (committed ?s) (committed (w_supabase lost_world))"
    and d: "\<And>now. good_defaults (schema_defaults ?s now)"
    using lost_world_facts(1) by (auto simp: pair_ok_def)
  from pre_interests.primary_step(4) [OF store ok fresh d, of x] x
  have held: "holds PreInterest 7 example_key example_digest (committed s)"
    by (simp add: example_context_simps)
  have sound: "primary_ok (committed s)"
    using pre_interests.primary_step(1) [OF store ok fresh d] consistent_wf(1) by blast
  have "holds PreInterest 7 example_key example_digest (committed u)"
    using held recording_keeps(2) [OF record_run sound] by (simp add: holds_identities_list)
  moreover have "holds PreInterest 7 example_key example_digest (committed t)"
    using lost_commit(2) [of 7] mirror_run x by simp
  ultimately show ?thesis using run x by (simp add: in_both_def)
qed

section \<open>A replayed application whose uploads have expired\<close>

lemma expired_application_refused:
  assumes quiet: "answers s = []" and valid: "application_validate k input = Inr ()"
    and occupancy: "i16_try_from (ap_preferred_room_occupancy input) \<noteq> None"
    and ids: "ids_unique (committed s)" and up: "up \<in> {ap_resume_upload_id input, ap_photo_id_upload_id input}"
    and expired: "\<And>r. r \<in> set (committed s Hhm_intake_uploads) \<Longrightarrow> r C_id = SUuid up \<Longrightarrow>
      r C_applicant_subject = sql_opt SText (context_subject ctx) \<Longrightarrow>
      \<not> time_after (r (Up C_expires_at)) (clock s)"
    and run: "store_application k target ctx input s = (r, t)"
  shows "r = Inl IntakeObjectUnavailable \<and> committed t = committed s"
proof -
  have missing: "length (filter (verified_upload_for ctx input (clock s)) (committed s Hhm_intake_uploads)) \<noteq> 2"
  proof
    assume "length (filter (verified_upload_for ctx input (clock s)) (committed s Hhm_intake_uploads)) = 2"
    from two_verified_uploads [OF this ids] up expired show False by (auto simp: owns_verified_def)
  qed
  from applications.stored.undisturbed(1) [OF quiet run] occupancy show ?thesis
    by (auto simp: command_spec_def plan_application_def valid missing)
qed

lemma expired_application_response:
  assumes adm: "admission app fresh headers (ApplicationRequest input) = Inr ctx"
    and quiet: "answers (w_primary w) = []"
    and occupancy: "i16_try_from (ap_preferred_room_occupancy input) \<noteq> None"
    and ids: "ids_unique (committed (w_primary w))"
    and up: "up \<in> {ap_resume_upload_id input, ap_photo_id_upload_id input}"
    and expired: "\<And>r. r \<in> set (committed (w_primary w) Hhm_intake_uploads) \<Longrightarrow> r C_id = SUuid up \<Longrightarrow>
      r C_applicant_subject = sql_opt SText (context_subject ctx) \<Longrightarrow>
      \<not> time_after (r (Up C_expires_at)) (clock (w_primary w))"
  shows "\<exists>w'. respond app fresh headers (ApplicationRequest input) w = (Inl (Failed failure_conflict), w') \<and>
    committed (w_primary w') = committed (w_primary w) \<and> w_supabase w' = w_supabase w"
proof -
  let ?k = "sv_contract (app_services app)"
  have valid: "application_validate ?k input = Inr ()" using adm admit_public_Inr by auto
  obtain r t where run: "store_application ?k Primary ctx input (w_primary w) = (r, t)" by force
  have "r = Inl IntakeObjectUnavailable \<and> committed t = committed (w_primary w)"
    by (rule expired_application_refused [OF quiet valid occupancy ids up _ run]) (rule expired)
  then have "r = Inl IntakeObjectUnavailable" and same: "committed t = committed (w_primary w)" by auto
  with run adm have "respond app fresh headers (ApplicationRequest input) w
      = (Inl (Failed failure_conflict), w\<lparr>w_primary := t\<rparr>)"
    by (simp add: create_application_eq dual_write_def from_data_def on_primary_def bindA_def
        map_errA_def)
  with same show ?thesis by simp
qed

text \<open>The documents of the example an hour after they expired, with the application stored under
  them before.\<close>

definition expired_world :: world where
  "expired_world = documents_world\<lparr>w_primary := (w_primary documents_world)\<lparr>
     committed := (committed (w_primary documents_world))(Hhm_applications := [stored_row]),
     clock := 8000000 + hours 1\<rparr>\<rparr>"

lemma expired_world_facts:
  "answers (w_primary expired_world) = []"
  "r \<in> set (committed (w_primary expired_world) Hhm_intake_uploads) \<Longrightarrow>
     \<not> time_after (r (Up C_expires_at)) (clock (w_primary expired_world))"
  "holds Application 5 example_key example_digest (committed (w_primary expired_world))"
  by (auto simp: expired_world_def documents_world_def uploads_world_def example_session_def
      document_def hours_def holds_def is_submission_def identity_def stored_row_def)

lemma expired_world_ids: "ids_unique (committed (w_primary expired_world))"
  unfolding ids_unique_def
proof (intro allI)
  fix kind
  show "distinct (map fst (identities kind (committed (w_primary expired_world))))"
    by (cases kind) (simp_all add: identities_def identity_def expired_world_def documents_world_def
        uploads_world_def example_session_def document_def stored_row_def)
qed

section \<open>A digest without a 16-byte prefix\<close>

definition short_upload :: upload_intent_create where
  "short_upload = example_upload\<lparr>ui_sha256 := []\<rparr>"

lemma short_upload_panics:
  "\<exists>w'. respond example_app 7 public_headers (UploadRequest short_upload) quiet_world = (Inl Aborted, w')"
proof -
  have adm: "admission example_app 7 public_headers (UploadRequest short_upload)
      = Inr (example_context 7 None)"
    using example_request_digest(2) example_submission_context example_public
    by (simp add: admit_public_def short_upload_def example_upload_def)
  obtain r s where run: "store_intent example_services short_upload Primary (example_context 7 None)
      (w_primary quiet_world) = (r, s)" by force
  moreover have "fst (store_intent example_services short_upload Primary (example_context 7 None)
      (w_primary quiet_world)) = Inl Panicked"
    by (simp add: store_intent_def store_upload_intent_def bindA_def begin_tx_def trip_def
        quiet_world_def example_session_def upload_object_key_def short_upload_def)
  ultimately have "r = Inl Panicked" by simp
  with run adm show ?thesis
    by (simp add: create_upload_intent_eq dual_write_def from_data_def on_primary_def bindA_def
        map_errA_def)
qed

end
