(* ===== verification/Flags.thy ===== *)
theory Flags imports Web "HOL-Library.List_Lexorder" begin

text \<open>
  \<open>src/flags.rs\<close>: the process configuration. The parser of the package \<open>flags2env\<close>, which reads
  the contract from a temporary file, the file itself and the TOML reader are parameters; the
  order the sources are merged in, the refusals, the rendering of typed values and the help
  text are the program's. An error is the text the program returns.
\<close>

section \<open>The parser and its results\<close>

type_synonym env_map = "str \<rightharpoonup> str"

record parsed_arguments =
  pa_unknown_options :: "str list"
  pa_errors :: "str list"
  pa_extras :: "str list"
  pa_dotenv :: env_map
  pa_dotenv_overrides :: env_map
  pa_provided_flags :: env_map

record flags_parser =
  fp_audit_config :: "str \<Rightarrow> str + unit"
  fp_parse_structured :: "str list \<Rightarrow> str \<Rightarrow> str + parsed_arguments"
  fp_coerce :: "env_map \<Rightarrow> str \<Rightarrow> str + (str \<times> json) list"

text \<open>The temporary file: whether it can be created and written, and its path as text.\<close>

record contract_file =
  cf_create :: "str + unit"
  cf_write :: "str + unit"
  cf_path :: "str option"

section \<open>Texts\<close>

fun decimal :: "nat \<Rightarrow> str" where
  "decimal n = (if n < 10 then [48 + n] else decimal (n div 10) @ [48 + n mod 10])"

declare decimal.simps [simp del]

fun join_with :: "str \<Rightarrow> str list \<Rightarrow> str" where
  "join_with sep [] = []"
| "join_with sep [item] = item"
| "join_with sep (item # items) = item @ sep @ join_with sep items"

definition option_name :: "str \<Rightarrow> str" where
  "option_name opt =
     (case strip_prefix opt (lit ''--'') of
        Some long \<Rightarrow> lit ''--'' @ hd (split_on 61 long)
      | None \<Rightarrow> take 2 opt)"

fun scalar_string :: "str \<Rightarrow> json \<Rightarrow> str + str" where
  "scalar_string name (JString value) = Inr value"
| "scalar_string name (JBool value) = Inr (if value then lit ''true'' else lit ''false'')"
| "scalar_string name (JNumber value) = Inr value"
| "scalar_string name _ = Inl (lit ''flags-2-env returned a non-scalar value for '' @ name)"

section \<open>Resolving the configuration\<close>

text \<open>The names of the unknown options as a \<open>BTreeSet\<close>: sorted, without repetitions.\<close>

definition unknown_names :: "str list \<Rightarrow> str list" where
  "unknown_names opts = sort (remdups (map option_name opts))"

definition refuse_arguments :: "parsed_arguments \<Rightarrow> str + unit" where
  "refuse_arguments parsed =
     (if pa_unknown_options parsed \<noteq> []
      then Inl (lit ''unknown command-line option(s): '' @
        join_with (lit '', '') (unknown_names (pa_unknown_options parsed)))
      else if pa_errors parsed \<noteq> []
      then Inl (lit ''invalid command-line value(s): '' @ decimal (length (pa_errors parsed))
        @ lit '' error(s)'')
      else if pa_extras parsed \<noteq> []
      then Inl (lit ''unexpected positional argument(s): '' @ decimal (length (pa_extras parsed)))
      else Inr ())"

text \<open>\<open>extend\<close> on a map: the entries of the right-hand map win.\<close>

definition merged_sources :: "parsed_arguments \<Rightarrow> env_map \<Rightarrow> env_map" where
  "merged_sources parsed environment =
     ((pa_dotenv parsed ++ environment ++ pa_dotenv_overrides parsed)
        (lit ''FLAGS2ENV_COMMAND'' := None)) ++ pa_provided_flags parsed"

fun overlay_typed :: "(str \<times> json) list \<Rightarrow> env_map \<Rightarrow> str + env_map" where
  "overlay_typed [] resolved = Inr resolved"
| "overlay_typed ((name, value) # typed) resolved =
     (if value = JNull then overlay_typed typed resolved
      else bindR (scalar_string name value) (\<lambda>text.
        overlay_typed typed (resolved(name \<mapsto> text))))"

definition resolve_from ::
  "flags_parser \<Rightarrow> contract_file \<Rightarrow> str list \<Rightarrow> (str \<times> str) list \<Rightarrow> str + env_map" where
  "resolve_from parser file argv environment_vars =
     (let environment = map_of (rev environment_vars) in
      bindR (map_err (\<lambda>e. lit ''cannot create embedded flags-2-env contract: '' @ e)
        (cf_create file)) (\<lambda>_.
      bindR (map_err (\<lambda>e. lit ''cannot materialize embedded flags-2-env contract: '' @ e)
        (cf_write file)) (\<lambda>_.
      bindR (ok_or (cf_path file) (lit ''flags-2-env contract path is not valid UTF-8'')) (\<lambda>path.
      bindR (map_err (\<lambda>e. lit ''flags-2-env contract audit failed: '' @ e)
        (fp_audit_config parser path)) (\<lambda>_.
      bindR (map_err (\<lambda>e. lit ''flags-2-env parsing failed: '' @ e)
        (fp_parse_structured parser argv path)) (\<lambda>parsed.
      bindR (refuse_arguments parsed) (\<lambda>_.
      bindR (map_err (\<lambda>e. lit ''flags-2-env typed configuration failed: '' @ e)
        (fp_coerce parser (merged_sources parsed environment) path)) (\<lambda>typed.
      overlay_typed typed environment))))))))"

section \<open>The process-wide cell\<close>

text \<open>
  \<open>RESOLVED\<close> is a \<open>OnceLock\<close>: the first caller computes the result and every later caller sees
  that one. \<open>var\<close> panics when the configuration could not be resolved.
\<close>

type_synonym cell = "(str + env_map) option"

datatype lookup_error = NotPresent | Unresolved str

definition try_resolved :: "(str + env_map) \<Rightarrow> cell \<Rightarrow> (str + env_map) \<times> cell" where
  "try_resolved resolve c =
     (case c of Some r \<Rightarrow> (r, c) | None \<Rightarrow> (resolve, Some resolve))"

definition var :: "(str + env_map) \<Rightarrow> str \<Rightarrow> cell \<Rightarrow> (lookup_error + str) \<times> cell" where
  "var resolve name c =
     (case try_resolved resolve c of
        (Inl e, c') \<Rightarrow> (Inl (Unresolved e), c')
      | (Inr values, c') \<Rightarrow> (ok_or (values name) NotPresent, c'))"

section \<open>Help and version\<close>

text \<open>A \<open>toml::Value\<close>: the shapes the program looks into, any other as the text it prints as.\<close>

datatype toml =
    TString str | TArray "toml list" | TTable "(str \<times> toml) list" | TOther str

fun as_str_opt :: "toml \<Rightarrow> str option" where
  "as_str_opt (TString s) = Some s"
| "as_str_opt _ = None"

fun as_table :: "toml \<Rightarrow> (str \<times> toml) list option" where
  "as_table (TTable t) = Some t"
| "as_table _ = None"

fun first_alias :: "toml option \<Rightarrow> str option" where
  "first_alias (Some (TArray (alias # _))) = as_str_opt alias"
| "first_alias _ = None"

definition pad_right :: "nat \<Rightarrow> str \<Rightarrow> str" where
  "pad_right n s = s @ replicate (n - length s) 32"

definition option_text :: "(str \<times> toml) list \<Rightarrow> str \<Rightarrow> str" where
  "option_text flag long =
     (let value_type = (case Option.bind (map_of flag (lit ''type'')) as_str_opt of
            Some t \<Rightarrow> t | None \<Rightarrow> lit ''string'');
          opt = (case Option.bind (map_of flag (lit ''short'')) as_str_opt of
            None \<Rightarrow> lit ''--'' @ long
          | Some short \<Rightarrow> lit ''-'' @ short @ lit '', --'' @ long) in
      if value_type = lit ''bool'' \<or> value_type = lit ''boolean'' then opt
      else opt @ lit '' <VALUE>'')"

definition flag_line :: "(toml \<Rightarrow> str) \<Rightarrow> toml \<Rightarrow> str" where
  "flag_line display flag =
     (case as_table flag of
        None \<Rightarrow> []
      | Some flag \<Rightarrow>
          (case (case Option.bind (map_of flag (lit ''long'')) as_str_opt of
                   Some long \<Rightarrow> Some long
                 | None \<Rightarrow> first_alias (map_of flag (lit ''aliases''))) of
             None \<Rightarrow> []
           | Some long \<Rightarrow>
               (let description = (case Option.bind (map_of flag (lit ''help'')) as_str_opt of
                      Some h \<Rightarrow> h | None \<Rightarrow> []);
                    default = (case map_of flag (lit ''default'') of
                      Some v \<Rightarrow> lit '' [default: '' @ display v @ lit '']'' | None \<Rightarrow> []) in
                lit ''  '' @ pad_right 28 (option_text flag long) @ lit '' '' @ description
                  @ default @ [10])))"

definition help_table :: "(toml \<Rightarrow> str) \<Rightarrow> (str + (str \<times> toml) list) \<Rightarrow> str + str" where
  "help_table display contract_table =
     bindR (map_err (\<lambda>e. lit ''cannot read flags-2-env help metadata: '' @ e) contract_table)
       (\<lambda>contract.
     bindR (ok_or (Option.bind (map_of contract (lit ''flags'')) as_table)
       (lit ''flags-2-env contract has no flags table'')) (\<lambda>flags.
     Inr (foldl (\<lambda>output flag. output @ flag_line display flag)
       (lit ''Usage: hhm-api [OPTIONS]'' @ [10, 10] @ lit ''Options:'' @ [10]) (map snd flags))))"

definition process_control ::
  "(str + env_map) \<Rightarrow> (str + str) \<Rightarrow> cell \<Rightarrow> (str + str option) \<times> cell" where
  "process_control resolve help c =
     (case try_resolved resolve c of
        (Inl e, c') \<Rightarrow> (Inl e, c')
      | (Inr values, c') \<Rightarrow>
          (if values (lit ''CLI_HELP_REQUESTED'') = Some (lit ''true'')
           then (bindR help (\<lambda>text. Inr (Some text)), c')
           else if values (lit ''CLI_VERSION_REQUESTED'') = Some (lit ''true'')
           then (Inr (Some (lit ''hhm-api 0.1.0'' @ [10])), c')
           else (Inr None, c')))"

section \<open>What the command line may say and what an error repeats of it\<close>

lemma strip_prefix_append: "strip_prefix (p @ s) p = Some s"
  by (simp add: strip_prefix_def starts_with_def)

lemma option_name_long: "option_name (lit ''--'' @ text) = lit ''--'' @ hd (split_on 61 text)"
  by (simp add: option_name_def strip_prefix_append)

lemma option_name_redacts:
  assumes "61 \<notin> set name"
  shows "option_name (lit ''--'' @ name @ 61 # given) = lit ''--'' @ name"
  using assms by (simp add: option_name_long split_on_append_delim)

lemma unknown_names_set: "set (unknown_names opts) = option_name ` set opts"
  by (simp add: unknown_names_def)

lemma unknown_names_eq:
  assumes "option_name ` set a = option_name ` set b"
  shows "unknown_names a = unknown_names b"
  using assms by (intro sorted_distinct_set_unique) (auto simp: unknown_names_def)

lemma refuse_arguments_Inr [yields]:
  "refuse_arguments parsed = Inr u \<longleftrightarrow>
     pa_unknown_options parsed = [] \<and> pa_errors parsed = [] \<and> pa_extras parsed = []"
  by (simp add: refuse_arguments_def)

lemma refuse_unknown:
  assumes "pa_unknown_options parsed \<noteq> []"
  shows "refuse_arguments parsed = Inl (lit ''unknown command-line option(s): '' @
    join_with (lit '', '') (unknown_names (pa_unknown_options parsed)))"
  using assms by (simp add: refuse_arguments_def)

section \<open>The value a name resolves to\<close>

lemma merged_sources_cases:
  "merged_sources parsed environment n =
     (case pa_provided_flags parsed n of
        Some v \<Rightarrow> Some v
      | None \<Rightarrow>
          if n = lit ''FLAGS2ENV_COMMAND'' then None
          else case pa_dotenv_overrides parsed n of
                 Some v \<Rightarrow> Some v
               | None \<Rightarrow> (case environment n of Some v \<Rightarrow> Some v | None \<Rightarrow> pa_dotenv parsed n))"
  by (simp add: merged_sources_def map_add_def split: option.splits)

text \<open>What the typed configuration makes of the environment: a scalar replaces the value, \<open>null\<close>
  leaves it, and a name it does not mention keeps it.\<close>

definition resolves_to :: "(str \<times> json) list \<Rightarrow> env_map \<Rightarrow> env_map \<Rightarrow> bool" where
  "resolves_to typed environment resolved \<longleftrightarrow>
     (\<forall>n. case map_of typed n of
        None \<Rightarrow> resolved n = environment n
      | Some v \<Rightarrow> if v = JNull then resolved n = environment n
          else \<exists>text. scalar_string n v = Inr text \<and> resolved n = Some text)"

lemma overlay_typed_other:
  "overlay_typed typed resolved = Inr out \<Longrightarrow> n \<notin> fst ` set typed \<Longrightarrow> out n = resolved n"
  by (induction typed arbitrary: resolved) (auto simp: yields split: if_splits)

lemma overlay_typed_resolves:
  "overlay_typed typed environment = Inr out \<Longrightarrow> distinct (map fst typed) \<Longrightarrow>
     resolves_to typed environment out"
proof (induction typed arbitrary: environment)
  case Nil
  then show ?case by (simp add: resolves_to_def)
next
  case (Cons entry typed)
  obtain name v where entry: "entry = (name, v)" by (cases entry)
  define start where "start = (if v = JNull then environment
    else environment(name := Some (projr (scalar_string name v))))"
  from Cons.prems(1) have run: "overlay_typed typed start = Inr out"
    and scalar: "v \<noteq> JNull \<Longrightarrow> \<exists>t. scalar_string name v = Inr t"
    by (auto simp: entry start_def yields split: if_splits)
  from Cons.prems(2) have fresh: "name \<notin> fst ` set typed" and distinct: "distinct (map fst typed)"
    by (auto simp: entry)
  have name: "out name = start name" by (rule overlay_typed_other [OF run fresh])
  from fresh have unbound: "map_of typed name = None" by (simp add: map_of_eq_None_iff)
  have rest: "resolves_to typed start out" by (rule Cons.IH [OF run distinct])
  show ?case
    unfolding resolves_to_def
  proof
    fix n
    show "case map_of (entry # typed) n of None \<Rightarrow> out n = environment n
      | Some v \<Rightarrow> if v = JNull then out n = environment n
          else \<exists>text. scalar_string n v = Inr text \<and> out n = Some text"
    proof (cases "n = name")
      case True
      with name scalar show ?thesis by (auto simp: entry start_def)
    next
      case False
      then have "start n = environment n" by (simp add: start_def)
      with False rest show ?thesis
        by (auto simp: entry resolves_to_def split: option.splits dest!: spec [where x = n])
    qed
  qed
qed

lemma resolve_from_Inr:
  assumes "resolve_from parser file argv vars = Inr resolved"
  obtains path parsed typed where "cf_path file = Some path"
    "fp_audit_config parser path = Inr ()"
    "fp_parse_structured parser argv path = Inr parsed"
    "pa_unknown_options parsed = []" "pa_errors parsed = []" "pa_extras parsed = []"
    "fp_coerce parser (merged_sources parsed (map_of (rev vars))) path = Inr typed"
    "overlay_typed typed (map_of (rev vars)) = Inr resolved"
  using assms by (auto simp: resolve_from_def Let_def yields)

section \<open>The cell and the control options\<close>

lemma try_resolved_once:
  "try_resolved resolve c = (r, c') \<Longrightarrow> c' = Some r \<and> try_resolved later c' = (r, c')"
  by (auto simp: try_resolved_def split: option.splits)

lemma var_resolved [simp]: "var resolve name (Some (Inr values)) = (ok_or (values name) NotPresent, Some (Inr values))"
  by (simp add: var_def try_resolved_def)

lemma process_control_continues:
  assumes "process_control resolve help None = (Inr None, c)"
  obtains vals where "resolve = Inr vals" "c = Some (Inr vals)"
    "vals (lit ''CLI_HELP_REQUESTED'') \<noteq> Some (lit ''true'')"
    "vals (lit ''CLI_VERSION_REQUESTED'') \<noteq> Some (lit ''true'')"
  using assms
  by (cases resolve) (auto simp: process_control_def try_resolved_def bindR_def
      split: if_splits sum.splits)

lemma help_table_lines:
  "help_table display (Inr contract) = Inr text \<longleftrightarrow>
     (\<exists>flags. map_of contract (lit ''flags'') = Some (TTable flags) \<and>
        text = lit ''Usage: hhm-api [OPTIONS]'' @ [10, 10] @ lit ''Options:'' @ [10]
          @ concat (map (flag_line display) (map snd flags)))"
proof -
  have folded: "foldl (\<lambda>output flag. output @ flag_line display flag) acc fs
      = acc @ concat (map (flag_line display) fs)" for acc fs
    by (induction fs arbitrary: acc) auto
  have tabled: "as_table t = Some fs \<longleftrightarrow> t = TTable fs" for t fs by (cases t) auto
  show ?thesis
    by (auto simp: help_table_def yields folded tabled bind_eq_Some_conv)
qed

lemma flag_line_named:
  assumes "map_of flag (lit ''long'') = Some (TString long)"
  shows "\<exists>before after. flag_line display (TTable flag) = before @ lit ''--'' @ long @ after"
proof -
  let ?type = "case Option.bind (map_of flag (lit ''type'')) as_str_opt of
    Some t \<Rightarrow> t | None \<Rightarrow> lit ''string''"
  have comma: "lit '', --'' = lit '', '' @ lit ''--''" by (simp add: lit_def)
  obtain p where names: "(case Option.bind (map_of flag (lit ''short'')) as_str_opt of
      None \<Rightarrow> lit ''--'' @ long | Some short \<Rightarrow> lit ''-'' @ short @ lit '', --'' @ long)
    = p @ lit ''--'' @ long"
    by (cases "Option.bind (map_of flag (lit ''short'')) as_str_opt")
      (metis append_Nil option.simps(4), metis append.assoc comma option.simps(5))
  obtain q where opt: "option_text flag long = p @ lit ''--'' @ long @ q"
    unfolding option_text_def Let_def names
    by (cases "?type = lit ''bool'' \<or> ?type = lit ''boolean''") auto
  show ?thesis
    by (rule exI [where x = "lit ''  '' @ p"])
      (auto simp: flag_line_def assms Let_def pad_right_def opt)
qed

end
