(* ===== verification/Startup.thy ===== *)
theory Startup imports Service Flags begin

text \<open>
  Starting the process: \<open>src/main.rs\<close>, \<open>serve\<close> of \<open>src/lib.rs\<close>, \<open>AppState::from_config\<close> and
  \<open>router\<close> of \<open>src/api.rs\<close>, \<open>stack\<close> of \<open>src/middleware.rs\<close>. Start-up is a sequence of effects on the
  machine, kept as the list of \<open>effect\<close>s so far; the packages it calls are the record \<open>machine\<close>.
  What a server does between \<open>Serving\<close> and its shutdown is the relation \<open>live_step\<close> of \<open>Interleaving\<close>.
\<close>

section \<open>Routes\<close>

datatype http_method = GET | POST

datatype segment = Literal string | Capture string

datatype endpoint =
    Health | Readiness | CreatePreInterest | CreateUploadIntent | CompleteUpload
  | CreateApplication | CreateReferral

definition routes :: "(segment list \<times> http_method \<times> endpoint) list" where
  "routes =
     [([Literal ''healthz''], GET, Health),
      ([Literal ''readyz''], GET, Readiness),
      ([Literal ''v1'', Literal ''pre-interests''], POST, CreatePreInterest),
      ([Literal ''v1'', Literal ''intake'', Literal ''uploads''], POST, CreateUploadIntent),
      ([Literal ''v1'', Literal ''intake'', Literal ''uploads'', Capture ''upload_id'',
        Literal ''complete''], POST, CompleteUpload),
      ([Literal ''v1'', Literal ''applications''], POST, CreateApplication),
      ([Literal ''v1'', Literal ''referrals''], POST, CreateReferral)]"

record 'app http_router =
  ro_routes :: "(segment list \<times> http_method \<times> endpoint) list"
  ro_cors :: cors_policy
  ro_state :: 'app

definition router ::
  "(str \<Rightarrow> uri option) \<Rightarrow> (str \<Rightarrow> header_value option) \<Rightarrow> 'app \<Rightarrow> str \<Rightarrow> unit + 'app http_router" where
  "router parse_uri parse_header state raw_origins =
     bindR (cors_layer parse_uri parse_header raw_origins) (\<lambda>cors.
     Inr \<lparr>ro_routes = routes, ro_cors = cors, ro_state = state\<rparr>)"

section \<open>The server\<close>

text \<open>What \<open>axum::serve\<close> is given: the router with the middleware around it, as the package returns it
  (\<open>se_app\<close>), and what it was built from.\<close>

record ('addr, 'stack, 'app) server =
  se_router :: "app_state http_router"
  se_lifecycle :: 'stack
  se_app :: 'app
  se_address :: 'addr
  se_world :: world

section \<open>The machine\<close>

record client_settings =
  cs_user_agent :: str
  cs_follow_redirects :: bool
  cs_timeout_secs :: nat
  cs_connect_timeout_secs :: "nat option"

datatype ('addr, 'stack, 'app) effect =
    Printed str | Tracing str | Connected str | Listening 'addr | Logged 'addr
  | Serving "('addr, 'stack, 'app) server"

datatype start_error =
    FlagsRefused str
  | FilterInvalid
  | ConfigRefused config_error
  | ClientRefused
  | ConnectFailed data_error
  | AuthRefused auth_build_error
  | StackRefused stack_error
  | OriginsRefused
  | BindFailed
  | AddressUnknown
  | ServingFailed

text \<open>\<open>ma_serve\<close> says whether serving ends well once the shutdown signal has come, \<open>ma_logs_info\<close> whether
  the installed filter lets an event of level INFO through.\<close>

record ('addr, 'stack, 'app) machine =
  ma_client :: "client_settings \<Rightarrow> bool"
  ma_connect :: "str \<Rightarrow> session option"
  ma_default_config :: middleware_config
  ma_stack_new :: "middleware_config \<Rightarrow> 'stack option"
  ma_with_key :: "'stack \<Rightarrow> nat list \<Rightarrow> 'stack option"
  ma_parse_uri :: "str \<Rightarrow> uri option"
  ma_parse_header :: "str \<Rightarrow> header_value option"
  ma_install :: "app_state http_router \<Rightarrow> 'stack \<Rightarrow> 'app"
  ma_bind :: "'addr \<Rightarrow> bool"
  ma_local_addr :: "'addr \<Rightarrow> 'addr option"
  ma_logs_info :: "str \<Rightarrow> bool"
  ma_serve :: "('addr, 'stack, 'app) server \<Rightarrow> bool"
  ma_filter :: "str \<Rightarrow> bool"
  ma_parse_addr :: "str \<Rightarrow> 'addr option"
  ma_parse_f64 :: "str \<Rightarrow> f64 option"
  ma_services :: services

type_synonym ('addr, 'stack, 'app, 'a) startup =
  "(('addr, 'stack, 'app) effect list, start_error, 'a) action"

definition emit :: "('addr, 'stack, 'app) effect \<Rightarrow> ('addr, 'stack, 'app, unit) startup" where
  "emit e hist = (Inr (), hist @ [e])"

section \<open>Application state\<close>

definition connect :: "('addr, 'stack, 'app) machine \<Rightarrow> str \<Rightarrow> ('addr, 'stack, 'app, session) startup" where
  "connect m database_url =
     bindA (liftR (map_err ConnectFailed (ok_or (ma_connect m database_url) Database))) (\<lambda>s.
     bindA (emit (Connected database_url)) (\<lambda>_. okA s))"

definition shared_auth_client :: client_settings where
  "shared_auth_client = \<lparr>cs_user_agent = lit ''hhm-api-shared-auth-adapter/0.1'',
     cs_follow_redirects = False, cs_timeout_secs = 5, cs_connect_timeout_secs = Some 2\<rparr>"

definition outbound_client :: client_settings where
  "outbound_client = \<lparr>cs_user_agent = lit ''hhm-api/0.1'', cs_follow_redirects = False,
     cs_timeout_secs = 15, cs_connect_timeout_secs = None\<rparr>"

definition app_state_from_config ::
  "('addr, 'stack, 'app) machine \<Rightarrow> 'addr config
    \<Rightarrow> ('addr, 'stack, 'app, app_state \<times> world) startup" where
  "app_state_from_config m config =
     (let sv = ma_services m in
      bindA (liftR (ensure (ma_client m outbound_client) ClientRefused)) (\<lambda>_.
      bindA (connect m (primary_database_url config)) (\<lambda>primary.
      bindA (connect m (supabase_database_url config)) (\<lambda>supabase.
      bindA (liftR (map_err AuthRefused (authenticator_from_config (sv_url_lib sv)
        (ma_client m shared_auth_client) config))) (\<lambda>auth.
      okA (\<lparr>app_auth = auth, app_turnstile = turnstile_from_config config,
            app_storage = storage_from_config config, app_services = sv\<rparr>,
           \<lparr>w_primary = primary, w_supabase = supabase\<rparr>))))))"

section \<open>Serving\<close>

definition stack ::
  "middleware_config \<Rightarrow> (middleware_config \<Rightarrow> 'stack option) \<Rightarrow> ('stack \<Rightarrow> nat list \<Rightarrow> 'stack option)
    \<Rightarrow> 'addr config \<Rightarrow> stack_error + 'stack" where
  "stack default_config stack_new with_key config =
     stack_from_policy default_config stack_new with_key (config_request_policy config)"

text \<open>\<open>serve\<close> up to the call of \<open>axum::serve\<close>. The fields of a log event are only evaluated when the
  event is let through, so only then an address that cannot be read is an error.\<close>

definition prepare ::
  "('addr, 'stack, 'app) machine \<Rightarrow> bool \<Rightarrow> 'addr config
    \<Rightarrow> ('addr, 'stack, 'app, ('addr, 'stack, 'app) server) startup" where
  "prepare m logs_info config =
     bindA (app_state_from_config m config) (\<lambda>(state, w).
     bindA (liftR (map_err StackRefused (stack (ma_default_config m) (ma_stack_new m)
        (ma_with_key m) config))) (\<lambda>lifecycle.
     bindA (liftR (map_err (\<lambda>_. OriginsRefused) (router (ma_parse_uri m) (ma_parse_header m) state
        (cors_origins config)))) (\<lambda>routed.
     bindA (liftR (ensure (ma_bind m (bind_address config)) BindFailed)) (\<lambda>_.
     bindA (emit (Listening (bind_address config))) (\<lambda>_.
     bindA (if logs_info
        then bindA (liftR (ok_or (ma_local_addr m (bind_address config)) AddressUnknown)) (\<lambda>address.
          emit (Logged address))
        else okA ()) (\<lambda>_.
     okA \<lparr>se_router = routed, se_lifecycle = lifecycle,
          se_app = install (ma_install m) routed lifecycle, se_address = bind_address config,
          se_world = w\<rparr>))))))"

definition serve ::
  "('addr, 'stack, 'app) machine \<Rightarrow> bool \<Rightarrow> 'addr config \<Rightarrow> ('addr, 'stack, 'app, unit) startup" where
  "serve m logs_info config =
     bindA (prepare m logs_info config) (\<lambda>server.
     bindA (emit (Serving server)) (\<lambda>_.
     liftR (ensure (ma_serve m server) ServingFailed)))"

text \<open>\<open>main\<close>: \<open>resolve\<close> and \<open>help\<close> are the results of the functions of \<open>Flags\<close>; A process
  asked for its help or version prints it and stops.\<close>

definition resolver :: "(str + env_map) \<Rightarrow> cell \<Rightarrow> lookup" where
  "resolver resolve c = (\<lambda>name. case fst (var resolve name c) of Inr v \<Rightarrow> Some v | Inl _ \<Rightarrow> None)"

definition main_process ::
  "('addr, 'stack, 'app) machine \<Rightarrow> (str + env_map) \<Rightarrow> (str + str)
    \<Rightarrow> ('addr, 'stack, 'app, unit) startup" where
  "main_process m resolve help =
     (case process_control resolve help None of
        (Inl e, c) \<Rightarrow> failA (FlagsRefused e)
      | (Inr (Some output), c) \<Rightarrow> emit (Printed output)
      | (Inr None, c) \<Rightarrow>
          let filter_value = unwrap_or (resolver resolve c (lit ''RUST_LOG'')) (lit ''error'') in
          bindA (liftR (ensure (ma_filter m filter_value) FilterInvalid)) (\<lambda>_.
          bindA (emit (Tracing filter_value)) (\<lambda>_.
          bindA (liftR (map_err ConfigRefused (config_from_lookup (sv_url_lib (ma_services m))
             (ma_parse_addr m) (ma_parse_f64 m) (resolver resolve c)))) (\<lambda>config.
          serve m (ma_logs_info m filter_value) config))))"

section \<open>What a running server rests on\<close>

lemma emit_iff [yields]: "emit e hist = (r, hist') \<longleftrightarrow> r = Inr () \<and> hist' = hist @ [e]"
  by (auto simp: emit_def)

lemma emit_bind [simp]: "bindA (emit e) f hist = f () (hist @ [e])"
  by (simp add: bindA_def emit_def)

lemma connect_Inr [yields]:
  "connect m url hist = (Inr s, hist') \<longleftrightarrow> ma_connect m url = Some s \<and> hist' = hist @ [Connected url]"
  by (auto simp: connect_def yields)

lemma app_state_from_config_Inr:
  assumes "app_state_from_config m config hist = (Inr (state, w), hist')"
  shows "authenticator_from_config (sv_url_lib (ma_services m)) (ma_client m shared_auth_client) config
      = Inr (app_auth state)"
    and "app_turnstile state = turnstile_from_config config"
    and "app_storage state = storage_from_config config" and "app_services state = ma_services m"
    and "ma_connect m (primary_database_url config) = Some (w_primary w)"
    and "ma_connect m (supabase_database_url config) = Some (w_supabase w)"
    and "hist' = hist @ [Connected (primary_database_url config),
      Connected (supabase_database_url config)]"
  using assms by (auto simp: app_state_from_config_def Let_def yields)

lemma prepare_Inr:
  assumes "prepare m logs_info config hist = (Inr server, hist')"
  obtains state noted where "app_state_from_config m config hist = (Inr (state, se_world server),
      hist @ [Connected (primary_database_url config), Connected (supabase_database_url config)])"
    "stack (ma_default_config m) (ma_stack_new m) (ma_with_key m) config = Inr (se_lifecycle server)"
    "router (ma_parse_uri m) (ma_parse_header m) state (cors_origins config) = Inr (se_router server)"
    "se_app server = ma_install m (se_router server) (se_lifecycle server)"
    "ma_bind m (bind_address config)" "se_address server = bind_address config"
    "hist' = hist @ [Connected (primary_database_url config),
      Connected (supabase_database_url config), Listening (bind_address config)] @ map Logged noted"
    "noted = (if logs_info then [the (ma_local_addr m (bind_address config))] else [])"
proof -
  obtain state w h where app: "app_state_from_config m config hist = (Inr (state, w), h)"
    and rest: "stack (ma_default_config m) (ma_stack_new m) (ma_with_key m) config
        = Inr (se_lifecycle server)"
      "router (ma_parse_uri m) (ma_parse_header m) state (cors_origins config)
        = Inr (se_router server)"
      "se_app server = ma_install m (se_router server) (se_lifecycle server)"
      "ma_bind m (bind_address config)" "se_address server = bind_address config"
      "se_world server = w" "hist' = h @ [Listening (bind_address config)] @ map Logged
        (if logs_info then [the (ma_local_addr m (bind_address config))] else [])"
    using assms by (fastforce simp: prepare_def install_def yields split: prod.splits if_splits)
  from app_state_from_config_Inr(7) [OF app] app rest that show ?thesis by simp
qed

text \<open>Only \<open>serve\<close> starts to serve.\<close>

definition not_yet :: "('addr, 'stack, 'app) server \<Rightarrow> ('addr, 'stack, 'app) effect list \<Rightarrow> bool" where
  "not_yet server hist \<longleftrightarrow> Serving server \<notin> set hist"

lemma preserves_emit [preserve]: "e \<noteq> Serving server \<Longrightarrow> preserves (not_yet server) (emit e)"
  by (simp add: preserves_def emit_def not_yet_def)

lemma prepare_not_yet: "preserves (not_yet server) (prepare m logs_info config)"
  unfolding prepare_def app_state_from_config_def connect_def Let_def case_prod_unfold
  by (intro preserve) simp_all

lemma serve_serving:
  assumes "serve m logs_info config hist = (r, hist')" and "not_yet server hist"
    and "Serving server \<in> set hist'"
  obtains h where "prepare m logs_info config hist = (Inr server, h)" "hist' = h @ [Serving server]"
proof -
  obtain p h where p: "prepare m logs_info config hist = (p, h)" by fastforce
  have "not_yet server h" by (rule preserves_result [OF prepare_not_yet assms(2) p])
  then have no: "Serving server \<notin> set h" by (simp add: not_yet_def)
  show ?thesis
  proof (cases p)
    case (Inl e)
    with p have run: "prepare m logs_info config hist = (Inl e, h)" by simp
    from assms(1,3) no show ?thesis unfolding serve_def bindA_err [where m = "prepare m logs_info config", OF run] by simp
  next
    case (Inr started)
    with p have run: "prepare m logs_info config hist = (Inr started, h)" by simp
    from assms(1) have hist': "hist' = h @ [Serving started]"
      unfolding serve_def bindA_ok [where m = "prepare m logs_info config", OF run] by simp
    with assms(3) no have "started = server" by simp
    with run hist' that show ?thesis by simp
  qed
qed

lemma main_process_serving:
  assumes "main_process m resolve help [] = (r, hist')" and "Serving server \<in> set hist'"
  obtains vals config h where "resolve = Inr vals"
    "config_from_lookup (sv_url_lib (ma_services m)) (ma_parse_addr m) (ma_parse_f64 m) vals
      = Inr config"
    "prepare m (ma_logs_info m (unwrap_or (vals (lit ''RUST_LOG'')) (lit ''error''))) config
      [Tracing (unwrap_or (vals (lit ''RUST_LOG'')) (lit ''error''))] = (Inr server, h)"
    "hist' = h @ [Serving server]"
proof -
  obtain c where control: "process_control resolve help None = (Inr None, c)"
    using assms by (auto simp: main_process_def Let_def emit_def split: prod.splits sum.splits option.splits)
  then obtain vals where vals: "resolve = Inr vals" "c = Some (Inr vals)"
    by (rule process_control_continues)
  have same: "resolver resolve c = vals"
    by (rule ext) (simp add: resolver_def vals ok_or_def split: option.splits)
  let ?log = "unwrap_or (vals (lit ''RUST_LOG'')) (lit ''error'')"
  from assms control same obtain config where config: "config_from_lookup (sv_url_lib (ma_services m))
      (ma_parse_addr m) (ma_parse_f64 m) vals = Inr config"
    and serve: "serve m (ma_logs_info m ?log) config [Tracing ?log] = (r, hist')"
    by (cases "config_from_lookup (sv_url_lib (ma_services m)) (ma_parse_addr m) (ma_parse_f64 m) vals")
      (auto simp: main_process_def Let_def ensure_def split: if_splits)
  from serve_serving [OF serve _ assms(2)] obtain h where
    "prepare m (ma_logs_info m ?log) config [Tracing ?log] = (Inr server, h)" "hist' = h @ [Serving server]"
    by (auto simp: not_yet_def)
  with vals(1) config that show ?thesis by blast
qed

section \<open>Where the service credential goes\<close>

text \<open>The documented effect of \<open>path_segments_mut\<close>: only the path changes.\<close>

definition same_site :: "url \<Rightarrow> url \<Rightarrow> bool" where
  "same_site u v \<longleftrightarrow> scheme u = scheme v \<and> host_str u = host_str v \<and> query u = query v"

lemma endpoint_is_safe:
  assumes config: "config_from_lookup lib parse_addr parse_f64 lookup = Inr config"
    and auth: "authenticator_from_config lib builds config = Inr self"
    and paths: "\<And>u. same_site (url_pop_if_empty lib u) u" "\<And>segs u. same_site (url_extend lib segs u) u"
  shows "safe_auth_url (au_endpoint self)" and "au_service_credential self = shared_auth_service_credential config"
proof -
  from config_from_lookup_ok [OF config] obtain u
    where u: "url_parse lib (shared_auth_base_url config) = Some u" "safe_auth_url u"
    by (auto simp: config_ok_def)
  from auth obtain e where e: "introspection_endpoint lib (shared_auth_base_url config) = Inr e"
    and self: "au_endpoint self = e"
    and credential: "au_service_credential self = shared_auth_service_credential config"
    by (auto simp: authenticator_from_config_def Let_def yields split: if_splits)
  from e u(1) have "e = url_extend lib [lit ''auth'', lit ''introspect''] (url_pop_if_empty lib u)"
    by (auto simp: introspection_endpoint_Inr)
  with paths have "same_site e u" unfolding same_site_def by metis
  with u(2) show "safe_auth_url (au_endpoint self)" by (simp add: self safe_auth_url_def same_site_def)
  show "au_service_credential self = shared_auth_service_credential config" by (rule credential)
qed

end
