(* ===== verification/Admission.thy ===== *)
theory Admission imports Service begin

text \<open>
  Who a submission is accepted from: what \<open>admission\<close> says about the bearer credential and the
  Turnstile proof of the request.
\<close>

section \<open>Who was let in\<close>

text \<open>A bearer credential Shared Auth vouches for, or, on a route that is open to the public and
  only when no credential was sent at all, a Turnstile proof.\<close>

definition vouched_bearer :: "app_state \<Rightarrow> header_map \<Rightarrow> str \<Rightarrow> bool" where
  "vouched_bearer app headers claim \<longleftrightarrow>
     (\<exists>raw token reply. headers ''authorization'' = Some (HText raw) \<and> bearer_text raw token \<and>
        sv_ask (app_services app) (introspection_call (app_auth app) token) = Some reply \<and>
        vouches (sv_decode_introspection (app_services app)) (au_audience (app_auth app)) reply claim)"

text \<open>The proof a request carries.\<close>

fun request_proof :: "request \<Rightarrow> str option" where
  "request_proof (PreInterestRequest input) = pi_turnstile_token input"
| "request_proof (UploadRequest input) = ui_turnstile_token input"
| "request_proof (CompleteRequest _ input) = uc_turnstile_token input"
| "request_proof (ApplicationRequest input) = ap_turnstile_token input"
| "request_proof _ = None"

definition proven_human :: "app_state \<Rightarrow> header_map \<Rightarrow> str option \<Rightarrow> bool" where
  "proven_human app headers proof_token \<longleftrightarrow> headers ''authorization'' = None \<and>
     (\<exists>token. proof_token = Some token \<and>
        turnstile_verify (sv_siteverify (app_services app)) (sv_decode_turnstile (app_services app))
          (app_turnstile app) token = Inr ())"

lemma authenticate_Inr:
  assumes "authenticate_or_verify_public app h token = Inr subject"
  shows "case subject of None \<Rightarrow> proven_human app h token | Some s \<Rightarrow> vouched_bearer app h (as_str s)"
proof (cases subject)
  case None
  with assms have "h ''authorization'' = None"
    "\<exists>t. token = Some t \<and> turnstile_verify (sv_siteverify (app_services app))
      (sv_decode_turnstile (app_services app)) (app_turnstile app) t = Inr ()"
    by (auto simp: authenticate_or_verify_public_def Let_def reject_def yields split: option.splits)
  with None show ?thesis by (simp add: proven_human_def)
next
  case (Some s)
  with assms have "required_subject (sv_ask (app_services app)) (sv_decode_introspection (app_services app))
      (app_auth app) h = Inr s"
    by (auto simp: authenticate_or_verify_public_def Let_def reject_def bindR_Inr_iff map_err_Inr_iff
        optional_subject_Some split: option.splits)
  with Some show ?thesis by (auto simp: vouched_bearer_def required_subject_Inr auth_verify_Inr)
qed

lemma required_vouched:
  "required_subject (sv_ask (app_services app)) (sv_decode_introspection (app_services app))
     (app_auth app) h = Inr s \<Longrightarrow> vouched_bearer app h (as_str s)"
  by (auto simp: vouched_bearer_def required_subject_Inr auth_verify_Inr)

lemma admission_authorised:
  assumes adm: "admission app fresh h req = Inr ctx" and kind: "kind_of req = Some kind"
  shows "case context_subject ctx of
      None \<Rightarrow> kind \<noteq> Referral \<and> proven_human app h (request_proof req)
    | Some claim \<Rightarrow> vouched_bearer app h claim"
proof -
  have public: ?thesis if "authenticate_or_verify_public app h (request_proof req) = Inr (ctx_subject ctx)"
    and "kind \<noteq> Referral"
    using authenticate_Inr [OF that(1)] that(2) by (auto simp: context_subject_def split: option.splits)
  show ?thesis
  proof (cases req)
    case (ReferralRequest input)
    with adm kind admit_referral_Inr [of app fresh h input ctx] required_vouched show ?thesis
      by (fastforce simp: context_subject_def)
  qed (use adm kind public in \<open>auto dest!: admit_public_Inr\<close>)
qed

section \<open>Whom a submission is stored for\<close>

fun subject_column :: "stored_submission_kind \<Rightarrow> column" where
  "subject_column Referral = Rf C_referrer_subject"
| "subject_column _ = C_applicant_subject"

definition stored_for :: "str option \<Rightarrow> stored_submission_kind \<Rightarrow> uuid \<Rightarrow> store \<Rightarrow> bool" where
  "stored_for subject kind i st \<longleftrightarrow> (\<exists>r \<in> set (st (table_name kind)).
     r C_id = SUuid i \<and> r (subject_column kind) = sql_opt SText subject)"

text \<open>The mark on the primary's row touches no other column.\<close>

lemma update_table_row:
  assumes "row \<in> set (st k)" and "\<And>r c. t = k \<Longrightarrow> c \<noteq> C_mirror_status \<Longrightarrow> f r c = r c"
  obtains row' where "row' \<in> set (update_table t p f st k)" "\<forall>c. c \<noteq> C_mirror_status \<longrightarrow> row' c = row c"
proof (cases "t = k")
  case True
  from assms(1) have "(if p row then f row else row) \<in> set (update_table t p f st k)"
    by (simp add: True update_table_def)
  with assms(2) [OF True] show ?thesis by (intro that) auto
next
  case False
  with assms(1) show ?thesis by (intro that [of row]) (simp_all add: update_table_def)
qed

lemma marking_rows:
  assumes "mark_mirrored kind i digest s = (r, t)" and "row \<in> set (committed s (table_name k))"
  obtains row' where "row' \<in> set (committed t (table_name k))"
    "\<forall>c. c \<noteq> C_mirror_status \<longrightarrow> row' c = row c"
proof -
  from marking.all_or_nothing [OF assms(1)] obtain now where "committed t = committed s \<or>
      committed t = snd (mark_mirrored_spec kind i digest now (schema_defaults s now) (committed s))"
    by blast
  then consider (same) "committed t = committed s"
    | (changed) p f q g st where "committed t = update_table Hhm_submission_outbox q g st"
        "st = (if kind = Upload then committed s else update_table (table_name kind) p f (committed s))"
        "\<And>r c. c \<noteq> C_mirror_status \<Longrightarrow> f r c = (r :: row) c"
    unfolding mark_mirrored_spec_def two_updates_def by (fastforce split: if_splits)
  then show ?thesis
  proof cases
    case same
    with assms(2) that show ?thesis by metis
  next
    case changed
    obtain row' where row': "row' \<in> set (st (table_name k))" "\<forall>c. c \<noteq> C_mirror_status \<longrightarrow> row' c = row c"
      using assms(2) changed(2,3) update_table_row [of row "committed s" "table_name k" "table_name kind" f p]
      by (cases "kind = Upload") auto
    moreover have "committed t (table_name k) = st (table_name k)"
      by (cases k) (simp_all add: changed(1) update_table_def)
    ultimately show ?thesis using that by simp
  qed
qed

lemma marking_stored_for:
  assumes "mark_mirrored kind i digest s = (r, t)" and "stored_for subject k j (committed s)"
  shows "stored_for subject k j (committed t)"
proof -
  from assms(2) obtain row where row: "row \<in> set (committed s (table_name k))" "row C_id = SUuid j"
    "row (subject_column k) = sql_opt SText subject" by (auto simp: stored_for_def)
  from marking_rows [OF assms(1) row(1)] obtain row' where row': "row' \<in> set (committed t (table_name k))"
    "\<forall>c. c \<noteq> C_mirror_status \<longrightarrow> row' c = row c" by blast
  have "subject_column k \<noteq> C_mirror_status" by (cases k) simp_all
  with row(2,3) row' show ?thesis
    unfolding stored_for_def by (intro bexI [OF _ row'(1)]) simp
qed

context intake_command begin

lemma new_row_subject:
  assumes run: "cmd target ctx s = (Inr x, t)" and wf: "wf_rows (committed s)"
    and binds: "\<And>now st cvs d. plan target ctx now st = Inr cvs \<Longrightarrow>
      set_cols cvs d (subject_column kind) = sql_opt SText (context_subject ctx)"
    and new: "\<And>i digest. \<not> holds kind i (ctx_idempotency_key ctx) digest (committed s)"
  shows "stored_for (context_subject ctx) kind (id_of x) (committed t)"
proof -
  have fresh: "\<not> ss_replayed (view x)"
  proof
    assume "ss_replayed (view x)"
    with result(1,2) [OF run wf] new show False by simp
  qed
  with result(3) [OF run wf] have id: "id_of x = ctx_canonical_id ctx" by simp
  from planned [OF run] fresh obtain now cvs where plan: "plan target ctx now (committed s) = Inr cvs"
    and rows: "committed t (table_name kind)
      = committed s (table_name kind) @ [set_cols cvs (schema_defaults s now (table_name kind))]" by blast
  from binds [OF plan] binds_identity_cols(1) [OF intake_command.binds [OF intake_command_axioms plan]]
  show ?thesis by (simp add: stored_for_def rows id)
qed

lemma dual_stored_for:
  assumes run: "dual ctx w = (Inr x, w')" and ok: "pair_ok w"
    and fresh: "fresh_id kind (ctx_canonical_id ctx) (committed (w_primary w))"
    and binds: "\<And>target i now st cvs d. plan target (with_canonical_id ctx i) now st = Inr cvs \<Longrightarrow>
      set_cols cvs d (subject_column kind) = sql_opt SText (context_subject ctx)"
    and new: "\<And>i digest. \<not> holds kind i (ctx_idempotency_key ctx) digest (committed (w_primary w))"
  shows "stored_for (context_subject ctx) kind (id_of x) (committed (w_primary w'))"
    and "stored_for (context_subject ctx) kind (id_of x) (committed (w_supabase w'))"
proof -
  have same: "with_canonical_id ctx (ctx_canonical_id ctx) = ctx" by (simp add: with_canonical_id_def)
  have con: "consistent (committed (w_primary w)) (committed (w_supabase w))"
    using ok by (simp add: pair_ok_def)
  from run have "stored_for (context_subject ctx) kind (id_of x) (committed (w_primary w')) \<and>
    stored_for (context_subject ctx) kind (id_of x) (committed (w_supabase w'))"
  proof (cases rule: dual_write_cases)
    case (complete y s z u)
    have "stored_for (context_subject ctx) kind (id_of y) (committed s)"
      by (rule new_row_subject [OF complete(1)])
        (use consistent_wf(1) [OF con] binds [of _ "ctx_canonical_id ctx", unfolded same] new in auto)
    moreover have "\<not> holds kind i (ctx_idempotency_key ctx) digest (committed (w_supabase w))" for i digest
      using con new by (auto simp: consistent_def mirror_within_def holds_identities_list)
    then have "stored_for (context_subject ctx) kind (id_of z) (committed (w_supabase w'))"
      using new_row_subject [OF complete(2)] consistent_wf(2) [OF con] binds by simp
    ultimately show ?thesis
      using complete(3,5) marking_stored_for [OF complete(4)] by auto
  qed simp_all
  then show "stored_for (context_subject ctx) kind (id_of x) (committed (w_primary w'))"
    and "stored_for (context_subject ctx) kind (id_of x) (committed (w_supabase w'))" by simp_all
qed

end

lemma plan_binds_subject:
  "plan_pre_interest k pinput target ctx now st = Inr cvs \<Longrightarrow>
     set_cols cvs d C_applicant_subject = sql_opt SText (context_subject ctx)"
  "plan_upload k display utc uinput target ctx now st = Inr cvs \<Longrightarrow>
     set_cols cvs d C_applicant_subject = sql_opt SText (context_subject ctx)"
  "plan_application k ainput target ctx now st = Inr cvs \<Longrightarrow>
     set_cols cvs d C_applicant_subject = sql_opt SText (context_subject ctx)"
  "plan_referral k rinput target ctx now st = Inr cvs \<Longrightarrow>
     set_cols cvs d (Rf C_referrer_subject) = sql_opt SText (context_subject ctx)"
  by (auto simp: plan_pre_interest_def plan_upload_def plan_application_def plan_referral_def
      require_subject_def yields pre_interest_columns_def pre_interest_values_def upload_columns_def
      upload_values_def application_columns_def application_values_def referral_columns_def
      referral_values_def sql_opt_def)

lemma submit_stored_for:
  assumes run: "submit app req ctx w = (Inr x, w')" and kind: "kind_of req = Some kind" and ok: "pair_ok w"
    and fresh: "fresh_id kind (ctx_canonical_id ctx) (committed (w_primary w))"
    and new: "\<And>i digest. \<not> holds kind i (ctx_idempotency_key ctx) digest (committed (w_primary w))"
  shows "stored_for (context_subject ctx) kind (ss_id x) (committed (w_primary w')) \<and>
    stored_for (context_subject ctx) kind (ss_id x) (committed (w_supabase w'))"
proof (cases req)
  case (PreInterestRequest input)
  with run kind fresh new pre_interests.dual_stored_for [OF _ ok] plan_binds_subject(1)
  show ?thesis by fastforce
next
  case (ApplicationRequest input)
  with run kind fresh new applications.dual_stored_for [OF _ ok] plan_binds_subject(3)
  show ?thesis by fastforce
next
  case (ReferralRequest input)
  with run kind fresh new referrals.dual_stored_for [OF _ ok] plan_binds_subject(4)
  show ?thesis by fastforce
next
  case (UploadRequest input)
  from run [unfolded UploadRequest] show ?thesis
    by (rule submit_upload)
      (use UploadRequest kind fresh new uploads.dual_stored_for [OF _ ok] plan_binds_subject(2) in fastforce)+
qed (use kind in simp_all)

section \<open>What a submission is bound to\<close>

text \<open>The Turnstile proof, which a retry has to renew, is not part of the digest.\<close>

lemma digest_ignores_turnstile_proof:
  "canonical_digest_without_turnstile sv (Some (JObject (before @ (lit ''turnstileToken'', proof_value) # after)))
   = canonical_digest_without_turnstile sv (Some (JObject (before @ after)))"
  by (simp add: canonical_digest_without_turnstile_def reject_def)

end
