(* ===== verification/Contract.thy ===== *)
theory Contract imports Startup begin

text \<open>
  The command-line contract \<open>.cli-flags.toml\<close>, which \<open>src/flags.rs\<close> embeds in the program, against
  the code that reads the configuration: the defaults the contract announces are those the code
  falls back to, and the names it declares are the ones the code reads, but for three.
\<close>

section \<open>The contract\<close>

definition contract_flags :: "(str \<times> toml) list" where
  "contract_flags =
     [(lit ''help'', TTable
       [(lit ''env'', TString (lit ''CLI_HELP_REQUESTED'')),
        (lit ''long'', TString (lit ''help'')),
        (lit ''short'', TString (lit ''h'')),
        (lit ''type'', TString (lit ''boolean'')),
        (lit ''default'', TOther (lit ''false'')),
        (lit ''help'', TString (lit ''Print command-line help.''))]),
      (lit ''version'', TTable
       [(lit ''env'', TString (lit ''CLI_VERSION_REQUESTED'')),
        (lit ''long'', TString (lit ''version'')),
        (lit ''short'', TString (lit ''V'')),
        (lit ''type'', TString (lit ''boolean'')),
        (lit ''default'', TOther (lit ''false'')),
        (lit ''help'', TString (lit ''Print the server version.''))]),
      (lit ''host'', TTable
       [(lit ''env'', TString (lit ''HOST'')),
        (lit ''long'', TString (lit ''host'')),
        (lit ''type'', TString (lit ''string'')),
        (lit ''default'', TString (lit ''0.0.0.0'')),
        (lit ''help'', TString (lit ''API listener host.''))]),
      (lit ''port'', TTable
       [(lit ''env'', TString (lit ''PORT'')),
        (lit ''long'', TString (lit ''port'')),
        (lit ''short'', TString (lit ''p'')),
        (lit ''type'', TString (lit ''integer'')),
        (lit ''default'', TOther (lit ''8080'')),
        (lit ''help'', TString (lit ''API listener port.''))]),
      (lit ''supabase-url'', TTable
       [(lit ''env'', TString (lit ''SUPABASE_URL'')),
        (lit ''long'', TString (lit ''supabase-url'')),
        (lit ''type'', TString (lit ''string'')),
        (lit ''help'', TString (lit ''Credential-free Supabase project URL.''))]),
      (lit ''cors-origins'', TTable
       [(lit ''env'', TString (lit ''CORS_ORIGINS'')),
        (lit ''long'', TString (lit ''cors-origins'')),
        (lit ''type'', TString (lit ''string'')),
        (lit ''default'', TString ([])),
        (lit ''help'', TString (lit ''Comma-separated exact HTTP(S) CORS origins.''))]),
      (lit ''rust-log'', TTable
       [(lit ''env'', TString (lit ''RUST_LOG'')),
        (lit ''long'', TString (lit ''rust-log'')),
        (lit ''type'', TString (lit ''string'')),
        (lit ''default'', TString (lit ''error'')),
        (lit ''help'', TString (lit ''Tracing filter.''))]),
      (lit ''app-env'', TTable
       [(lit ''env'', TString (lit ''APP_ENV'')),
        (lit ''long'', TString (lit ''app-env'')),
        (lit ''type'', TString (lit ''string'')),
        (lit ''default'', TString (lit ''development'')),
        (lit ''help'', TString (lit ''Runtime policy environment: development, test, staging, or production.''))]),
      (lit ''middleware-tls-mode'', TTable
       [(lit ''env'', TString (lit ''ORES_MIDDLEWARE_TLS_MODE'')),
        (lit ''long'', TString (lit ''middleware-tls-mode'')),
        (lit ''type'', TString (lit ''string'')),
        (lit ''default'', TString (lit ''disabled'')),
        (lit ''help'', TString (lit ''Request transport policy: disabled, in-process, or trusted-proxy.''))]),
      (lit ''middleware-trusted-proxy-cidrs'', TTable
       [(lit ''env'', TString (lit ''ORES_MIDDLEWARE_TRUSTED_PROXY_CIDRS'')),
        (lit ''long'', TString (lit ''middleware-trusted-proxy-cidrs'')),
        (lit ''type'', TString (lit ''string'')),
        (lit ''default'', TString ([])),
        (lit ''help'', TString (lit ''Comma-separated immediate-peer CIDRs trusted to supply forwarded headers.''))]),
      (lit ''middleware-timeout-ms'', TTable
       [(lit ''env'', TString (lit ''ORES_MIDDLEWARE_TIMEOUT_MS'')),
        (lit ''long'', TString (lit ''middleware-timeout-ms'')),
        (lit ''type'', TString (lit ''integer'')),
        (lit ''default'', TOther (lit ''10000'')),
        (lit ''help'', TString (lit ''Maximum HTTP request lifecycle in milliseconds.''))]),
      (lit ''middleware-max-body-bytes'', TTable
       [(lit ''env'', TString (lit ''ORES_MIDDLEWARE_MAX_BODY_BYTES'')),
        (lit ''long'', TString (lit ''middleware-max-body-bytes'')),
        (lit ''type'', TString (lit ''integer'')),
        (lit ''default'', TOther (lit ''262144'')),
        (lit ''help'', TString (lit ''Maximum request body size in bytes.''))]),
      (lit ''middleware-rate-limit-capacity'', TTable
       [(lit ''env'', TString (lit ''ORES_MIDDLEWARE_RATE_LIMIT_CAPACITY'')),
        (lit ''long'', TString (lit ''middleware-rate-limit-capacity'')),
        (lit ''type'', TString (lit ''integer'')),
        (lit ''default'', TOther (lit ''60'')),
        (lit ''help'', TString (lit ''Per-peer and route token-bucket capacity.''))]),
      (lit ''middleware-rate-limit-refill'', TTable
       [(lit ''env'', TString (lit ''ORES_MIDDLEWARE_RATE_LIMIT_REFILL_PER_SECOND'')),
        (lit ''long'', TString (lit ''middleware-rate-limit-refill'')),
        (lit ''type'', TString (lit ''number'')),
        (lit ''default'', TOther (lit ''1'')),
        (lit ''help'', TString (lit ''Per-peer and route token refill rate per second.''))])]"

definition CONTRACT :: "(str \<times> toml) list" where
  "CONTRACT =
     [(lit ''identity'', TTable [(lit ''service'', TString (lit ''hhm-api'')),
        (lit ''type_name'', TString (lit ''RuntimeEnv''))]),
      (lit ''help'', TTable [(lit ''url'', TString (lit ''https://github.com/flags-2-env/flags-2-env'')),
        (lit ''columns'', TArray (map (\<lambda>n. TString (lit n)) 
        [''options'', ''env'', ''type'', ''default'', ''description'']))]),
      (lit ''parse'', TTable [(lit ''allow_unknown'', TOther (lit ''false''))]),
      (lit ''env'', TTable [(lit ''ignore'', TArray (map (\<lambda>n. TString (lit n)) 
        [''DATABASE_URL'', ''SUPABASE_DATABASE_URL'', ''SUPABASE_SERVICE_ROLE_KEY'', ''TURNSTILE_SECRET_KEY'',
         ''SHARED_AUTH_SERVICE_CREDENTIAL'', ''ORES_MIDDLEWARE_RATE_LIMIT_HMAC_SECRET'']))]),
      (lit ''flags'', TTable contract_flags)]"

section \<open>What the contract declares\<close>

definition contract_field :: "string \<Rightarrow> toml \<Rightarrow> toml option" where
  "contract_field name flag = Option.bind (as_table flag) (\<lambda>t. map_of t (lit name))"

fun scalar_text :: "toml \<Rightarrow> str option" where
  "scalar_text (TString s) = Some s"
| "scalar_text (TOther s) = Some s"
| "scalar_text _ = None"

definition declared_flags :: "(str \<times> str option) list" where
  "declared_flags =
     map (\<lambda>flag. (the (Option.bind (contract_field ''env'' flag) as_str_opt),
        Option.bind (contract_field ''default'' flag) scalar_text))
       (map snd contract_flags)"

definition contract_defaults :: env_map where
  "contract_defaults name = Option.bind (map_of declared_flags name) id"

definition ignored_names :: "str list" where
  "ignored_names =
     (case Option.bind (map_of CONTRACT (lit ''env'')) (contract_field ''ignore'') of
        Some (TArray names) \<Rightarrow> map (\<lambda>n. the (as_str_opt n)) names | _ \<Rightarrow> [])"

definition contract_names :: "str list" where
  "contract_names = map fst declared_flags @ ignored_names"

lemma declared_flags_eq: "declared_flags = map (\<lambda>(n, d). (lit n, map_option lit d))
   [(''CLI_HELP_REQUESTED'', Some ''false''), (''CLI_VERSION_REQUESTED'', Some ''false''),
    (''HOST'', Some ''0.0.0.0''), (''PORT'', Some ''8080''), (''SUPABASE_URL'', None),
    (''CORS_ORIGINS'', Some []), (''RUST_LOG'', Some ''error''), (''APP_ENV'', Some ''development''),
    (''ORES_MIDDLEWARE_TLS_MODE'', Some ''disabled''),
    (''ORES_MIDDLEWARE_TRUSTED_PROXY_CIDRS'', Some []),
    (''ORES_MIDDLEWARE_TIMEOUT_MS'', Some ''10000''),
    (''ORES_MIDDLEWARE_MAX_BODY_BYTES'', Some ''262144''),
    (''ORES_MIDDLEWARE_RATE_LIMIT_CAPACITY'', Some ''60''),
    (''ORES_MIDDLEWARE_RATE_LIMIT_REFILL_PER_SECOND'', Some ''1'')]"
  by (simp add: declared_flags_def contract_flags_def contract_field_def)

lemma contract_defaults_eq:
  "contract_defaults (lit ''CLI_HELP_REQUESTED'') = Some (lit ''false'')"
  "contract_defaults (lit ''CLI_VERSION_REQUESTED'') = Some (lit ''false'')"
  "contract_defaults (lit ''HOST'') = Some (lit ''0.0.0.0'')"
  "contract_defaults (lit ''PORT'') = Some (lit ''8080'')"
  "contract_defaults (lit ''RUST_LOG'') = Some (lit ''error'')"
  "contract_defaults (lit ''APP_ENV'') = Some (lit ''development'')"
  "contract_defaults (lit ''ORES_MIDDLEWARE_TLS_MODE'') = Some (lit ''disabled'')"
  "contract_defaults (lit ''ORES_MIDDLEWARE_TIMEOUT_MS'') = Some (lit ''10000'')"
  "contract_defaults (lit ''ORES_MIDDLEWARE_MAX_BODY_BYTES'') = Some (lit ''262144'')"
  "contract_defaults (lit ''ORES_MIDDLEWARE_RATE_LIMIT_CAPACITY'') = Some (lit ''60'')"
  "contract_defaults (lit ''ORES_MIDDLEWARE_RATE_LIMIT_REFILL_PER_SECOND'') = Some (lit ''1'')"
  by (simp_all add: contract_defaults_def declared_flags_eq)

text \<open>The names without a default, and those whose default is the empty text.\<close>

definition blank_default_names :: "string list" where
  "blank_default_names =
     [''SUPABASE_URL'', ''CORS_ORIGINS'', ''ORES_MIDDLEWARE_TRUSTED_PROXY_CIDRS'', ''DATABASE_URL'',
      ''SUPABASE_DATABASE_URL'', ''SUPABASE_SERVICE_ROLE_KEY'', ''TURNSTILE_SECRET_KEY'',
      ''SHARED_AUTH_SERVICE_CREDENTIAL'', ''ORES_MIDDLEWARE_RATE_LIMIT_HMAC_SECRET'',
      ''SHARED_AUTH_BASE_URL'', ''SHARED_AUTH_AUDIENCE'', ''TURNSTILE_ACTION'']"

lemma contract_defaults_blank:
  "list_all (\<lambda>n. contract_defaults (lit n) \<in> {None, Some []}) blank_default_names"
  by (simp add: contract_defaults_def declared_flags_eq blank_default_names_def)

section \<open>Defaults made explicit\<close>

text \<open>\<open>filled d vals\<close> are the values with some of the announced defaults made explicit.\<close>

definition filled :: "env_map \<Rightarrow> env_map \<Rightarrow> env_map" where
  "filled d vals = d ++ vals"

lemma filled_cases:
  assumes "d \<subseteq>\<^sub>m contract_defaults"
  obtains "filled d vals name = vals name"
  | v where "vals name = None" "filled d vals name = Some v" "contract_defaults name = Some v"
proof (cases "vals name")
  case None
  show ?thesis
  proof (cases "d name")
    case (Some v)
    with assms have "contract_defaults name = Some v" by (auto simp: map_le_def dom_def)
    with None Some that(2) show ?thesis by (simp add: filled_def map_add_def)
  qed (use None that(1) in \<open>simp add: filled_def map_add_def\<close>)
qed (use that(1) in \<open>simp add: filled_def map_add_def\<close>)

lemma filled_blank:
  assumes "d \<subseteq>\<^sub>m contract_defaults" and "contract_defaults (lit n) \<in> {None, Some []}"
  shows "optional (filled d vals) n = optional vals n"
  using assms(1) by (rule filled_cases [of d vals "lit n"])
    (use assms(2) in \<open>auto simp: optional_def trim_def trim_start_def\<close>)

lemma filled_unwrap:
  assumes "d \<subseteq>\<^sub>m contract_defaults" and "contract_defaults (lit n) = Some v" and "trim v = v" and "v \<noteq> []"
  shows "unwrap_or (optional (filled d vals) n) v = unwrap_or (optional vals n) v"
  using assms(1) by (rule filled_cases [of d vals "lit n"])
    (use assms(2-) in \<open>auto simp: optional_def unwrap_or_def\<close>)

lemma filled_number:
  assumes "d \<subseteq>\<^sub>m contract_defaults" and "contract_defaults (lit n) = Some v" and "trim v = v" and "v \<noteq> []"
    and "parse v = Some k"
  shows "parse_number parse (optional (filled d vals) n) k = parse_number parse (optional vals n) k"
  using assms(1) by (rule filled_cases [of d vals "lit n"])
    (use assms(2-) in \<open>auto simp: optional_def parse_number_def\<close>)

lemma default_texts:
  "trim (lit ''0.0.0.0'') = lit ''0.0.0.0''" "trim (lit ''8080'') = lit ''8080''"
  "trim (lit ''development'') = lit ''development''" "trim (lit ''disabled'') = lit ''disabled''"
  "trim (lit ''10000'') = lit ''10000''" "trim (lit ''262144'') = lit ''262144''"
  "trim (lit ''60'') = lit ''60''" "trim (lit ''1'') = lit ''1''"
  by (simp_all add: trim_def trim_start_def lit_def is_whitespace_def)

lemma default_numbers:
  "parse_unsigned (2 ^ 64) (lit ''10000'') = Some 10000"
  "parse_unsigned (2 ^ 64) (lit ''262144'') = Some (256 * 1024)"
  "parse_unsigned (2 ^ 32) (lit ''60'') = Some 60"
  by (simp_all add: parse_unsigned_def lit_def is_ascii_digit_def)

lemma blank_names:
  assumes "d \<subseteq>\<^sub>m contract_defaults" and "n \<in> set blank_default_names"
  shows "optional (filled d vals) n = optional vals n"
  using assms(1) by (rule filled_blank)
    (use assms(2) contract_defaults_blank in \<open>simp only: list_all_iff\<close>)

lemma policy_filled:
  assumes d: "d \<subseteq>\<^sub>m contract_defaults" and one: "parse_f64 (lit ''1'') = Some (Finite 1)"
  shows "policy_from_lookup parse_f64 (filled d vals) = policy_from_lookup parse_f64 vals"
proof -
  have modes: "unwrap_or (optional (filled d vals) ''APP_ENV'') (lit ''development'')
      = unwrap_or (optional vals ''APP_ENV'') (lit ''development'')"
    "unwrap_or (optional (filled d vals) ''ORES_MIDDLEWARE_TLS_MODE'') (lit ''disabled'')
      = unwrap_or (optional vals ''ORES_MIDDLEWARE_TLS_MODE'') (lit ''disabled'')"
    by (rule filled_unwrap [OF d]; simp add: contract_defaults_eq default_texts)+
  have numbers: "parse_number (parse_unsigned (2 ^ 64))
        (optional (filled d vals) ''ORES_MIDDLEWARE_TIMEOUT_MS'') 10000
      = parse_number (parse_unsigned (2 ^ 64)) (optional vals ''ORES_MIDDLEWARE_TIMEOUT_MS'') 10000"
    "parse_number (parse_unsigned (2 ^ 64))
        (optional (filled d vals) ''ORES_MIDDLEWARE_MAX_BODY_BYTES'') (256 * 1024)
      = parse_number (parse_unsigned (2 ^ 64))
        (optional vals ''ORES_MIDDLEWARE_MAX_BODY_BYTES'') (256 * 1024)"
    "parse_number (parse_unsigned (2 ^ 32))
        (optional (filled d vals) ''ORES_MIDDLEWARE_RATE_LIMIT_CAPACITY'') 60
      = parse_number (parse_unsigned (2 ^ 32)) (optional vals ''ORES_MIDDLEWARE_RATE_LIMIT_CAPACITY'') 60"
    "parse_number parse_f64
        (optional (filled d vals) ''ORES_MIDDLEWARE_RATE_LIMIT_REFILL_PER_SECOND'') (Finite 1)
      = parse_number parse_f64
        (optional vals ''ORES_MIDDLEWARE_RATE_LIMIT_REFILL_PER_SECOND'') (Finite 1)"
    by (rule filled_number [where parse = "parse_unsigned (2 ^ 64)", OF d contract_defaults_eq(8) default_texts(5) _ default_numbers(1)]
        filled_number [where parse = "parse_unsigned (2 ^ 64)", OF d contract_defaults_eq(9) default_texts(6) _ default_numbers(2)]
        filled_number [where parse = "parse_unsigned (2 ^ 32)", OF d contract_defaults_eq(10) default_texts(7) _ default_numbers(3)]
        filled_number [where parse = "parse_f64", OF d contract_defaults_eq(11) default_texts(8) _ one]; simp)+
  have rest: "optional (filled d vals) ''ORES_MIDDLEWARE_TRUSTED_PROXY_CIDRS''
      = optional vals ''ORES_MIDDLEWARE_TRUSTED_PROXY_CIDRS''"
    "optional (filled d vals) ''ORES_MIDDLEWARE_RATE_LIMIT_HMAC_SECRET''
      = optional vals ''ORES_MIDDLEWARE_RATE_LIMIT_HMAC_SECRET''"
    by (rule blank_names [OF d]; simp add: blank_default_names_def)+
  show ?thesis unfolding policy_from_lookup_def modes numbers rest ..
qed

lemma config_filled:
  assumes d: "d \<subseteq>\<^sub>m contract_defaults" and one: "parse_f64 (lit ''1'') = Some (Finite 1)"
  shows "config_from_lookup lib parse_addr parse_f64 (filled d vals)
    = config_from_lookup lib parse_addr parse_f64 vals"
proof -
  have address: "unwrap_or (optional (filled d vals) ''HOST'') (lit ''0.0.0.0'')
      = unwrap_or (optional vals ''HOST'') (lit ''0.0.0.0'')"
    "unwrap_or (optional (filled d vals) ''PORT'') (lit ''8080'')
      = unwrap_or (optional vals ''PORT'') (lit ''8080'')"
    by (rule filled_unwrap [OF d]; simp add: contract_defaults_eq default_texts)+
  show ?thesis
    unfolding config_from_lookup_def parse_https_url_def required_def address
      policy_filled [OF d, of parse_f64 vals, OF one]
    by (simp add: blank_names [OF d] blank_default_names_def cong: if_cong)
qed

section \<open>The names the code reads\<close>

definition policy_names :: "string list" where
  "policy_names = [''APP_ENV'', ''ORES_MIDDLEWARE_TLS_MODE'', ''ORES_MIDDLEWARE_TRUSTED_PROXY_CIDRS'',
     ''ORES_MIDDLEWARE_TIMEOUT_MS'', ''ORES_MIDDLEWARE_MAX_BODY_BYTES'',
     ''ORES_MIDDLEWARE_RATE_LIMIT_CAPACITY'', ''ORES_MIDDLEWARE_RATE_LIMIT_REFILL_PER_SECOND'',
     ''ORES_MIDDLEWARE_RATE_LIMIT_HMAC_SECRET'']"

definition undeclared_names :: "string list" where
  "undeclared_names = [''SHARED_AUTH_BASE_URL'', ''SHARED_AUTH_AUDIENCE'', ''TURNSTILE_ACTION'']"

definition config_names :: "string list" where
  "config_names = [''HOST'', ''PORT'', ''SUPABASE_URL'', ''DATABASE_URL'', ''SUPABASE_DATABASE_URL'',
     ''SUPABASE_SERVICE_ROLE_KEY'', ''TURNSTILE_SECRET_KEY'', ''SHARED_AUTH_SERVICE_CREDENTIAL'',
     ''CORS_ORIGINS''] @ policy_names @ undeclared_names"

lemma optional_agree: "l1 (lit n) = l2 (lit n) \<Longrightarrow> optional l1 n = optional l2 n"
  by (simp add: optional_def)

lemma config_reads_only:
  assumes "\<forall>n \<in> set config_names. l1 (lit n) = l2 (lit n)"
  shows "config_from_lookup lib parse_addr parse_f64 l1 = config_from_lookup lib parse_addr parse_f64 l2"
proof -
  have "list_all (\<lambda>n. optional l1 n = optional l2 n) config_names"
    using assms by (auto simp: list_all_iff intro: optional_agree)
  then show ?thesis
    unfolding config_from_lookup_def parse_https_url_def required_def policy_from_lookup_def
      config_names_def policy_names_def undeclared_names_def append.simps list.pred_inject
    by (elim conjE) (simp only: cong: if_cong)
qed

lemma names_declared:
  "lit ` set config_names = lit ` set undeclared_names \<union>
     (set contract_names - {lit ''CLI_HELP_REQUESTED'', lit ''CLI_VERSION_REQUESTED'', lit ''RUST_LOG''})"
  "lit n \<in> set contract_names \<Longrightarrow> n \<notin> set undeclared_names"
  by (auto simp: config_names_def policy_names_def undeclared_names_def contract_names_def
      declared_flags_eq ignored_names_def CONTRACT_def contract_field_def)

section \<open>A process with its defaults made explicit\<close>

lemma main_process_filled:
  assumes d: "d \<subseteq>\<^sub>m contract_defaults" and one: "ma_parse_f64 m (lit ''1'') = Some (Finite 1)"
  shows "main_process m (Inr (filled d vals)) help hist = main_process m (Inr vals) help hist"
proof -
  have asked: "filled d vals (lit n) = Some (lit ''true'') \<longleftrightarrow> vals (lit n) = Some (lit ''true'')"
    if "contract_defaults (lit n) = Some (lit ''false'')" for n
    using d by (rule filled_cases [of d vals "lit n"]) (use that in auto)
  have log: "unwrap_or (filled d vals (lit ''RUST_LOG'')) (lit ''error'')
      = unwrap_or (vals (lit ''RUST_LOG'')) (lit ''error'')"
    using d by (rule filled_cases [of d vals "lit ''RUST_LOG''"])
      (auto simp: unwrap_or_def contract_defaults_eq)
  have resolver: "resolver (Inr v) (Some (Inr v)) = v" for v :: env_map
    by (rule ext) (simp add: resolver_def var_def try_resolved_def ok_or_def split: option.splits)
  have config: "config_from_lookup lib parse_addr (ma_parse_f64 m) (filled d vals)
      = config_from_lookup lib parse_addr (ma_parse_f64 m) vals" for lib parse_addr
    by (rule config_filled [OF d]) (rule one)
  show ?thesis
    by (cases "help") (simp_all add: main_process_def process_control_def try_resolved_def asked
        contract_defaults_eq resolver log config Let_def cong: if_cong)
qed

end
