(* ===== verification/Example_Config.thy ===== *)
theory Example_Config imports Example_Uploads Startup begin

text \<open>
  A concrete environment that resolves to a configuration, the same in production, a machine
  that starts a server on it, and a command line for the resolver.
\<close>

section \<open>A configuration\<close>

definition example_settings :: "(str \<times> str) list" where
  "example_settings = map (\<lambda>(n, v). (lit n, lit v))
     [(''SUPABASE_URL'', ''https://hhaus.org''), (''SHARED_AUTH_BASE_URL'', ''https://hhaus.org''),
      (''DATABASE_URL'', ''primary''), (''SUPABASE_DATABASE_URL'', ''supabase''),
      (''SUPABASE_SERVICE_ROLE_KEY'', ''secret''), (''TURNSTILE_SECRET_KEY'', ''secret''),
      (''SHARED_AUTH_SERVICE_CREDENTIAL'', ''secret''), (''SHARED_AUTH_AUDIENCE'', ''hhm-api''),
      (''CORS_ORIGINS'', ''https://a.org,https://b.org,https://a.org''),
      (''APP_ENV'', ''production''), (''ORES_MIDDLEWARE_TLS_MODE'', ''in-process''),
      (''ORES_MIDDLEWARE_RATE_LIMIT_HMAC_SECRET'', ''hmac'')]"

definition example_lookup :: lookup where
  "example_lookup = map_of example_settings"

definition example_f64 :: "str \<Rightarrow> f64 option" where
  "example_f64 = (\<lambda>_. Some (Finite 1))"

definition example_policy :: request_policy where
  "example_policy = \<lparr>rp_environment = Production, rp_tls_mode = InProcess, rp_trusted_proxy_cidrs = [],
     rp_timeout_ms = 10000, rp_max_body_bytes = 256 * 1024, rp_rate_limit_capacity = 60,
     rp_rate_limit_refill_per_second = Finite 1, rp_rate_limit_hmac_secret = Some (lit ''hmac'')\<rparr>"

definition example_config :: "str config" where
  "example_config = \<lparr>bind_address = lit ''0.0.0.0:8080'', primary_database_url = lit ''primary'',
     supabase_database_url = lit ''supabase'', supabase_url = example_url,
     supabase_service_role_key = lit ''secret'', turnstile_secret_key = lit ''secret'',
     turnstile_action = lit ''intake'', shared_auth_base_url = lit ''https://hhaus.org'',
     shared_auth_service_credential = lit ''secret'', shared_auth_audience = lit ''hhm-api'',
     cors_origins = lit ''https://a.org,https://b.org,https://a.org'',
     config_request_policy = example_policy\<rparr>"

lemma example_optional:
  "optional example_lookup ''HOST'' = None" "optional example_lookup ''PORT'' = None"
  "optional example_lookup ''TURNSTILE_ACTION'' = None"
  "optional example_lookup ''SUPABASE_URL'' = Some (lit ''https://hhaus.org'')"
  "optional example_lookup ''SHARED_AUTH_BASE_URL'' = Some (lit ''https://hhaus.org'')"
  "optional example_lookup ''DATABASE_URL'' = Some (lit ''primary'')"
  "optional example_lookup ''SUPABASE_DATABASE_URL'' = Some (lit ''supabase'')"
  "optional example_lookup ''SUPABASE_SERVICE_ROLE_KEY'' = Some (lit ''secret'')"
  "optional example_lookup ''TURNSTILE_SECRET_KEY'' = Some (lit ''secret'')"
  "optional example_lookup ''SHARED_AUTH_SERVICE_CREDENTIAL'' = Some (lit ''secret'')"
  "optional example_lookup ''SHARED_AUTH_AUDIENCE'' = Some (lit ''hhm-api'')"
  "optional example_lookup ''CORS_ORIGINS'' = Some (lit ''https://a.org,https://b.org,https://a.org'')"
  by (simp_all add: optional_def example_lookup_def example_settings_def trim_def trim_start_def)
    (simp_all add: lit_def is_whitespace_def)

lemma example_optional_policy:
  "optional example_lookup ''APP_ENV'' = Some (lit ''production'')"
  "optional example_lookup ''ORES_MIDDLEWARE_TLS_MODE'' = Some (lit ''in-process'')"
  "optional example_lookup ''ORES_MIDDLEWARE_TRUSTED_PROXY_CIDRS'' = None"
  "optional example_lookup ''ORES_MIDDLEWARE_TIMEOUT_MS'' = None"
  "optional example_lookup ''ORES_MIDDLEWARE_MAX_BODY_BYTES'' = None"
  "optional example_lookup ''ORES_MIDDLEWARE_RATE_LIMIT_CAPACITY'' = None"
  "optional example_lookup ''ORES_MIDDLEWARE_RATE_LIMIT_REFILL_PER_SECOND'' = None"
  "optional example_lookup ''ORES_MIDDLEWARE_RATE_LIMIT_HMAC_SECRET'' = Some (lit ''hmac'')"
  by (simp_all add: optional_def example_lookup_def example_settings_def trim_def trim_start_def)
    (simp_all add: lit_def is_whitespace_def)

lemma example_modes:
  "to_ascii_lowercase (lit ''production'') = lit ''production''"
  "to_ascii_lowercase (lit ''in-process'') = lit ''in-process''"
  by (simp_all add: to_ascii_lowercase_def ascii_lower_def is_ascii_uppercase_def lit_def)

lemma example_policy_resolved: "policy_from_lookup example_f64 example_lookup = Inr example_policy"
  unfolding policy_from_lookup_def Let_def
  by (simp add: example_optional_policy example_modes unwrap_or_def parse_environment_def
      parse_tls_mode_def parse_number_def filter_option_def example_policy_def)

lemma example_config_resolved:
  "config_from_lookup example_lib Some example_f64 example_lookup = Inr example_config"
proof -
  have address: "lit ''0.0.0.0'' @ lit '':'' @ lit ''8080'' = lit ''0.0.0.0:8080''" by (simp add: lit_def)
  have action: "str_len (lit ''intake'') \<le> 64" "list_all action_byte (str_bytes (lit ''intake''))"
    by (simp_all add: text_eval action_byte_def)
  have "validate_auth_url example_lib (lit ''https://hhaus.org'') = Inr ()"
    by (simp add: validate_auth_url_iff safe_auth_url_def example_site)
  then show ?thesis
    using action unfolding config_from_lookup_def Let_def
    by (simp add: example_optional example_policy_resolved unwrap_or_def parse_https_url_def required_def
        example_site example_config_def address not_less)
qed

lemma example_authenticator:
  "authenticator_from_config example_lib True example_config
    = Inr \<lparr>au_endpoint = example_url, au_service_credential = lit ''secret'', au_audience = lit ''hhm-api''\<rparr>"
proof -
  have "introspection_endpoint example_lib (lit ''https://hhaus.org'') = Inr example_url"
    unfolding introspection_endpoint_Inr
    by (intro exI [of _ example_url]) (simp add: example_lib_def example_url_def)
  moreover have "str_len (lit ''secret'') \<le> MAX_CREDENTIAL_BYTES" "str_len (lit ''hhm-api'') \<le> MAX_AUDIENCE_BYTES"
    "\<not> list_ex is_whitespace (lit ''secret'')" "list_all token_byte (str_bytes (lit ''hhm-api''))"
    by (simp_all add: text_eval MAX_CREDENTIAL_BYTES_def MAX_AUDIENCE_BYTES_def)
  ultimately show ?thesis
    by (simp add: authenticator_from_config_def example_config_def not_less)
qed

section \<open>A machine\<close>

definition example_uri :: uri where
  "example_uri = \<lparr>uri_scheme = Some (lit ''https''), uri_authority = Some (lit ''a.org''),
     uri_path = lit ''/'', uri_query = None\<rparr>"

definition example_middleware :: middleware_config where
  "example_middleware = \<lparr>mc_environment = Development, mc_timeout_ms = 0, mc_max_body_bytes = 0,
     mc_tls_mode = [], mc_require_https = False, mc_strict_forwarded_headers = False,
     mc_trusted_proxy_cidrs = [], mc_capacity = 0, mc_refill_per_second = NaN, mc_key_by = [],
     mc_failure_mode = LocalOnly, mc_key_derivation = EphemeralHmacSha256, mc_otel_enabled = False,
     mc_otel_service_name = [], mc_otel_propagators = []\<rparr>"

text \<open>Like \<open>http::Uri\<close>, the parser of the example drops a fragment.\<close>

definition example_parse_uri :: "str \<Rightarrow> uri option" where
  "example_parse_uri origin =
     (let text = takeWhile (\<lambda>c. c \<noteq> 35) origin in
      if text = lit ''https://a.org'' then Some example_uri
      else if text = lit ''https://b.org''
      then Some (example_uri\<lparr>uri_authority := Some (lit ''b.org'')\<rparr>) else None)"

text \<open>The stack of the example is its configuration together with the key installed on it.\<close>

definition example_machine ::
  "(str, middleware_config \<times> nat list option, app_state http_router \<times> middleware_config) machine" where
  "example_machine = \<lparr>ma_client = (\<lambda>_. True), ma_connect = (\<lambda>_. Some (example_session [])),
     ma_default_config = example_middleware, ma_stack_new = (\<lambda>c. Some (c, None)),
     ma_with_key = (\<lambda>(c, _) key. Some (c, Some key)), ma_parse_uri = example_parse_uri,
     ma_parse_header = (\<lambda>s. Some (HText s)), ma_install = (\<lambda>routed (c, _). (routed, c)),
     ma_bind = (\<lambda>_. True), ma_local_addr = Some, ma_logs_info = (\<lambda>level. level = lit ''info''),
     ma_serve = (\<lambda>_. True), ma_filter = (\<lambda>_. True),
     ma_parse_addr = Some, ma_parse_f64 = example_f64, ma_services = example_services\<rparr>"

lemma example_addresses:
  "example_parse_uri (lit ''https://a.org'') = Some example_uri"
  "example_parse_uri (lit ''https://b.org'') = Some (example_uri\<lparr>uri_authority := Some (lit ''b.org'')\<rparr>)"
  "example_parse_uri (lit ''https://a.org'' @ 35 # lit ''x'') = Some example_uri"
  by (simp_all add: example_parse_uri_def lit_def)

lemma example_accepted_origins:
  "accepted_origin example_parse_uri (lit ''https://a.org'')"
  "accepted_origin example_parse_uri (lit ''https://b.org'')"
  by (simp_all add: accepted_origin_def example_addresses) (simp_all add: example_uri_def)

lemma example_fragment:
  "accepted_origin (ma_parse_uri example_machine) (lit ''https://a.org'')"
  "ma_parse_uri example_machine (lit ''https://a.org'' @ 35 # lit ''x'')
    = ma_parse_uri example_machine (lit ''https://a.org'')"
  by (simp_all add: example_machine_def example_addresses example_accepted_origins)

lemma example_origins:
  "cors_layer (ma_parse_uri example_machine) (ma_parse_header example_machine)
     (cors_origins example_config)
   = Inr \<lparr>cors_allow_origin = [HText (lit ''https://a.org''), HText (lit ''https://b.org'')],
       cors_allow_methods = [''GET'', ''POST''],
       cors_allow_headers = [''content-type'', ''authorization'', ''idempotency-key'']\<rparr>"
proof -
  have csv: "split_csv (lit ''https://a.org,https://b.org,https://a.org'')
      = [lit ''https://a.org'', lit ''https://b.org'', lit ''https://a.org'']"
    by (simp add: split_csv_def trim_def trim_start_def lit_def is_whitespace_def)
  have origin: "cors_origin (ma_parse_uri example_machine) (ma_parse_header example_machine) (lit o1)
      = Inr (HText (lit o1))" if "o1 \<in> {''https://a.org'', ''https://b.org''}" for o1
    using that example_accepted_origins by (auto simp: cors_origin_Inr example_machine_def)
  show ?thesis
    by (simp add: cors_layer_def example_config_def csv origin)
qed

lemma example_started:
  "\<exists>server. main_process example_machine (Inr example_lookup) (Inl []) [] = (Inr (),
     [Tracing (lit ''error''), Connected (lit ''primary''), Connected (lit ''supabase''),
      Listening (lit ''0.0.0.0:8080''), Serving server])"
proof -
  have control: "process_control (Inr example_lookup) h None = (Inr None, Some (Inr example_lookup))" for h
    by (simp add: process_control_def try_resolved_def example_lookup_def example_settings_def)
  have same: "resolver (Inr example_lookup) (Some (Inr example_lookup)) = example_lookup"
    by (rule ext) (simp add: resolver_def ok_or_def split: option.splits)
  have log_value: "example_lookup (lit ''RUST_LOG'') = None"
    by (simp add: example_lookup_def example_settings_def)
  have machine: "ma_client example_machine c" "ma_bind example_machine a" "ma_filter example_machine v"
    "ma_services example_machine = example_services" "ma_parse_addr example_machine = Some"
    "ma_parse_f64 example_machine = example_f64" "ma_connect example_machine u = Some (example_session [])"
    "ma_stack_new example_machine mc = Some (mc, None)"
    "ma_with_key example_machine (mc, b) k = Some (mc, Some k)"
    "ma_logs_info example_machine v \<longleftrightarrow> v = lit ''info''" "ma_serve example_machine server"
    for c a v u mc b k server
    by (simp_all add: example_machine_def)
  have urls: "primary_database_url example_config = lit ''primary''"
    "supabase_database_url example_config = lit ''supabase''"
    "bind_address example_config = lit ''0.0.0.0:8080''"
    "config_request_policy example_config = example_policy"
    "rp_rate_limit_hmac_secret example_policy = Some (lit ''hmac'')"
    by (simp_all add: example_config_def example_policy_def)
  have app: "\<exists>state. app_state_from_config example_machine example_config hist
      = (Inr (state, \<lparr>w_primary = example_session [], w_supabase = example_session []\<rparr>),
         hist @ [Connected (lit ''primary''), Connected (lit ''supabase'')])" for hist
    unfolding app_state_from_config_def Let_def
    by (simp add: machine urls example_authenticator connect_def bindA_assoc)
  have serve: "\<exists>server. serve example_machine False example_config hist = (Inr (),
      hist @ [Connected (lit ''primary''), Connected (lit ''supabase''),
        Listening (lit ''0.0.0.0:8080''), Serving server])" for hist
  proof -
    obtain state where state: "app_state_from_config example_machine example_config hist
      = (Inr (state, \<lparr>w_primary = example_session [], w_supabase = example_session []\<rparr>),
         hist @ [Connected (lit ''primary''), Connected (lit ''supabase'')])"
      using app by blast
    show ?thesis
      unfolding serve_def bindA_assoc prepare_def bindA_ok [where m = "app_state_from_config example_machine example_config", OF state]
      by (simp add: stack_def stack_from_policy_def machine urls router_def example_origins bindA_assoc)
  qed
  show ?thesis
    using serve [of "[Tracing (lit ''error'')]"]
    by (auto simp: main_process_def control same log_value unwrap_or_def machine
        example_config_resolved)
qed

section \<open>A command line\<close>

definition example_arguments :: parsed_arguments where
  "example_arguments = \<lparr>pa_unknown_options = [], pa_errors = [], pa_extras = [],
     pa_dotenv = [lit ''PORT'' \<mapsto> lit ''1''], pa_dotenv_overrides = Map.empty,
     pa_provided_flags = [lit ''PORT'' \<mapsto> lit ''9090'']\<rparr>"

definition example_parser :: flags_parser where
  "example_parser = \<lparr>fp_audit_config = (\<lambda>_. Inr ()),
     fp_parse_structured = (\<lambda>_ _. Inr example_arguments),
     fp_coerce = (\<lambda>env _. Inr (case env (lit ''PORT'') of
       Some v \<Rightarrow> [(lit ''PORT'', JNumber v), (lit ''HOST'', JNull)] | None \<Rightarrow> []))\<rparr>"

definition example_file :: contract_file where
  "example_file = \<lparr>cf_create = Inr (), cf_write = Inr (), cf_path = Some (lit ''path'')\<rparr>"

definition example_environment :: "(str \<times> str) list" where
  "example_environment = [(lit ''PORT'', lit ''2''), (lit ''HOST'', lit ''h'')]"

lemma example_resolved:
  "\<exists>resolved. resolve_from example_parser example_file [] example_environment = Inr resolved"
  by (simp add: resolve_from_def Let_def example_file_def example_parser_def example_arguments_def
      refuse_arguments_def merged_sources_def split: option.splits)

end
