(* ===== verification/Unit_Tests.thy ===== *)
theory Unit_Tests imports Contract Admission Failures Example_Config "HOL-Library.Sublist" begin

text \<open>
  The repository's own unit tests (the \<open>tests\<close> modules of \<open>src/\<close>), run on the model. Each definition
  is one test with its assertions; the lemma after it says that the model passes. What a test
  takes from a package is a parameter, and the lemma names what the package answers on the
  values of the test. The two tests of \<open>src/hex.rs\<close> that compare SHA-256 values are about \<open>sha2\<close>.
\<close>

definition contains :: "str \<Rightarrow> str \<Rightarrow> bool" where
  "contains s part \<longleftrightarrow> sublist part s"

lemma containsI: "s = before @ part @ after \<Longrightarrow> contains s part"
  by (auto simp: contains_def sublist_def)

section \<open>src/hex.rs\<close>

definition empty_input_encodes_to_empty_string :: bool where
  "empty_input_encodes_to_empty_string \<longleftrightarrow> lower_hex [] = []"

text \<open>\<open>format!("{byte:02x}")\<close>\<close>

definition format_02x :: "u8 \<Rightarrow> str" where
  "format_02x byte =
     map (\<lambda>n. if n < 10 then 48 + n else 87 + n) [unat byte div 16, unat byte mod 16]"

definition every_byte_value_encodes_to_two_lower_case_digits :: bool where
  "every_byte_value_encodes_to_two_lower_case_digits \<longleftrightarrow>
     lower_hex [0x00, 0x0f, 0xa5, 0xff] = lit ''000fa5ff'' \<and>
     (let all = map of_nat [0..<256]; encoded = lower_hex all in
      str_len encoded = 512 \<and>
      (\<forall>i < 256. take 2 (drop (2 * i) encoded) = format_02x (all ! i)))"

lemma hex_pair_format: "hex_pair b = format_02x b"
proof -
  have "b AND 15 = take_bit 4 b" by (simp add: take_bit_eq_mask mask_eq_exp_minus_1)
  then have "unat (b AND 15) = unat b mod 16" by (simp add: take_bit_eq_mod unat_mod)
  moreover have "unat (drop_bit 4 b) = unat b div 16"
    by (simp add: drop_bit_eq_div unat_div)
  ultimately show ?thesis
    using nibble_bounds [of b] by (simp add: hex_pair_def format_02x_def digit_value)
qed

lemma lower_hex_nth: "i < length bs \<Longrightarrow> take 2 (drop (2 * i) (lower_hex bs)) = hex_pair (bs ! i)"
proof (induction bs arbitrary: i)
  case (Cons b bs)
  have two: "length (hex_pair b) = 2" by (simp add: hex_pair_def)
  from Cons two show ?case by (cases i) simp_all
qed simp

lemma hex_tests_pass:
  "empty_input_encodes_to_empty_string" "every_byte_value_encodes_to_two_lower_case_digits"
proof -
  show "empty_input_encodes_to_empty_string" by (simp add: empty_input_encodes_to_empty_string_def)
  have "lower_hex [0x00, 0x0f, 0xa5, 0xff] = lit ''000fa5ff''"
    by (simp add: hex_pair_format format_02x_def lit_def)
  then show "every_byte_value_encodes_to_two_lower_case_digits"
    unfolding every_byte_value_encodes_to_two_lower_case_digits_def Let_def
    by (simp add: lower_hex_str_len lower_hex_nth hex_pair_format del: lower_hex_simps)
qed

section \<open>src/external.rs\<close>

definition object_keys_are_path_bounded :: bool where
  "object_keys_are_path_bounded \<longleftrightarrow>
     is_ok (validate_object_key (lit ''intake/photo_id/id/digest'')) \<and>
     \<not> is_ok (validate_object_key (lit ''../identity.jpg'')) \<and>
     \<not> is_ok (validate_object_key (lit ''intake//identity''))"

lemma external_tests_pass: "object_keys_are_path_bounded"
  unfolding object_keys_are_path_bounded_def is_ok_iff validate_object_key_Inr
  by (simp add: text_eval key_byte_def)

section \<open>src/persistence.rs\<close>

text \<open>The messages \<open>thiserror\<close> derives for \<open>DataError\<close>.\<close>

fun data_error_display :: "data_error \<Rightarrow> string" where
  "data_error_display (Validation _) = ''input failed the intake contract''"
| "data_error_display (InvalidContext field) = ''invalid persistence context: '' @ field"
| "data_error_display IdempotencyConflict = ''idempotency key conflicts with a different payload''"
| "data_error_display IntakeObjectUnavailable = ''intake object is unavailable''"
| "data_error_display Unauthenticated = ''authentication is required''"
| "data_error_display Database = ''persistence is unavailable''"
| "data_error_display Decode = ''stored data did not satisfy the schema projection''"
| "data_error_display Invariant = ''persistence invariant failed''"
| "data_error_display Panicked = []"

definition context_validation_is_bounded_and_redacted :: "uuid \<Rightarrow> bool" where
  "context_validation_is_bounded_and_redacted fresh \<longleftrightarrow>
     is_ok (context_public fresh (lit ''intake-request-0001'') (replicate 64 97) (lit ''hhaus.org'')) \<and>
     \<not> is_ok (context_public fresh (lit ''intake-request-0001'') (replicate 64 65)
        (lit ''attacker.example'')) \<and>
     \<not> contains (lit (data_error_display Database)) (lit ''postgres://'')"

definition enum_mappings_are_exhaustive_contract_values :: bool where
  "enum_mappings_are_exhaustive_contract_values \<longleftrightarrow>
     upload_kind_label PhotoId = lit ''photo_id'' \<and>
     stay_preference_label SixMonths = lit ''six_months'' \<and>
     project_stage_label EarlyRevenue = lit ''early_revenue'' \<and>
     sensitivity_level_label SensitivityHigh = lit ''high'' \<and>
     roommate_preference_label OpenToRoommates = lit ''open_to_roommates''"

lemma persistence_tests_pass:
  "context_validation_is_bounded_and_redacted fresh" "enum_mappings_are_exhaustive_contract_values"
proof -
  have "\<exists>ctx. context_public fresh (lit ''intake-request-0001'') (replicate 64 97) (lit ''hhaus.org'') = Inr ctx"
    unfolding context_public_def context_new_Inr_iff
    by (simp add: wf_context_def text_eval context_hosts_def to_ascii_lowercase_def ascii_lower_def
        is_lower_hexdigit_def list_all_iff)
  moreover have "context_public fresh (lit ''intake-request-0001'') (replicate 64 65)
      (lit ''attacker.example'') \<noteq> Inr ctx" for ctx
    unfolding context_public_def context_new_Inr_iff
    by (auto simp: wf_context_def ascii_class_defs is_lower_hexdigit_def list_all_iff)
  moreover have "\<not> contains (lit (data_error_display Database)) (lit ''postgres://'')"
    by (simp add: contains_def lit_def sublist_Cons_right)
  ultimately show "context_validation_is_bounded_and_redacted fresh"
    by (simp add: context_validation_is_bounded_and_redacted_def is_ok_iff)
qed (simp add: enum_mappings_are_exhaustive_contract_values_def)

section \<open>src/auth.rs\<close>

definition bearer_parser_is_bounded_and_single_token :: bool where
  "bearer_parser_is_bounded_and_single_token \<longleftrightarrow>
     bearer_token [''authorization'' \<mapsto> HText (lit ''bEaReR opaque-token'')]
       = Inr (Some (lit ''opaque-token'')) \<and>
     bearer_token [''authorization'' \<mapsto> HText (lit ''Bearer two tokens'')] = Inl AuthInvalid"

definition delegated_token_requires_exact_audience_and_write_scope :: bool where
  "delegated_token_requires_exact_audience_and_write_scope \<longleftrightarrow>
     (let valid = \<lparr>in_active = True, in_sub = Some (lit ''user-1''), in_aud = Some (lit ''hhm-api''),
            in_scope = Some (lit ''hhm:intake:write'')\<rparr>;
          wrong_audience = valid\<lparr>in_aud := Some (lit ''admin-api'')\<rparr>;
          missing_scope = valid\<lparr>in_scope := Some (lit ''hhm:intake:read'')\<rparr> in
      authorize_introspection valid (lit ''hhm-api'') = Inr () \<and>
      authorize_introspection wrong_audience (lit ''hhm-api'') = Inl AuthInvalid \<and>
      authorize_introspection missing_scope (lit ''hhm-api'') = Inl AuthForbidden)"

definition mounted_prefix_is_preserved_when_building_introspection_endpoint ::
  "url_lib \<Rightarrow> (url \<Rightarrow> str) \<Rightarrow> bool" where
  "mounted_prefix_is_preserved_when_building_introspection_endpoint lib url_as_str \<longleftrightarrow>
     (case introspection_endpoint lib (lit ''https://gateway.example/shared-auth/'') of
        Inl _ \<Rightarrow> False
      | Inr endpoint \<Rightarrow>
          url_as_str endpoint = lit ''https://gateway.example/shared-auth/auth/introspect'')"

text \<open>What the package \<open>url\<close> documents for the addresses of the tests: their parts, the removal of an
  empty last segment, the addition of segments, and the text of an address without a query.\<close>

definition site :: "string \<Rightarrow> string \<Rightarrow> string \<Rightarrow> url" where
  "site url_scheme host url_path = \<lparr>scheme = lit url_scheme, username = [], password = None,
     host_str = Some (lit host), path = lit url_path, query = None, fragment = None\<rparr>"

definition test_lib :: url_lib where
  "test_lib = \<lparr>url_parse = map_of
       [(lit ''https://gateway.example/shared-auth/'', site ''https'' ''gateway.example'' ''/shared-auth/''),
        (lit ''https://auth.hhaus.org'', site ''https'' ''auth.hhaus.org'' ''/''),
        (lit ''http://shared-auth.auth.svc'', site ''http'' ''shared-auth.auth.svc'' ''/''),
        (lit ''http://auth.hhaus.org'', site ''http'' ''auth.hhaus.org'' ''/''),
        (lit ''https://example.supabase.co'', site ''https'' ''example.supabase.co'' ''/'')],
     url_join = (\<lambda>_ _. None), url_query_pairs = (\<lambda>_. []), url_segments_mut = (\<lambda>_. True),
     url_pop_if_empty = (\<lambda>u. u\<lparr>path := (if last (path u) = 47 then butlast (path u) else path u)\<rparr>),
     url_extend = (\<lambda>segs u. u\<lparr>path := path u @ concat (map (\<lambda>s. 47 # s) segs)\<rparr>)\<rparr>"

definition test_url_as_str :: "url \<Rightarrow> str" where
  "test_url_as_str u = scheme u @ lit ''://'' @ (case host_str u of Some h \<Rightarrow> h | None \<Rightarrow> []) @ path u"

lemma test_lib_simps [simp]:
  "url_parse test_lib (lit ''https://gateway.example/shared-auth/'')
    = Some (site ''https'' ''gateway.example'' ''/shared-auth/'')"
  "url_parse test_lib (lit ''https://auth.hhaus.org'') = Some (site ''https'' ''auth.hhaus.org'' ''/'')"
  "url_parse test_lib (lit ''http://shared-auth.auth.svc'')
    = Some (site ''http'' ''shared-auth.auth.svc'' ''/'')"
  "url_parse test_lib (lit ''http://auth.hhaus.org'') = Some (site ''http'' ''auth.hhaus.org'' ''/'')"
  "url_parse test_lib (lit ''https://example.supabase.co'') = Some (site ''https'' ''example.supabase.co'' ''/'')"
  "url_segments_mut test_lib u"
  "url_pop_if_empty test_lib u = u\<lparr>path := (if last (path u) = 47 then butlast (path u) else path u)\<rparr>"
  "url_extend test_lib segs u = u\<lparr>path := path u @ concat (map (\<lambda>s. 47 # s) segs)\<rparr>"
  by (simp_all add: test_lib_def)

lemma auth_tests_pass:
  "bearer_parser_is_bounded_and_single_token" "delegated_token_requires_exact_audience_and_write_scope"
  "mounted_prefix_is_preserved_when_building_introspection_endpoint test_lib test_url_as_str"
proof -
  have "bearer_token [''authorization'' \<mapsto> HText (lit ''bEaReR opaque-token'')]
      = Inr (Some (lit ''opaque-token''))"
    by (simp add: bearer_token_def text_eval MAX_CREDENTIAL_BYTES_def eq_ignore_ascii_case_def
        to_ascii_lowercase_def ascii_lower_def)
  moreover have "bearer_token [''authorization'' \<mapsto> HText (lit ''Bearer two tokens'')] = Inl AuthInvalid"
    by (simp add: bearer_token_def text_eval)
  ultimately show "bearer_parser_is_bounded_and_single_token"
    by (simp add: bearer_parser_is_bounded_and_single_token_def)
  have scopes: "split_ascii_whitespace (lit ''hhm:intake:write'') = [lit ''hhm:intake:write'']"
    "split_ascii_whitespace (lit ''hhm:intake:read'') = [lit ''hhm:intake:read'']"
    by (simp_all add: split_ascii_whitespace_def is_ascii_whitespace_def lit_def)
  show "delegated_token_requires_exact_audience_and_write_scope"
    by (simp add: delegated_token_requires_exact_audience_and_write_scope_def authorize_introspection_def
        has_scope_def scopes)
  show "mounted_prefix_is_preserved_when_building_introspection_endpoint test_lib test_url_as_str"
    by (simp add: mounted_prefix_is_preserved_when_building_introspection_endpoint_def
        introspection_endpoint_def test_url_as_str_def site_def)
      (simp add: lit_def)
qed

section \<open>src/config.rs\<close>

definition shared_auth_allows_https_and_in_cluster_http_only :: "url_lib \<Rightarrow> bool" where
  "shared_auth_allows_https_and_in_cluster_http_only lib \<longleftrightarrow>
     is_ok (validate_auth_url lib (lit ''https://auth.hhaus.org'')) \<and>
     is_ok (validate_auth_url lib (lit ''http://shared-auth.auth.svc'')) \<and>
     \<not> is_ok (validate_auth_url lib (lit ''http://auth.hhaus.org''))"

definition test_values :: "(str \<times> str) list" where
  "test_values = map (\<lambda>(n, v). (lit n, lit v))
     [(''HOST'', ''127.0.0.1''), (''PORT'', ''31337''), (''DATABASE_URL'', ''postgres://primary''),
      (''SUPABASE_DATABASE_URL'', ''postgres://supabase''),
      (''SUPABASE_URL'', ''https://example.supabase.co''), (''SUPABASE_SERVICE_ROLE_KEY'', ''secret''),
      (''TURNSTILE_SECRET_KEY'', ''secret''), (''SHARED_AUTH_BASE_URL'', ''https://auth.hhaus.org''),
      (''SHARED_AUTH_SERVICE_CREDENTIAL'', ''secret''), (''SHARED_AUTH_AUDIENCE'', ''hhm-api''),
      (''CORS_ORIGINS'', ''https://hhaus.org''), (''APP_ENV'', ''test''),
      (''ORES_MIDDLEWARE_TLS_MODE'', ''disabled'')]"

definition audited_resolver_drives_non_secret_listener_values ::
  "url_lib \<Rightarrow> (str \<Rightarrow> 'addr option) \<Rightarrow> ('addr \<Rightarrow> str) \<Rightarrow> (str \<Rightarrow> f64 option) \<Rightarrow> bool" where
  "audited_resolver_drives_non_secret_listener_values lib parse_addr addr_to_string parse_f64 \<longleftrightarrow>
     (case config_from_lookup lib parse_addr parse_f64 (map_of test_values) of
        Inl _ \<Rightarrow> False
      | Inr config \<Rightarrow> addr_to_string (bind_address config) = lit ''127.0.0.1:31337'')"

lemma test_optional:
  "optional (map_of test_values) ''HOST'' = Some (lit ''127.0.0.1'')"
  "optional (map_of test_values) ''PORT'' = Some (lit ''31337'')"
  "optional (map_of test_values) ''SUPABASE_URL'' = Some (lit ''https://example.supabase.co'')"
  "optional (map_of test_values) ''SHARED_AUTH_BASE_URL'' = Some (lit ''https://auth.hhaus.org'')"
  "optional (map_of test_values) ''TURNSTILE_ACTION'' = None"
  "optional (map_of test_values) ''DATABASE_URL'' = Some (lit ''postgres://primary'')"
  "optional (map_of test_values) ''SUPABASE_DATABASE_URL'' = Some (lit ''postgres://supabase'')"
  "optional (map_of test_values) ''SUPABASE_SERVICE_ROLE_KEY'' = Some (lit ''secret'')"
  "optional (map_of test_values) ''TURNSTILE_SECRET_KEY'' = Some (lit ''secret'')"
  "optional (map_of test_values) ''SHARED_AUTH_SERVICE_CREDENTIAL'' = Some (lit ''secret'')"
  "optional (map_of test_values) ''SHARED_AUTH_AUDIENCE'' = Some (lit ''hhm-api'')"
  "optional (map_of test_values) ''CORS_ORIGINS'' = Some (lit ''https://hhaus.org'')"
  by (simp_all add: optional_def test_values_def trim_def trim_start_def)
    (simp_all add: lit_def is_whitespace_def)

lemma test_policy: "\<exists>policy. policy_from_lookup parse_f64 (map_of test_values) = Inr policy"
proof -
  have "optional (map_of test_values) ''APP_ENV'' = Some (lit ''test'')"
    "optional (map_of test_values) ''ORES_MIDDLEWARE_TLS_MODE'' = Some (lit ''disabled'')"
    "optional (map_of test_values) ''ORES_MIDDLEWARE_TRUSTED_PROXY_CIDRS'' = None"
    "optional (map_of test_values) ''ORES_MIDDLEWARE_TIMEOUT_MS'' = None"
    "optional (map_of test_values) ''ORES_MIDDLEWARE_MAX_BODY_BYTES'' = None"
    "optional (map_of test_values) ''ORES_MIDDLEWARE_RATE_LIMIT_CAPACITY'' = None"
    "optional (map_of test_values) ''ORES_MIDDLEWARE_RATE_LIMIT_REFILL_PER_SECOND'' = None"
    by (simp_all add: optional_def test_values_def trim_def trim_start_def)
      (simp_all add: lit_def is_whitespace_def)
  moreover have "to_ascii_lowercase (lit ''test'') = lit ''test''"
    "to_ascii_lowercase (lit ''disabled'') = lit ''disabled''"
    by (simp_all add: to_ascii_lowercase_def ascii_lower_def is_ascii_uppercase_def lit_def)
  ultimately show ?thesis
    unfolding policy_from_lookup_def Let_def
    by (simp add: unwrap_or_def parse_environment_def parse_tls_mode_def parse_number_def filter_option_def)
qed

lemma config_tests_pass:
  "shared_auth_allows_https_and_in_cluster_http_only test_lib"
  "audited_resolver_drives_non_secret_listener_values test_lib Some id parse_f64"
proof -
  have cluster: "in_cluster (lit ''shared-auth.auth.svc'')" "\<not> in_cluster (lit ''auth.hhaus.org'')"
    by (simp_all add: in_cluster_def lit_def eq_ignore_ascii_case_def to_ascii_lowercase_def
        ascii_lower_def is_ascii_uppercase_def)
  then show shared: "shared_auth_allows_https_and_in_cluster_http_only test_lib"
    by (simp add: shared_auth_allows_https_and_in_cluster_http_only_def is_ok_iff validate_auth_url_iff
        safe_auth_url_def site_def)
  obtain policy where policy: "policy_from_lookup parse_f64 (map_of test_values) = Inr policy"
    using test_policy by blast
  have address: "lit ''127.0.0.1'' @ lit '':'' @ lit ''31337'' = lit ''127.0.0.1:31337''"
    by (simp add: lit_def)
  have action: "str_len (lit ''intake'') \<le> 64" "list_all action_byte (str_bytes (lit ''intake''))"
    by (simp_all add: text_eval action_byte_def)
  from shared have auth: "validate_auth_url test_lib (lit ''https://auth.hhaus.org'') = Inr ()"
    by (auto simp: shared_auth_allows_https_and_in_cluster_http_only_def is_ok_iff)
  show "audited_resolver_drives_non_secret_listener_values test_lib Some id parse_f64"
    unfolding audited_resolver_drives_non_secret_listener_values_def config_from_lookup_def Let_def
    by (simp add: test_optional policy unwrap_or_def parse_https_url_def required_def auth
        address action not_less site_def)
qed

section \<open>src/flags.rs\<close>

definition unknown_options_fail_closed_without_echoing_values :: "flags_parser \<Rightarrow> contract_file \<Rightarrow> bool" where
  "unknown_options_fail_closed_without_echoing_values parser file \<longleftrightarrow>
     (case resolve_from parser file
         [lit ''server'', lit ''--definitely-unknown=do-not-echo''] [] of
        Inr _ \<Rightarrow> False
      | Inl error \<Rightarrow>
          contains error (lit ''--definitely-unknown'') \<and> \<not> contains error (lit ''do-not-echo''))"

text \<open>The first flag of the contract that takes a value: its long name, its variable and its type.\<close>

fun typed_value_flag :: "toml list \<Rightarrow> (str \<times> str \<times> str) option" where
  "typed_value_flag [] = None"
| "typed_value_flag (flag # flags) =
     (case (Option.bind (contract_field ''type'' flag) as_str_opt,
            Option.bind (contract_field ''long'' flag) as_str_opt,
            Option.bind (contract_field ''env'' flag) as_str_opt) of
        (Some value_type, Some long, Some env) \<Rightarrow>
          if value_type = lit ''bool'' \<or> value_type = lit ''boolean'' then typed_value_flag flags
          else Some (long, env, value_type)
      | _ \<Rightarrow> typed_value_flag flags)"

definition command_line_overrides_environment_with_a_typed_value :: "flags_parser \<Rightarrow> contract_file \<Rightarrow> bool" where
  "command_line_overrides_environment_with_a_typed_value parser file \<longleftrightarrow>
     (case typed_value_flag (map snd contract_flags) of
        None \<Rightarrow> False
      | Some (long, env, value_type) \<Rightarrow>
          (let command_line_value =
             (if value_type = lit ''integer'' then lit ''31337'' else lit ''from-cli'') in
           case resolve_from parser file
               [lit ''server'', lit ''--'' @ long @ lit ''='' @ command_line_value]
               [(env, lit ''from-env'')] of
             Inl _ \<Rightarrow> False
           | Inr resolved \<Rightarrow> resolved env = Some command_line_value))"

definition help_is_derived_from_the_audited_contract :: "(toml \<Rightarrow> str) \<Rightarrow> bool" where
  "help_is_derived_from_the_audited_contract display \<longleftrightarrow>
     (case help_table display (Inr CONTRACT) of
        Inl _ \<Rightarrow> False
      | Inr output \<Rightarrow> contains output (lit ''--help'') \<and> contains output (lit ''Options:''))"

text \<open>What the package \<open>flags2env\<close> documents for the two command lines of the tests.\<close>

definition test_arguments :: "str list \<Rightarrow> parsed_arguments" where
  "test_arguments argv = \<lparr>pa_unknown_options =
       (if argv = [lit ''server'', lit ''--host=from-cli''] then [] else tl argv),
     pa_errors = [], pa_extras = [], pa_dotenv = Map.empty, pa_dotenv_overrides = Map.empty,
     pa_provided_flags = [lit ''HOST'' \<mapsto> lit ''from-cli'']\<rparr>"

definition test_parser :: flags_parser where
  "test_parser = \<lparr>fp_audit_config = (\<lambda>_. Inr ()),
     fp_parse_structured = (\<lambda>argv _. Inr (test_arguments argv)),
     fp_coerce = (\<lambda>env _. Inr (case env (lit ''HOST'') of
       Some v \<Rightarrow> [(lit ''HOST'', JString v)] | None \<Rightarrow> []))\<rparr>"

lemma contains_append:
  "contains x p \<Longrightarrow> contains (x @ y) p" "contains y p \<Longrightarrow> contains (x @ y) p"
  by (auto simp: contains_def sublist_append)

lemma flags_tests_pass:
  "unknown_options_fail_closed_without_echoing_values test_parser example_file"
  "command_line_overrides_environment_with_a_typed_value test_parser example_file"
  "help_is_derived_from_the_audited_contract display"
proof -
  have name: "option_name (lit ''--definitely-unknown=do-not-echo'') = lit ''--definitely-unknown''"
    by (simp add: option_name_def strip_prefix_def starts_with_def lit_def)
  have "contains (lit ''unknown command-line option(s): '' @ lit ''--definitely-unknown'')
      (lit ''--definitely-unknown'')" by (rule containsI [of _ _ _ "[]"]) simp
  moreover have "\<not> contains (lit ''unknown command-line option(s): '' @ lit ''--definitely-unknown'')
      (lit ''do-not-echo'')"
    by (simp add: contains_def lit_def sublist_Cons_right)
  ultimately show "unknown_options_fail_closed_without_echoing_values test_parser example_file"
    by (simp add: unknown_options_fail_closed_without_echoing_values_def resolve_from_def Let_def
        test_parser_def test_arguments_def example_file_def refuse_arguments_def unknown_names_def name)
  have flag: "typed_value_flag (map snd contract_flags) = Some (lit ''host'', lit ''HOST'', lit ''string'')"
    by (simp add: contract_flags_def contract_field_def)
  have opt: "lit ''--'' @ lit ''host'' @ lit ''='' @ lit ''from-cli'' = lit ''--host=from-cli''"
    by (simp add: lit_def)
  show "command_line_overrides_environment_with_a_typed_value test_parser example_file"
    by (simp add: command_line_overrides_environment_with_a_typed_value_def flag opt resolve_from_def
        test_parser_def test_arguments_def example_file_def refuse_arguments_def merged_sources_def)
  have lines: "foldl (\<lambda>output flag. output @ flag_line display flag) start flags
      = start @ concat (map (flag_line display) flags)" for start flags
    by (induction flags arbitrary: start) simp_all
  have lead: "lit ''-'' @ lit ''h'' @ lit '', --'' @ lit ''help'' = lit ''-h, '' @ lit ''--help''"
    by (simp add: lit_def)
  have "\<exists>after. flag_line display (snd (hd contract_flags)) = (lit ''  '' @ lit ''-h, '') @ lit ''--help'' @ after"
    by (simp add: contract_flags_def flag_line_def option_text_def pad_right_def lead)
  then have first: "contains (flag_line display (snd (hd contract_flags))) (lit ''--help'')"
    using containsI by blast
  let ?intro = "lit ''Usage: hhm-api [OPTIONS]'' @ [10, 10] @ lit ''Options:'' @ [10]"
  obtain rest where "concat (map (flag_line display) (map snd contract_flags))
      = flag_line display (snd (hd contract_flags)) @ rest"
    by (cases contract_flags) (auto simp: contract_flags_def)
  then have table: "help_table display (Inr CONTRACT)
      = Inr (?intro @ flag_line display (snd (hd contract_flags)) @ rest)"
    by (simp add: help_table_def CONTRACT_def lines del: map_map)
  have "contains ?intro (lit ''Options:'')"
    by (rule containsI [of _ "lit ''Usage: hhm-api [OPTIONS]'' @ [10, 10]" _ "[10]"]) simp
  with first show "help_is_derived_from_the_audited_contract display"
    unfolding help_is_derived_from_the_audited_contract_def table sum.case
    by (blast intro: contains_append)
qed

section \<open>src/api.rs\<close>

definition canonical_digest_excludes_single_use_turnstile_proof :: "services \<Rightarrow> str \<Rightarrow> bool" where
  "canonical_digest_excludes_single_use_turnstile_proof sv privacy_notice_version \<longleftrightarrow>
     (let one = \<lparr>pi_email = lit ''builder@example.com'',
            pi_linkedin_url = lit ''https://www.linkedin.com/in/builder'',
            pi_entrepreneurship_idea =
              lit ''A sufficiently detailed proposal that is stable across proof refreshes.'',
            pi_stay_preference = ThreeMonths,
            pi_privacy_notice_version = privacy_notice_version,
            pi_turnstile_token = Some (lit ''proof-one'')\<rparr>;
          two = one\<lparr>pi_turnstile_token := Some (lit ''proof-two'')\<rparr>;
          digest = (\<lambda>input. canonical_digest_without_turnstile sv (sv_pre_interest_to_value sv input)) in
      is_ok (digest one) \<and> is_ok (digest two) \<and> digest one = digest two)"

definition cors_rejects_wildcards_and_paths ::
  "(str \<Rightarrow> uri option) \<Rightarrow> (str \<Rightarrow> header_value option) \<Rightarrow> bool" where
  "cors_rejects_wildcards_and_paths parse_uri parse_header \<longleftrightarrow>
     \<not> is_ok (cors_layer parse_uri parse_header (lit ''*'')) \<and>
     \<not> is_ok (cors_layer parse_uri parse_header (lit ''https://hhaus.org/path'')) \<and>
     is_ok (cors_layer parse_uri parse_header (lit ''https://hhaus.org,https://user.hhaus.org''))"

definition authorization_denial_is_forbidden :: bool where
  "authorization_denial_is_forbidden \<longleftrightarrow> fst (into_response (failure_of_auth AuthForbidden)) = 403"

definition upload_identity_ignores_independent_expiry_clocks ::
  "(str \<Rightarrow> uuid) \<Rightarrow> (str \<Rightarrow> timestamp) \<Rightarrow> bool" where
  "upload_identity_ignores_independent_expiry_clocks parse_uuid parse_time \<longleftrightarrow>
     (let primary = \<lparr>pu_id = parse_uuid (lit ''0b46178c-c81d-4d28-8298-7f66a9467a4f''),
            pu_object_key = lit ''intake/0b46178c-c81d-4d28-8298-7f66a9467a4f/resume.pdf'',
            pu_expected_sha256 = replicate 64 97, pu_content_type = lit ''application/pdf'',
            pu_size_bytes = 1024, pu_expires_at = parse_time (lit ''2026-08-30T12:00:00Z'')\<rparr>;
          mirror = primary\<lparr>pu_expires_at := parse_time (lit ''2026-08-30T12:00:00.001Z'')\<rparr> in
      primary \<noteq> mirror \<and> same_upload_identity primary mirror)"

text \<open>What \<open>serde\<close> derives for a pre-interest notice, and \<open>http\<close> answers for the three origins.\<close>

definition serde_pre_interest :: "pre_interest_create \<Rightarrow> json option" where
  "serde_pre_interest input = Some (JObject
     [(lit ''email'', JString (pi_email input)), (lit ''linkedinUrl'', JString (pi_linkedin_url input)),
      (lit ''entrepreneurshipIdea'', JString (pi_entrepreneurship_idea input)),
      (lit ''stayPreference'', JString (stay_preference_label (pi_stay_preference input))),
      (lit ''privacyNoticeVersion'', JString (pi_privacy_notice_version input)),
      (lit ''turnstileToken'', case pi_turnstile_token input of Some t \<Rightarrow> JString t | None \<Rightarrow> JNull)])"

definition origin_uri :: "string \<Rightarrow> string \<Rightarrow> uri" where
  "origin_uri authority uri_path_text = \<lparr>uri_scheme = Some (lit ''https''), uri_authority = Some (lit authority),
     uri_path = lit uri_path_text, uri_query = None\<rparr>"

definition test_parse_uri :: "str \<Rightarrow> uri option" where
  "test_parse_uri = map_of
     [(lit ''https://hhaus.org/path'', origin_uri ''hhaus.org'' ''/path''),
      (lit ''https://hhaus.org'', origin_uri ''hhaus.org'' ''/''),
      (lit ''https://user.hhaus.org'', origin_uri ''user.hhaus.org'' ''/'')]"

lemma canonical_digest_test_passes:
  assumes "sv_pre_interest_to_value sv = serde_pre_interest" and "\<forall>v. sv_json_to_vec sv v \<noteq> None"
  shows "canonical_digest_excludes_single_use_turnstile_proof sv privacy_notice_version"
  using assms(2)
  by (auto simp: canonical_digest_excludes_single_use_turnstile_proof_def assms(1) serde_pre_interest_def
      canonical_digest_without_turnstile_def canonical_digest_def reject_def is_ok_iff yields)

lemma api_tests_pass:
  "cors_rejects_wildcards_and_paths test_parse_uri (\<lambda>s. Some (HText s))"
  "authorization_denial_is_forbidden"
  "parse_time (lit ''2026-08-30T12:00:00Z'') \<noteq> parse_time (lit ''2026-08-30T12:00:00.001Z'') \<Longrightarrow>
     upload_identity_ignores_independent_expiry_clocks parse_uuid parse_time"
proof -
  have csv: "split_csv (lit ''*'') = [lit ''*'']"
    "split_csv (lit ''https://hhaus.org/path'') = [lit ''https://hhaus.org/path'']"
    "split_csv (lit ''https://hhaus.org,https://user.hhaus.org'')
      = [lit ''https://hhaus.org'', lit ''https://user.hhaus.org'']"
    by (simp_all add: split_csv_def trim_def trim_start_def lit_def is_whitespace_def)
  have "\<not> is_ok (cors_origin test_parse_uri (\<lambda>s. Some (HText s)) (lit ''*''))"
    "\<not> is_ok (cors_origin test_parse_uri (\<lambda>s. Some (HText s)) (lit ''https://hhaus.org/path''))"
    "is_ok (cors_origin test_parse_uri (\<lambda>s. Some (HText s)) (lit ''https://hhaus.org''))"
    "is_ok (cors_origin test_parse_uri (\<lambda>s. Some (HText s)) (lit ''https://user.hhaus.org''))"
    by (simp_all add: is_ok_iff cors_origin_Inr accepted_origin_def test_parse_uri_def origin_uri_def)
  then show "cors_rejects_wildcards_and_paths test_parse_uri (\<lambda>s. Some (HText s))"
    by (auto simp: cors_rejects_wildcards_and_paths_def cors_layer_def csv is_ok_iff yields)
  show "authorization_denial_is_forbidden"
    by (simp add: authorization_denial_is_forbidden_def into_response_def api_failure_new_def)
  show "upload_identity_ignores_independent_expiry_clocks parse_uuid parse_time"
    if "parse_time (lit ''2026-08-30T12:00:00Z'') \<noteq> parse_time (lit ''2026-08-30T12:00:00.001Z'')"
    using that by (simp add: upload_identity_ignores_independent_expiry_clocks_def Let_def
        same_upload_identity_def)
qed

end
