(* ===== verification/Spec2Isabelle.thy ===== *)
theory Spec2Isabelle imports Calm_Runs Marks Termination Streaming Interleaving Outages Startup Failures Admission Contract Unit_Tests Example_Config begin

text \<open>
  The HHaus intake API of \<open>src/\<close>: a verification development of the program's own logic.

  \<^bold>\<open>The program.\<close> A small HTTP service accepts pre-interest notices, upload intents, applications and
  referrals. Each submission is bound to the client's idempotency key and to the SHA-256 digest
  of its payload, and is stored in two PostgreSQL databases: first on the primary, with an
  outbox entry, then on the Supabase mirror under the primary's identifier; then the primary's
  row and outbox entry are marked as mirrored, and only then the client gets a receipt. A mirror
  that fails is recorded on the primary and the client is told to retry. Callers show a Shared
  Auth bearer token or, on the public routes, a Turnstile proof. Documents are uploaded to
  private object storage under signed addresses and checked by size, media type and digest.
  The process is configured once, from a command line, dotenv files and the environment.

  \<^bold>\<open>The theories, and the code they model.\<close>
  \<^item> \<open>Intake_Prelude\<close>, \<open>Rust_Std\<close>, \<open>Web\<close>: results, effects and the proof collections \<open>yields\<close> and
    \<open>preserve\<close>; the text and integer operations of the Rust library the program uses; what it
    sees of the packages \<open>url\<close>, \<open>http\<close>, \<open>reqwest\<close> and \<open>serde_json\<close>, with the locale \<open>bounded_stream\<close>
    of a reader that stops at a limit.
  \<^item> \<open>Hex\<close> (\<open>hex.rs\<close>), \<open>Intake_Types\<close> and \<open>Context\<close> (the data, labels, \<open>VerifiedSubject\<close> and
    \<open>SubmissionContext\<close> of \<open>persistence.rs\<close>).
  \<^item> \<open>Sql\<close>, \<open>Persistence\<close> (\<open>WriteContext\<close> of \<open>persistence.rs\<close>): tables, transactions and round trips that
    may be refused or lose their acknowledgement; every named command, statement by statement.
  \<^item> \<open>Flags\<close> (\<open>flags.rs\<close>), \<open>Policy\<close> (\<open>middleware.rs\<close>), \<open>Config\<close> (\<open>config.rs\<close>), \<open>Auth\<close> (\<open>auth.rs\<close>), \<open>External\<close>
    (\<open>external.rs\<close>): configuration, the Shared Auth adapter, Turnstile and object storage.
  \<^item> \<open>Api\<close> (\<open>api.rs\<close>): failures, headers, digests, the handlers and the CORS policy; \<open>Service\<close>: the
    request and response of each route. A handler runs on a \<open>world\<close>, the sessions of the two
    databases, and returns its result with every effect it had.
  \<^item> \<open>Startup\<close> (\<open>main.rs\<close>, \<open>lib.rs\<close>, \<open>AppState::from_config\<close>, \<open>router\<close>): the process from its command line to
    serving and its end.
  \<^item> \<open>Contract\<close> (\<open>.cli-flags.toml\<close>): the embedded command-line contract as data, against the code that
    reads the configuration. \<open>Unit_Tests\<close>: the \<open>tests\<close> modules of the sources, run on the model.

  \<^bold>\<open>The abstractions and their lemmas.\<close>
  \<^item> \<open>Commands\<close> gives each command a one-step specification and proves \<open>refines\<close>; the locale
    \<open>atomic_command\<close> turns a refinement into what callers may use. \<open>Invariants\<close> states what the two
    databases keep (\<open>pair_ok\<close>); \<open>Command_Contract\<close> the contract \<open>intake_command\<close> of a storing command,
    interpreted on the four commands.
  \<^item> \<open>Dual_Write\<close> extracts the protocol the four submitting handlers share and proves each handler
    equal to its checks followed by the protocol; \<open>Dual_Correct\<close> proves the protocol correct for
    any storing command that meets the contract. \<open>Runs\<close> lifts it to runs of the service, as an
    inductive relation in which requests alternate with changes of the environment;
    \<open>Interleaving\<close> to runs in which any number of requests are under way at once and their
    database commands interleave in any order. \<open>Progress\<close> proves that an admitted request
    succeeds on databases that answer, whatever earlier attempts left behind.
  \<^item> \<open>Termination\<close> bounds the commands of every request and with them the work of every run;
    \<open>Upheld\<close> is the rule for runs in which every task keeps a property of the databases up, on
    which \<open>Calm_Runs\<close> shows that concurrency alone makes no submission fail, and \<open>Marks\<close> that what
    the primary marks as mirrored is on the mirror; \<open>Streaming\<close> takes the two reading loops to
    bodies that may never end.
  \<^item> \<open>Uploads\<close> (row contents, object keys), \<open>Admission\<close> (who is let in, and under which subject a
    submission is stored), \<open>Failures\<close> (what is reported, what can panic), \<open>Outages\<close> (what an
    unfinished submission leaves behind, and two edges of the protocol: a digest without a
    16-byte prefix, and a replay whose uploads have expired).
  \<^item> \<open>Example\<close>, \<open>Example_Uploads\<close>, \<open>Example_Config\<close>: one concrete deployment, on which the witnesses run.

  \<^bold>\<open>Parameters.\<close> What is not in the repository is an argument of the definitions that use it: the
  payload contract of \<open>hhm_interfaces\<close>, the URL, JSON, TOML and SHA-256 packages, the remote
  services, the schema's column defaults, the \<open>flags2env\<close> parser and the middleware stack. Hypotheses
  on them are named in the properties (a digest of 32 bytes, an identifier that prints in at
  most 36 key characters, typed maps with distinct names, path operations that change only the
  path) and are met by the concrete functions of the witnesses. A fresh identifier is the
  argument \<open>fresh\<close>, assumed unused. The wall clock is the session's clock, advanced by each round
  trip. There is no fuel: every loop of the program is structural or bounded by its input, but for
  the two that read from a peer; on a body without end these are partial functions, whose value
  is \<open>None\<close> when they do not return.

  \<^bold>\<open>Not modelled.\<close> Decoding of HTTP requests and JSON bodies, the dispatch of the web framework and
  the middleware package, to which \<open>install\<close> and \<open>run_websocket_message\<close> hand their arguments; the
  waiting of \<open>shutdown_signal\<close>, an event of the operating system; the test-only variants of \<open>var\<close> and
  \<open>process_control\<close>; the two concurrent pings of \<open>readiness\<close> are taken in one order, as they change
  nothing. Two unit tests of \<open>hex.rs\<close> are about SHA-256 values. The Quint model under \<open>formal/\<close>, the
  integration tests and the deployment scripts are not part of the program.
\<close>

section \<open>Accepting a submission\<close>

text \<open>C1: A submitting request that is answered with a receipt has stored one submission, under
  the receipt's identifier, the request's idempotency key and the digest of its payload, on both
  databases, and the primary's row and outbox entry are marked as mirrored. This holds for each
  of the four routes, whatever the databases and the network did on the way.\<close>

theorem receipt_means_stored_twice:
  assumes "respond app fresh headers req w = (Inr resp, w')" and "kind_of req = Some kind"
    and "pair_ok w" and "fresh_id kind fresh (committed (w_primary w))"
  shows "\<exists>i key digest. response_id resp = Some i \<and>
    headers ''idempotency-key'' = Some (HText key) \<and>
    request_digest (app_services app) req = Inr digest \<and>
    in_both kind i key digest w' \<and> marked kind i digest (committed (w_primary w'))"
  using respond_acknowledged [OF assms] by metis

theorem receipt_means_stored_twice_witness:
  "\<exists>resp w' i digest. respond example_app 7 public_headers (PreInterestRequest example_pre_interest)
      quiet_world = (Inr resp, w') \<and> response_id resp = Some i \<and>
    in_both PreInterest i example_key digest w' \<and> marked PreInterest i digest (committed (w_primary w'))"
proof -
  obtain resp w' where run: "respond example_app 7 public_headers
      (PreInterestRequest example_pre_interest) quiet_world = (Inr resp, w')"
    using example_pre_interest_accepted by blast
  from receipt_means_stored_twice [OF run _ quiet_world_facts(2,4)] run
  show ?thesis by (auto simp: public_headers_def)
qed

text \<open>C2: In every run of the service, with any number of requests under way whose database commands
  interleave in any order, requests dropped half way, and any moods of the network, the two
  databases stay consistent (keys and identifiers are unique, the outbox has one entry per
  submission, the mirror holds nothing the primary does not), and every submission that was
  ever acknowledged is still held by both.\<close>

theorem acknowledged_submissions_stay:
  assumes "live_reachable w0 (w, tasks, hist)" and "pair_ok w0"
  shows "pair_ok w \<and> (\<forall>e kind i key digest. e \<in> set hist \<and> acknowledged e kind i key digest \<longrightarrow>
    in_both kind i key digest w)"
  using live_reachable_sound [OF assms] by (auto simp: live_sound_def log_sound_def)

theorem acknowledged_submissions_stay_witness:
  "\<exists>w hist e i. live_reachable quiet_world (w, [], hist) \<and> e \<in> set hist \<and> pair_ok w \<and>
     in_both PreInterest i example_key example_digest w"
proof -
  let ?req = "PreInterestRequest example_pre_interest"
  obtain resp w' where run: "respond example_app 7 public_headers ?req quiet_world = (Inr resp, w')"
    using example_pre_interest_accepted by blast
  obtain i where i: "response_id resp = Some i"
    by (rule respond_acknowledged [OF run _ quiet_world_facts(2,4)]) auto
  let ?e = "\<lparr>le_headers = public_headers, le_request = ?req, le_result = Inr resp,
    le_app = example_app\<rparr>"
  have reach: "live_reachable quiet_world (w', [], [?e])"
    using live_respond [OF live_reachable.start run quiet_world_facts(4)] by simp
  have ack: "acknowledged ?e PreInterest i example_key example_digest"
    by (simp add: acknowledged_def i public_headers_def example_request_digest le_services_def)
  from acknowledged_submissions_stay [OF reach quiet_world_facts(2)] ack
  have "pair_ok w' \<and> in_both PreInterest i example_key example_digest w'" by auto
  with reach show ?thesis by (intro exI [of _ w'] exI [of _ "[?e]"]) auto
qed

text \<open>C3: Two acknowledged requests of one kind under one idempotency key are one submission: they
  were given the same identifier, for payloads of the same digest, also when they were under
  way at the same time.\<close>

theorem one_submission_per_key:
  assumes "live_reachable w0 (w, tasks, hist)" and "pair_ok w0"
    and "e1 \<in> set hist" and "acknowledged e1 kind i1 key digest1"
    and "e2 \<in> set hist" and "acknowledged e2 kind i2 key digest2"
  shows "i1 = i2 \<and> digest1 = digest2"
proof -
  from live_reachable_sound [OF assms(1,2)] assms(3-)
  have "in_both kind i1 key digest1 w" "in_both kind i2 key digest2 w" "pair_ok w"
    by (auto simp: live_sound_def log_sound_def)
  with key_determines consistent_wf(1) show ?thesis
    by (metis in_both_def pair_ok_def)
qed

theorem one_submission_per_key_witness:
  "\<exists>w e1 e2 i. live_reachable stored_world (w, [], [e1, e2]) \<and>
     acknowledged e1 PreInterest i example_key example_digest \<and>
     acknowledged e2 PreInterest i example_key example_digest"
proof -
  let ?req = "PreInterestRequest example_pre_interest"
  let ?e = "\<lambda>resp. \<lparr>le_headers = public_headers, le_request = ?req, le_result = Inr resp,
    le_app = example_app\<rparr>"
  have ack: "acknowledged (?e resp) PreInterest i example_key example_digest"
    if "response_id resp = Some i" for resp i
    using that by (simp add: acknowledged_def public_headers_def example_request_digest le_services_def)
  obtain resp1 w1 where run1: "respond example_app 7 public_headers ?req stored_world = (Inr resp1, w1)"
    using example_replayed by blast
  have world: "pair_ok w1" "world_remembers stored_world w1"
    using respond_keeps [OF run1 stored_world_facts(3)] stored_world_facts(4) by auto
  have held: "holds PreInterest 5 example_key example_digest (committed (w_primary w1))"
    using world(2) stored_world_facts(5) remembers_holds by (auto simp: world_remembers_def)
  have stamps: "schema_stamps w1"
    using schema_stamps_same [OF respond_schema [OF run1]] stored_world_facts(2) by simp
  obtain j where j: "\<And>kind. fresh_id kind j (committed (w_primary (calm w1)))"
    using fresh_exists by blast
  obtain resp2 w2 where run2: "respond example_app j public_headers ?req (calm w1) = (Inr resp2, w2)"
    using example_again [of "calm w1" j] j world(1) held stamps by (auto simp: calm_facts)
  have first: "live_reachable stored_world (w1, [], [?e resp1])"
    using live_respond [OF live_reachable.start run1 stored_world_facts(4)] by simp
  have rest: "live_step Surroundings (w1, [], [?e resp1]) (calm w1, [], [?e resp1])"
    by (rule live_step.environment) (rule calm_facts)
  have reach: "live_reachable stored_world (w2, [], [?e resp1, ?e resp2])"
    using live_respond [OF live_reachable.step [OF first rest] run2 j] by simp
  obtain i1 where i1: "response_id resp1 = Some i1"
    by (rule respond_acknowledged [OF run1 _ stored_world_facts(3,4)]) auto
  have ok: "pair_ok (calm w1)" using world(1) by (simp add: calm_facts)
  obtain i2 where i2: "response_id resp2 = Some i2"
    by (rule respond_acknowledged [OF run2 _ ok j]) auto
  from one_submission_per_key [OF reach stored_world_facts(3) _ ack [OF i1] _ ack [OF i2]]
  have "i1 = i2" by simp
  with reach ack [OF i1] ack [OF i2] show ?thesis by blast
qed

text \<open>C4: An idempotency key is bound to the digest it was first used with. A later request under
  the key with another payload is refused, whatever else it says, and changes nothing on the
  primary; the mirror is not even contacted.\<close>

theorem another_payload_is_refused:
  assumes "respond app fresh headers req w = (r, w')" and "kind_of req = Some kind"
    and "pair_ok w" and "headers ''idempotency-key'' = Some (HText key)"
    and "holds kind i key digest (committed (w_primary w))"
    and "request_digest (app_services app) req = Inr digest'" and "digest' \<noteq> digest"
  shows "(\<exists>e. r = Inl e) \<and> committed (w_primary w') = committed (w_primary w) \<and>
    w_supabase w' = w_supabase w"
  using assms(1,2)
proof (cases rule: respond_cases)
  case (rejected f)
  then show ?thesis by simp
next
  case (failed ctx e)
  with admission_Inr [OF failed(1)] submit_conflict [OF failed(2) assms(2,3)] assms(4-)
  show ?thesis by auto
next
  case (stored ctx x)
  with admission_Inr [OF stored(1)] submit_conflict [OF stored(2) assms(2,3)] assms(4-)
  show ?thesis by auto
qed

theorem another_payload_is_refused_witness:
  "\<exists>e w'. respond other_app 7 public_headers (PreInterestRequest example_pre_interest) stored_world
      = (Inl e, w') \<and> w_supabase w' = w_supabase stored_world"
proof -
  obtain r w' where run: "respond other_app 7 public_headers
      (PreInterestRequest example_pre_interest) stored_world = (r, w')" by force
  have key: "public_headers ''idempotency-key'' = Some (HText example_key)"
    by (simp add: public_headers_def)
  from another_payload_is_refused [OF run _ stored_world_facts(3) key stored_world_facts(5)
      other_digest] run
  show ?thesis by auto
qed

text \<open>C5: A request that repeats the key of a stored submission and is answered with a receipt gets
  the receipt of that submission: its identifier, for the digest it was stored with. Nothing
  the two databases held is lost, and the key is still bound to this one submission.\<close>

theorem replay_returns_the_submission:
  assumes "respond app fresh headers req w = (Inr resp, w')" and "kind_of req = Some kind"
    and "pair_ok w" and "fresh_id kind fresh (committed (w_primary w))"
    and "headers ''idempotency-key'' = Some (HText key)"
    and "holds kind i key digest (committed (w_primary w))"
  shows "response_id resp = Some i \<and> request_digest (app_services app) req = Inr digest \<and>
    in_both kind i key digest w' \<and> pair_ok w' \<and> world_remembers w w'"
  using assms(1,2)
proof (cases rule: respond_cases)
  case (stored ctx x)
  have ctx: "ctx_idempotency_key ctx = key" "ctx_canonical_id ctx = fresh"
    and digest: "request_digest (app_services app) req = Inr (ctx_payload_sha256 ctx)"
    using admission_Inr [OF stored(1)] assms(5) by auto
  from submit_replay [OF stored(2) assms(2,3)] assms(6) ctx
  have "ss_id x = i" "digest = ctx_payload_sha256 ctx" by auto
  with stored digest ctx submit_success [OF stored(2) assms(2,3)]
    submit_keeps [OF stored(2) assms(2,3)] assms(4)
  show ?thesis by auto
qed simp_all

theorem replay_returns_the_submission_witness:
  "\<exists>resp w'. respond example_app 7 public_headers (PreInterestRequest example_pre_interest) stored_world
      = (Inr resp, w') \<and> response_id resp = Some 5"
proof -
  obtain resp w' where run: "respond example_app 7 public_headers
      (PreInterestRequest example_pre_interest) stored_world = (Inr resp, w')"
    using example_replayed by blast
  have key: "public_headers ''idempotency-key'' = Some (HText example_key)"
    by (simp add: public_headers_def)
  from replay_returns_the_submission [OF run _ stored_world_facts(3,4) key stored_world_facts(5)] run
  show ?thesis by auto
qed

text \<open>C6: A failure that names a submission is the retryable one of an unfinished mirror, and the
  primary has the named submission under the request's key and digest, with its outbox entry:
  the data is kept for the retry the client is asked for.\<close>

theorem unfinished_submission_is_retained:
  assumes "respond app fresh headers req w = (Inl (Failed f), w')" and "kind_of req = Some kind"
    and "af_submission_id f = Some i" and "pair_ok w"
    and "fresh_id kind fresh (committed (w_primary w))"
  shows "f = mirror_unavailable i \<and> pair_ok w' \<and>
    (\<exists>key digest. headers ''idempotency-key'' = Some (HText key) \<and>
       request_digest (app_services app) req = Inr digest \<and>
       holds kind i key digest (committed (w_primary w')) \<and>
       (SUuid i, SText digest) \<in> set (entries kind (committed (w_primary w'))))"
proof -
  from assms(1,2) show ?thesis
  proof (cases rule: respond_cases)
    case (rejected g)
    with admission_names_nothing [OF rejected(1)] assms(3) show ?thesis by simp
  next
    case (failed ctx e)
    then have sub: "submit app req ctx w = (Inl (Failed f), w')" by simp
    note adm = admission_Inr [OF failed(1)]
    from assms(5) adm have fresh: "fresh_id kind (ctx_canonical_id ctx) (committed (w_primary w))" by simp
    from submit_retained [OF sub assms(2,3,4) fresh] submit_keeps [OF sub assms(2,4) fresh]
    have kept: "f = mirror_unavailable i" "pair_ok w'"
      "holds kind i (ctx_idempotency_key ctx) (ctx_payload_sha256 ctx) (committed (w_primary w'))"
      by auto
    from kept(2) have "outbox_in_step (committed (w_primary w'))"
      by (simp add: pair_ok_def consistent_def primary_ok_def)
    with kept(3) have "(SUuid i, SText (ctx_payload_sha256 ctx))
        \<in> set (entries kind (committed (w_primary w')))"
      by (force simp: outbox_in_step_def holds_identities_list)
    with kept adm show ?thesis by auto
  next
    case (stored ctx x)
    with assms(3) show ?thesis by (auto simp: api_failure_new_def)
  qed
qed

theorem unfinished_submission_is_retained_witness:
  "\<exists>w'. respond example_app 7 public_headers (PreInterestRequest example_pre_interest) mirror_down
      = (Inl (Failed (mirror_unavailable 7)), w') \<and>
    holds PreInterest 7 example_key example_digest (committed (w_primary w'))"
proof -
  obtain w' where run: "respond example_app 7 public_headers (PreInterestRequest example_pre_interest)
      mirror_down = (Inl (Failed (mirror_unavailable 7)), w')"
    using example_mirror_down by blast
  have named: "af_submission_id (mirror_unavailable 7) = Some 7"
    by (simp add: mirror_unavailable_def api_failure_new_def)
  from unfinished_submission_is_retained [OF run _ named mirror_down_facts] run
  show ?thesis by (auto simp: public_headers_def example_request_digest)
qed

text \<open>C7: A submission that is refused for good, with any status but 503, has changed neither
  database.\<close>

theorem definite_refusal_changes_nothing:
  assumes "respond app fresh headers req w = (Inl (Failed f), w')" and "kind_of req = Some kind"
    and "pair_ok w" and "fresh_id kind fresh (committed (w_primary w))" and "af_status f \<noteq> 503"
  shows "committed (w_primary w') = committed (w_primary w) \<and> w_supabase w' = w_supabase w"
  using assms(1,2)
proof (cases rule: respond_cases)
  case (failed ctx e)
  with submit_definite [OF _ assms(2,3) _ assms(5)] admission_Inr(2) [OF failed(1)] assms(4)
  show ?thesis by auto
next
  case (stored ctx x)
  with assms(5) show ?thesis by (auto simp: api_failure_new_def)
qed simp

theorem definite_refusal_changes_nothing_witness:
  "\<exists>f w'. respond other_app 7 public_headers (PreInterestRequest example_pre_interest) stored_world
      = (Inl (Failed f), w') \<and> af_status f = 409 \<and>
    committed (w_primary w') = committed (w_primary stored_world)"
proof -
  obtain w' where run: "respond other_app 7 public_headers (PreInterestRequest example_pre_interest)
      stored_world = (Inl (Failed failure_conflict), w')"
    using example_conflict by blast
  have "af_status failure_conflict = 409" by (simp add: failure_conflict_def api_failure_new_def)
  with definite_refusal_changes_nothing [OF run _ stored_world_facts(3,4)] run show ?thesis by auto
qed



text \<open>C9: The service answers every request. A run in which \<open>n\<close> requests arrive has at most \<open>5 * n\<close>
  steps of work, however the requests interleave, whatever the databases answer and whoever
  goes away; and a request under way never waits for another: it reaches its answer with at
  most four commands of its own.\<close>

theorem service_answers_every_request:
  assumes "live_run (w0, [], []) actors (w, tasks, hist)"
  shows "count_list actors Works + length tasks \<le> 5 * count_list actors Arrives \<and>
    (\<forall>front ct rest. tasks = front @ ct # rest \<longrightarrow>
       (\<exists>own r w'. live_run (w, tasks, hist) own (w', front @ rest, hist @ [entry_of ct r]) \<and>
          set own \<subseteq> {Works} \<and> length own \<le> 5))"
  using live_run_bounded [OF assms] live_run_answers assms by blast

theorem service_answers_every_request_witness:
  "\<exists>own r w'. live_run (quiet_world, [client_task_of example_app 7 public_headers
       (PreInterestRequest example_pre_interest)], []) own (w', [], [entry_of (client_task_of example_app 7
       public_headers (PreInterestRequest example_pre_interest)) r]) \<and> length own \<le> 5"
proof -
  let ?ct = "client_task_of example_app 7 public_headers (PreInterestRequest example_pre_interest)"
  have "live_step Arrives (quiet_world, [], []) (quiet_world, [] @ [?ct], [])"
    by (rule live_step.arrive) (simp_all add: quiet_world_facts(4))
  from live_run.more [OF live_run.nothing this]
  have run: "live_run (quiet_world, [], []) [Arrives] (quiet_world, [?ct], [])" by simp
  from service_answers_every_request [OF run]
  have "\<forall>front ct rest. [?ct] = front @ ct # rest \<longrightarrow>
       (\<exists>own r w'. live_run (quiet_world, [?ct], []) own (w', front @ rest, [] @ [entry_of ct r]) \<and>
          set own \<subseteq> {Works} \<and> length own \<le> 5)" by (rule conjunct2)
  from this [rule_format, of "[]" ?ct "[]"] show ?thesis by auto
qed



section \<open>Uploads and applications\<close>

text \<open>C11: An upload is reported as verified only when the caller is admitted, both databases have an
  open intent of that caller for it that has not expired, the two agree in everything but the
  time of expiry, the stored object has the declared media type, size and SHA-256 digest, and
  both databases now carry it as verified.\<close>

theorem verified_upload_was_checked:
  assumes "complete_upload app i headers input w = (Inr j, w')"
  shows "j = i \<and> (\<exists>subject pu expires now1 now2 reply.
    authenticate_or_verify_public app headers (uc_turnstile_token input) = Inr subject \<and>
    clock (w_primary w) \<le> now1 \<and> pending_row i subject pu now1 (committed (w_primary w)) \<and>
    clock (w_supabase w) \<le> now2 \<and>
    pending_row i subject (pu\<lparr>pu_expires_at := expires\<rparr>) now2 (committed (w_supabase w)) \<and>
    pu_expected_sha256 pu = uc_sha256 input \<and> pu_size_bytes pu \<le> MAX_UPLOAD_BYTES \<and>
    stored_object (sv_url_lib (app_services app)) (sv_fetch (app_services app)) (app_storage app)
      (pu_object_key pu) = Some reply \<and>
    object_matches (sv_sha256 (app_services app)) pu reply) \<and>
    upload_verified i (uc_sha256 input) (committed (w_primary w')) \<and>
    upload_verified i (uc_sha256 input) (committed (w_supabase w'))"
  using assms
proof (rule complete_upload_Inr)
  fix subject pu mu
  assume facts: "j = i"
    "authenticate_or_verify_public app headers (uc_turnstile_token input) = Inr subject"
    "\<exists>now \<ge> clock (w_primary w). pending_row i subject pu now (committed (w_primary w))"
    "pu_expected_sha256 pu = uc_sha256 input"
    "upload_verified i (uc_sha256 input) (committed (w_primary w'))"
    "upload_verified i (uc_sha256 input) (committed (w_supabase w'))"
    and mirror: "\<exists>now \<ge> clock (w_supabase w). pending_row i subject mu now (committed (w_supabase w))"
      "mu = pu\<lparr>pu_expires_at := pu_expires_at mu\<rparr>"
    and object: "verify_object (sv_url_lib (app_services app)) (sv_fetch (app_services app))
      (sv_sha256 (app_services app)) (app_storage app) pu = Inr ()"
  from object obtain reply where "pu_size_bytes pu \<le> MAX_UPLOAD_BYTES"
    "stored_object (sv_url_lib (app_services app)) (sv_fetch (app_services app)) (app_storage app)
      (pu_object_key pu) = Some reply"
    "object_matches (sv_sha256 (app_services app)) pu reply"
    by (auto simp: verify_object_Inr)
  moreover from mirror have "\<exists>expires. \<exists>now \<ge> clock (w_supabase w).
      pending_row i subject (pu\<lparr>pu_expires_at := expires\<rparr>) now (committed (w_supabase w))" by metis
  ultimately show ?thesis using facts by blast
qed

theorem verified_upload_was_checked_witness:
  "\<exists>w'. complete_upload example_app 9 public_headers example_complete upload_world = (Inr 9, w') \<and>
     upload_verified 9 example_digest (committed (w_primary w')) \<and>
     upload_verified 9 example_digest (committed (w_supabase w'))"
proof -
  obtain w' where run: "complete_upload example_app 9 public_headers example_complete upload_world
      = (Inr 9, w')"
    using example_completed by blast
  from verified_upload_was_checked [OF run] run show ?thesis by (auto simp: example_complete_def)
qed

text \<open>C12: An application is accepted only when each database holds, for the same applicant, a
  verified resume and a verified identity document under the identifiers it names, neither of
  which had expired when the database was asked.\<close>

theorem application_needs_verified_uploads:
  assumes "respond app fresh headers (ApplicationRequest input) w = (Inr resp, w')" and "pair_ok w"
    and "s \<in> {w_primary w, w_supabase w}"
  shows "\<exists>ctx now. admission app fresh headers (ApplicationRequest input) = Inr ctx \<and> clock s \<le> now \<and>
    owns_verified ctx Resume (ap_resume_upload_id input) now (committed s) \<and>
    owns_verified ctx PhotoId (ap_photo_id_upload_id input) now (committed s)"
proof -
  obtain ctx x where "admission app fresh headers (ApplicationRequest input) = Inr ctx"
    "submit app (ApplicationRequest input) ctx w = (Inr x, w')"
    using assms(1) kind_of.simps(3) by (rule respond_cases) auto
  with application_rests_on_uploads [OF _ assms(2,3)] show ?thesis by blast
qed

theorem application_needs_verified_uploads_witness:
  "\<exists>resp w' now. respond example_app 7 public_headers (ApplicationRequest example_application)
      documents_world = (Inr resp, w') \<and>
    owns_verified (example_context 7 None) Resume 21 now (committed (w_primary documents_world))"
proof -
  obtain resp w' where run: "respond example_app 7 public_headers
      (ApplicationRequest example_application) documents_world = (Inr resp, w')"
    using example_application_accepted by blast
  have resume: "ap_resume_upload_id example_application = 21" by (simp add: example_application_def)
  from application_needs_verified_uploads [OF run documents_world_facts(1),
      of "w_primary documents_world", unfolded example_application_admitted resume]
  obtain now where "owns_verified (example_context 7 None) Resume 21 now (committed (w_primary documents_world))"
    by auto
  with run show ?thesis by blast
qed

section \<open>Who is let in\<close>

text \<open>C13: A bearer token is accepted exactly when Shared Auth's answer to it vouches for the subject:
  a successful status, a body within the bound, an active token for this audience with the
  write scope, and a subject that is a well-formed identifier.\<close>

theorem token_accepted_iff_vouched:
  "auth_verify ask decode self token = Inr s \<longleftrightarrow>
     (\<exists>reply. ask (introspection_call self token) = Some reply \<and>
        vouches decode (au_audience self) reply (as_str s)) \<and> wf_subject s"
  by (rule auth_verify_Inr)

text \<open>C14: A caller counts as anonymous exactly when no Authorization header was sent. A header that
  is sent is either accepted, in the way the routes that require a subject accept it, or the
  request fails: a bad credential is never taken for none.\<close>

theorem bad_credential_is_not_anonymous:
  "(optional_subject ask decode self headers = Inr None \<longleftrightarrow> headers ''authorization'' = None) \<and>
   (optional_subject ask decode self headers = Inr (Some s) \<longleftrightarrow>
      required_subject ask decode self headers = Inr s)"
  by (simp add: optional_subject_None optional_subject_Some)

text \<open>C15: Every accepted submission is attributed to whom it came from. Either Shared Auth vouches, for
  the token of the request's Authorization header, for a subject, or, on the public routes and
  when no such header was sent, Turnstile accepts the proof the request itself carries and
  there is no subject; a referral always has one. A submission whose key was not in use is
  stored on both databases under exactly that subject.\<close>

theorem accepted_submission_was_authorised:
  assumes "respond app fresh headers req w = (Inr resp, w')" and "kind_of req = Some kind"
  shows "\<exists>subject key i.
    (case subject of
       Some claim \<Rightarrow> vouched_bearer app headers claim
     | None \<Rightarrow> kind \<noteq> Referral \<and> proven_human app headers (request_proof req)) \<and>
    headers ''idempotency-key'' = Some (HText key) \<and> response_id resp = Some i \<and>
    (pair_ok w \<and> fresh_id kind fresh (committed (w_primary w)) \<and>
     (\<forall>j digest. \<not> holds kind j key digest (committed (w_primary w))) \<longrightarrow>
       stored_for subject kind i (committed (w_primary w')) \<and>
       stored_for subject kind i (committed (w_supabase w')))"
  using assms(1,2)
proof (cases rule: respond_cases)
  case (stored ctx x)
  note adm = admission_Inr [OF stored(1)]
  have "stored_for (context_subject ctx) kind (ss_id x) (committed (w_primary w')) \<and>
      stored_for (context_subject ctx) kind (ss_id x) (committed (w_supabase w'))"
    if "pair_ok w" and "fresh_id kind fresh (committed (w_primary w))"
      and "\<forall>j digest. \<not> holds kind j (ctx_idempotency_key ctx) digest (committed (w_primary w))"
    by (rule submit_stored_for [OF stored(2) assms(2) that(1)]) (use that adm in auto)
  moreover have "response_id resp = Some (ss_id x)" using stored(3) by auto
  ultimately show ?thesis
    using admission_authorised [OF stored(1) assms(2)] adm
    by (intro exI [of _ "context_subject ctx"] exI [of _ "ctx_idempotency_key ctx"]
        exI [of _ "ss_id x"]) simp
qed simp_all

theorem accepted_submission_was_authorised_witness:
  "\<exists>claim resp i w'.
     respond example_app 7 bearer_headers (ReferralRequest example_referral) quiet_world = (Inr resp, w') \<and>
     vouched_bearer example_app bearer_headers claim \<and> response_id resp = Some i \<and>
     stored_for (Some claim) Referral i (committed (w_primary w'))"
proof -
  obtain resp w' where run: "respond example_app 7 bearer_headers (ReferralRequest example_referral)
      quiet_world = (Inr resp, w')"
    using example_referral_accepted by blast
  from accepted_submission_was_authorised [OF run] obtain subject i where
    "case subject of Some claim \<Rightarrow> vouched_bearer example_app bearer_headers claim
       | None \<Rightarrow> Referral \<noteq> Referral \<and>
           proven_human example_app bearer_headers (request_proof (ReferralRequest example_referral))"
    "response_id resp = Some i" "stored_for subject Referral i (committed (w_primary w'))"
    using quiet_world_facts(2,4,5) by fastforce
  moreover from this(1) obtain claim where "subject = Some claim" by (cases subject) auto
  ultimately show ?thesis using run by auto
qed

text \<open>C16: A Turnstile proof is accepted exactly when it is bounded and free of control characters
  and the service, asked with the server's secret, reports success for the configured action on
  one of the site's own hosts.\<close>

theorem turnstile_accepted_iff:
  "turnstile_verify siteverify decode self token = Inr () \<longleftrightarrow>
     token \<noteq> [] \<and> str_len token \<le> 4096 \<and> list_all (\<lambda>c. \<not> is_control c) token \<and>
     (\<exists>reply result. siteverify (tv_secret self) token = Some reply \<and>
        is_success (reply_status reply) \<and> response_json decode reply = Some result \<and>
        tr_success result \<and> tr_action result = tv_expected_action self \<and>
        tr_hostname result \<in> set site_hosts)"
  by (simp add: turnstile_verify_Inr list_all_iff)

text \<open>C17: Reading the answer of Shared Auth is bounded. A body is taken exactly when it arrives whole
  and has at most 1 MiB; once more has arrived the loop ends with a refusal, whatever else the
  stream would have brought.\<close>

theorem reading_is_bounded:
  "(bounded_response reply = Inr out \<longleftrightarrow>
      chunk_bytes (reply_chunks reply) = Some out \<and> length out \<le> MAX_RESPONSE_BYTES) \<and>
   (chunk_bytes front = Some body \<and> MAX_RESPONSE_BYTES < length body \<longrightarrow>
      bounded_response (reply\<lparr>reply_chunks := front @ rest\<rparr>) = Inl AuthInvalid)"
  using bounded_response_stops by (simp add: bounded_response_Inr)

theorem reading_is_bounded_witness:
  "bounded_response (example_reply (replicate 1025 (Inr (replicate 1024 0)) @ [Inl ()])) = Inl AuthInvalid"
proof -
  have "chunk_bytes (replicate n (Inr (replicate 1024 0))) = Some (replicate (n * 1024) 0)" for n
    by (induction n) (simp_all add: replicate_add [symmetric])
  then have "chunk_bytes (replicate 1025 (Inr (replicate 1024 0))) = Some (replicate (1025 * 1024) 0) \<and>
      MAX_RESPONSE_BYTES < length (replicate (1025 * 1024) (0 :: u8))"
    by (simp add: MAX_RESPONSE_BYTES_def)
  with reading_is_bounded [of "example_reply []" "[]" "replicate 1025 (Inr (replicate 1024 0))"
      "replicate (1025 * 1024) 0" "[Inl ()]"]
  show ?thesis by (simp add: example_reply_def del: replicate.simps)
qed

section \<open>Object storage\<close>

text \<open>C18: An object passes the check exactly when its key is a clean path, its declared size is
  within 10 MiB, and the reply of the storage service to the one request the program makes has
  the declared media type, the declared size (announced and counted) and the declared digest.\<close>

theorem object_passes_iff:
  "verify_object lib fetch sha256 self expected = Inr () \<longleftrightarrow>
     validate_object_key (pu_object_key expected) = Inr () \<and>
     pu_size_bytes expected \<le> MAX_UPLOAD_BYTES \<and>
     (\<exists>reply. stored_object lib fetch self (pu_object_key expected) = Some reply \<and>
        object_matches sha256 expected reply)"
  by (rule verify_object_Inr)

text \<open>C19: An upload address handed to a client is an HTTPS address on the project's own host, below
  the signed-upload path, with a token, and was asked for under a clean object key.\<close>

theorem signed_address_is_safe:
  assumes "create_signed_upload_url lib sign decode self object_key = Inr u"
  shows "is_ok (validate_object_key object_key) \<and> safe_upload_url lib self u"
  by (rule create_signed_upload_url_safe [OF assms])

theorem signed_address_is_safe_witness:
  "safe_upload_url example_lib (app_storage example_app) example_signed_url"
  using signed_address_is_safe [OF example_signed] by blast

text \<open>C20: The object key the program generates for an intent is one the storage adapter accepts,
  provided the identifier prints as at most 36 letters, digits and hyphens and the declared
  digest is 64 hexadecimal digits. No payload can steer it to another path.\<close>

theorem generated_object_key_is_valid:
  assumes "upload_object_key display ctx input = Some key" and "valid_digest (ui_sha256 input)"
    and "display (ctx_canonical_id ctx) \<noteq> []" and "list_all key_byte (display (ctx_canonical_id ctx))"
    and "length (display (ctx_canonical_id ctx)) \<le> 36"
  shows "validate_object_key key = Inr () \<and>
    split_on 47 key = [lit ''intake'', upload_kind_label (ui_kind input),
      display (ctx_canonical_id ctx), take 16 (ui_sha256 input)]"
  using generated_key_valid [OF assms] object_key_segments [OF assms(1-4)] by blast

theorem generated_object_key_is_valid_witness:
  "\<exists>key. upload_object_key (\<lambda>_. lit ''id-1'') (example_context 9 None) example_upload = Some key \<and>
     validate_object_key key = Inr ()"
proof -
  have digest: "ui_sha256 example_upload = example_digest" by (simp add: example_upload_def)
  have "byte_prefix 16 example_digest = Some (take 16 example_digest)"
    using byte_prefix_ascii [OF lower_hexdigit.text_ascii [OF example_digest_facts(2)]]
      example_digest_facts(1) by simp
  then obtain key where key: "upload_object_key (\<lambda>_. lit ''id-1'') (example_context 9 None) example_upload
      = Some key"
    by (simp add: upload_object_key_def digest)
  have "valid_digest (ui_sha256 example_upload)" by (simp add: digest example_digest_valid)
  from generated_object_key_is_valid [OF key this] key show ?thesis
    by (simp add: lit_def key_byte_def ascii_class_defs)
qed

text \<open>C21: A new upload intent reads back as it was declared: until it expires, its owner finds under
  the returned identifier the digest, the media type, the object key and the size of the
  request, the size having gone through a signed 64-bit column and back.\<close>

theorem stored_intent_reads_back:
  assumes "store_upload_intent k display utc_now target ctx input s = (Inr x, t)"
    and "\<not> su_replayed x" and "ids_unique (committed t)" and "answers t = []"
    and "clock t < utc_now + hours UPLOAD_LIFETIME_HOURS"
  shows "fst (pending_upload (su_id x) (ctx_subject ctx) t) =
    Inr \<lparr>pu_id = su_id x, pu_object_key = su_object_key x, pu_expected_sha256 = ui_sha256 input,
      pu_content_type = ui_content_type input, pu_size_bytes = ui_size_bytes input,
      pu_expires_at = su_expires_at x\<rparr>"
  by (rule upload_intent_readable [where utc = "\<lambda>_. utc_now", OF assms])

theorem stored_intent_reads_back_witness:
  "\<exists>x t pu. store_upload_intent example_contract (\<lambda>_. lit ''id-1'') 0 Primary (example_context 9 None)
      example_upload (example_session []) = (Inr x, t) \<and>
    fst (pending_upload (su_id x) None t) = Inr pu \<and> pu_size_bytes pu = 3"
proof -
  obtain x t where run: "store_upload_intent example_contract (\<lambda>_. lit ''id-1'') 0 Primary
      (example_context 9 None) example_upload (example_session []) = (Inr x, t)"
    and new: "\<not> su_replayed x" "ids_unique (committed t)" "answers t = []" "clock t = 1000"
    using example_intent_stored by blast
  from stored_intent_reads_back [OF run new(1-3)] new(4) run
  show ?thesis by (simp add: hours_def UPLOAD_LIFETIME_HOURS_def example_context_simps example_upload_def)
qed

section \<open>Digests, subjects and rows\<close>

text \<open>C22: The two reading loops, of the answer of Shared Auth and of a stored object, return for
  every peer, also one that never ends its body, unless it goes on for ever within the limit,
  which takes endlessly many empty chunks; and on a body that ends they are the loops of the
  adapters.\<close>

theorem reading_terminates:
  "(bounded_read source = None \<longleftrightarrow> goes_on_within MAX_RESPONSE_BYTES source) \<and>
   (object_read n source = None \<longleftrightarrow> goes_on_within (object_limit n) source) \<and>
   (goes_on_within limit source \<longrightarrow> (\<forall>k. \<exists>i \<ge> k. source i = Some (Inr []))) \<and>
   bounded_read (finite_source (reply_chunks reply)) = Some (bounded_response reply) \<and>
   object_read n (finite_source cs) = Some (stream Unavailable (observe n) (0, []) cs)"
  by (simp add: bounded_read_returns object_read_returns goes_on_empty_chunks bounded_read_finite
      object_read_finite)

theorem reading_terminates_witness:
  "\<exists>r. bounded_read (\<lambda>_. Some (Inr [0])) = Some r"
proof -
  have "\<not> goes_on_within MAX_RESPONSE_BYTES (\<lambda>_. Some (Inr [0]))"
  proof
    assume "goes_on_within MAX_RESPONSE_BYTES (\<lambda>_. Some (Inr [0]))"
    with reading_terminates [of "\<lambda>_. Some (Inr [0])"]
    have "\<forall>k. \<exists>i \<ge> k. Some (Inr [0]) = (Some (Inr []) :: chunk option)" by blast
    then show False by simp
  qed
  with reading_terminates [of "\<lambda>_. Some (Inr [0])"] show ?thesis by blast
qed

text \<open>C23: The digest a submission is bound to is the hash of its serialized payload, as 64 lower-case
  hexadecimal digits that decode to its bytes, which is what the constructors and the database
  commands ask for; only a payload that cannot be serialized has none. The Turnstile proof is
  not part of it: a payload with any proof, in any place, has the digest of the payload without
  one, so that a retry, which needs a fresh proof, is the same submission.\<close>

theorem canonical_digest_is_valid:
  assumes "canonical_digest sha256 serialized = Inr digest" and "\<forall>bytes. length (sha256 bytes) = 32"
  shows "valid_digest digest \<and> list_all is_lower_hexdigit digest \<and>
    (\<exists>bytes. serialized = Some bytes \<and> decode_hex digest = Some (sha256 bytes)) \<and>
    canonical_digest_without_turnstile sv
        (Some (JObject (before @ (lit ''turnstileToken'', proof_value) # after)))
      = canonical_digest_without_turnstile sv (Some (JObject (before @ after)))"
proof -
  obtain bytes where bytes: "serialized = Some bytes" and digest: "digest = lower_hex (sha256 bytes)"
    using assms(1) by (auto simp: canonical_digest_def reject_def bindR_Inr_iff ok_or_Inr_iff)
  have len: "length digest = 64" using assms(2) by (simp add: digest length_lower_hex)
  have hex: "list_all is_lower_hexdigit digest" by (simp add: digest lower_hex_all_lower)
  with len bytes show ?thesis
    by (simp add: valid_digest_def lower_hexdigit.bytes_iff lower_hexdigit.len digest decode_lower_hex
        digest_ignores_turnstile_proof)
qed

theorem canonical_digest_is_valid_witness:
  "valid_digest (lower_hex (replicate 32 171))"
  using canonical_digest_is_valid [of "\<lambda>_. replicate 32 171" "Some [1]" "lower_hex (replicate 32 171)"]
  by (simp add: canonical_digest_def reject_def)

text \<open>C24: A submission context exists exactly for a well-formed key, digest and known host, which it
  carries (the host in lower case); a subject exactly for a trimmed, bounded claim without
  control characters. What is refused is named.\<close>

theorem context_is_well_formed:
  "(context_new fresh subject key digest host = Inr ctx \<longleftrightarrow> wf_context ctx \<and>
      ctx = \<lparr>ctx_canonical_id = fresh, ctx_subject = subject, ctx_idempotency_key = key,
        ctx_payload_sha256 = digest, ctx_source_host = to_ascii_lowercase host\<rparr>) \<and>
   (from_verified_claim claim = Inr s \<longleftrightarrow> s = VerifiedSubject claim \<and> wf_subject s) \<and>
   (is_ok (context_new fresh subject key digest host) \<or>
      context_new fresh subject key digest host \<in> {Inl (InvalidContext ''idempotency_key''),
        Inl (InvalidContext ''payload_sha256''), Inl (InvalidContext ''source_host'')})"
proof (intro conjI)
  show "is_ok (context_new fresh subject key digest host) \<or>
      context_new fresh subject key digest host \<in> {Inl (InvalidContext ''idempotency_key''),
        Inl (InvalidContext ''payload_sha256''), Inl (InvalidContext ''source_host'')}"
    using context_new_error [of fresh subject key digest host]
    by (cases "context_new fresh subject key digest host") auto
qed (rule context_new_Inr_iff, rule from_verified_claim_Inr_iff)

text \<open>C25: A new application adds one row, and every field of the application, of its context and of
  the target is in the column meant for it. Nothing is dropped, swapped or taken from
  elsewhere.\<close>

theorem application_row_is_complete:
  assumes "store_application k target ctx input s = (Inr x, t)" and "\<not> ss_replayed x"
  shows "\<exists>r. committed t Hhm_applications = committed s Hhm_applications @ [r] \<and>
    application_fields target ctx input r"
  by (rule store_application_row [OF assms])

theorem application_row_is_complete_witness:
  "\<exists>(t :: session) r. r \<in> set (committed t Hhm_applications) \<and>
     application_fields Primary (example_context 7 None) example_application r"
proof -
  obtain x t where run: "store_application example_contract Primary (example_context 7 None)
      example_application (w_primary documents_world) = (Inr x, t)" and new: "\<not> ss_replayed x"
    using example_application_stored by blast
  from application_row_is_complete [OF run new] obtain r
    where "committed t Hhm_applications = committed (w_primary documents_world) Hhm_applications @ [r]"
      and fields: "application_fields Primary (example_context 7 None) example_application r"
    by blast
  then have "r \<in> set (committed t Hhm_applications)" by simp
  with fields show ?thesis by blast
qed

section \<open>The database commands\<close>

text \<open>C26: A recorded mirror failure is one more attempt of the submission's outbox entry, of at most
  100: the hundredth is terminal, any other is to be retried. The delay doubles from one second
  with every attempt until it stays at 2048 seconds from the failure.\<close>

theorem recorded_failure_is_bounded:
  assumes "record_mirror_failure kind i code s = (Inr (), t)" and "primary_ok (committed s)"
  shows "\<exists>now e e'. clock s \<le> now \<and> now \<le> clock t \<and>
    e \<in> set (committed s Hhm_submission_outbox) \<and> e' \<in> set (committed t Hhm_submission_outbox) \<and>
    outbox_entry kind i now e \<and> one_more_attempt code now e e'"
  using recorded_attempt [OF assms] by metis

theorem recorded_failure_is_bounded_witness:
  "\<exists>t e. record_mirror_failure PreInterest 5 (lit ''supabase_unavailable'') (w_primary stored_world)
      = (Inr (), t) \<and> e \<in> set (committed t Hhm_submission_outbox) \<and> e (Ob C_attempts) = SInt 1"
proof -
  have same: "w_primary outage_world = w_primary stored_world" by (simp add: outage_world_def)
  have ok: "primary_ok (committed (w_primary stored_world))"
    using stored_world_facts(3) consistent_wf by (auto simp: pair_ok_def)
  have quiet: "answers (w_primary stored_world) = []"
    using stored_world_facts(1) by (simp add: undisturbed_def)
  obtain t where run: "record_mirror_failure PreInterest 5 (lit ''supabase_unavailable'')
      (w_primary stored_world) = (Inr (), t)"
    using recording_succeeds [OF quiet ok stored_world_facts(5) supabase_unavailable_valid]
      outage_world_facts(8) [unfolded same] by blast
  from recorded_failure_is_bounded [OF run ok] obtain now e e' where
    e: "e \<in> set (committed (w_primary stored_world) Hhm_submission_outbox)"
    "e' \<in> set (committed t Hhm_submission_outbox)"
    "one_more_attempt (lit ''supabase_unavailable'') now e e'" by blast
  from e(1) have "e = stored_entry" by (simp add: stored_world_def)
  with e(3) have "e' (Ob C_attempts) = SInt 1"
    by (auto simp: one_more_attempt_def stored_entry_def example_defaults_def)
  with run e(2) show ?thesis by blast
qed

text \<open>C27: Every command implements its abstract command. A storing command looks the key up, replays
  the row it is bound to or refuses another payload, otherwise inserts the planned row and, on
  the primary, one outbox entry; marking and recording update the submission's row and its
  outbox entry together or not at all; verifying touches the one open upload of the caller with
  the observed digest; reading a pending upload and pinging change nothing. Each is atomic
  against refused round trips and lost acknowledgements, and on an undisturbed database it is
  the abstract command.\<close>

theorem commands_refine:
  "refines (command_spec PreInterest (submission_reader C_created_at) (\<lambda>x. x)
     (plan_pre_interest k a target ctx) target ctx) (store_pre_interest k target ctx a) \<and>
   refines (command_spec Upload upload_from_row upload_view
     (plan_upload k display utc b target ctx) target ctx)
     (store_upload_intent k display (utc target) target ctx b) \<and>
   refines (command_spec Application (submission_reader C_submitted_at) (\<lambda>x. x)
     (plan_application k c target ctx) target ctx) (store_application k target ctx c) \<and>
   refines (command_spec Referral (submission_reader C_created_at) (\<lambda>x. x)
     (plan_referral k d target ctx) target ctx) (store_referral k target ctx d) \<and>
   refines (mark_mirrored_spec kind i payload) (mark_mirrored kind i payload) \<and>
   refines (record_failure_spec kind i code) (record_mirror_failure kind i code) \<and>
   refines (verify_upload_spec i subject sha) (verify_upload i subject sha) \<and>
   refines (pending_upload_spec i subject) (pending_upload i subject) \<and>
   refines (\<lambda>now d. okA ()) ping"
  by (intro conjI store_pre_interest_refines store_upload_intent_refines store_application_refines
      store_referral_refines mark_mirrored_refines record_mirror_failure_refines
      verify_upload_refines pending_upload_refines ping_refines)



section \<open>Configuration\<close>

text \<open>C29: A configuration that is accepted is safe to run with: the storage project is reached over
  HTTPS, the Shared Auth address may be sent credentials to, every secret and database address
  is present and trimmed, the action is well-formed and the request policy is within its
  bounds; and the address to listen on is the one the host and port spell, which default to
  all interfaces and port 8080.\<close>

theorem accepted_configuration_is_safe:
  assumes "config_from_lookup lib parse_addr parse_f64 lookup = Inr config"
  shows "config_ok lib config \<and>
    parse_addr (unwrap_or (optional lookup ''HOST'') (lit ''0.0.0.0'') @ lit '':'' @
      unwrap_or (optional lookup ''PORT'') (lit ''8080'')) = Some (bind_address config)"
  using config_from_lookup_ok [OF assms] config_from_lookup_address [OF assms] by blast

theorem accepted_configuration_is_safe_witness:
  "config_ok example_lib example_config"
  using accepted_configuration_is_safe [OF example_config_resolved] by blast

text \<open>C30: In production the middleware requires HTTPS, closes when the rate limiter fails and derives
  its keys from the configured secret, which is installed on the stack; a stack without it is
  never handed out.\<close>

theorem production_stack_is_hardened:
  assumes "policy_from_lookup parse_f64 lookup = Inr policy" and "rp_environment policy = Production"
    and "stack_from_policy default_config stack_new with_key policy = Inr lifecycle"
  shows "mc_require_https (middleware_config_of default_config policy) \<and>
    mc_tls_mode (middleware_config_of default_config policy) \<noteq> lit ''disabled'' \<and>
    mc_failure_mode (middleware_config_of default_config policy) = FailClosed \<and>
    mc_key_derivation (middleware_config_of default_config policy) = ExternalHmacSha256 \<and>
    mc_max_body_bytes (middleware_config_of default_config policy) \<le> 2 * 1024 * 1024 \<and>
    (\<exists>base secret. stack_new (middleware_config_of default_config policy) = Some base \<and>
       rp_rate_limit_hmac_secret policy = Some secret \<and> secret \<noteq> [] \<and>
       with_key base (str_bytes secret) = Some lifecycle)"
proof -
  have ok: "policy_ok policy" by (rule policy_from_lookup_ok [OF assms(1)])
  then obtain secret where secret: "rp_rate_limit_hmac_secret policy = Some secret" "secret \<noteq> []"
    and tls: "rp_tls_mode policy \<noteq> TlsDisabled"
    using assms(2) by (auto simp: policy_ok_def)
  have mode: "as_contract_value (rp_tls_mode policy) \<noteq> lit ''disabled''"
    using tls by (cases "rp_tls_mode policy") simp_all
  have settings: "mc_require_https (middleware_config_of default_config policy)"
    "mc_tls_mode (middleware_config_of default_config policy) \<noteq> lit ''disabled''"
    "mc_failure_mode (middleware_config_of default_config policy) = FailClosed"
    "mc_key_derivation (middleware_config_of default_config policy) = ExternalHmacSha256"
    "mc_max_body_bytes (middleware_config_of default_config policy) \<le> 2 * 1024 * 1024"
    using ok tls mode assms(2) by (simp_all add: middleware_config_of_def policy_ok_def)
  from assms(3) secret obtain base where "stack_new (middleware_config_of default_config policy) = Some base"
    "with_key base (str_bytes secret) = Some lifecycle"
    by (auto simp: stack_from_policy_def bindR_Inr_iff ok_or_Inr_iff)
  with settings secret show ?thesis by blast
qed

theorem production_stack_is_hardened_witness:
  "mc_require_https (middleware_config_of example_middleware example_policy) \<and>
   stack_from_policy example_middleware (ma_stack_new example_machine) (ma_with_key example_machine)
     example_policy \<noteq> Inl PolicyInvalid"
proof -
  have run: "stack_from_policy example_middleware (ma_stack_new example_machine)
      (ma_with_key example_machine) example_policy
    = Inr (middleware_config_of example_middleware example_policy, Some (str_bytes (lit ''hmac'')))"
    by (simp add: stack_from_policy_def example_machine_def example_policy_def)
  from production_stack_is_hardened [OF example_policy_resolved _ run] run
  show ?thesis by (simp add: example_policy_def)
qed

text \<open>C31: Cross-origin requests are allowed from exactly the configured origins, in both directions:
  a list is accepted when it is not empty and every item is one the policy may allow
  (\<open>accepted_origin\<close>) and is a header value, one bad item refuses the whole list; and then the
  allowed origins are these items, none repeated, and only the methods and headers of the API are
  allowed. The check sees only what the address parser keeps: behind an item the policy allows,
  a fragment the parser drops is allowed as well.\<close>

theorem cors_allows_checked_origins:
  "((\<exists>policy. cors_layer parse_uri parse_header raw = Inr policy) \<longleftrightarrow> split_csv raw \<noteq> [] \<and>
     (\<forall>origin \<in> set (split_csv raw). accepted_origin parse_uri origin \<and> parse_header origin \<noteq> None)) \<and>
   (\<forall>policy. cors_layer parse_uri parse_header raw = Inr policy \<longrightarrow>
     cors_allow_origin policy \<noteq> [] \<and> distinct (cors_allow_origin policy) \<and>
     set (cors_allow_origin policy) = {h. \<exists>origin \<in> set (split_csv raw). parse_header origin = Some h} \<and>
     cors_allow_methods policy = [''GET'', ''POST''] \<and>
     cors_allow_headers policy = [''content-type'', ''authorization'', ''idempotency-key'']) \<and>
   (accepted_origin parse_uri base \<and> parse_uri (base @ 35 # tail) = parse_uri base \<longrightarrow>
     accepted_origin parse_uri (base @ 35 # tail))"
proof (intro conjI allI impI iffI)
  show "\<exists>policy. cors_layer parse_uri parse_header raw = Inr policy"
    if "split_csv raw \<noteq> [] \<and> (\<forall>origin \<in> set (split_csv raw).
      accepted_origin parse_uri origin \<and> parse_header origin \<noteq> None)"
    using cors_layer_accepts that by blast
next
  fix policy assume "cors_layer parse_uri parse_header raw = Inr policy"
  from cors_layer_Inr [OF this]
  show "cors_allow_origin policy \<noteq> []" "distinct (cors_allow_origin policy)"
    "set (cors_allow_origin policy) = {h. \<exists>origin \<in> set (split_csv raw). parse_header origin = Some h}"
    "cors_allow_methods policy = [''GET'', ''POST'']"
    "cors_allow_headers policy = [''content-type'', ''authorization'', ''idempotency-key'']"
    by simp_all
next
  assume "\<exists>policy. cors_layer parse_uri parse_header raw = Inr policy"
  then obtain policy where accepted: "cors_layer parse_uri parse_header raw = Inr policy" by blast
  note facts = cors_layer_Inr [OF accepted]
  show "\<forall>origin \<in> set (split_csv raw). accepted_origin parse_uri origin \<and> parse_header origin \<noteq> None"
    by (rule facts(4))
  show "split_csv raw \<noteq> []"
  proof
    assume "split_csv raw = []"
    with facts(1,3) show False by simp
  qed
next
  assume "accepted_origin parse_uri base \<and> parse_uri (base @ 35 # tail) = parse_uri base"
  with accepted_fragment show "accepted_origin parse_uri (base @ 35 # tail)" by blast
qed

theorem cors_allows_checked_origins_witness:
  "\<exists>policy. cors_layer (ma_parse_uri example_machine) (ma_parse_header example_machine)
      (cors_origins example_config) = Inr policy \<and>
    cors_allow_origin policy = [HText (lit ''https://a.org''), HText (lit ''https://b.org'')] \<and>
    distinct (cors_allow_origin policy) \<and>
    accepted_origin (ma_parse_uri example_machine) (lit ''https://a.org'' @ 35 # lit ''x'')"
proof -
  note rule = cors_allows_checked_origins [of "ma_parse_uri example_machine" "ma_parse_header example_machine"
      "cors_origins example_config" "lit ''https://a.org''" "lit ''x''"]
  have "accepted_origin (ma_parse_uri example_machine) (lit ''https://a.org'')"
    "ma_parse_uri example_machine (lit ''https://a.org'' @ 35 # lit ''x'')
      = ma_parse_uri example_machine (lit ''https://a.org'')"
    using example_fragment by simp_all
  with rule example_origins show ?thesis by auto
qed

section \<open>Failures\<close>

text \<open>C32: Every response has the status its route announces: 201 for a submission, 200 for the other
  routes, and for a failure one of five. A failure is retryable exactly when its status is
  503, and only a retryable failure may name a submission.\<close>

theorem failures_are_well_reported:
  assumes "respond app fresh headers req w = (r, w')"
  shows "(\<forall>resp. r = Inr resp \<longrightarrow> success_status resp = (if kind_of req = None then 200 else 201)) \<and>
    (\<forall>f status body. r = Inl (Failed f) \<and> into_response f = (status, body) \<longrightarrow>
       List.member [401, 403, 409, 422, 503] status \<and> (ae_retryable body \<longleftrightarrow> status = 503) \<and>
       (ae_submission_id body = None \<or> ae_retryable body))"
proof (intro conjI allI impI)
  fix resp assume "r = Inr resp"
  with assms show "success_status resp = (if kind_of req = None then 200 else 201)"
    using respond_success_status by blast
next
  fix f status body assume f: "r = Inl (Failed f) \<and> into_response f = (status, body)"
  then have "well_reported f"
    using respond_reported [of app fresh headers req] assms
    by (auto simp: fails_with_def errs_def reported_def dest!: spec [where x = w])
  moreover have "af_retryable (mirror_unavailable i)" for i
    by (simp add: mirror_unavailable_def api_failure_new_def)
  ultimately have "List.member [401, 403, 409, 422, 503] (af_status f)"
    "af_retryable f \<longleftrightarrow> af_status f = 503" "af_submission_id f = None \<or> af_retryable f"
    unfolding well_reported_def by metis+
  with f show "List.member [401, 403, 409, 422, 503] status" "ae_retryable body \<longleftrightarrow> status = 503"
    "ae_submission_id body = None \<or> ae_retryable body"
    by (auto simp: into_response_def)
qed

theorem failures_are_well_reported_witness:
  "\<exists>w'. respond other_app 7 public_headers (PreInterestRequest example_pre_interest) stored_world
      = (Inl (Failed failure_conflict), w') \<and> \<not> ae_retryable (snd (into_response failure_conflict))"
proof -
  obtain w' where run: "respond other_app 7 public_headers (PreInterestRequest example_pre_interest)
      stored_world = (Inl (Failed failure_conflict), w')"
    using example_conflict by blast
  obtain status body where "into_response failure_conflict = (status, body)" by fastforce
  moreover from this have "status = 409"
    by (simp add: into_response_def failure_conflict_def api_failure_new_def)
  ultimately show ?thesis using failures_are_well_reported [OF run] run by auto
qed

text \<open>C33: On consistent databases the only request that can panic is an upload intent whose declared
  digest has no prefix of 16 bytes, and only when the contract's validation let it pass. No
  state of the databases and no answer of a service can cause one.\<close>

theorem only_short_digests_panic:
  assumes "respond app fresh headers req w = (Inl Aborted, w')" and "pair_ok w"
  shows "\<exists>input. req = UploadRequest input \<and> byte_prefix 16 (ui_sha256 input) = None \<and>
    upload_intent_validate (sv_contract (app_services app)) input = Inr ()"
  by (rule respond_aborted [OF assms]) blast

theorem only_short_digests_panic_witness:
  "\<exists>w'. respond example_app 7 public_headers (UploadRequest short_upload) quiet_world = (Inl Aborted, w') \<and>
     byte_prefix 16 (ui_sha256 short_upload) = None"
proof -
  obtain w' where run: "respond example_app 7 public_headers (UploadRequest short_upload) quiet_world
      = (Inl Aborted, w')"
    using short_upload_panics by blast
  from only_short_digests_panic [OF run quiet_world_facts(2)] run show ?thesis by auto
qed

section \<open>The process\<close>

text \<open>C34: The embedded command-line contract and the code agree. Making any of the defaults the
  contract announces explicit changes nothing of what the process does, and the configuration
  depends on no name the contract does not declare, but for \<open>SHARED_AUTH_BASE_URL\<close>,
  \<open>SHARED_AUTH_AUDIENCE\<close> and \<open>TURNSTILE_ACTION\<close>, which it does not mention.\<close>

theorem contract_agrees_with_the_code:
  assumes "ma_parse_f64 m (lit ''1'') = Some (Finite 1)" and "d \<subseteq>\<^sub>m contract_defaults"
  shows "main_process m (Inr (filled d vals)) control_text hist = main_process m (Inr vals) control_text hist \<and>
    (\<forall>l1 l2. (\<forall>name \<in> set contract_names \<union> lit ` set undeclared_names. l1 name = l2 name) \<longrightarrow>
       config_from_lookup lib parse_addr parse_f64 l1 = config_from_lookup lib parse_addr parse_f64 l2) \<and>
    set contract_names \<inter> lit ` set undeclared_names = {}"
proof (intro conjI)
  show "main_process m (Inr (filled d vals)) control_text hist = main_process m (Inr vals) control_text hist"
    by (rule main_process_filled [OF assms(2,1)])
  show "set contract_names \<inter> lit ` set undeclared_names = {}"
    using names_declared(2) by auto
  show "\<forall>l1 l2. (\<forall>name \<in> set contract_names \<union> lit ` set undeclared_names. l1 name = l2 name) \<longrightarrow>
     config_from_lookup lib parse_addr parse_f64 l1 = config_from_lookup lib parse_addr parse_f64 l2"
  proof (intro allI impI)
    fix l1 l2 :: lookup assume "\<forall>name \<in> set contract_names \<union> lit ` set undeclared_names. l1 name = l2 name"
    with names_declared(1) have "\<forall>n \<in> set config_names. l1 (lit n) = l2 (lit n)" by blast
    then show "config_from_lookup lib parse_addr parse_f64 l1 = config_from_lookup lib parse_addr parse_f64 l2"
      by (rule config_reads_only)
  qed
qed

theorem contract_agrees_with_the_code_witness:
  "\<exists>server. main_process example_machine (Inr (filled contract_defaults example_lookup)) (Inl []) []
     = (Inr (), [Tracing (lit ''error''), Connected (lit ''primary''), Connected (lit ''supabase''),
         Listening (lit ''0.0.0.0:8080''), Serving server])"
proof -
  have "ma_parse_f64 example_machine (lit ''1'') = Some (Finite 1)"
    by (simp add: example_machine_def example_f64_def)
  from contract_agrees_with_the_code [OF this map_le_refl, THEN conjunct1] example_started
  show ?thesis by simp
qed

text \<open>C35: The resolved configuration is the environment overlaid with the typed values of the merged
  sources. In those a command-line flag wins over a dotenv override, that over the environment,
  and that over the dotenv file; a value typed as null leaves the environment alone.\<close>

theorem configuration_precedence:
  assumes "resolve_from parser file argv environment = Inr resolved"
    and "\<forall>env path typed. fp_coerce parser env path = Inr typed \<longrightarrow> distinct (map fst typed)"
  shows "\<exists>path parsed typed. fp_parse_structured parser argv path = Inr parsed \<and>
    fp_coerce parser (merged_sources parsed (map_of (rev environment))) path = Inr typed \<and>
    resolves_to typed (map_of (rev environment)) resolved \<and>
    (\<forall>n. merged_sources parsed (map_of (rev environment)) n =
       (case pa_provided_flags parsed n of
          Some v \<Rightarrow> Some v
        | None \<Rightarrow>
            if n = lit ''FLAGS2ENV_COMMAND'' then None
            else case pa_dotenv_overrides parsed n of
                   Some v \<Rightarrow> Some v
                 | None \<Rightarrow> (case map_of (rev environment) n of
                     Some v \<Rightarrow> Some v | None \<Rightarrow> pa_dotenv parsed n)))"
proof (rule resolve_from_Inr [OF assms(1)])
  fix path parsed typed
  assume run: "fp_parse_structured parser argv path = Inr parsed"
    "fp_coerce parser (merged_sources parsed (map_of (rev environment))) path = Inr typed"
    "overlay_typed typed (map_of (rev environment)) = Inr resolved"
  from assms(2) run(2) have "distinct (map fst typed)" by blast
  with overlay_typed_resolves [OF run(3)] run(1,2) merged_sources_cases
  show ?thesis by blast
qed

theorem configuration_precedence_witness:
  "\<exists>resolved. resolve_from example_parser example_file [] example_environment = Inr resolved \<and>
     resolved (lit ''PORT'') = Some (lit ''9090'') \<and> resolved (lit ''HOST'') = Some (lit ''h'')"
proof -
  obtain resolved where run: "resolve_from example_parser example_file [] example_environment = Inr resolved"
    using example_resolved by blast
  have typed: "\<forall>env path typed. fp_coerce example_parser env path = Inr typed \<longrightarrow> distinct (map fst typed)"
    by (auto simp: example_parser_def split: option.splits)
  from configuration_precedence [OF run typed] obtain path parsed typed where
    parsed: "fp_parse_structured example_parser [] path = Inr parsed"
    and typed: "fp_coerce example_parser (merged_sources parsed (map_of (rev example_environment))) path = Inr typed"
    and resolved: "resolves_to typed (map_of (rev example_environment)) resolved" by blast
  have "parsed = example_arguments" using parsed by (simp add: example_parser_def)
  with typed have "typed = [(lit ''PORT'', JNumber (lit ''9090'')), (lit ''HOST'', JNull)]"
    by (simp add: example_parser_def merged_sources_cases example_arguments_def)
  with resolved have "resolved (lit ''PORT'') = Some (lit ''9090'')" "resolved (lit ''HOST'') = Some (lit ''h'')"
    by (auto simp: resolves_to_def example_environment_def dest: spec [where x = "lit ''PORT''"]
        spec [where x = "lit ''HOST''"])
  with run show ?thesis by blast
qed

text \<open>C36: An error about unknown options repeats no value given on the command line. Two command
  lines whose unknown options have the same names get the same error, and the name of a long
  option ends before its value.\<close>

theorem option_values_are_redacted:
  assumes "pa_unknown_options a \<noteq> []" and "61 \<notin> set name"
    and "option_name ` set (pa_unknown_options a) = option_name ` set (pa_unknown_options b)"
  shows "refuse_arguments a = refuse_arguments b \<and>
    refuse_arguments a = Inl (lit ''unknown command-line option(s): '' @
      join_with (lit '', '') (unknown_names (pa_unknown_options a))) \<and>
    option_name (lit ''--'' @ name @ 61 # given) = lit ''--'' @ name"
proof -
  have "pa_unknown_options b \<noteq> []" using assms(1,3) by auto
  with refuse_unknown [OF assms(1)] refuse_unknown unknown_names_eq [OF assms(3)]
    option_name_redacts [OF assms(2)]
  show ?thesis by metis
qed

theorem option_values_are_redacted_witness:
  "refuse_arguments (example_arguments\<lparr>pa_unknown_options := [lit ''--key=secret'']\<rparr>)
   = refuse_arguments (example_arguments\<lparr>pa_unknown_options := [lit ''--key=other'']\<rparr>)"
proof -
  have key: "61 \<notin> set (lit ''key'')" by (simp add: lit_def)
  have split: "lit ''--key=secret'' = lit ''--'' @ lit ''key'' @ 61 # lit ''secret''"
    "lit ''--key=other'' = lit ''--'' @ lit ''key'' @ 61 # lit ''other''" by (simp_all add: lit_def)
  have names: "option_name (lit ''--key=secret'') = option_name (lit ''--key=other'')"
    unfolding split option_name_redacts [OF key] by (rule refl)
  show ?thesis
    by (rule option_values_are_redacted [THEN conjunct1, OF _ key]) (simp_all add: names)
qed

text \<open>C37: A process that serves has an accepted configuration, read from the resolved values alone; a
  connection to each database, made in order; the authenticator, the middleware stack and the
  origins built from that configuration; and the seven routes of the API, with the middleware
  around them. It serves last, on the configured address.\<close>

theorem server_rests_on_configuration:
  assumes "main_process m resolve control_text [] = (r, effects)" and "Serving server \<in> set effects"
  shows "\<exists>vals config noted. resolve = Inr vals \<and>
    config_from_lookup (sv_url_lib (ma_services m)) (ma_parse_addr m) (ma_parse_f64 m) vals = Inr config \<and>
    config_ok (sv_url_lib (ma_services m)) config \<and>
    effects = [Tracing (unwrap_or (vals (lit ''RUST_LOG'')) (lit ''error'')),
      Connected (primary_database_url config), Connected (supabase_database_url config),
      Listening (bind_address config)] @ map Logged noted @ [Serving server] \<and>
    se_address server = bind_address config \<and>
    authenticator_from_config (sv_url_lib (ma_services m)) (ma_client m shared_auth_client) config
      = Inr (app_auth (ro_state (se_router server))) \<and>
    stack (ma_default_config m) (ma_stack_new m) (ma_with_key m) config = Inr (se_lifecycle server) \<and>
    se_app server = ma_install m (se_router server) (se_lifecycle server) \<and>
    cors_layer (ma_parse_uri m) (ma_parse_header m) (cors_origins config)
      = Inr (ro_cors (se_router server)) \<and>
    ro_routes (se_router server) = routes"
proof (rule main_process_serving [OF assms])
  fix vals config h
  let ?log = "unwrap_or (vals (lit ''RUST_LOG'')) (lit ''error'')"
  assume resolved: "resolve = Inr vals"
    and config: "config_from_lookup (sv_url_lib (ma_services m)) (ma_parse_addr m) (ma_parse_f64 m) vals
      = Inr config"
    and prepared: "prepare m (ma_logs_info m ?log) config [Tracing ?log] = (Inr server, h)"
    and effects: "effects = h @ [Serving server]"
  from config_from_lookup_ok [OF config] have ok: "config_ok (sv_url_lib (ma_services m)) config" .
  from prepared show ?thesis
  proof (rule prepare_Inr)
    fix state noted
    assume app: "app_state_from_config m config [Tracing ?log] = (Inr (state, se_world server),
        [Tracing ?log] @ [Connected (primary_database_url config),
          Connected (supabase_database_url config)])"
      and rest: "stack (ma_default_config m) (ma_stack_new m) (ma_with_key m) config
        = Inr (se_lifecycle server)" "se_address server = bind_address config"
        "se_app server = ma_install m (se_router server) (se_lifecycle server)"
      and routed: "router (ma_parse_uri m) (ma_parse_header m) state (cors_origins config)
        = Inr (se_router server)"
      and h: "h = [Tracing ?log] @ [Connected (primary_database_url config),
        Connected (supabase_database_url config), Listening (bind_address config)] @ map Logged noted"
    from routed have "cors_layer (ma_parse_uri m) (ma_parse_header m) (cors_origins config)
        = Inr (ro_cors (se_router server))" "ro_state (se_router server) = state"
      "ro_routes (se_router server) = routes"
      by (auto simp: router_def bindR_Inr_iff dest!: sym [of _ "se_router server"])
    with resolved config ok rest effects h app_state_from_config_Inr(1) [OF app] show ?thesis by auto
  qed
qed

theorem server_rests_on_configuration_witness:
  "\<exists>server effects. main_process example_machine (Inr example_lookup) (Inl []) []
      = (Inr (), effects) \<and> Serving server \<in> set effects \<and> ro_routes (se_router server) = routes"
proof -
  obtain server effects where run: "main_process example_machine (Inr example_lookup) (Inl []) []
      = (Inr (), effects)" and serving: "Serving server \<in> set effects"
    using example_started by fastforce
  from server_rests_on_configuration [OF run serving] have "ro_routes (se_router server) = routes"
    by (elim exE conjE)
  with run serving show ?thesis by blast
qed

text \<open>C38: The service credential for Shared Auth is only ever sent to a safe address: over HTTPS, or
  in the clear to the machine or cluster the process runs on; and by a client that follows no
  redirect away from it.\<close>

theorem credential_stays_safe:
  assumes "config_from_lookup lib parse_addr parse_f64 lookup = Inr config"
    and "authenticator_from_config lib builds config = Inr self"
    and "\<forall>u. same_site (url_pop_if_empty lib u) u" and "\<forall>segs u. same_site (url_extend lib segs u) u"
  shows "safe_auth_url (iq_endpoint (introspection_call self token)) \<and>
    iq_bearer (introspection_call self token) = shared_auth_service_credential config \<and>
    \<not> cs_follow_redirects shared_auth_client"
  using endpoint_is_safe [OF assms(1,2)] assms(3,4)
  by (simp add: introspection_call_def shared_auth_client_def)

theorem credential_stays_safe_witness:
  "safe_auth_url example_url"
proof -
  have paths: "\<forall>u. same_site (url_pop_if_empty example_lib u) u"
    "\<forall>segs u. same_site (url_extend example_lib segs u) u"
    by (simp_all add: example_lib_def same_site_def)
  from credential_stays_safe [OF example_config_resolved example_authenticator paths]
  show ?thesis by (simp add: introspection_call_def)
qed

section \<open>Edges of the protocol\<close>



text \<open>C40: The uploads of an application are checked before its idempotency key is looked up. Once one
  of the two uploads it names has expired, repeating a stored application under its own key and
  digest is refused as a conflict, which the client cannot tell from another payload; nothing is
  changed. Uploads with another identifier or of another applicant do not matter.\<close>

theorem expired_uploads_block_replay:
  assumes "admission app fresh headers (ApplicationRequest input) = Inr ctx"
    and "holds Application i (ctx_idempotency_key ctx) (ctx_payload_sha256 ctx) (committed (w_primary w))"
    and "answers (w_primary w) = []" and "i16_try_from (ap_preferred_room_occupancy input) \<noteq> None"
    and "ids_unique (committed (w_primary w))"
    and "expired \<in> {ap_resume_upload_id input, ap_photo_id_upload_id input}"
    and "\<forall>r \<in> set (committed (w_primary w) Hhm_intake_uploads).
      r C_id = SUuid expired \<and> r C_applicant_subject = sql_opt SText (context_subject ctx) \<longrightarrow>
      \<not> time_after (r (Up C_expires_at)) (clock (w_primary w))"
  shows "\<exists>w'. respond app fresh headers (ApplicationRequest input) w = (Inl (Failed failure_conflict), w') \<and>
    committed (w_primary w') = committed (w_primary w) \<and>
    holds Application i (ctx_idempotency_key ctx) (ctx_payload_sha256 ctx) (committed (w_primary w')) \<and>
    w_supabase w' = w_supabase w"
  using expired_application_response [OF assms(1,3,4,5,6)] assms(2,7) by fastforce

theorem expired_uploads_block_replay_witness:
  "\<exists>w'. respond example_app 7 public_headers (ApplicationRequest example_application) expired_world
      = (Inl (Failed failure_conflict), w') \<and>
    holds Application 5 example_key example_digest (committed (w_primary w'))"
proof -
  have key: "holds Application 5 (ctx_idempotency_key (example_context 7 None))
      (ctx_payload_sha256 (example_context 7 None)) (committed (w_primary expired_world))"
    using expired_world_facts(3) by (simp add: example_context_simps)
  have resume: "ap_resume_upload_id example_application
      \<in> {ap_resume_upload_id example_application, ap_photo_id_upload_id example_application}" by simp
  from expired_uploads_block_replay [OF example_application_admitted key expired_world_facts(1)
      example_documents_in_place(2) expired_world_ids resume] expired_world_facts(2)
  show ?thesis by (force simp: example_context_simps)
qed

end
